(* ===== verification/Prelude.thy ===== *)
theory Prelude
  imports Main "HOL-Library.Sublist"
begin

text \<open>
  Shared vocabulary of the development.  It holds the parts of Go and of Go's standard library that
  several components use (package \<open>strings\<close>, \<open>strconv.Itoa\<close>, \<open>net.JoinHostPort\<close>, \<open>time\<close>,
  \<open>errors.Is\<close>), the type of error values, and the generic lemmas and collections of facts
  on which the component theories rely.

  Strings are byte strings (\<open>char list\<close>), as in Go.  The case and white-space functions follow the
  ASCII part of their Go counterparts; every literal they meet in the sources is ASCII.
\<close>

named_theorems go_simps \<open>equations of the modelled standard library\<close>

subsection \<open>Package strings\<close>

definition HasPrefix :: "string \<Rightarrow> string \<Rightarrow> bool" where
  "HasPrefix s p \<longleftrightarrow> prefix p s"

definition TrimPrefix :: "string \<Rightarrow> string \<Rightarrow> string" where
  "TrimPrefix s p = (if HasPrefix s p then drop (length p) s else s)"

fun Contains :: "string \<Rightarrow> string \<Rightarrow> bool" where
  "Contains [] sub \<longleftrightarrow> sub = []"
| "Contains (c # s) sub \<longleftrightarrow> prefix sub (c # s) \<or> Contains s sub"

text \<open>\<open>strings.Split(s, sep)\<close> for the one-byte separators the sources use.\<close>

fun Split :: "string \<Rightarrow> char \<Rightarrow> string list" where
  "Split [] sep = [[]]"
| "Split (c # s) sep =
     (if c = sep then [] # Split s sep
      else (case Split s sep of [] \<Rightarrow> [[c]] | w # ws \<Rightarrow> (c # w) # ws))"

text \<open>\<open>strings.SplitN(s, sep, n)\<close> for \<open>n > 0\<close>: at most \<open>n\<close> parts, the last one unsplit.\<close>

fun SplitN :: "string \<Rightarrow> char \<Rightarrow> nat \<Rightarrow> string list" where
  "SplitN s sep 0 = []"
| "SplitN s sep (Suc 0) = [s]"
| "SplitN [] sep (Suc (Suc n)) = [[]]"
| "SplitN (c # s) sep (Suc (Suc n)) =
     (if c = sep then [] # SplitN s sep (Suc n)
      else (case SplitN s sep (Suc (Suc n)) of [] \<Rightarrow> [[c]] | w # ws \<Rightarrow> (c # w) # ws))"

fun Join :: "string list \<Rightarrow> string \<Rightarrow> string" where
  "Join [] sep = []"
| "Join [w] sep = w"
| "Join (w # ws) sep = w @ sep @ Join ws sep"

definition is_space :: "char \<Rightarrow> bool" where
  "is_space c \<longleftrightarrow> c \<in> {CHR 0x09, CHR 0x0A, CHR 0x0B, CHR 0x0C, CHR 0x0D, CHR '' ''}"

definition TrimSpace :: "string \<Rightarrow> string" where
  "TrimSpace s = rev (dropWhile is_space (rev (dropWhile is_space s)))"

text \<open>\<open>strings.Fields\<close>: the maximal runs of non-space bytes.\<close>

function Fields :: "string \<Rightarrow> string list" where
  "Fields s =
     (case dropWhile is_space s of
        [] \<Rightarrow> []
      | c # t \<Rightarrow> takeWhile (\<lambda>x. \<not> is_space x) (c # t) #
                Fields (dropWhile (\<lambda>x. \<not> is_space x) (c # t)))"
  by pat_completeness auto
termination
proof (relation "measure length", simp, goal_cases)
  case (1 s c t)
  have "\<not> is_space c"
    using 1 by (metis list.distinct(1) list.sel(1) hd_dropWhile)
  then have "length (dropWhile (\<lambda>x. \<not> is_space x) (c # t)) \<le> length t"
    by (simp add: length_dropWhile_le)
  moreover have "Suc (length t) \<le> length s"
    using 1 length_dropWhile_le [of is_space s] by simp
  ultimately show ?case by simp
qed

declare Fields.simps [simp del]

definition lower_char :: "char \<Rightarrow> char" where
  "lower_char c =
     (let n = (of_char c :: nat) in if 65 \<le> n \<and> n \<le> 90 then char_of (n + 32) else c)"

definition ToLower :: "string \<Rightarrow> string" where
  "ToLower s = map lower_char s"

definition EqualFold :: "string \<Rightarrow> string \<Rightarrow> bool" where
  "EqualFold s t \<longleftrightarrow> ToLower s = ToLower t"

subsection \<open>Numbers and addresses as text\<close>

function digits_of :: "nat \<Rightarrow> string" where
  "digits_of n =
     (if n < 10 then [char_of (48 + n)] else digits_of (n div 10) @ [char_of (48 + n mod 10)])"
  by pat_completeness auto
termination
  by (relation "measure id") auto

declare digits_of.simps [simp del]

definition Itoa :: "int \<Rightarrow> string" where
  "Itoa i = (if i < 0 then CHR ''-'' # digits_of (nat (- i)) else digits_of (nat i))"

text \<open>\<open>strconv.ParseBool\<close>; \<open>None\<close> is its syntax error.\<close>

definition ParseBool :: "string \<Rightarrow> bool option" where
  "ParseBool s =
     (if s \<in> {''1'', ''t'', ''T'', ''true'', ''TRUE'', ''True''} then Some True
      else if s \<in> {''0'', ''f'', ''F'', ''false'', ''FALSE'', ''False''} then Some False
      else None)"

text \<open>\<open>net.JoinHostPort\<close>: a host with a colon or a percent sign is bracketed.\<close>

definition JoinHostPort :: "string \<Rightarrow> string \<Rightarrow> string" where
  "JoinHostPort host port =
     (if CHR '':'' \<in> set host \<or> CHR ''%'' \<in> set host
      then ''['' @ host @ '']:'' @ port
      else host @ '':'' @ port)"

subsection \<open>Package time\<close>

text \<open>
  A \<open>time.Time\<close> is an integer number of nanoseconds since the Unix epoch, a \<open>time.Duration\<close> an
  integer number of nanoseconds.  The zero \<open>time.Time\<close> is 1 January of year 1.
\<close>

type_synonym Time = int
type_synonym Duration = int

definition Second :: Duration where "Second = 1000000000"
definition Millisecond :: Duration where "Millisecond = 1000000"
definition Minute :: Duration where "Minute = 60 * Second"
definition Hour :: Duration where "Hour = 60 * Minute"

definition zeroTime :: Time where "zeroTime = - 62135596800 * 1000000000"

definition IsZero :: "Time \<Rightarrow> bool" where "IsZero t \<longleftrightarrow> t = zeroTime"

text \<open>\<open>t.Unix()\<close> and \<open>time.Unix(sec, 0)\<close>: whole seconds, rounded down.\<close>

definition Unix :: "Time \<Rightarrow> int" where "Unix t = t div 1000000000"

definition unixTime :: "int \<Rightarrow> Time" where "unixTime sec = sec * 1000000000"

lemmas time_defs [go_simps] = Second_def Millisecond_def Minute_def Hour_def zeroTime_def
  IsZero_def Unix_def unixTime_def

lemma Unix_unixTime [simp]: "Unix (unixTime n) = n"
  by (simp add: go_simps)

lemma unixTime_Unix_le: "unixTime (Unix t) \<le> t"
  by (simp add: go_simps)

lemma Unix_mono: "t \<le> u \<Longrightarrow> Unix t \<le> Unix u"
  by (simp add: Unix_def zdiv_mono1)

subsection \<open>Error values\<close>

text \<open>
  Go compares errors by identity and by the chain of wrapped errors.  A package-level error variable
  is a \<open>sentinel\<close>; \<open>fmt.Errorf(m + ": %w", e)\<close> is \<open>ErrWrap m e\<close>; \<open>fmt.Errorf("%w: %w", a, b)\<close> is
  \<open>ErrWrap2 a b\<close>; any other \<open>fmt.Errorf\<close> or \<open>errors.New\<close> is \<open>ErrMsg\<close>.  \<open>ErrStatus\<close> is an error that
  implements \<open>apierrors.APIStatus\<close>, with the code, reason and message its \<open>Status()\<close> reports.
\<close>

datatype sentinel =
    Canceled | DeadlineExceeded | EOF | ErrUnexpectedEOF
  | StoreErrNotFound | KvNil
  | ErrAgentRuntimeNotFound | ErrCodeInterpreterNotFound | ErrTemplateMissing | ErrPublicKeyMissing
  | ErrNoIdentityHeader | ErrPublicKeyNotCached | ErrVerificationFailed
  | ErrSandboxCreationTimeout | ErrSandboxReadyWatcherNotRegistered
  | ErrSandboxReadyWatcherClosed | ErrSandboxReadyWatcherMissingSandbox

datatype gerr =
    ErrVar sentinel
  | ErrMsg string
  | ErrWrap string gerr
  | ErrWrap2 gerr gerr
  | ErrStatus int string string

type_synonym 'a res = "gerr + 'a"

fun errors_Is :: "gerr \<Rightarrow> sentinel \<Rightarrow> bool" where
  "errors_Is (ErrVar v) t \<longleftrightarrow> v = t"
| "errors_Is (ErrMsg m) t \<longleftrightarrow> False"
| "errors_Is (ErrWrap m e) t \<longleftrightarrow> errors_Is e t"
| "errors_Is (ErrWrap2 a b) t \<longleftrightarrow> errors_Is a t \<or> errors_Is b t"
| "errors_Is (ErrStatus c r m) t \<longleftrightarrow> False"

primrec sentinel_text :: "sentinel \<Rightarrow> string" where
  "sentinel_text Canceled = ''context canceled''"
| "sentinel_text DeadlineExceeded = ''context deadline exceeded''"
| "sentinel_text EOF = ''EOF''"
| "sentinel_text ErrUnexpectedEOF = ''unexpected EOF''"
| "sentinel_text StoreErrNotFound = ''store: not found''"
| "sentinel_text KvNil = ''redis: nil''"
| "sentinel_text ErrAgentRuntimeNotFound = ''agent runtime not found''"
| "sentinel_text ErrCodeInterpreterNotFound = ''code interpreter not found''"
| "sentinel_text ErrTemplateMissing = ''resource has no pod template''"
| "sentinel_text ErrPublicKeyMissing = ''public key not yet loaded from Router Secret''"
| "sentinel_text ErrNoIdentityHeader = ''identity header absent''"
| "sentinel_text ErrPublicKeyNotCached = ''identity verifier public key not cached''"
| "sentinel_text ErrVerificationFailed = ''identity token verification failed''"
| "sentinel_text ErrSandboxCreationTimeout = ''sandbox creation timed out''"
| "sentinel_text ErrSandboxReadyWatcherNotRegistered = ''sandbox ready watcher not registered''"
| "sentinel_text ErrSandboxReadyWatcherClosed =
     ''sandbox ready watcher closed before sandbox was ready''"
| "sentinel_text ErrSandboxReadyWatcherMissingSandbox = ''sandbox ready watcher returned empty sandbox''"

text \<open>The text \<open>err.Error()\<close>.\<close>

fun Error :: "gerr \<Rightarrow> string" where
  "Error (ErrVar v) = sentinel_text v"
| "Error (ErrMsg m) = m"
| "Error (ErrWrap m e) = m @ '': '' @ Error e"
| "Error (ErrWrap2 a b) = Error a @ '': '' @ Error b"
| "Error (ErrStatus c r m) = m"

subsection \<open>Facts about the string functions\<close>

lemma HasPrefix_append [simp]: "HasPrefix (p @ s) p"
  by (simp add: HasPrefix_def)

lemma HasPrefix_Nil [simp]: "HasPrefix s []"
  by (simp add: HasPrefix_def)

lemma TrimPrefix_append [simp]: "TrimPrefix (p @ s) p = s"
  by (simp add: TrimPrefix_def)

lemma Split_neq_Nil [simp]: "Split s sep \<noteq> []"
  by (cases s) (auto split: list.splits)

lemma Join_Split: "Join (Split s sep) [sep] = s"
proof (induction s)
  case Nil
  then show ?case by simp
next
  case (Cons c s)
  then show ?case
    by (cases "Split s sep" rule: list.exhaust; cases "tl (Split s sep)") auto
qed

lemma Split_no_sep: "w \<in> set (Split s sep) \<Longrightarrow> sep \<notin> set w"
  by (induction s arbitrary: w) (auto split: if_splits list.splits)

lemma Split_clean: "sep \<notin> set s \<Longrightarrow> Split s sep = [s]"
  by (induction s) auto

lemma Split_append:
  "sep \<notin> set w \<Longrightarrow> Split (w @ sep # s) sep = w # Split s sep"
  by (induction w) auto

lemma Split_Join:
  "ws \<noteq> [] \<Longrightarrow> (\<And>w. w \<in> set ws \<Longrightarrow> sep \<notin> set w) \<Longrightarrow> Split (Join ws [sep]) sep = ws"
  by (induction ws rule: induct_list012) (auto simp: Split_clean Split_append)

lemma lower_char_idem [simp]: "lower_char (lower_char c) = lower_char c"
  by (auto simp: lower_char_def Let_def of_char_of)

lemma ToLower_idem [simp]: "ToLower (ToLower s) = ToLower s"
  by (simp add: ToLower_def)

lemma EqualFold_refl [simp]: "EqualFold s s"
  by (simp add: EqualFold_def)

end
