(* ===== verification/Types.thy ===== *)
theory Types
  imports Prelude
begin

text \<open>
  The data shared by the Router, the Workload Manager and the store (\<open>pkg/common/types\<close>), and the
  error constructors of \<open>pkg/api/errors.go\<close>.

  The package \<open>k8s.io/apimachinery/pkg/api/errors\<close> is not part of the repository.  It enters as a
  record \<open>apierrors\<close> of the functions the sources call; what the sources rely on (the HTTP code and
  reason of each kind of error, and that the \<open>Is...\<close> tests look at the reason of the first status
  error in the chain) is the locale \<open>apierrors_api\<close>.
\<close>

subsection \<open>pkg/common/types\<close>

definition AgentRuntimeKind :: string where "AgentRuntimeKind = ''AgentRuntime''"
definition CodeInterpreterKind :: string where "CodeInterpreterKind = ''CodeInterpreter''"
definition SandboxKind :: string where "SandboxKind = ''Sandbox''"
definition SandboxClaimsKind :: string where "SandboxClaimsKind = ''SandboxClaim''"

lemmas kind_defs [go_simps] = AgentRuntimeKind_def CodeInterpreterKind_def SandboxKind_def
  SandboxClaimsKind_def

record SandboxEntryPoint =
  ep_Path :: string
  ep_Protocol :: string
  ep_Endpoint :: string

record SandboxInfo =
  si_Kind :: string
  si_SandboxID :: string
  si_SandboxNamespace :: string
  si_Name :: string
  si_EntryPoints :: "SandboxEntryPoint list"
  si_SessionID :: string
  si_OwnerID :: string
  si_CreatedAt :: Time
  si_ExpiresAt :: Time
  si_IdleTimeout :: Duration
  si_LastActivityAt :: Time
  si_Status :: string

record CreateSandboxRequest =
  req_Kind :: string
  req_Name :: string
  req_Namespace :: string

record CreateSandboxResponse =
  resp_Kind :: string
  resp_SessionID :: string
  resp_SandboxID :: string
  resp_SandboxName :: string
  resp_EntryPoints :: "SandboxEntryPoint list"
  resp_OwnerID :: string

definition Validate :: "CreateSandboxRequest \<Rightarrow> gerr option" where
  "Validate car =
     (if req_Kind car \<noteq> AgentRuntimeKind \<and> req_Kind car \<noteq> CodeInterpreterKind
      then Some (ErrMsg (''invalid kind '' @ req_Kind car))
      else if req_Namespace car = [] then Some (ErrMsg ''namespace is required'')
      else if req_Name car = [] then Some (ErrMsg ''name is required'')
      else None)"

text \<open>The zero value of the struct, which an unmarshal starts from.\<close>

definition zeroSandboxInfo :: SandboxInfo where
  "zeroSandboxInfo =
     \<lparr>si_Kind = [], si_SandboxID = [], si_SandboxNamespace = [], si_Name = [],
      si_EntryPoints = [], si_SessionID = [], si_OwnerID = [], si_CreatedAt = zeroTime,
      si_ExpiresAt = zeroTime, si_IdleTimeout = 0, si_LastActivityAt = zeroTime, si_Status = []\<rparr>"

text \<open>
  What a JSON round trip keeps of a \<open>SandboxInfo\<close>: everything but \<open>LastActivityAt\<close>, whose tag is
  \<open>json:"-"\<close>.
\<close>

definition persisted :: "SandboxInfo \<Rightarrow> SandboxInfo" where
  "persisted i = i\<lparr>si_LastActivityAt := zeroTime\<rparr>"

subsection \<open>k8s.io/apimachinery/pkg/api/errors, as a parameter\<close>

record GroupResource =
  gr_Group :: string
  gr_Resource :: string

record apierrors =
  ae_NewNotFound :: "GroupResource \<Rightarrow> string \<Rightarrow> gerr"
  ae_NewServiceUnavailable :: "string \<Rightarrow> gerr"
  ae_NewInternalError :: "gerr \<Rightarrow> gerr"
  ae_IsNotFound :: "gerr \<Rightarrow> bool"
  ae_IsAlreadyExists :: "gerr \<Rightarrow> bool"
  ae_IsInternalError :: "gerr \<Rightarrow> bool"

text \<open>The reason of the first status error that \<open>errors.As\<close> finds in the chain of an error.\<close>

fun status_reason :: "gerr \<Rightarrow> string option" where
  "status_reason (ErrStatus c r m) = Some r"
| "status_reason (ErrWrap m e) = status_reason e"
| "status_reason (ErrWrap2 a b) =
     (case status_reason a of None \<Rightarrow> status_reason b | Some r \<Rightarrow> Some r)"
| "status_reason (ErrVar v) = None"
| "status_reason (ErrMsg m) = None"

subsection \<open>pkg/api/errors.go\<close>

definition resourceGroup :: string where "resourceGroup = ''agentcube.volcano.sh''"

definition sessionResource :: GroupResource where
  "sessionResource = \<lparr>gr_Group = resourceGroup, gr_Resource = ''sessions''\<rparr>"

definition agentRuntimeResource :: GroupResource where
  "agentRuntimeResource = \<lparr>gr_Group = resourceGroup, gr_Resource = ''agentruntimes''\<rparr>"

definition codeInterpreterResource :: GroupResource where
  "codeInterpreterResource = \<lparr>gr_Group = resourceGroup, gr_Resource = ''codeinterpreters''\<rparr>"

definition NewSessionNotFoundError :: "apierrors \<Rightarrow> string \<Rightarrow> gerr" where
  "NewSessionNotFoundError ae sessionID = ae_NewNotFound ae sessionResource sessionID"

definition workloadResource :: "string \<Rightarrow> GroupResource" where
  "workloadResource kind =
     (if kind = CodeInterpreterKind then codeInterpreterResource else agentRuntimeResource)"

definition NewSandboxTemplateNotFoundError ::
  "apierrors \<Rightarrow> string \<Rightarrow> string \<Rightarrow> string \<Rightarrow> gerr" where
  "NewSandboxTemplateNotFoundError ae namespace name kind =
     ae_NewNotFound ae (workloadResource kind) (namespace @ ''/'' @ name)"

definition NewUpstreamUnavailableError :: "apierrors \<Rightarrow> gerr \<Rightarrow> gerr" where
  "NewUpstreamUnavailableError ae err = ae_NewServiceUnavailable ae (Error err)"

definition NewInternalError :: "apierrors \<Rightarrow> gerr \<Rightarrow> gerr" where
  "NewInternalError ae err = ae_NewInternalError ae err"

lemmas api_error_defs [go_simps] = NewSessionNotFoundError_def
  NewSandboxTemplateNotFoundError_def NewUpstreamUnavailableError_def NewInternalError_def

subsection \<open>What the sources rely on\<close>

locale apierrors_api =
  fixes ae :: apierrors
  assumes not_found_status: "\<exists>m. ae_NewNotFound ae gr n = ErrStatus 404 ''NotFound'' m"
    and internal_status: "\<exists>m. ae_NewInternalError ae e = ErrStatus 500 ''InternalError'' m"
    and unavailable_status:
      "\<exists>m. ae_NewServiceUnavailable ae t = ErrStatus 503 ''ServiceUnavailable'' m"
    and is_not_found: "ae_IsNotFound ae e \<longleftrightarrow> status_reason e = Some ''NotFound''"
    and is_already_exists: "ae_IsAlreadyExists ae e \<longleftrightarrow> status_reason e = Some ''AlreadyExists''"
    and is_internal: "ae_IsInternalError ae e \<longleftrightarrow> status_reason e = Some ''InternalError''"
begin

lemma internal_hides_chain [simp]: "\<not> errors_Is (ae_NewInternalError ae e) v"
  using internal_status [of e] by auto

lemma internal_is_internal [simp]: "ae_IsInternalError ae (ae_NewInternalError ae e)"
  using internal_status [of e] by (auto simp: is_internal)

lemma not_found_is_not_found [simp]: "ae_IsNotFound ae (ae_NewNotFound ae gr n)"
  using not_found_status [of gr n] by (auto simp: is_not_found)

lemma not_found_no_sentinel [simp]: "\<not> errors_Is (ae_NewNotFound ae gr n) v"
  using not_found_status [of gr n] by auto

lemma wrapped_not_found [simp]: "ae_IsNotFound ae (ErrWrap m e) = ae_IsNotFound ae e"
  by (simp add: is_not_found)

lemma sentinel_not_status [simp]: "\<not> ae_IsNotFound ae (ErrVar v)" "\<not> ae_IsNotFound ae (ErrMsg m)"
  by (simp_all add: is_not_found)

end

text \<open>An instance that reports the library's own messages.\<close>

definition std_apierrors :: apierrors where
  "std_apierrors =
     \<lparr>ae_NewNotFound = (\<lambda>gr n. ErrStatus 404 ''NotFound''
         (gr_Resource gr @ ''.'' @ gr_Group gr @ '' '' @ [CHR 0x22] @ n @ [CHR 0x22] @
         '' not found'')),
      ae_NewServiceUnavailable = (\<lambda>t. ErrStatus 503 ''ServiceUnavailable'' t),
      ae_NewInternalError = (\<lambda>e. ErrStatus 500 ''InternalError''
         (''Internal error occurred: '' @ Error e)),
      ae_IsNotFound = (\<lambda>e. status_reason e = Some ''NotFound''),
      ae_IsAlreadyExists = (\<lambda>e. status_reason e = Some ''AlreadyExists''),
      ae_IsInternalError = (\<lambda>e. status_reason e = Some ''InternalError'')\<rparr>"

interpretation std_ae: apierrors_api std_apierrors
  by unfold_locales (simp_all add: std_apierrors_def)

subsection \<open>Facts\<close>

lemma persisted_simps [simp]:
  "si_SessionID (persisted i) = si_SessionID i"
  "si_Kind (persisted i) = si_Kind i"
  "si_Name (persisted i) = si_Name i"
  "si_SandboxNamespace (persisted i) = si_SandboxNamespace i"
  "si_OwnerID (persisted i) = si_OwnerID i"
  "si_EntryPoints (persisted i) = si_EntryPoints i"
  "si_ExpiresAt (persisted i) = si_ExpiresAt i"
  "si_CreatedAt (persisted i) = si_CreatedAt i"
  "si_IdleTimeout (persisted i) = si_IdleTimeout i"
  "si_LastActivityAt (persisted i) = zeroTime"
  "persisted (persisted i) = persisted i"
  by (simp_all add: persisted_def)

lemma Validate_None_iff:
  "Validate car = None \<longleftrightarrow>
     req_Kind car \<in> {AgentRuntimeKind, CodeInterpreterKind} \<and>
     req_Namespace car \<noteq> [] \<and> req_Name car \<noteq> []"
  by (auto simp: Validate_def)

end
