(* ===== verification/KvServer.thy ===== *)
theory KvServer
  imports Types "HOL-Library.Char_ord" "HOL-Library.List_Lexorder" "HOL-Library.Product_Lexorder"
begin

text \<open>
  The Redis or Valkey server is a service outside the repository.  The store of \<open>pkg/store\<close> reaches it
  through a client that sends one command and reads one reply, so the server enters the model as a
  function \<open>exec\<close> that takes the state of the world and a command to a reply and the next state.
  What the store relies on is the locale \<open>kv_server\<close>: a reply that is not an error is the documented
  one (\<open>kv_step\<close>, the command reference restricted to the commands the store sends), and a command
  whose reply is an error (a lost connection, a deadline, a wrong type) has been executed or not.
  The client's error values are its own: they are never the store's \<open>ErrNotFound\<close>, nor the value it
  reserves for a nil reply, which is the reply \<open>RNil\<close> here.
\<close>

subsection \<open>Commands, replies and the key space\<close>

type_synonym zset = "(string \<times> int) list"

datatype rval = VStr string | VZset zset

type_synonym keyspace = "string \<rightharpoonup> rval"

datatype cmd =
    PING
  | GET string
  | MGET "string list"
  | SETNX string string
  | SETXX string string
  | DEL string
  | EXISTS string
  | ZADD string int string
  | ZREM string string
  | ZRANGEBYSCORE string int nat bool
  | EVAL_touch string string string int

datatype reply =
    RNil
  | RBulk string
  | RInt int
  | RStatus string
  | RStrs "string option list"
  | RZs "(string \<times> int) list"
  | RErr gerr

type_synonym 's server = "'s \<Rightarrow> cmd \<Rightarrow> reply \<times> 's"

definition wrongType :: reply where
  [simp]: "wrongType =
     RErr (ErrMsg ''WRONGTYPE Operation against a key holding the wrong kind of value'')"

definition zset_rem :: "string \<Rightarrow> zset \<Rightarrow> zset" where
  "zset_rem m z = filter (\<lambda>p. fst p \<noteq> m) z"

definition zset_add :: "string \<Rightarrow> int \<Rightarrow> zset \<Rightarrow> zset" where
  "zset_add m sc z = insort_key (\<lambda>p. (snd p, fst p)) (m, sc) (zset_rem m z)"

definition zset_range :: "int \<Rightarrow> nat \<Rightarrow> zset \<Rightarrow> zset" where
  "zset_range mx n z = take n (filter (\<lambda>p. snd p \<le> mx) z)"

definition zset_ok :: "zset \<Rightarrow> bool" where
  "zset_ok z \<longleftrightarrow> distinct (map fst z) \<and> sorted (map (\<lambda>p. (snd p, fst p)) z)"

subsection \<open>The documented behaviour of the commands\<close>

text \<open>A sorted set that becomes empty is removed from the key space.\<close>

definition put_zset :: "string \<Rightarrow> zset \<Rightarrow> keyspace \<Rightarrow> keyspace" where
  "put_zset k z ks = (if z = [] then ks(k := None) else ks(k \<mapsto> VZset z))"

fun prim_step :: "keyspace \<Rightarrow> cmd \<Rightarrow> reply \<times> keyspace" where
  "prim_step ks PING = (RStatus ''PONG'', ks)"
| "prim_step ks (GET k) =
     (case ks k of None \<Rightarrow> (RNil, ks) | Some (VStr v) \<Rightarrow> (RBulk v, ks)
      | Some (VZset z) \<Rightarrow> (wrongType, ks))"
| "prim_step ks (MGET kl) =
     (RStrs (map (\<lambda>k. case ks k of Some (VStr v) \<Rightarrow> Some v | _ \<Rightarrow> None) kl), ks)"
| "prim_step ks (SETNX k v) =
     (if ks k = None then (RInt 1, ks(k \<mapsto> VStr v)) else (RInt 0, ks))"
| "prim_step ks (SETXX k v) =
     (if ks k = None then (RNil, ks) else (RStatus ''OK'', ks(k \<mapsto> VStr v)))"
| "prim_step ks (DEL k) = (RInt (if ks k = None then 0 else 1), ks(k := None))"
| "prim_step ks (EXISTS k) = (RInt (if ks k = None then 0 else 1), ks)"
| "prim_step ks (ZADD k sc m) =
     (case ks k of
        None \<Rightarrow> (RInt 1, ks(k \<mapsto> VZset [(m, sc)]))
      | Some (VStr v) \<Rightarrow> (wrongType, ks)
      | Some (VZset z) \<Rightarrow>
          (RInt (if m \<in> fst ` set z then 0 else 1), ks(k \<mapsto> VZset (zset_add m sc z))))"
| "prim_step ks (ZREM k m) =
     (case ks k of
        None \<Rightarrow> (RInt 0, ks)
      | Some (VStr v) \<Rightarrow> (wrongType, ks)
      | Some (VZset z) \<Rightarrow>
          (RInt (if m \<in> fst ` set z then 1 else 0), put_zset k (zset_rem m z) ks))"
| "prim_step ks (ZRANGEBYSCORE k mx n ws) =
     (case ks k of
        None \<Rightarrow> (if ws then RZs [] else RStrs [], ks)
      | Some (VStr v) \<Rightarrow> (wrongType, ks)
      | Some (VZset z) \<Rightarrow>
          (if ws then RZs (zset_range mx n z)
           else RStrs (map (Some \<circ> fst) (zset_range mx n z)), ks))"
| "prim_step ks (EVAL_touch k1 k2 m sc) = (RErr (ErrMsg ''not a primitive command''), ks)"

text \<open>
  The Lua script of \<open>store_redis.go\<close>, over the \<open>redis.call\<close> the server gives it.  The server runs a
  script as one command, with no other command in between.
\<close>

definition updateSessionLastActivityScript ::
  "(keyspace \<Rightarrow> cmd \<Rightarrow> reply \<times> keyspace) \<Rightarrow> string \<Rightarrow> string \<Rightarrow> string \<Rightarrow> int \<Rightarrow>
   keyspace \<Rightarrow> reply \<times> keyspace" where
  "updateSessionLastActivityScript call k1 k2 m sc ks =
     (case call ks (EXISTS k1) of (r, ks1) \<Rightarrow>
        if r = RInt 1 then
          (case call ks1 (ZADD k2 sc m) of
             (RErr e, ks2) \<Rightarrow> (RErr e, ks2)
           | (_, ks2) \<Rightarrow> (RInt 1, ks2))
        else (RInt 0, ks1))"

definition kv_step :: "keyspace \<Rightarrow> cmd \<Rightarrow> reply \<times> keyspace" where
  "kv_step ks c =
     (case c of
        EVAL_touch k1 k2 m sc \<Rightarrow> updateSessionLastActivityScript prim_step k1 k2 m sc ks
      | _ \<Rightarrow> prim_step ks c)"

text \<open>A pipeline sends its commands in order; each gets its own reply.\<close>

fun exec_all :: "'s server \<Rightarrow> 's \<Rightarrow> cmd list \<Rightarrow> reply list \<times> 's" where
  "exec_all exec s [] = ([], s)"
| "exec_all exec s (c # cs) =
     (case exec s c of (r, s1) \<Rightarrow>
        (case exec_all exec s1 cs of (rs, s2) \<Rightarrow> (r # rs, s2)))"

subsection \<open>What the store relies on\<close>

locale kv_server =
  fixes exec :: "'s server" and view :: "'s \<Rightarrow> keyspace"
  assumes exec_ok:
      "exec s c = (r, s') \<Longrightarrow> (\<And>e. r \<noteq> RErr e) \<Longrightarrow> (r, view s') = kv_step (view s) c"
    and exec_fail:
      "exec s c = (RErr e, s') \<Longrightarrow> view s' = view s \<or> view s' = snd (kv_step (view s) c)"
    and exec_foreign:
      "exec s c = (RErr e, s') \<Longrightarrow> \<not> errors_Is e StoreErrNotFound \<and> \<not> errors_Is e KvNil"
begin

lemma exec_view_cases:
  "exec s c = (r, s') \<Longrightarrow> view s' = view s \<or> view s' = snd (kv_step (view s) c)"
  by (cases r) (metis exec_fail exec_ok reply.distinct snd_conv)+

lemma exec_ok_snd:
  "exec s c = (r, s') \<Longrightarrow> (\<And>e. r \<noteq> RErr e) \<Longrightarrow> view s' = snd (kv_step (view s) c)"
  by (metis exec_ok snd_conv)

lemma exec_ok_fst:
  "exec s c = (r, s') \<Longrightarrow> (\<And>e. r \<noteq> RErr e) \<Longrightarrow> r = fst (kv_step (view s) c)"
  by (metis exec_ok fst_conv)

end

lemma prim_step_foreign:
  "prim_step ks c = (RErr e, ks') \<Longrightarrow> \<not> errors_Is e StoreErrNotFound \<and> \<not> errors_Is e KvNil"
  by (cases c) (auto split: option.splits rval.splits if_splits)

lemma kv_step_foreign:
  "kv_step ks c = (RErr e, ks') \<Longrightarrow> \<not> errors_Is e StoreErrNotFound \<and> \<not> errors_Is e KvNil"
  by (cases c)
    (auto simp: kv_step_def updateSessionLastActivityScript_def dest: prim_step_foreign
      split: prod.splits if_splits reply.splits option.splits rval.splits)

text \<open>The key space itself is a server that never loses a reply.\<close>

interpretation mem: kv_server kv_step "\<lambda>ks. ks"
proof (unfold_locales, goal_cases)
  case (3 s c e s')
  then show ?case by (rule kv_step_foreign)
qed auto

subsection \<open>Sorted sets\<close>

lemma map_of_zset_rem [simp]: "map_of (zset_rem m z) = (map_of z)(m := None)"
  by (induction z) (auto simp: zset_rem_def)

lemma map_of_insort_key:
  "m \<notin> fst ` set z \<Longrightarrow> map_of (insort_key f (m, sc) z) = (map_of z)(m \<mapsto> sc)"
  by (induction z) (auto simp: fun_eq_iff)

lemma fst_set_zset_rem: "fst ` set (zset_rem m z) = fst ` set z - {m}"
  by (auto simp: zset_rem_def)

lemma map_of_zset_add [simp]: "map_of (zset_add m sc z) = (map_of z)(m \<mapsto> sc)"
  by (simp add: zset_add_def map_of_insort_key fst_set_zset_rem)

lemma zset_ok_rem: "zset_ok z \<Longrightarrow> zset_ok (zset_rem m z)"
  by (auto simp: zset_ok_def zset_rem_def distinct_map_filter intro: sorted_filter)

lemma distinct_insort_key_fst:
  "distinct (map fst z) \<Longrightarrow> m \<notin> fst ` set z \<Longrightarrow> distinct (map fst (insort_key f (m, sc) z))"
  by (induction z) (auto simp: set_insort_key)

lemma zset_ok_add: "zset_ok z \<Longrightarrow> zset_ok (zset_add m sc z)"
  using zset_ok_rem [of z m] fst_set_zset_rem [of m z]
  by (auto simp: zset_ok_def zset_add_def sorted_insort_key intro!: distinct_insort_key_fst)

lemma zset_ok_single [simp]: "zset_ok [(m, sc)]"
  by (simp add: zset_ok_def)

lemma zset_ok_Nil [simp]: "zset_ok []"
  by (simp add: zset_ok_def)

lemma zset_range_sound: "(m, sc) \<in> set (zset_range mx n z) \<Longrightarrow> (m, sc) \<in> set z \<and> sc \<le> mx"
  by (auto simp: zset_range_def dest: in_set_takeD)

lemma zset_range_length: "length (zset_range mx n z) \<le> n"
  by (simp add: zset_range_def)

lemma zset_range_complete:
  "length (filter (\<lambda>p. snd p \<le> mx) z) \<le> n \<Longrightarrow> (m, sc) \<in> set z \<Longrightarrow> sc \<le> mx \<Longrightarrow>
   (m, sc) \<in> set (zset_range mx n z)"
  by (auto simp: zset_range_def)

lemma zset_range_distinct: "zset_ok z \<Longrightarrow> distinct (map fst (zset_range mx n z))"
  by (simp add: zset_ok_def zset_range_def distinct_map_filter take_map [symmetric]
      distinct_take)

end
