(* ===== verification/StoreSpec.thy ===== *)
theory StoreSpec
  imports KvServer
begin

text \<open>
  The interface \<open>Store\<close> of \<open>pkg/store/interface.go\<close>, the abstract session database its clients see,
  and the contract between the two (locale \<open>session_store\<close>).  The Router, the Workload Manager and
  the garbage collector are clients of this contract; \<open>StoreRedis\<close> and \<open>StoreValkey\<close> provide it.

  An operation of the interface is a function on the state of the world \<open>'w\<close>.  The request context
  of the Go methods only makes a call fail, which the world's own answers cover.
\<close>

subsection \<open>The interface\<close>

record 'w Store =
  st_Ping :: "'w \<Rightarrow> gerr option \<times> 'w"
  st_GetSandboxBySessionID :: "string \<Rightarrow> 'w \<Rightarrow> SandboxInfo res \<times> 'w"
  st_StoreSandbox :: "SandboxInfo option \<Rightarrow> 'w \<Rightarrow> gerr option \<times> 'w"
  st_UpdateSandbox :: "SandboxInfo option \<Rightarrow> 'w \<Rightarrow> gerr option \<times> 'w"
  st_DeleteSandboxBySessionID :: "string \<Rightarrow> 'w \<Rightarrow> gerr option \<times> 'w"
  st_ListExpiredSandboxes :: "Time \<Rightarrow> int \<Rightarrow> 'w \<Rightarrow> SandboxInfo list res \<times> 'w"
  st_ListInactiveSandboxes :: "Time \<Rightarrow> int \<Rightarrow> 'w \<Rightarrow> SandboxInfo list res \<times> 'w"
  st_UpdateSessionLastActivity :: "string \<Rightarrow> Time \<Rightarrow> 'w \<Rightarrow> gerr option \<times> 'w"

subsection \<open>The abstract session database\<close>

record sessionDB =
  db_sessions :: "string \<rightharpoonup> SandboxInfo"
  db_expiry :: "string \<rightharpoonup> int"
  db_activity :: "string \<rightharpoonup> int"

definition db_store :: "Time \<Rightarrow> SandboxInfo \<Rightarrow> sessionDB \<Rightarrow> sessionDB" where
  "db_store now i d =
     \<lparr>db_sessions = (case db_sessions d (si_SessionID i) of
          None \<Rightarrow> (db_sessions d)(si_SessionID i \<mapsto> persisted i)
        | Some _ \<Rightarrow> db_sessions d),
      db_expiry = (db_expiry d)(si_SessionID i \<mapsto> Unix (si_ExpiresAt i)),
      db_activity = (db_activity d)(si_SessionID i \<mapsto> Unix now)\<rparr>"

definition db_update :: "SandboxInfo \<Rightarrow> sessionDB \<Rightarrow> sessionDB" where
  "db_update i d = d\<lparr>db_sessions := (db_sessions d)(si_SessionID i \<mapsto> persisted i)\<rparr>"

definition db_delete :: "string \<Rightarrow> sessionDB \<Rightarrow> sessionDB" where
  "db_delete sid d =
     \<lparr>db_sessions = (db_sessions d)(sid := None),
      db_expiry = (db_expiry d)(sid := None),
      db_activity = (db_activity d)(sid := None)\<rparr>"

definition db_touch :: "string \<Rightarrow> Time \<Rightarrow> sessionDB \<Rightarrow> sessionDB" where
  "db_touch sid at d = d\<lparr>db_activity := (db_activity d)(sid \<mapsto> Unix at)\<rparr>"

text \<open>The sessions an index lists up to a time.\<close>

definition due :: "(string \<rightharpoonup> int) \<Rightarrow> Time \<Rightarrow> string set" where
  "due index before = {sid. \<exists>t. index sid = Some t \<and> t \<le> Unix before}"

text \<open>
  The two sorted sets live in the same key space as the sessions, under the names a session called
  \<open>expiry\<close> or \<open>last_activity\<close> would have.
\<close>

definition safe_sid :: "string \<Rightarrow> bool" where
  "safe_sid sid \<longleftrightarrow> sid \<noteq> ''expiry'' \<and> sid \<noteq> ''last_activity''"

lemmas db_defs = db_store_def db_update_def db_delete_def db_touch_def

subsection \<open>The JSON codec of a stored sandbox\<close>

text \<open>
  \<open>json.Marshal\<close> and \<open>json.Unmarshal\<close> on \<open>SandboxInfo\<close>: encoding then decoding gives the struct
  back but for \<open>LastActivityAt\<close>, a JSON object is never the empty text, and the decoder's errors are
  not the store's own.
\<close>

record codec =
  Marshal :: "SandboxInfo \<Rightarrow> string res"
  Unmarshal :: "string \<Rightarrow> SandboxInfo res"

locale json_codec =
  fixes cd :: codec
  assumes round_trip: "Marshal cd i = Inr b \<Longrightarrow> Unmarshal cd b = Inr (persisted i)"
    and nonempty: "Marshal cd i = Inr b \<Longrightarrow> b \<noteq> []"
    and unmarshal_foreign: "Unmarshal cd b = Inl e \<Longrightarrow> \<not> errors_Is e StoreErrNotFound"

subsection \<open>The contract\<close>

locale session_store =
  fixes st :: "'w Store" and db :: "'w \<Rightarrow> sessionDB" and clock :: "'w \<Rightarrow> Time"
    and ok :: "'w \<Rightarrow> bool"
  assumes get_ok:
      "ok w \<Longrightarrow> safe_sid sid \<Longrightarrow> st_GetSandboxBySessionID st sid w = (Inr i, w') \<Longrightarrow>
       db_sessions (db w) sid = Some i"
    and get_not_found:
      "ok w \<Longrightarrow> safe_sid sid \<Longrightarrow> st_GetSandboxBySessionID st sid w = (Inl e, w') \<Longrightarrow>
       errors_Is e StoreErrNotFound \<Longrightarrow> db_sessions (db w) sid = None"
    and get_frame: "ok w \<Longrightarrow> st_GetSandboxBySessionID st sid w = (g, w') \<Longrightarrow> ok w' \<and> db w' = db w"
    and store_ok:
      "ok w \<Longrightarrow> safe_sid (si_SessionID i) \<Longrightarrow> st_StoreSandbox st (Some i) w = (None, w') \<Longrightarrow>
       db w' = db_store (clock w) i (db w)"
    and store_frame:
      "ok w \<Longrightarrow> safe_sid (si_SessionID i) \<Longrightarrow> st_StoreSandbox st (Some i) w = (r, w') \<Longrightarrow>
       ok w' \<and> (\<forall>sid. sid \<noteq> si_SessionID i \<longrightarrow> db_sessions (db w') sid = db_sessions (db w) sid)"
    and update_ok:
      "ok w \<Longrightarrow> safe_sid (si_SessionID i) \<Longrightarrow> st_UpdateSandbox st (Some i) w = (None, w') \<Longrightarrow>
       db_sessions (db w) (si_SessionID i) \<noteq> None \<and> db w' = db_update i (db w)"
    and update_frame:
      "ok w \<Longrightarrow> safe_sid (si_SessionID i) \<Longrightarrow> st_UpdateSandbox st (Some i) w = (r, w') \<Longrightarrow>
       ok w' \<and> (\<forall>sid. sid \<noteq> si_SessionID i \<longrightarrow> db_sessions (db w') sid = db_sessions (db w) sid)"
    and delete_ok:
      "ok w \<Longrightarrow> safe_sid sid \<Longrightarrow> st_DeleteSandboxBySessionID st sid w = (None, w') \<Longrightarrow>
       db w' = db_delete sid (db w)"
    and delete_frame:
      "ok w \<Longrightarrow> safe_sid sid \<Longrightarrow> st_DeleteSandboxBySessionID st sid w = (r, w') \<Longrightarrow>
       ok w' \<and> (\<forall>s. s \<noteq> sid \<longrightarrow> db_sessions (db w') s = db_sessions (db w) s)"
    and touch_ok:
      "ok w \<Longrightarrow> safe_sid sid \<Longrightarrow> st_UpdateSessionLastActivity st sid at w = (None, w') \<Longrightarrow>
       db_sessions (db w) sid \<noteq> None \<and>
       db w' = db_touch sid (if IsZero at then clock w else at) (db w)"
    and touch_frame:
      "ok w \<Longrightarrow> safe_sid sid \<Longrightarrow> st_UpdateSessionLastActivity st sid at w = (r, w') \<Longrightarrow>
       ok w' \<and> db_sessions (db w') = db_sessions (db w)"
    and expired_sound:
      "ok w \<Longrightarrow> st_ListExpiredSandboxes st before lim w = (Inr xs, w') \<Longrightarrow> i \<in> set xs \<Longrightarrow>
       db_sessions (db w) (si_SessionID i) = Some i \<and>
       si_SessionID i \<in> due (db_expiry (db w)) before \<and> safe_sid (si_SessionID i)"
    and expired_complete:
      "ok w \<Longrightarrow> st_ListExpiredSandboxes st before lim w = (Inr xs, w') \<Longrightarrow>
       int (card (due (db_expiry (db w)) before)) \<le> lim \<Longrightarrow>
       sid \<in> due (db_expiry (db w)) before \<Longrightarrow> safe_sid sid \<Longrightarrow>
       db_sessions (db w) sid = Some i \<Longrightarrow> i \<in> set xs"
    and expired_frame:
      "ok w \<Longrightarrow> st_ListExpiredSandboxes st before lim w = (l, w') \<Longrightarrow> ok w' \<and> db w' = db w"
    and inactive_sound:
      "ok w \<Longrightarrow> st_ListInactiveSandboxes st before lim w = (Inr xs, w') \<Longrightarrow> i \<in> set xs \<Longrightarrow>
       \<exists>j t. db_sessions (db w) (si_SessionID i) = Some j \<and>
           db_activity (db w) (si_SessionID i) = Some t \<and> t \<le> Unix before \<and>
           i = j\<lparr>si_LastActivityAt := unixTime t\<rparr> \<and> safe_sid (si_SessionID i)"
    and inactive_complete:
      "ok w \<Longrightarrow> st_ListInactiveSandboxes st before lim w = (Inr xs, w') \<Longrightarrow>
       int (card (due (db_activity (db w)) before)) \<le> lim \<Longrightarrow>
       db_activity (db w) sid = Some t \<Longrightarrow> t \<le> Unix before \<Longrightarrow> safe_sid sid \<Longrightarrow>
       db_sessions (db w) sid = Some j \<Longrightarrow> j\<lparr>si_LastActivityAt := unixTime t\<rparr> \<in> set xs"
    and inactive_frame:
      "ok w \<Longrightarrow> st_ListInactiveSandboxes st before lim w = (l, w') \<Longrightarrow> ok w' \<and> db w' = db w"
    and session_wf: "ok w \<Longrightarrow> db_sessions (db w) sid = Some i \<Longrightarrow> si_SessionID i = sid \<and> safe_sid sid"

subsection \<open>The database laws clients use\<close>

lemma db_store_lookup:
  "db_sessions d (si_SessionID i) = None \<Longrightarrow>
   db_sessions (db_store now i d) (si_SessionID i) = Some (persisted i)"
  by (simp add: db_store_def)

lemma db_delete_lookup [simp]:
  "db_sessions (db_delete sid d) sid = None"
  "db_expiry (db_delete sid d) sid = None"
  "db_activity (db_delete sid d) sid = None"
  by (simp_all add: db_delete_def)

lemma db_delete_other [simp]:
  "s \<noteq> sid \<Longrightarrow> db_sessions (db_delete sid d) s = db_sessions d s"
  "s \<noteq> sid \<Longrightarrow> db_expiry (db_delete sid d) s = db_expiry d s"
  "s \<noteq> sid \<Longrightarrow> db_activity (db_delete sid d) s = db_activity d s"
  by (simp_all add: db_delete_def)

lemma db_update_lookup [simp]:
  "db_sessions (db_update i d) (si_SessionID i) = Some (persisted i)"
  "db_expiry (db_update i d) = db_expiry d"
  "db_activity (db_update i d) = db_activity d"
  by (simp_all add: db_update_def)

end
