(* ===== verification/StoreKeys.thy ===== *)
theory StoreKeys
  imports StoreSpec
begin

text \<open>
  The layout both stores use in the key space: a JSON text under \<open>session:<id>\<close> for every session,
  and two sorted sets of session ids, by expiry and by last activity.  This theory gives the
  abstraction from the key space to the session database, the invariant of the layout, and the
  effect on both of each command the stores send.
\<close>

record storeKeys =
  sessionPrefix :: string
  expiryIndexKey :: string
  lastActivityIndexKey :: string

definition sessionKeys :: storeKeys where
  "sessionKeys =
     \<lparr>sessionPrefix = ''session:'', expiryIndexKey = ''session:expiry'',
      lastActivityIndexKey = ''session:last_activity''\<rparr>"

definition sessionKey :: "storeKeys \<Rightarrow> string \<Rightarrow> string" where
  "sessionKey rs sessionID = sessionPrefix rs @ sessionID"

text \<open>The keys of this layout.\<close>

definition skey :: "string \<Rightarrow> string" where "skey sid = ''session:'' @ sid"
definition expKey :: string where "expKey = ''session:expiry''"
definition actKey :: string where "actKey = ''session:last_activity''"

definition Getenv :: "(string \<rightharpoonup> string) \<Rightarrow> string \<Rightarrow> string" where
  "Getenv env k = (case env k of None \<Rightarrow> [] | Some v \<Rightarrow> v)"

text \<open>The backend of a store: the server, the codec and the wall clock.\<close>

record 's backend =
  be_exec :: "'s server"
  be_codec :: codec
  be_clock :: "'s \<Rightarrow> Time"

text \<open>The error a client reports for a reply, and the first one of a pipeline.\<close>

fun reply_err :: "reply \<Rightarrow> gerr option" where
  "reply_err (RErr e) = Some e"
| "reply_err RNil = Some (ErrVar KvNil)"
| "reply_err r = None"

fun first_err :: "reply list \<Rightarrow> gerr option" where
  "first_err [] = None"
| "first_err (r # rs) = (case reply_err r of Some e \<Rightarrow> Some e | None \<Rightarrow> first_err rs)"

text \<open>
  \<open>LastActivityAt\<close> of a listed sandbox is the score of its session in the index, when it has one.
\<close>

definition with_activity :: "(string \<rightharpoonup> Time) \<Rightarrow> SandboxInfo \<Rightarrow> SandboxInfo" where
  "with_activity scores s =
     (case scores (si_SessionID s) of Some t \<Rightarrow> s\<lparr>si_LastActivityAt := t\<rparr> | None \<Rightarrow> s)"

definition scores_of :: "(string \<times> int) list \<Rightarrow> string \<rightharpoonup> Time" where
  "scores_of zsc = map_of (rev (map (\<lambda>(m, sc). (m, unixTime sc)) zsc))"

subsection \<open>Abstraction and invariant\<close>

definition zs :: "keyspace \<Rightarrow> string \<Rightarrow> zset" where
  "zs ks k = (case ks k of Some (VZset z) \<Rightarrow> z | _ \<Rightarrow> [])"

definition sess :: "codec \<Rightarrow> keyspace \<Rightarrow> string \<rightharpoonup> SandboxInfo" where
  "sess cd ks sid =
     (if safe_sid sid then
        (case ks (skey sid) of
           Some (VStr b) \<Rightarrow> (case Unmarshal cd b of Inr i \<Rightarrow> Some i | Inl _ \<Rightarrow> None)
         | _ \<Rightarrow> None)
      else None)"

definition abs_db :: "codec \<Rightarrow> keyspace \<Rightarrow> sessionDB" where
  "abs_db cd ks =
     \<lparr>db_sessions = sess cd ks, db_expiry = map_of (zs ks expKey),
      db_activity = map_of (zs ks actKey)\<rparr>"

definition index_ok :: "keyspace \<Rightarrow> string \<Rightarrow> bool" where
  "index_ok ks k \<longleftrightarrow>
     (case ks k of None \<Rightarrow> True | Some (VStr _) \<Rightarrow> False | Some (VZset z) \<Rightarrow> zset_ok z)"

definition session_ok :: "codec \<Rightarrow> keyspace \<Rightarrow> string \<Rightarrow> bool" where
  "session_ok cd ks sid \<longleftrightarrow>
     (case ks (skey sid) of
        None \<Rightarrow> True
      | Some (VStr b) \<Rightarrow> b \<noteq> [] \<and> (\<exists>i. Unmarshal cd b = Inr i \<and> si_SessionID i = sid \<and>
          si_LastActivityAt i = zeroTime)
      | Some (VZset _) \<Rightarrow> False)"

definition layout_ok :: "codec \<Rightarrow> keyspace \<Rightarrow> bool" where
  "layout_ok cd ks \<longleftrightarrow>
     (\<forall>sid. safe_sid sid \<longrightarrow> session_ok cd ks sid) \<and>
     index_ok ks expKey \<and> index_ok ks actKey"

subsection \<open>Facts about single commands\<close>

lemma key_neq [simp]:
  "safe_sid sid \<Longrightarrow> skey sid \<noteq> expKey" "safe_sid sid \<Longrightarrow> skey sid \<noteq> actKey"
  "safe_sid sid \<Longrightarrow> expKey \<noteq> skey sid" "safe_sid sid \<Longrightarrow> actKey \<noteq> skey sid"
  "expKey \<noteq> actKey" "actKey \<noteq> expKey" "skey sid = skey sid' \<longleftrightarrow> sid = sid'"
  by (auto simp: safe_sid_def skey_def expKey_def actKey_def)

lemma sessionKeys_simps [simp]:
  "sessionKey sessionKeys sid = skey sid"
  "expiryIndexKey sessionKeys = expKey"
  "lastActivityIndexKey sessionKeys = actKey"
  by (simp_all add: sessionKeys_def sessionKey_def skey_def expKey_def actKey_def)

lemma first_err_None_iff: "first_err rs = None \<longleftrightarrow> (\<forall>r \<in> set rs. reply_err r = None)"
  by (induction rs) (auto split: option.splits)

lemma reply_err_None: "reply_err r = None \<Longrightarrow> r \<noteq> RErr e"
  by (cases r) auto

lemma layout_ok_empty [simp]: "layout_ok cd Map.empty"
  by (simp add: layout_ok_def session_ok_def index_ok_def)

lemma layout_session_cases:
  assumes "layout_ok cd ks" and "safe_sid sid"
  obtains (absent) "ks (skey sid) = None" "sess cd ks sid = None"
  | (present) b i where "ks (skey sid) = Some (VStr b)" "b \<noteq> []"
      "Unmarshal cd b = Inr i" "si_SessionID i = sid" "si_LastActivityAt i = zeroTime"
      "sess cd ks sid = Some i"
proof -
  have "session_ok cd ks sid"
    using assms by (simp add: layout_ok_def)
  then show thesis
    using that assms(2) by (auto simp: session_ok_def sess_def split: option.splits rval.splits)
qed

lemma sess_None_iff:
  "layout_ok cd ks \<Longrightarrow> safe_sid sid \<Longrightarrow> sess cd ks sid = None \<longleftrightarrow> ks (skey sid) = None"
  by (erule (1) layout_session_cases) auto

lemma sess_SomeD:
  assumes "layout_ok cd ks" and "sess cd ks sid = Some i"
  shows "safe_sid sid \<and> si_SessionID i = sid \<and> si_LastActivityAt i = zeroTime"
proof -
  have safe: "safe_sid sid"
    using assms(2) by (simp add: sess_def split: if_splits)
  from assms(1) safe show ?thesis
    by (rule layout_session_cases) (use assms(2) safe in simp_all)
qed

lemma zs_upd_other [simp]: "k \<noteq> k' \<Longrightarrow> zs (ks(k := v)) k' = zs ks k'"
  by (simp add: zs_def)

lemma zs_upd_same [simp]: "zs (ks(k \<mapsto> VZset z)) k = z" "zs (ks(k := None)) k = []"
  by (simp_all add: zs_def)

lemma zs_put [simp]: "zs (put_zset k z ks) k = z"
  by (simp add: zs_def put_zset_def)

lemma zs_put_other [simp]: "k \<noteq> k' \<Longrightarrow> zs (put_zset k z ks) k' = zs ks k'"
  by (simp add: put_zset_def)

lemma sess_upd_index [simp]:
  "sess cd (ks(expKey := v)) = sess cd ks"
  "sess cd (ks(actKey := v)) = sess cd ks"
  "sess cd (put_zset expKey z ks) = sess cd ks"
  "sess cd (put_zset actKey z ks) = sess cd ks"
  by (simp_all add: fun_eq_iff sess_def put_zset_def)

lemma sess_upd_session:
  "safe_sid sid \<Longrightarrow> Unmarshal cd b = Inr i \<Longrightarrow>
     sess cd (ks(skey sid \<mapsto> VStr b)) = (sess cd ks)(sid \<mapsto> i)"
  "safe_sid sid \<Longrightarrow> sess cd (ks(skey sid := None)) = (sess cd ks)(sid := None)"
  by (simp_all add: fun_eq_iff sess_def)

lemma session_ok_upd:
  "session_ok cd (ks(skey sid := None)) sid' = (sid' = sid \<or> session_ok cd ks sid')"
  "session_ok cd (ks(skey sid \<mapsto> VStr b)) sid' =
     (if sid' = sid then b \<noteq> [] \<and> (\<exists>i. Unmarshal cd b = Inr i \<and> si_SessionID i = sid \<and>
        si_LastActivityAt i = zeroTime) else session_ok cd ks sid')"
  by (simp_all add: session_ok_def)

lemma session_ok_upd_index:
  "safe_sid sid \<Longrightarrow> k \<in> {expKey, actKey} \<Longrightarrow>
     session_ok cd (ks(k := v)) sid = session_ok cd ks sid"
  by (auto simp: session_ok_def)

lemma index_ok_upd:
  "k \<noteq> k' \<Longrightarrow> index_ok (ks(k := v)) k' = index_ok ks k'"
  "index_ok (ks(k := None)) k"
  "index_ok (ks(k \<mapsto> VZset z)) k = zset_ok z"
  by (simp_all add: index_ok_def)

lemma layout_upd_session:
  assumes "layout_ok cd ks" and "safe_sid sid"
  shows "b \<noteq> [] \<Longrightarrow> Unmarshal cd b = Inr i \<Longrightarrow> si_SessionID i = sid \<Longrightarrow>
      si_LastActivityAt i = zeroTime \<Longrightarrow> layout_ok cd (ks(skey sid \<mapsto> VStr b))"
    and "layout_ok cd (ks(skey sid := None))"
  using assms by (simp_all add: layout_ok_def session_ok_upd index_ok_upd)

lemma layout_upd_index:
  assumes "layout_ok cd ks" and "zset_ok z" and "k \<in> {expKey, actKey}"
  shows "layout_ok cd (ks(k \<mapsto> VZset z))" and "layout_ok cd (ks(k := None))"
    and "layout_ok cd (put_zset k z ks)"
proof -
  have upd: "layout_ok cd (ks(k := v))"
    if "v = None \<or> v = Some (VZset z)" for v
  proof -
    have "index_ok (ks(k := v)) k'" if "k' \<in> {expKey, actKey}" for k'
      using that \<open>v = None \<or> v = Some (VZset z)\<close> assms
      by (cases "k = k'") (auto simp: index_ok_upd layout_ok_def)
    moreover have "session_ok cd (ks(k := v)) sid" if "safe_sid sid" for sid
      using session_ok_upd_index [OF that assms(3)] assms(1) that by (simp add: layout_ok_def)
    ultimately show ?thesis
      unfolding layout_ok_def by simp
  qed
  show "layout_ok cd (ks(k \<mapsto> VZset z))" and "layout_ok cd (ks(k := None))"
    by (rule upd, simp)+
  then show "layout_ok cd (put_zset k z ks)"
    by (simp add: put_zset_def)
qed

lemma layout_index:
  "layout_ok cd ks \<Longrightarrow> k \<in> {expKey, actKey} \<Longrightarrow>
     (ks k = None \<and> zs ks k = []) \<or> (\<exists>z. ks k = Some (VZset z) \<and> zs ks k = z \<and> zset_ok z)"
  by (auto simp: layout_ok_def index_ok_def zs_def split: option.splits rval.splits)

lemma layout_zset_ok:
  "layout_ok cd ks \<Longrightarrow> k \<in> {expKey, actKey} \<Longrightarrow> zset_ok (zs ks k)"
  using layout_index [of cd ks k] by auto

subsection \<open>Index ranges and the sessions they name\<close>

lemma zset_range_fst:
  "zset_ok z \<Longrightarrow> m \<in> fst ` set (zset_range mx n z) \<Longrightarrow> \<exists>t. map_of z m = Some t \<and> t \<le> mx"
  by (auto simp: zset_ok_def dest!: zset_range_sound)

lemma due_card: "zset_ok z \<Longrightarrow> card (due (map_of z) before) = length (filter (\<lambda>p. snd p \<le> Unix before) z)"
proof -
  assume z: "zset_ok z"
  then have "due (map_of z) before = fst ` set (filter (\<lambda>p. snd p \<le> Unix before) z)"
    by (force simp: due_def zset_ok_def image_iff)
  moreover have "distinct (map fst (filter (\<lambda>p. snd p \<le> Unix before) z))"
    using z by (simp add: zset_ok_def distinct_map_filter)
  ultimately show ?thesis
    by (metis distinct_card length_map list.set_map)
qed

lemma zset_range_due:
  assumes "zset_ok z" and "int (card (due (map_of z) before)) \<le> lim"
    and "map_of z m = Some t" and "t \<le> Unix before"
  shows "(m, t) \<in> set (zset_range (Unix before) (nat lim) z)"
  using assms by (intro zset_range_complete) (auto simp: due_card nat_le_iff dest: map_of_SomeD)

lemma scores_of_eq:
  "distinct (map fst zsc) \<Longrightarrow> scores_of zsc m = map_option unixTime (map_of zsc m)"
proof -
  assume "distinct (map fst zsc)"
  then have "distinct (map fst (map (\<lambda>(m, sc). (m, unixTime sc)) zsc))"
    by (simp add: comp_def case_prod_unfold)
  then have "scores_of zsc = map_of (map (\<lambda>(m, sc). (m, unixTime sc)) zsc)"
    unfolding scores_of_def
    by (subst map_of_inject_set) (auto simp: rev_map [symmetric])
  then show ?thesis
    by (simp add: map_of_map)
qed

lemma in_map_filter: "x \<in> set (List.map_filter f xs) \<longleftrightarrow> (\<exists>y \<in> set xs. f y = Some x)"
  by (induction xs) (auto simp: List.map_filter_simps split: option.splits)

text \<open>What a listing returns once its index range and the sessions are read.\<close>

definition listed :: "codec \<Rightarrow> keyspace \<Rightarrow> zset \<Rightarrow> SandboxInfo list" where
  "listed cd ks zsc = List.map_filter (sess cd ks) (map fst zsc)"

lemma listed_sound:
  assumes "layout_ok cd ks" and "zset_ok (zs ks k)"
    and "i \<in> set (listed cd ks (zset_range (Unix before) n (zs ks k)))"
  shows "sess cd ks (si_SessionID i) = Some i \<and> safe_sid (si_SessionID i) \<and>
    (\<exists>t. map_of (zs ks k) (si_SessionID i) = Some t \<and> t \<le> Unix before)"
proof -
  obtain sid where sid: "sid \<in> fst ` set (zset_range (Unix before) n (zs ks k))"
    and sess: "sess cd ks sid = Some i"
    using assms(3) by (auto simp: listed_def in_map_filter)
  from sess_SomeD [OF assms(1) sess] zset_range_fst [OF assms(2) sid] sess show ?thesis
    by auto
qed

lemma listed_complete:
  assumes "zset_ok (zs ks k)" and "int (card (due (map_of (zs ks k)) before)) \<le> lim"
    and "map_of (zs ks k) sid = Some t" and "t \<le> Unix before" and "sess cd ks sid = Some i"
  shows "i \<in> set (listed cd ks (zset_range (Unix before) (nat lim) (zs ks k)))"
  using zset_range_due [OF assms(1-4)] assms(5) by (force simp: listed_def in_map_filter)

lemma with_activity_listed:
  assumes "layout_ok cd ks" and "zset_ok (zs ks k)"
    and "i \<in> set (listed cd ks (zset_range mx n (zs ks k)))"
    and "zsc = zset_range mx n (zs ks k)"
  shows "\<exists>t. map_of (zs ks k) (si_SessionID i) = Some t \<and>
     with_activity (scores_of zsc) i = i\<lparr>si_LastActivityAt := unixTime t\<rparr>"
proof -
  obtain sid where sid: "sid \<in> fst ` set zsc" and sess: "sess cd ks sid = Some i"
    using assms(3,4) by (auto simp: listed_def in_map_filter)
  then obtain t where t: "(sid, t) \<in> set zsc" by auto
  have d: "distinct (map fst zsc)"
    using assms(2,4) zset_range_distinct by blast
  have "map_of zsc sid = Some t"
    using d t by simp
  moreover have "map_of (zs ks k) sid = Some t"
    using t assms(2,4) zset_range_sound by (auto simp: zset_ok_def)
  ultimately show ?thesis
    using sess_SomeD [OF assms(1) sess] by (auto simp: with_activity_def scores_of_eq [OF d])
qed

end
