(* ===== verification/StoreBase.thy ===== *)
theory StoreBase
  imports StoreKeys
begin

text \<open>
  The ground both stores stand on: a documented server and the JSON codec (locale \<open>kv_backed\<close>).
  Its lemmas say what the store may conclude from the reply of each command it sends, whatever the
  server's failures: the layout is kept, other sessions are not touched, and a pipeline without an
  error has had the effect of its commands.
\<close>

subsection \<open>Commands that only read\<close>

fun read_only :: "cmd \<Rightarrow> bool" where
  "read_only PING = True"
| "read_only (GET k) = True"
| "read_only (MGET ks) = True"
| "read_only (EXISTS k) = True"
| "read_only (ZRANGEBYSCORE k mx n ws) = True"
| "read_only c = False"

lemma kv_step_read_only: "read_only c \<Longrightarrow> snd (kv_step ks c) = ks"
  by (cases c) (auto simp: kv_step_def split: option.splits rval.splits)

fun run_cmds :: "keyspace \<Rightarrow> cmd list \<Rightarrow> keyspace" where
  "run_cmds ks [] = ks"
| "run_cmds ks (c # cs) = run_cmds (snd (kv_step ks c)) cs"

lemma kv_step_range:
  "layout_ok cd ks \<Longrightarrow> k \<in> {expKey, actKey} \<Longrightarrow>
     kv_step ks (ZRANGEBYSCORE k mx n ws) =
       (if ws then RZs (zset_range mx n (zs ks k))
        else RStrs (map (Some \<circ> fst) (zset_range mx n (zs ks k))), ks)"
  by (drule (1) layout_index) (auto simp: kv_step_def zset_range_def)

text \<open>A read of a session key, whatever the session is called.\<close>

lemma kv_step_get_cases:
  assumes "layout_ok cd ks"
  obtains (found) b i where "kv_step ks (GET (skey sid)) = (RBulk b, ks)" "Unmarshal cd b = Inr i"
      "sess cd ks sid = Some i"
  | (absent) "kv_step ks (GET (skey sid)) = (RNil, ks)" "sess cd ks sid = None"
  | (wrong) e where "kv_step ks (GET (skey sid)) = (RErr e, ks)" "\<not> safe_sid sid"
proof (cases "safe_sid sid")
  case True
  with assms show thesis
    by (rule layout_session_cases) (auto simp: kv_step_def intro: found absent)
next
  case False
  then have "skey sid \<in> {expKey, actKey}"
    by (auto simp: safe_sid_def skey_def expKey_def actKey_def)
  from layout_index [OF assms this] False show thesis
    by (auto simp: kv_step_def sess_def intro: absent wrong)
qed

subsection \<open>Commands that write\<close>

text \<open>The writes of the stores, and the session each belongs to.\<close>

inductive session_write :: "codec \<Rightarrow> string \<Rightarrow> cmd \<Rightarrow> bool" for cd sid where
  setnx: "Marshal cd i = Inr b \<Longrightarrow> si_SessionID i = sid \<Longrightarrow> session_write cd sid (SETNX (skey sid) b)"
| setxx: "Marshal cd i = Inr b \<Longrightarrow> si_SessionID i = sid \<Longrightarrow> session_write cd sid (SETXX (skey sid) b)"
| del: "session_write cd sid (DEL (skey sid))"
| zadd: "k \<in> {expKey, actKey} \<Longrightarrow> session_write cd sid (ZADD k sc sid)"
| zrem: "k \<in> {expKey, actKey} \<Longrightarrow> session_write cd sid (ZREM k sid)"
| touch: "session_write cd sid (EVAL_touch (skey sid) actKey sid sc)"

context json_codec
begin

lemma step_setnx:
  assumes "layout_ok cd ks" and "safe_sid sid" and "Marshal cd i = Inr b" and "si_SessionID i = sid"
  shows "layout_ok cd (snd (kv_step ks (SETNX (skey sid) b)))"
    and "sess cd (snd (kv_step ks (SETNX (skey sid) b))) =
      (case sess cd ks sid of None \<Rightarrow> (sess cd ks)(sid \<mapsto> persisted i) | Some _ \<Rightarrow> sess cd ks)"
    and "k \<in> {expKey, actKey} \<Longrightarrow> zs (snd (kv_step ks (SETNX (skey sid) b))) k = zs ks k"
  using assms round_trip [OF assms(3)] nonempty [OF assms(3)] sess_None_iff [OF assms(1,2)]
  by (auto simp: kv_step_def layout_upd_session sess_upd_session split: option.splits)

lemma step_setxx:
  assumes "layout_ok cd ks" and "safe_sid sid" and "Marshal cd i = Inr b" and "si_SessionID i = sid"
  shows "layout_ok cd (snd (kv_step ks (SETXX (skey sid) b)))"
    and "sess cd (snd (kv_step ks (SETXX (skey sid) b))) =
      (case sess cd ks sid of None \<Rightarrow> sess cd ks | Some _ \<Rightarrow> (sess cd ks)(sid \<mapsto> persisted i))"
    and "k \<in> {expKey, actKey} \<Longrightarrow> zs (snd (kv_step ks (SETXX (skey sid) b))) k = zs ks k"
  using assms round_trip [OF assms(3)] nonempty [OF assms(3)] sess_None_iff [OF assms(1,2)]
  by (auto simp: kv_step_def layout_upd_session sess_upd_session split: option.splits)

lemma step_del:
  assumes "layout_ok cd ks" and "safe_sid sid"
  shows "layout_ok cd (snd (kv_step ks (DEL (skey sid))))"
    and "sess cd (snd (kv_step ks (DEL (skey sid)))) = (sess cd ks)(sid := None)"
    and "k \<in> {expKey, actKey} \<Longrightarrow> zs (snd (kv_step ks (DEL (skey sid)))) k = zs ks k"
  using assms by (auto simp: kv_step_def layout_upd_session sess_upd_session)

lemma step_zadd:
  assumes "layout_ok cd ks" and "k \<in> {expKey, actKey}"
  shows "layout_ok cd (snd (kv_step ks (ZADD k sc m)))"
    and "sess cd (snd (kv_step ks (ZADD k sc m))) = sess cd ks"
    and "map_of (zs (snd (kv_step ks (ZADD k sc m))) k) = (map_of (zs ks k))(m \<mapsto> sc)"
    and "k' \<noteq> k \<Longrightarrow> zs (snd (kv_step ks (ZADD k sc m))) k' = zs ks k'"
    and "\<exists>n. fst (kv_step ks (ZADD k sc m)) = RInt n"
  using layout_index [OF assms] assms layout_upd_index [OF assms(1) _ assms(2)]
  by (auto simp: kv_step_def zset_ok_add)

lemma step_zrem:
  assumes "layout_ok cd ks" and "k \<in> {expKey, actKey}"
  shows "layout_ok cd (snd (kv_step ks (ZREM k m)))"
    and "sess cd (snd (kv_step ks (ZREM k m))) = sess cd ks"
    and "map_of (zs (snd (kv_step ks (ZREM k m))) k) = (map_of (zs ks k))(m := None)"
    and "k' \<noteq> k \<Longrightarrow> zs (snd (kv_step ks (ZREM k m))) k' = zs ks k'"
  using layout_index [OF assms] assms layout_upd_index [OF assms(1) _ assms(2)]
  by (auto simp: kv_step_def zset_ok_rem)

lemma step_touch:
  assumes "layout_ok cd ks" and "safe_sid sid"
  shows "kv_step ks (EVAL_touch (skey sid) actKey sid sc) =
     (if sess cd ks sid = None then (RInt 0, ks)
      else (RInt 1, snd (kv_step ks (ZADD actKey sc sid))))"
  using step_zadd(5) [OF assms(1), of actKey sc sid] sess_None_iff [OF assms]
  by (auto simp: kv_step_def updateSessionLastActivityScript_def split: prod.splits)

lemma session_write_keeps:
  assumes "session_write cd sid c" and "layout_ok cd ks" and "safe_sid sid"
  shows "layout_ok cd (snd (kv_step ks c)) \<and>
    (\<forall>s. s \<noteq> sid \<longrightarrow> sess cd (snd (kv_step ks c)) s = sess cd ks s)"
  using assms
proof cases
  case (setnx i b)
  then show ?thesis using step_setnx [OF assms(2,3)] by (auto split: option.splits)
next
  case (setxx i b)
  then show ?thesis using step_setxx [OF assms(2,3)] by (auto split: option.splits)
next
  case del
  then show ?thesis using step_del [OF assms(2,3)] by simp
next
  case (zadd k sc)
  then show ?thesis using step_zadd(1,2) [OF assms(2)] by simp
next
  case (zrem k)
  then show ?thesis using step_zrem(1,2) [OF assms(2)] by simp
next
  case (touch sc)
  then show ?thesis
    using step_touch [OF assms(2,3), of sc] step_zadd(1,2) [OF assms(2), of actKey sc sid] assms(2)
    by (auto split: if_splits)
qed

text \<open>The effect of the two write pipelines and of the two single writes on the database.\<close>

lemma run_store:
  assumes "layout_ok cd ks" and "safe_sid (si_SessionID i)" and "Marshal cd i = Inr b"
  shows "abs_db cd (run_cmds ks
      [SETNX (skey (si_SessionID i)) b, ZADD expKey (Unix (si_ExpiresAt i)) (si_SessionID i),
       ZADD actKey (Unix now) (si_SessionID i)]) = db_store now i (abs_db cd ks)"
proof -
  define k1 where "k1 = snd (kv_step ks (SETNX (skey (si_SessionID i)) b))"
  define k2 where "k2 = snd (kv_step k1 (ZADD expKey (Unix (si_ExpiresAt i)) (si_SessionID i)))"
  note 1 = step_setnx [OF assms refl, folded k1_def]
  note 2 = step_zadd [OF 1(1), where k = expKey and sc = "Unix (si_ExpiresAt i)" and m = "si_SessionID i",
      folded k2_def]
  note 3 = step_zadd [where ks = k2 and k = actKey and sc = "Unix now" and m = "si_SessionID i"]
  show ?thesis
    using 1 2 3
    by (simp add: abs_db_def db_store_def k1_def [symmetric] k2_def [symmetric]
        split: option.split)
qed

lemma run_delete:
  assumes "layout_ok cd ks" and "safe_sid sid"
  shows "abs_db cd (run_cmds ks [DEL (skey sid), ZREM expKey sid, ZREM actKey sid]) =
     db_delete sid (abs_db cd ks)"
proof -
  define k1 where "k1 = snd (kv_step ks (DEL (skey sid)))"
  define k2 where "k2 = snd (kv_step k1 (ZREM expKey sid))"
  note 1 = step_del [OF assms, folded k1_def]
  note 2 = step_zrem [OF 1(1), where k = expKey and m = sid, folded k2_def]
  note 3 = step_zrem [where ks = k2 and k = actKey and m = sid]
  show ?thesis
    using 1 2 3 by (simp add: abs_db_def db_delete_def k1_def [symmetric] k2_def [symmetric])
qed

lemma run_update:
  assumes "layout_ok cd ks" and "safe_sid (si_SessionID i)" and "Marshal cd i = Inr b"
    and "kv_step ks (SETXX (skey (si_SessionID i)) b) = (r, ks')"
  shows "if sess cd ks (si_SessionID i) = None then r = RNil \<and> ks' = ks
     else r = RStatus ''OK'' \<and> abs_db cd ks' = db_update i (abs_db cd ks)"
proof (cases "sess cd ks (si_SessionID i) = None")
  case True
  then show ?thesis
    using assms(4) sess_None_iff [OF assms(1,2)] by (simp add: kv_step_def)
next
  case False
  then have "ks (skey (si_SessionID i)) \<noteq> None"
    using sess_None_iff [OF assms(1,2)] by simp
  then have "r = RStatus ''OK''"
    using assms(4) by (simp add: kv_step_def split: if_splits)
  moreover have "abs_db cd ks' = db_update i (abs_db cd ks)"
    using step_setxx(2,3) [OF assms(1-3) refl] assms(4) False
    by (simp add: abs_db_def db_update_def split: option.splits)
  ultimately show ?thesis
    using False by simp
qed

lemma touch_db:
  "layout_ok cd ks \<Longrightarrow>
     abs_db cd (snd (kv_step ks (ZADD actKey (Unix at) sid))) = db_touch sid at (abs_db cd ks)"
  using step_zadd(2-4) [where k = actKey and sc = "Unix at" and m = sid]
  by (simp add: abs_db_def db_touch_def)

end

subsection \<open>The server and the codec together\<close>

locale kv_backed = kv_server exec view + json_codec cd
  for exec :: "'s server" and view :: "'s \<Rightarrow> keyspace" and cd :: codec +
  fixes clock :: "'s \<Rightarrow> Time"
begin

lemma read_only_view: "read_only c \<Longrightarrow> exec s c = (r, s') \<Longrightarrow> view s' = view s"
  using exec_view_cases kv_step_read_only by metis

lemma exec_all_read_only:
  "list_all read_only cs \<Longrightarrow> exec_all exec s cs = (rs, s') \<Longrightarrow>
     view s' = view s \<and>
     list_all2 (\<lambda>c r. (\<exists>e. r = RErr e \<and> \<not> errors_Is e KvNil) \<or> r = fst (kv_step (view s) c)) cs rs"
proof (induction cs arbitrary: s rs)
  case Nil
  then show ?case by simp
next
  case (Cons c cs)
  obtain r s1 rs' where 1: "exec s c = (r, s1)" and 2: "exec_all exec s1 cs = (rs', s')"
    and rs: "rs = r # rs'"
    using Cons.prems by (auto split: prod.splits)
  have v: "view s1 = view s"
    using read_only_view [OF _ 1] Cons.prems(1) by simp
  have "(\<exists>e. r = RErr e \<and> \<not> errors_Is e KvNil) \<or> r = fst (kv_step (view s) c)"
    using exec_ok_fst [OF 1] exec_foreign [of s c] 1 by blast
  then show ?case
    using Cons.IH [OF _ 2] Cons.prems(1) v rs by simp
qed

lemma exec_all_keeps:
  "(\<And>c. c \<in> set cs \<Longrightarrow> session_write cd sid c) \<Longrightarrow> safe_sid sid \<Longrightarrow> layout_ok cd (view s) \<Longrightarrow>
     exec_all exec s cs = (rs, s') \<Longrightarrow>
     layout_ok cd (view s') \<and> (\<forall>x. x \<noteq> sid \<longrightarrow> sess cd (view s') x = sess cd (view s) x)"
proof (induction cs arbitrary: s rs)
  case Nil
  then show ?case by simp
next
  case (Cons c cs)
  obtain r s1 rs' where 1: "exec s c = (r, s1)" and 2: "exec_all exec s1 cs = (rs', s')"
    using Cons.prems(4) by (auto split: prod.splits)
  have "layout_ok cd (view s1) \<and> (\<forall>x. x \<noteq> sid \<longrightarrow> sess cd (view s1) x = sess cd (view s) x)"
    using exec_view_cases [OF 1] session_write_keeps [of sid c "view s"] Cons.prems(1-3) by auto
  then show ?case
    using Cons.IH [OF _ _ _ 2] Cons.prems(1,2) by auto
qed

lemma exec_keeps:
  "session_write cd sid c \<Longrightarrow> safe_sid sid \<Longrightarrow> layout_ok cd (view s) \<Longrightarrow> exec s c = (r, s') \<Longrightarrow>
     layout_ok cd (view s') \<and> (\<forall>x. x \<noteq> sid \<longrightarrow> sess cd (view s') x = sess cd (view s) x)"
  using exec_all_keeps [of "[c]" sid s "[r]" s'] by simp

text \<open>A pipeline none of whose replies is an error has run all its commands.\<close>

lemma exec_all_run:
  "exec_all exec s cs = (rs, s') \<Longrightarrow> first_err rs = None \<Longrightarrow> view s' = run_cmds (view s) cs"
proof (induction cs arbitrary: s rs)
  case Nil
  then show ?case by simp
next
  case (Cons c cs)
  obtain r s1 rs' where 1: "exec s c = (r, s1)" and 2: "exec_all exec s1 cs = (rs', s')"
    and rs: "rs = r # rs'"
    using Cons.prems(1) by (auto split: prod.splits)
  have "reply_err r = None" and "first_err rs' = None"
    using Cons.prems(2) rs by (auto split: option.splits)
  then show ?case
    using Cons.IH [OF 2] exec_ok_snd [OF 1] reply_err_None by simp
qed

end

subsection \<open>A store over the shared layout\<close>

text \<open>
  What an implementation of the interface has to show of its own operations: the commands each
  operation that succeeds has sent, and that one that fails has only touched its own session.  The
  contract of \<open>StoreSpec\<close> follows once for both implementations.
\<close>

definition store_cmds :: "string \<Rightarrow> Time \<Rightarrow> SandboxInfo \<Rightarrow> cmd list" where
  "store_cmds b now i =
     [SETNX (skey (si_SessionID i)) b, ZADD expKey (Unix (si_ExpiresAt i)) (si_SessionID i),
      ZADD actKey (Unix now) (si_SessionID i)]"

definition delete_cmds :: "string \<Rightarrow> cmd list" where
  "delete_cmds sid = [DEL (skey sid), ZREM expKey sid, ZREM actKey sid]"

definition keeps_others :: "codec \<Rightarrow> string \<Rightarrow> keyspace \<Rightarrow> keyspace \<Rightarrow> bool" where
  "keeps_others cd sid ks ks' \<longleftrightarrow>
     (layout_ok cd ks \<and> safe_sid sid \<longrightarrow>
      layout_ok cd ks' \<and> (\<forall>x. x \<noteq> sid \<longrightarrow> sess cd ks' x = sess cd ks x))"

lemma store_cmds_write:
  "Marshal cd i = Inr b \<Longrightarrow> c \<in> set (store_cmds b now i) \<Longrightarrow> session_write cd (si_SessionID i) c"
  by (auto simp: store_cmds_def intro: session_write.intros)

lemma delete_cmds_write: "c \<in> set (delete_cmds sid) \<Longrightarrow> session_write cd sid c"
  by (auto simp: delete_cmds_def intro: session_write.intros)

lemma keeps_others_refl [simp]: "keeps_others cd sid ks ks"
  by (simp add: keeps_others_def)

context kv_backed
begin

lemma store_cmds_keep:
  "Marshal cd i = Inr b \<Longrightarrow> exec_all exec s (store_cmds b now i) = (rs, s') \<Longrightarrow>
     keeps_others cd (si_SessionID i) (view s) (view s')"
  unfolding keeps_others_def using exec_all_keeps [OF store_cmds_write] by auto

lemma delete_cmds_keep:
  "exec_all exec s (delete_cmds sid) = (rs, s') \<Longrightarrow> keeps_others cd sid (view s) (view s')"
  unfolding keeps_others_def
  using exec_all_keeps [where cs = "delete_cmds sid" and sid = sid, OF delete_cmds_write] by auto

end

locale indexed_store = kv_backed exec view cd clock
  for exec :: "'s server" and view :: "'s \<Rightarrow> keyspace" and cd :: codec and clock :: "'s \<Rightarrow> Time" +
  fixes st :: "'s Store"
  assumes get_view: "st_GetSandboxBySessionID st sid s = (g, s') \<Longrightarrow> view s' = view s"
    and get_some:
      "st_GetSandboxBySessionID st sid s = (Inr i, s') \<Longrightarrow> layout_ok cd (view s) \<Longrightarrow> safe_sid sid \<Longrightarrow>
       sess cd (view s) sid = Some i"
    and get_none:
      "st_GetSandboxBySessionID st sid s = (Inl e, s') \<Longrightarrow> layout_ok cd (view s) \<Longrightarrow> safe_sid sid \<Longrightarrow>
       errors_Is e StoreErrNotFound \<Longrightarrow> sess cd (view s) sid = None"
    and store_run:
      "st_StoreSandbox st (Some i) s = (None, s') \<Longrightarrow>
       \<exists>b. Marshal cd i = Inr b \<and> view s' = run_cmds (view s) (store_cmds b (clock s) i)"
    and store_keeps:
      "st_StoreSandbox st (Some i) s = (r, s') \<Longrightarrow> keeps_others cd (si_SessionID i) (view s) (view s')"
    and update_run:
      "st_UpdateSandbox st (Some i) s = (None, s') \<Longrightarrow>
       \<exists>b m. Marshal cd i = Inr b \<and>
         kv_step (view s) (SETXX (skey (si_SessionID i)) b) = (RStatus m, view s')"
    and update_keeps:
      "st_UpdateSandbox st (Some i) s = (r, s') \<Longrightarrow> keeps_others cd (si_SessionID i) (view s) (view s')"
    and delete_run:
      "st_DeleteSandboxBySessionID st sid s = (None, s') \<Longrightarrow>
       view s' = run_cmds (view s) (delete_cmds sid)"
    and delete_keeps:
      "st_DeleteSandboxBySessionID st sid s = (r, s') \<Longrightarrow> keeps_others cd sid (view s) (view s')"
    and touch_run:
      "st_UpdateSessionLastActivity st sid at s = (None, s') \<Longrightarrow> layout_ok cd (view s) \<Longrightarrow>
       safe_sid sid \<Longrightarrow> sess cd (view s) sid \<noteq> None \<and>
       view s' = snd (kv_step (view s)
         (ZADD actKey (Unix (if IsZero at then clock s else at)) sid))"
    and touch_keeps:
      "st_UpdateSessionLastActivity st sid at s = (r, s') \<Longrightarrow> layout_ok cd (view s) \<Longrightarrow>
       safe_sid sid \<Longrightarrow> layout_ok cd (view s') \<and> sess cd (view s') = sess cd (view s)"
    and expired_listed:
      "st_ListExpiredSandboxes st before lim s = (l, s') \<Longrightarrow> layout_ok cd (view s) \<Longrightarrow>
       view s' = view s \<and>
       (\<forall>xs. l = Inr xs \<longrightarrow>
          xs = listed cd (view s) (zset_range (Unix before) (nat lim) (zs (view s) expKey)))"
    and inactive_listed:
      "st_ListInactiveSandboxes st before lim s = (l, s') \<Longrightarrow> layout_ok cd (view s) \<Longrightarrow>
       view s' = view s \<and>
       (\<forall>xs. l = Inr xs \<longrightarrow> (let zsc = zset_range (Unix before) (nat lim) (zs (view s) actKey) in
          xs = map (with_activity (scores_of zsc)) (listed cd (view s) zsc)))"

lemma active_listed_sound:
  assumes "layout_ok cd ks" and "zsc = zset_range (Unix before) n (zs ks actKey)"
    and "i \<in> set (map (with_activity (scores_of zsc)) (listed cd ks zsc))"
  shows "\<exists>j t. sess cd ks (si_SessionID i) = Some j \<and> map_of (zs ks actKey) (si_SessionID i) = Some t \<and>
     t \<le> Unix before \<and> i = j\<lparr>si_LastActivityAt := unixTime t\<rparr> \<and> safe_sid (si_SessionID i)"
proof -
  obtain j where j: "j \<in> set (listed cd ks zsc)" and i: "i = with_activity (scores_of zsc) j"
    using assms(3) by auto
  have ok: "zset_ok (zs ks actKey)"
    using layout_zset_ok [OF assms(1)] by simp
  obtain t where t: "map_of (zs ks actKey) (si_SessionID j) = Some t"
    "i = j\<lparr>si_LastActivityAt := unixTime t\<rparr>"
    using with_activity_listed [OF assms(1) ok _ assms(2)] j i assms(2) by auto
  then show ?thesis
    using listed_sound [OF assms(1) ok j [unfolded assms(2)]] by auto
qed

lemma active_listed_complete:
  assumes "layout_ok cd ks" and "zsc = zset_range (Unix before) (nat lim) (zs ks actKey)"
    and "int (card (due (map_of (zs ks actKey)) before)) \<le> lim"
    and "map_of (zs ks actKey) sid = Some t" and "t \<le> Unix before" and "sess cd ks sid = Some j"
  shows "j\<lparr>si_LastActivityAt := unixTime t\<rparr> \<in> set (map (with_activity (scores_of zsc)) (listed cd ks zsc))"
proof -
  have ok: "zset_ok (zs ks actKey)"
    using layout_zset_ok [OF assms(1)] by simp
  have j: "j \<in> set (listed cd ks zsc)"
    using listed_complete [OF ok assms(3-6)] assms(2) by simp
  moreover have "with_activity (scores_of zsc) j = j\<lparr>si_LastActivityAt := unixTime t\<rparr>"
    using with_activity_listed [OF assms(1) ok j [unfolded assms(2)] assms(2)]
      sess_SomeD [OF assms(1,6)] assms(4) by auto
  ultimately show ?thesis
    by force
qed

sublocale indexed_store \<subseteq>
  contract: session_store st "\<lambda>s. abs_db cd (view s)" clock "\<lambda>s. layout_ok cd (view s)"
proof (unfold_locales, goal_cases)
  case 1 then show ?case using get_some by (simp add: abs_db_def)
next
  case 2 then show ?case using get_none by (simp add: abs_db_def)
next
  case 3 then show ?case using get_view by fastforce
next
  case (4 w i w')
  then show ?case
    using store_run [OF 4(3)] run_store [OF 4(1,2)] by (auto simp: store_cmds_def)
next
  case 5 then show ?case using store_keeps by (simp add: keeps_others_def abs_db_def)
next
  case (6 w i w')
  then show ?case
    using update_run [OF 6(3)] run_update [OF 6(1,2)]
    by (fastforce simp: abs_db_def split: if_splits)
next
  case 7 then show ?case using update_keeps by (simp add: keeps_others_def abs_db_def)
next
  case (8 w sid w')
  then show ?case using delete_run [OF 8(3)] run_delete [OF 8(1,2)] by (simp add: delete_cmds_def)
next
  case 9 then show ?case using delete_keeps by (simp add: keeps_others_def abs_db_def)
next
  case (10 w sid at w')
  then show ?case
    using touch_run [OF 10(3,1,2)] touch_db [OF 10(1)] by (simp add: abs_db_def)
next
  case 11 then show ?case using touch_keeps by (simp add: abs_db_def)
next
  case (12 w before lim xs w' i)
  then show ?case
    using expired_listed [OF 12(2,1)] listed_sound [OF 12(1) layout_zset_ok [OF 12(1)]]
    by (auto simp: abs_db_def due_def)
next
  case (13 w before lim xs w' sid i)
  then show ?case
    using expired_listed [OF 13(2,1)] listed_complete [OF layout_zset_ok [OF 13(1)]]
    by (auto simp: abs_db_def due_def)
next
  case 14 then show ?case using expired_listed by fastforce
next
  case (15 w before lim xs w' i)
  then show ?case
    using inactive_listed [OF 15(2,1)] active_listed_sound [OF 15(1) refl]
    by (simp add: abs_db_def Let_def)
next
  case (16 w before lim xs w' sid t j)
  then show ?case
    using inactive_listed [OF 16(2,1)] active_listed_complete [OF 16(1) refl]
    by (simp add: abs_db_def Let_def)
next
  case 17 then show ?case using inactive_listed by fastforce
next
  case 18 then show ?case using sess_SomeD by (simp add: abs_db_def)
qed

end
