(* ===== verification/StoreRedis.thy ===== *)
theory StoreRedis
  imports StoreBase
begin

text \<open>
  \<open>pkg/store/store_redis.go\<close>: the Redis store, operation by operation, and the proof that it
  provides the contract of \<open>StoreSpec\<close> on any server that behaves as documented.
\<close>

record redisOptions =
  ro_Addr :: string
  ro_Password :: string

definition makeRedisOptions :: "(string \<rightharpoonup> string) \<Rightarrow> redisOptions res" where
  "makeRedisOptions env =
     (let redisAddr = Getenv env ''REDIS_ADDR''; redisPassword = Getenv env ''REDIS_PASSWORD'' in
      if redisAddr = [] then Inl (ErrMsg ''missing env var REDIS_ADDR'')
      else if ToLower (Getenv env ''REDIS_PASSWORD_REQUIRED'') \<noteq> ''false'' \<and> redisPassword = []
      then Inl (ErrMsg ''REDIS_PASSWORD is required but not set'')
      else Inr \<lparr>ro_Addr = redisAddr, ro_Password = redisPassword\<rparr>)"

definition initRedisStore :: "(string \<rightharpoonup> string) \<Rightarrow> (redisOptions \<times> storeKeys) res" where
  "initRedisStore env =
     (case makeRedisOptions env of
        Inl e \<Rightarrow> Inl (ErrWrap ''make redis options failed'' e)
      | Inr opts \<Rightarrow> Inr (opts, sessionKeys))"

subsection \<open>Operations\<close>

text \<open>The loop over the replies of the pipelined \<open>GET\<close>s, with \<open>StringCmd.Bytes\<close>.\<close>

fun collectSandboxes_redis :: "codec \<Rightarrow> (string \<times> reply) list \<Rightarrow> SandboxInfo list res" where
  "collectSandboxes_redis cd [] = Inr []"
| "collectSandboxes_redis cd ((sid, r) # rest) =
     (case r of
        RNil \<Rightarrow> collectSandboxes_redis cd rest
      | RErr e \<Rightarrow> Inl (ErrWrap
          (''loadSandboxesBySessionIDs: get sandbox JSON for session '' @ sid) e)
      | RBulk data \<Rightarrow>
          (case Unmarshal cd data of
             Inl e \<Rightarrow> Inl (ErrWrap
               (''loadSandboxesBySessionIDs: unmarshal sandbox for session '' @ sid) e)
           | Inr i \<Rightarrow>
               (case collectSandboxes_redis cd rest of Inl e \<Rightarrow> Inl e | Inr is \<Rightarrow> Inr (i # is)))
      | _ \<Rightarrow> Inl (ErrMsg ''redis: unexpected reply type''))"

definition loadSandboxesBySessionIDs_redis ::
  "'s backend \<Rightarrow> storeKeys \<Rightarrow> string list \<Rightarrow> 's \<Rightarrow> SandboxInfo list res \<times> 's" where
  "loadSandboxesBySessionIDs_redis b rs sessionIDs s =
     (if sessionIDs = [] then (Inr [], s)
      else (case exec_all (be_exec b) s (map (\<lambda>sid. GET (sessionKey rs sid)) sessionIDs) of
        (replies, s') \<Rightarrow>
          (case first_err replies of
             Some e \<Rightarrow>
               (if errors_Is e KvNil
                then (collectSandboxes_redis (be_codec b) (zip sessionIDs replies), s')
                else (Inl (ErrWrap ''redis pipeline exec failed'' e), s'))
           | None \<Rightarrow> (collectSandboxes_redis (be_codec b) (zip sessionIDs replies), s'))))"

definition Ping_redis :: "'s backend \<Rightarrow> 's \<Rightarrow> gerr option \<times> 's" where
  "Ping_redis b s =
     (case be_exec b s PING of (r, s') \<Rightarrow>
        (case r of
           RStatus resp \<Rightarrow>
             (if resp \<noteq> ''PONG'' then (Some (ErrMsg (''unexpected ping response: '' @ resp)), s')
              else (None, s'))
         | RErr e \<Rightarrow> (Some (ErrWrap ''ping error'' e), s')
         | _ \<Rightarrow> (Some (ErrMsg ''ping error: unexpected reply type''), s')))"

definition GetSandboxBySessionID_redis ::
  "'s backend \<Rightarrow> storeKeys \<Rightarrow> string \<Rightarrow> 's \<Rightarrow> SandboxInfo res \<times> 's" where
  "GetSandboxBySessionID_redis b rs sessionID s =
     (let key = sessionKey rs sessionID in
      case be_exec b s (GET key) of (r, s') \<Rightarrow>
        (case r of
           RNil \<Rightarrow> (Inl (ErrVar StoreErrNotFound), s')
         | RBulk data \<Rightarrow>
             (case Unmarshal (be_codec b) data of
                Inl e \<Rightarrow> (Inl (ErrWrap ''GetSandboxBySessionID: unmarshal sandbox failed'' e), s')
              | Inr i \<Rightarrow> (Inr i, s'))
         | RErr e \<Rightarrow>
             (Inl (ErrWrap (''GetSandboxBySessionID: redis GET '' @ key @ '' failed'') e), s')
         | _ \<Rightarrow> (Inl (ErrMsg (''GetSandboxBySessionID: redis GET '' @ key @ '' failed'')), s')))"

definition StoreSandbox_redis ::
  "'s backend \<Rightarrow> storeKeys \<Rightarrow> SandboxInfo option \<Rightarrow> 's \<Rightarrow> gerr option \<times> 's" where
  "StoreSandbox_redis b rs sandboxRedis s =
     (case sandboxRedis of
        None \<Rightarrow> (Some (ErrMsg ''StoreSandbox: sandbox is nil''), s)
      | Some sb \<Rightarrow>
          (case Marshal (be_codec b) sb of
             Inl e \<Rightarrow> (Some (ErrWrap ''StoreSandbox: marshal sandbox failed'' e), s)
           | Inr data \<Rightarrow>
               if IsZero (si_ExpiresAt sb)
               then (Some (ErrMsg ''StoreSandbox: sandbox expired at is zero''), s)
               else
                 (case exec_all (be_exec b) s
                    [SETNX (sessionKey rs (si_SessionID sb)) data,
                     ZADD (expiryIndexKey rs) (Unix (si_ExpiresAt sb)) (si_SessionID sb),
                     ZADD (lastActivityIndexKey rs) (Unix (be_clock b s)) (si_SessionID sb)] of
                    (cmder, s') \<Rightarrow>
                      (case first_err cmder of
                         Some e \<Rightarrow> (Some (ErrWrap ''StoreSandbox: redis Pipeline EXEC'' e), s')
                       | None \<Rightarrow>
                           if cmder = [] then
                             (Some (ErrMsg ''StoreSandbox: unexpected empty cmder''), s')
                           else (None, s')))))"

definition UpdateSandbox_redis ::
  "'s backend \<Rightarrow> storeKeys \<Rightarrow> SandboxInfo option \<Rightarrow> 's \<Rightarrow> gerr option \<times> 's" where
  "UpdateSandbox_redis b rs sandboxRedis s =
     (case sandboxRedis of
        None \<Rightarrow> (Some (ErrMsg ''UpdateSandbox: sandbox is nil''), s)
      | Some sb \<Rightarrow>
          (let key = sessionKey rs (si_SessionID sb) in
           case Marshal (be_codec b) sb of
             Inl e \<Rightarrow> (Some (ErrWrap ''UpdateSandbox: marshal sandbox'' e), s)
           | Inr data \<Rightarrow>
               (case be_exec b s (SETXX key data) of (r, s') \<Rightarrow>
                  (case r of
                     RErr e \<Rightarrow> (Some (ErrWrap (''UpdateSandbox: redis SETXX '' @ key) e), s')
                   | RStatus _ \<Rightarrow> (None, s')
                   | _ \<Rightarrow> (Some (ErrMsg
                       (''UpdateSandbox: redis SETXX '' @ key @ '', key does not exist'')), s')))))"

definition DeleteSandboxBySessionID_redis ::
  "'s backend \<Rightarrow> storeKeys \<Rightarrow> string \<Rightarrow> 's \<Rightarrow> gerr option \<times> 's" where
  "DeleteSandboxBySessionID_redis b rs sessionID s =
     (case exec_all (be_exec b) s
        [DEL (sessionKey rs sessionID), ZREM (expiryIndexKey rs) sessionID,
         ZREM (lastActivityIndexKey rs) sessionID] of
        (replies, s') \<Rightarrow>
          (case first_err replies of
             Some e \<Rightarrow> (Some (ErrWrap ''DeleteSandboxBySessionID: pipeline EXEC'' e), s')
           | None \<Rightarrow> (None, s')))"

definition ListExpiredSandboxes_redis ::
  "'s backend \<Rightarrow> storeKeys \<Rightarrow> Time \<Rightarrow> int \<Rightarrow> 's \<Rightarrow> SandboxInfo list res \<times> 's" where
  "ListExpiredSandboxes_redis b rs before limit s =
     (if limit \<le> 0 then (Inr [], s)
      else
        (case be_exec b s
           (ZRANGEBYSCORE (expiryIndexKey rs) (Unix before) (nat limit) False) of (r, s') \<Rightarrow>
           (case r of
              RStrs ids \<Rightarrow> loadSandboxesBySessionIDs_redis b rs (map (case_option [] id) ids) s'
            | RErr e \<Rightarrow> (Inl (ErrWrap ''ListExpiredSandboxes: ZRangeByScore failed'' e), s')
            | _ \<Rightarrow> (Inl (ErrMsg ''ListExpiredSandboxes: ZRangeByScore failed''), s'))))"

definition ListInactiveSandboxes_redis ::
  "'s backend \<Rightarrow> storeKeys \<Rightarrow> Time \<Rightarrow> int \<Rightarrow> 's \<Rightarrow> SandboxInfo list res \<times> 's" where
  "ListInactiveSandboxes_redis b rs before limit s =
     (if limit \<le> 0 then (Inr [], s)
      else
        (case be_exec b s
           (ZRANGEBYSCORE (lastActivityIndexKey rs) (Unix before) (nat limit) True) of (r, s') \<Rightarrow>
           (case r of
              RZs zsc \<Rightarrow>
                (case loadSandboxesBySessionIDs_redis b rs (map fst zsc) s' of
                   (Inl e, s'') \<Rightarrow> (Inl e, s'')
                 | (Inr sandboxes, s'') \<Rightarrow>
                     (Inr (map (with_activity (scores_of zsc)) sandboxes), s''))
            | RErr e \<Rightarrow>
                (Inl (ErrWrap ''ListInactiveSandboxes: ZRangeByScoreWithScores failed'' e), s')
            | _ \<Rightarrow> (Inl (ErrMsg ''ListInactiveSandboxes: ZRangeByScoreWithScores failed''), s'))))"

definition UpdateSessionLastActivity_redis ::
  "'s backend \<Rightarrow> storeKeys \<Rightarrow> string \<Rightarrow> Time \<Rightarrow> 's \<Rightarrow> gerr option \<times> 's" where
  "UpdateSessionLastActivity_redis b rs sessionID at s =
     (if sessionID = [] then (Some (ErrMsg ''UpdateSessionLastActivity: sessionID is empty''), s)
      else
        (let at' = (if IsZero at then be_clock b s else at) in
         case be_exec b s (EVAL_touch (sessionKey rs sessionID) (lastActivityIndexKey rs)
                             sessionID (Unix at')) of (r, s') \<Rightarrow>
           (case r of
              RInt res \<Rightarrow> (if res = 0 then (Some (ErrVar StoreErrNotFound), s') else (None, s'))
            | RErr e \<Rightarrow> (Some (ErrWrap
                (''UpdateSessionLastActivity: script execution failed for sessionID '' @
                 sessionID) e), s')
            | _ \<Rightarrow> (Some (ErrMsg ''UpdateSessionLastActivity: unexpected reply type''), s'))))"

definition redisStore :: "'s backend \<Rightarrow> storeKeys \<Rightarrow> 's Store" where
  "redisStore b rs =
     \<lparr>st_Ping = Ping_redis b,
      st_GetSandboxBySessionID = GetSandboxBySessionID_redis b rs,
      st_StoreSandbox = StoreSandbox_redis b rs,
      st_UpdateSandbox = UpdateSandbox_redis b rs,
      st_DeleteSandboxBySessionID = DeleteSandboxBySessionID_redis b rs,
      st_ListExpiredSandboxes = ListExpiredSandboxes_redis b rs,
      st_ListInactiveSandboxes = ListInactiveSandboxes_redis b rs,
      st_UpdateSessionLastActivity = UpdateSessionLastActivity_redis b rs\<rparr>"

subsection \<open>The loading of listed sessions\<close>

lemma collectSandboxes_redis_listed:
  assumes "layout_ok cd ks"
  shows "list_all2 (\<lambda>sid r. (\<exists>e. r = RErr e) \<or> r = fst (kv_step ks (GET (skey sid)))) sids rs \<Longrightarrow>
     collectSandboxes_redis cd (zip sids rs) = Inr xs \<Longrightarrow> xs = List.map_filter (sess cd ks) sids"
proof (induction sids rs arbitrary: xs rule: list_all2_induct)
  case Nil
  then show ?case by (simp add: List.map_filter_simps)
next
  case (Cons sid sids r rs)
  from assms show ?case
    by (rule kv_step_get_cases [of cd ks sid])
      (use Cons in \<open>auto simp: List.map_filter_simps split: sum.splits\<close>)
qed

context kv_backed
begin

lemma loadSandboxesBySessionIDs_redis_listed:
  assumes "loadSandboxesBySessionIDs_redis \<lparr>be_exec = exec, be_codec = cd, be_clock = clock\<rparr>
      sessionKeys sids s = (l, s')" and "layout_ok cd (view s)"
  shows "view s' = view s \<and> (\<forall>xs. l = Inr xs \<longrightarrow> xs = List.map_filter (sess cd (view s)) sids)"
proof (cases "sids = []")
  case True
  then show ?thesis
    using assms by (auto simp: loadSandboxesBySessionIDs_redis_def List.map_filter_simps)
next
  case False
  obtain rs s1 where e: "exec_all exec s (map (\<lambda>sid. GET (skey sid)) sids) = (rs, s1)"
    by fastforce
  have ro: "view s1 = view s"
    "list_all2 (\<lambda>sid r. (\<exists>e. r = RErr e) \<or> r = fst (kv_step (view s) (GET (skey sid)))) sids rs"
    using exec_all_read_only [OF _ e]
    by (auto simp: list_all_iff list_all2_map1 elim: list_all2_mono)
  show ?thesis
    using assms(1) e False ro(1) collectSandboxes_redis_listed [OF assms(2) ro(2)]
    by (auto simp: loadSandboxesBySessionIDs_redis_def split: option.splits if_splits)
qed

end

subsection \<open>The Redis store provides the contract\<close>

text \<open>Each operation of the store, against the laws of a store over the shared layout.\<close>

lemmas redis_ops = redisStore_def GetSandboxBySessionID_redis_def StoreSandbox_redis_def
  UpdateSandbox_redis_def DeleteSandboxBySessionID_redis_def ListExpiredSandboxes_redis_def
  ListInactiveSandboxes_redis_def UpdateSessionLastActivity_redis_def Let_def

sublocale kv_backed \<subseteq> redis: indexed_store exec view cd clock
  "redisStore \<lparr>be_exec = exec, be_codec = cd, be_clock = clock\<rparr> sessionKeys"
proof (unfold_locales, goal_cases)
  case (1 sid s g s')
  then show ?case
    using read_only_view [of "GET (skey sid)" s]
    by (auto simp: redis_ops split: prod.splits reply.splits sum.splits)
next
  case (2 sid s i s')
  obtain r s1 where e: "exec s (GET (skey sid)) = (r, s1)" by fastforce
  from 2(2) show ?case
    by (rule kv_step_get_cases [of cd "view s" sid])
      (use 2 e exec_ok_fst [OF e] in \<open>auto simp: redis_ops split: reply.splits sum.splits\<close>)
next
  case (3 sid s e s')
  obtain r s1 where e: "exec s (GET (skey sid)) = (r, s1)" by fastforce
  from 3(2) show ?case
    by (rule kv_step_get_cases [of cd "view s" sid])
      (use 3 e exec_ok_fst [OF e] exec_foreign [of s "GET (skey sid)"] in
        \<open>auto simp: redis_ops split: reply.splits sum.splits\<close>)
next
  case (4 i s s')
  then show ?case
    by (auto simp: redis_ops store_cmds_def dest!: exec_all_run
        split: prod.splits sum.splits option.splits if_splits simp del: exec_all.simps run_cmds.simps)
next
  case (5 i s r s')
  show ?case
  proof (cases "Marshal cd i")
    case (Inr b)
    then show ?thesis
      using 5 store_cmds_keep [OF Inr, of s]
      by (auto simp: redis_ops store_cmds_def split: prod.splits option.splits if_splits
          simp del: exec_all.simps)
  qed (use 5 in \<open>auto simp: redis_ops\<close>)
next
  case (6 i s s')
  then show ?case
    by (auto simp: redis_ops dest!: exec_ok [THEN sym] split: prod.splits sum.splits reply.splits)
next
  case (7 i s r s')
  then show ?case
    using exec_keeps [OF session_write.setxx]
    by (auto simp: redis_ops keeps_others_def split: prod.splits sum.splits reply.splits)
next
  case (8 sid s s')
  then show ?case
    by (auto simp: redis_ops delete_cmds_def dest!: exec_all_run
        split: prod.splits option.splits simp del: exec_all.simps run_cmds.simps)
next
  case (9 sid s r s')
  then show ?case
    using delete_cmds_keep [of s sid]
    by (auto simp: redis_ops delete_cmds_def split: prod.splits option.splits
        simp del: exec_all.simps)
next
  case (10 sid at s s')
  then show ?case
    using step_touch [OF 10(2,3)]
    by (auto simp: redis_ops dest!: exec_ok split: prod.splits reply.splits if_splits)
next
  case (11 sid at s r s')
  then show ?case
    using step_touch [OF 11(2,3)] step_zadd(1,2) [OF 11(2)]
    by (auto simp: redis_ops dest!: exec_view_cases split: prod.splits reply.splits if_splits)
next
  case (12 before lim s l s')
  obtain r s1 where e: "exec s (ZRANGEBYSCORE expKey (Unix before) (nat lim) False) = (r, s1)"
    by fastforce
  have v: "view s1 = view s"
    using read_only_view [OF _ e] by simp
  show ?case
    using 12 e v exec_ok_fst [OF e] loadSandboxesBySessionIDs_redis_listed [of _ s1]
    by (auto simp: redis_ops listed_def zset_range_def kv_step_range List.map_filter_simps
        comp_def split: if_splits reply.splits)
next
  case (13 before lim s l s')
  obtain r s1 where e: "exec s (ZRANGEBYSCORE actKey (Unix before) (nat lim) True) = (r, s1)"
    by fastforce
  have v: "view s1 = view s"
    using read_only_view [OF _ e] by simp
  show ?case
    using 13 e v exec_ok_fst [OF e] loadSandboxesBySessionIDs_redis_listed [of _ s1]
    by (auto simp: redis_ops listed_def zset_range_def kv_step_range List.map_filter_simps
        comp_def split: if_splits reply.splits prod.splits sum.splits)
qed

end
