(* ===== verification/StoreValkey.thy ===== *)
theory StoreValkey
  imports StoreRedis
begin

text \<open>
  \<open>pkg/store/store_valkey.go\<close>: the Valkey store, operation by operation, the proof that it provides
  the contract of \<open>StoreSpec\<close>, and its agreement with the Redis store.
\<close>

record valkeyOptions =
  vo_InitAddress :: "string list"
  vo_Password :: string
  vo_DisableCache :: bool
  vo_ForceSingleClient :: bool

definition makeValkeyOptions :: "(string \<rightharpoonup> string) \<Rightarrow> valkeyOptions res" where
  "makeValkeyOptions env =
     (let valkeyAddr = Getenv env ''VALKEY_ADDR''; valkeyPassword = Getenv env ''VALKEY_PASSWORD'' in
      if valkeyAddr = [] then Inl (ErrMsg ''missing env var VALKEY_ADDR'')
      else if ToLower (Getenv env ''VALKEY_PASSWORD_REQUIRED'') \<noteq> ''false'' \<and> valkeyPassword = []
      then Inl (ErrMsg ''VALKEY_PASSWORD is required but not set'')
      else Inr
        \<lparr>vo_InitAddress = Split valkeyAddr (CHR '',''),
         vo_Password = valkeyPassword,
         vo_DisableCache = (ParseBool (Getenv env ''VALKEY_DISABLE_CACHE'') = Some True),
         vo_ForceSingleClient = (ParseBool (Getenv env ''VALKEY_FORCE_SINGLE'') = Some True)\<rparr>)"

definition initValkeyStore ::
  "(string \<rightharpoonup> string) \<Rightarrow> (valkeyOptions \<Rightarrow> gerr option) \<Rightarrow> (valkeyOptions \<times> storeKeys) res" where
  "initValkeyStore env newClient =
     (case makeValkeyOptions env of
        Inl e \<Rightarrow> Inl (ErrWrap ''make valkey client options failed'' e)
      | Inr opts \<Rightarrow>
          (case newClient opts of
             Some e \<Rightarrow> Inl (ErrWrap ''create valkey client failed'' e)
           | None \<Rightarrow> Inr (opts, sessionKeys)))"

subsection \<open>Operations\<close>

text \<open>The loop over the strings of an \<open>MGET\<close> reply; a missing key is an empty string.\<close>

fun collectSandboxes_valkey :: "codec \<Rightarrow> string list \<Rightarrow> SandboxInfo list res" where
  "collectSandboxes_valkey cd [] = Inr []"
| "collectSandboxes_valkey cd (obj # rest) =
     (if obj = [] then collectSandboxes_valkey cd rest
      else
        (case Unmarshal cd obj of
           Inl e \<Rightarrow> Inl (ErrWrap ''unmarshal sandbox failed'' e)
         | Inr i \<Rightarrow>
             (case collectSandboxes_valkey cd rest of Inl e \<Rightarrow> Inl e | Inr is \<Rightarrow> Inr (i # is))))"

definition loadSandboxesBySessionIDs_valkey ::
  "'s backend \<Rightarrow> storeKeys \<Rightarrow> string list \<Rightarrow> 's \<Rightarrow> SandboxInfo list res \<times> 's" where
  "loadSandboxesBySessionIDs_valkey b vs sessionIDs s =
     (if sessionIDs = [] then (Inr [], s)
      else
        (let sessionIDKeys = map (sessionKey vs) sessionIDs in
         case be_exec b s (MGET sessionIDKeys) of (r, s') \<Rightarrow>
           (case r of
              RStrs objs \<Rightarrow>
                (let res = map (case_option [] id) objs in
                 if length res > length sessionIDKeys
                 then (Inl (ErrMsg ''unexpected MGet result size''), s')
                 else (collectSandboxes_valkey (be_codec b) res, s'))
            | RErr e \<Rightarrow>
                (Inl (ErrWrap ''loadSandboxesBySessionIDs: Valkey MGet sandboxes failed'' e), s')
            | _ \<Rightarrow> (Inl (ErrMsg ''loadSandboxesBySessionIDs: Valkey MGet sandboxes failed''), s'))))"

definition Ping_valkey :: "'s backend \<Rightarrow> 's \<Rightarrow> gerr option \<times> 's" where
  "Ping_valkey b s =
     (case be_exec b s PING of (r, s') \<Rightarrow>
        (case r of
           RErr e \<Rightarrow> (Some (ErrWrap ''ping error'' e), s')
         | RStatus resp \<Rightarrow>
             (if resp \<noteq> ''PONG'' then (Some (ErrMsg (''unexpected ping response: '' @ resp)), s')
              else (None, s'))
         | _ \<Rightarrow> (Some (ErrMsg ''ping error: unexpected reply type''), s')))"

definition GetSandboxBySessionID_valkey ::
  "'s backend \<Rightarrow> storeKeys \<Rightarrow> string \<Rightarrow> 's \<Rightarrow> SandboxInfo res \<times> 's" where
  "GetSandboxBySessionID_valkey b vs sessionID s =
     (let key = sessionKey vs sessionID in
      case be_exec b s (GET key) of (r, s') \<Rightarrow>
        (case r of
           RNil \<Rightarrow> (Inl (ErrVar StoreErrNotFound), s')
         | RErr e \<Rightarrow> (Inl (ErrWrap (''GetSandboxBySessionID: valkey GET '' @ key) e), s')
         | RBulk data \<Rightarrow>
             (case Unmarshal (be_codec b) data of
                Inl e \<Rightarrow> (Inl (ErrWrap ''GetSandboxBySessionID: unmarshal sandbox failed'' e), s')
              | Inr i \<Rightarrow> (Inr i, s'))
         | _ \<Rightarrow> (Inl (ErrMsg (''GetSandboxBySessionID: valkey GET '' @ key)), s')))"

definition StoreSandbox_valkey ::
  "'s backend \<Rightarrow> storeKeys \<Rightarrow> SandboxInfo option \<Rightarrow> 's \<Rightarrow> gerr option \<times> 's" where
  "StoreSandbox_valkey b vs sandboxStore s =
     (case sandboxStore of
        None \<Rightarrow> (Some (ErrMsg ''StoreSandbox: sandbox is nil''), s)
      | Some sb \<Rightarrow>
          if IsZero (si_ExpiresAt sb)
          then (Some (ErrMsg ''StoreSandbox: sandbox expires time is zero''), s)
          else
            (case Marshal (be_codec b) sb of
               Inl e \<Rightarrow> (Some (ErrWrap ''StoreSandbox: marshal sandbox'' e), s)
             | Inr data \<Rightarrow>
                 (case exec_all (be_exec b) s
                    [SETNX (sessionKey vs (si_SessionID sb)) data,
                     ZADD (expiryIndexKey vs) (Unix (si_ExpiresAt sb)) (si_SessionID sb),
                     ZADD (lastActivityIndexKey vs) (Unix (be_clock b s)) (si_SessionID sb)] of
                    (replies, s') \<Rightarrow>
                      (case first_err replies of
                         Some e \<Rightarrow> (Some (ErrWrap ''StoreSandbox: DoMulti failed'' e), s')
                       | None \<Rightarrow> (None, s')))))"

definition UpdateSandbox_valkey ::
  "'s backend \<Rightarrow> storeKeys \<Rightarrow> SandboxInfo option \<Rightarrow> 's \<Rightarrow> gerr option \<times> 's" where
  "UpdateSandbox_valkey b vs sandboxStore s =
     (case sandboxStore of
        None \<Rightarrow> (Some (ErrMsg ''UpdateSandbox: sandbox is nil''), s)
      | Some sb \<Rightarrow>
          (let key = sessionKey vs (si_SessionID sb) in
           case Marshal (be_codec b) sb of
             Inl e \<Rightarrow> (Some (ErrWrap ''UpdateSandbox: marshal sandbox failed'' e), s)
           | Inr data \<Rightarrow>
               (case be_exec b s (SETXX key data) of (r, s') \<Rightarrow>
                  (case r of
                     RErr e \<Rightarrow>
                       (Some (ErrWrap (''UpdateSandbox: valkey SETXX '' @ key @ '' failed'') e), s')
                   | RStatus msg \<Rightarrow>
                       (if msg \<noteq> ''OK'' then (Some (ErrMsg
                          (''UpdateSandbox: valkey SETXX '' @ key @ '', key not exists'')), s')
                        else (None, s'))
                   | RNil \<Rightarrow> (Some (ErrMsg
                       (''UpdateSandbox: valkey SETXX '' @ key @ '', key not exists'')), s')
                   | _ \<Rightarrow> (Some (ErrMsg
                       (''UpdateSandbox: valkey SETXX '' @ key @ '' failed'')), s')))))"

definition DeleteSandboxBySessionID_valkey ::
  "'s backend \<Rightarrow> storeKeys \<Rightarrow> string \<Rightarrow> 's \<Rightarrow> gerr option \<times> 's" where
  "DeleteSandboxBySessionID_valkey b vs sessionID s =
     (case exec_all (be_exec b) s
        [DEL (sessionKey vs sessionID), ZREM (expiryIndexKey vs) sessionID,
         ZREM (lastActivityIndexKey vs) sessionID] of
        (replies, s') \<Rightarrow>
          (case first_err replies of
             Some e \<Rightarrow> (Some (ErrWrap ''DeleteSandboxBySessionID: DoMulti failed'' e), s')
           | None \<Rightarrow> (None, s')))"

definition ListExpiredSandboxes_valkey ::
  "'s backend \<Rightarrow> storeKeys \<Rightarrow> Time \<Rightarrow> int \<Rightarrow> 's \<Rightarrow> SandboxInfo list res \<times> 's" where
  "ListExpiredSandboxes_valkey b vs before limit s =
     (if limit \<le> 0 then (Inr [], s)
      else
        (case be_exec b s
           (ZRANGEBYSCORE (expiryIndexKey vs) (Unix before) (nat limit) False) of (r, s') \<Rightarrow>
           (case r of
              RStrs ids \<Rightarrow> loadSandboxesBySessionIDs_valkey b vs (map (case_option [] id) ids) s'
            | RErr e \<Rightarrow> (Inl (ErrWrap ''ListExpiredSandboxes: ZRangeByScore failed'' e), s')
            | _ \<Rightarrow> (Inl (ErrMsg ''ListExpiredSandboxes: ZRangeByScore failed''), s'))))"

definition ListInactiveSandboxes_valkey ::
  "'s backend \<Rightarrow> storeKeys \<Rightarrow> Time \<Rightarrow> int \<Rightarrow> 's \<Rightarrow> SandboxInfo list res \<times> 's" where
  "ListInactiveSandboxes_valkey b vs before limit s =
     (if limit \<le> 0 then (Inr [], s)
      else
        (case be_exec b s
           (ZRANGEBYSCORE (lastActivityIndexKey vs) (Unix before) (nat limit) True) of (r, s') \<Rightarrow>
           (case r of
              RZs zscores \<Rightarrow>
                (case loadSandboxesBySessionIDs_valkey b vs (map fst zscores) s' of
                   (Inl e, s'') \<Rightarrow> (Inl e, s'')
                 | (Inr sandboxes, s'') \<Rightarrow>
                     (Inr (map (with_activity (scores_of zscores)) sandboxes), s''))
            | RErr e \<Rightarrow>
                (Inl (ErrWrap ''ListInactiveSandboxes: ZRangeByScore WITHSCORES failed'' e), s')
            | _ \<Rightarrow> (Inl (ErrMsg ''ListInactiveSandboxes: ZRangeByScore WITHSCORES failed''), s'))))"

text \<open>Two commands, not one script: the server may serve another client between them.\<close>

definition UpdateSessionLastActivity_valkey ::
  "'s backend \<Rightarrow> storeKeys \<Rightarrow> string \<Rightarrow> Time \<Rightarrow> 's \<Rightarrow> gerr option \<times> 's" where
  "UpdateSessionLastActivity_valkey b vs sessionID at s =
     (if sessionID = [] then (Some (ErrMsg ''UpdateSessionLastActivity: sessionID is empty''), s)
      else
        (let at' = (if IsZero at then be_clock b s else at) in
         case be_exec b s (EXISTS (sessionKey vs sessionID)) of (r, s1) \<Rightarrow>
           (case r of
              RErr e \<Rightarrow> (Some (ErrWrap ''UpdateSessionLastActivity: valkey Exists failed'' e), s1)
            | RInt existsResult \<Rightarrow>
                (if existsResult \<noteq> 1 then (Some (ErrVar StoreErrNotFound), s1)
                 else
                   (case be_exec b s1 (ZADD (lastActivityIndexKey vs) (Unix at') sessionID) of
                      (r2, s2) \<Rightarrow>
                        (case reply_err r2 of
                           Some e \<Rightarrow>
                             (Some (ErrWrap ''UpdateSessionLastActivity: ZADD failed'' e), s2)
                         | None \<Rightarrow> (None, s2))))
            | _ \<Rightarrow> (Some (ErrMsg ''UpdateSessionLastActivity: valkey Exists failed''), s1))))"

definition valkeyStore :: "'s backend \<Rightarrow> storeKeys \<Rightarrow> 's Store" where
  "valkeyStore b vs =
     \<lparr>st_Ping = Ping_valkey b,
      st_GetSandboxBySessionID = GetSandboxBySessionID_valkey b vs,
      st_StoreSandbox = StoreSandbox_valkey b vs,
      st_UpdateSandbox = UpdateSandbox_valkey b vs,
      st_DeleteSandboxBySessionID = DeleteSandboxBySessionID_valkey b vs,
      st_ListExpiredSandboxes = ListExpiredSandboxes_valkey b vs,
      st_ListInactiveSandboxes = ListInactiveSandboxes_valkey b vs,
      st_UpdateSessionLastActivity = UpdateSessionLastActivity_valkey b vs\<rparr>"

subsection \<open>The choice of the store (\<open>singleton.go\<close>)\<close>

datatype provider =
    RedisProvider redisOptions storeKeys
  | ValkeyProvider valkeyOptions storeKeys

definition initStore ::
  "(string \<rightharpoonup> string) \<Rightarrow> (valkeyOptions \<Rightarrow> gerr option) \<Rightarrow> provider res" where
  "initStore env newClient =
     (let providerType = ToLower (case env ''STORE_TYPE'' of None \<Rightarrow> ''redis'' | Some t \<Rightarrow> t) in
      if providerType = ''redis'' then
        (case initRedisStore env of
           Inl e \<Rightarrow> Inl (ErrWrap ''init redis store failed'' e)
         | Inr (opts, ks) \<Rightarrow> Inr (RedisProvider opts ks))
      else if providerType = ''valkey'' then
        (case initValkeyStore env newClient of
           Inl e \<Rightarrow> Inl (ErrWrap ''init valkey store failed'' e)
         | Inr (opts, ks) \<Rightarrow> Inr (ValkeyProvider opts ks))
      else Inl (ErrMsg (''unsupported provider type: '' @ providerType)))"

text \<open>
  \<open>Storage\<close> runs \<open>initStore\<close> at most once.  The state is the provider once it is there; the error
  is the one the process exits with.
\<close>

definition Storage ::
  "(string \<rightharpoonup> string) \<Rightarrow> (valkeyOptions \<Rightarrow> gerr option) \<Rightarrow> provider option \<Rightarrow>
   provider res \<times> provider option" where
  "Storage env newClient once =
     (case once of
        Some p \<Rightarrow> (Inr p, once)
      | None \<Rightarrow>
          (case initStore env newClient of
             Inl e \<Rightarrow> (Inl (ErrWrap ''init store failed'' e), None)
           | Inr p \<Rightarrow> (Inr p, Some p)))"

subsection \<open>The loading of listed sessions\<close>

lemma collectSandboxes_valkey_listed:
  assumes "layout_ok cd ks"
  shows "collectSandboxes_valkey cd (map (case_option [] id)
       (map (\<lambda>k. case ks k of Some (VStr v) \<Rightarrow> Some v | _ \<Rightarrow> None) (map skey sids))) = Inr xs \<Longrightarrow>
     xs = List.map_filter (sess cd ks) sids"
proof (induction sids arbitrary: xs)
  case Nil
  then show ?case by (simp add: List.map_filter_simps)
next
  case (Cons sid sids)
  show ?case
  proof (cases "safe_sid sid")
    case True
    with assms show ?thesis
      by (rule layout_session_cases)
        (use Cons in \<open>auto simp: List.map_filter_simps split: sum.splits if_splits\<close>)
  next
    case False
    then have "skey sid \<in> {expKey, actKey}"
      by (auto simp: safe_sid_def skey_def expKey_def actKey_def)
    from layout_index [OF assms this] False show ?thesis
      using Cons by (auto simp: List.map_filter_simps sess_def split: sum.splits if_splits)
  qed
qed

context kv_backed
begin

lemma loadSandboxesBySessionIDs_valkey_listed:
  assumes "loadSandboxesBySessionIDs_valkey \<lparr>be_exec = exec, be_codec = cd, be_clock = clock\<rparr>
      sessionKeys sids s = (l, s')" and "layout_ok cd (view s)"
  shows "view s' = view s \<and> (\<forall>xs. l = Inr xs \<longrightarrow> xs = List.map_filter (sess cd (view s)) sids)"
proof (cases "sids = []")
  case True
  then show ?thesis
    using assms by (auto simp: loadSandboxesBySessionIDs_valkey_def List.map_filter_simps)
next
  case False
  obtain r s1 where e: "exec s (MGET (map skey sids)) = (r, s1)"
    by fastforce
  have m: "map (sessionKey sessionKeys) sids = map skey sids"
    by simp
  show ?thesis
    using assms(1) False e read_only_view [OF _ e] exec_ok_fst [OF e]
      collectSandboxes_valkey_listed [OF assms(2), of sids]
    by (auto simp: loadSandboxesBySessionIDs_valkey_def m kv_step_def Let_def simp del: map_map
        split: if_splits reply.splits)
qed

end

subsection \<open>The Valkey store provides the contract\<close>

lemmas valkey_ops = valkeyStore_def GetSandboxBySessionID_valkey_def StoreSandbox_valkey_def
  UpdateSandbox_valkey_def DeleteSandboxBySessionID_valkey_def ListExpiredSandboxes_valkey_def
  ListInactiveSandboxes_valkey_def UpdateSessionLastActivity_valkey_def Let_def

sublocale kv_backed \<subseteq> valkey: indexed_store exec view cd clock
  "valkeyStore \<lparr>be_exec = exec, be_codec = cd, be_clock = clock\<rparr> sessionKeys"
proof (unfold_locales, goal_cases)
  case (1 sid s g s')
  then show ?case
    using read_only_view [of "GET (skey sid)" s]
    by (auto simp: valkey_ops split: prod.splits reply.splits sum.splits)
next
  case (2 sid s i s')
  obtain r s1 where e: "exec s (GET (skey sid)) = (r, s1)" by fastforce
  from 2(2) show ?case
    by (rule kv_step_get_cases [of cd "view s" sid])
      (use 2 e exec_ok_fst [OF e] in \<open>auto simp: valkey_ops split: reply.splits sum.splits\<close>)
next
  case (3 sid s e s')
  obtain r s1 where e: "exec s (GET (skey sid)) = (r, s1)" by fastforce
  from 3(2) show ?case
    by (rule kv_step_get_cases [of cd "view s" sid])
      (use 3 e exec_ok_fst [OF e] exec_foreign [of s "GET (skey sid)"] in
        \<open>auto simp: valkey_ops split: reply.splits sum.splits\<close>)
next
  case (4 i s s')
  then show ?case
    by (auto simp: valkey_ops store_cmds_def dest!: exec_all_run
        split: prod.splits sum.splits option.splits if_splits simp del: exec_all.simps run_cmds.simps)
next
  case (5 i s r s')
  show ?case
  proof (cases "Marshal cd i")
    case (Inr b)
    then show ?thesis
      using 5 store_cmds_keep [OF Inr, of s]
      by (auto simp: valkey_ops store_cmds_def split: prod.splits option.splits if_splits
          simp del: exec_all.simps)
  qed (use 5 in \<open>auto simp: valkey_ops split: if_splits\<close>)
next
  case (6 i s s')
  then show ?case
    by (auto simp: valkey_ops dest!: exec_ok [THEN sym]
        split: prod.splits sum.splits reply.splits if_splits)
next
  case (7 i s r s')
  then show ?case
    using exec_keeps [OF session_write.setxx]
    by (auto simp: valkey_ops keeps_others_def split: prod.splits sum.splits reply.splits if_splits)
next
  case (8 sid s s')
  then show ?case
    by (auto simp: valkey_ops delete_cmds_def dest!: exec_all_run
        split: prod.splits option.splits simp del: exec_all.simps run_cmds.simps)
next
  case (9 sid s r s')
  then show ?case
    using delete_cmds_keep [of s sid]
    by (auto simp: valkey_ops delete_cmds_def split: prod.splits option.splits
        simp del: exec_all.simps)
next
  case (10 sid at s s')
  obtain r s1 where e: "exec s (EXISTS (skey sid)) = (r, s1)" by fastforce
  have "r = RInt 1 \<Longrightarrow> sess cd (view s) sid \<noteq> None"
    using exec_ok_fst [OF e] sess_None_iff [OF 10(2,3)] by (simp add: kv_step_def split: if_splits)
  moreover have "view s2 = snd (kv_step (view s1) c)"
    if "exec s1 c = (r2, s2)" "reply_err r2 = None" for c r2 s2
    using exec_ok_snd [OF that(1)] reply_err_None [OF that(2)] by simp
  ultimately show ?case
    using 10 e read_only_view [OF _ e]
    by (auto simp: valkey_ops split: prod.splits reply.splits if_splits option.splits)
next
  case (11 sid at s r s')
  obtain r1 s1 where e: "exec s (EXISTS (skey sid)) = (r1, s1)" by fastforce
  show ?case
    using 11 e read_only_view [OF _ e] step_zadd(1,2) [OF 11(2), of actKey]
    by (auto simp: valkey_ops dest!: exec_view_cases
        split: prod.splits reply.splits if_splits option.splits)
next
  case (12 before lim s l s')
  obtain r s1 where e: "exec s (ZRANGEBYSCORE expKey (Unix before) (nat lim) False) = (r, s1)"
    by fastforce
  have v: "view s1 = view s"
    using read_only_view [OF _ e] by simp
  show ?case
    using 12 e v exec_ok_fst [OF e] loadSandboxesBySessionIDs_valkey_listed [of _ s1]
    by (auto simp: valkey_ops listed_def zset_range_def kv_step_range List.map_filter_simps
        comp_def split: if_splits reply.splits)
next
  case (13 before lim s l s')
  obtain r s1 where e: "exec s (ZRANGEBYSCORE actKey (Unix before) (nat lim) True) = (r, s1)"
    by fastforce
  have v: "view s1 = view s"
    using read_only_view [OF _ e] by simp
  show ?case
    using 13 e v exec_ok_fst [OF e] loadSandboxesBySessionIDs_valkey_listed [of _ s1]
    by (auto simp: valkey_ops listed_def zset_range_def kv_step_range List.map_filter_simps
        comp_def split: if_splits reply.splits prod.splits sum.splits)
qed

context kv_backed
begin

lemmas redis_contract = redis.contract.session_store_axioms
lemmas valkey_contract = valkey.contract.session_store_axioms

end

end
