(* ===== verification/GoTime.thy ===== *)
theory GoTime
  imports Types
begin

text \<open>
  The text form of a \<open>time.Time\<close> in JSON (\<open>MarshalJSON\<close> and \<open>UnmarshalJSON\<close>, RFC 3339 with
  nanoseconds, in UTC): the calendar arithmetic of package \<open>time\<close>, the digits of each field, and the
  round trip.
\<close>

subsection \<open>Days and dates\<close>

text \<open>
  As in package \<open>time\<close>, the days since 1 January of the year 1 are cut into cycles of 400, 100, 4
  and 1 years; the last cycle of 100 years and the last year of a cycle of 4 are one day longer.
\<close>

definition isLeap :: "int \<Rightarrow> bool" where
  "isLeap y \<longleftrightarrow> y mod 4 = 0 \<and> (y mod 100 \<noteq> 0 \<or> y mod 400 = 0)"

definition yearDay :: "int \<Rightarrow> int \<times> int" where
  "yearDay d =
     (let a = d div 146097; d1 = d mod 146097;
          b = min 3 (d1 div 36524); d2 = d1 - 36524 * b;
          c = d2 div 1461; d3 = d2 mod 1461;
          e = min 3 (d3 div 365)
      in (400 * a + 100 * b + 4 * c + e + 1, d3 - 365 * e))"

definition daysTo :: "int \<Rightarrow> int" where
  "daysTo year =
     (let y = year - 1; r = y mod 400 in
      146097 * (y div 400) + 36524 * (r div 100) + 1461 * (r mod 100 div 4) + 365 * (r mod 4))"

definition monthDays :: "bool \<Rightarrow> nat list" where
  "monthDays leap = [31, if leap then 29 else 28, 31, 30, 31, 30, 31, 31, 30, 31, 30, 31]"

text \<open>Month and day, both from 1, of a day of the year, and back.\<close>

fun monthOf :: "nat list \<Rightarrow> nat \<Rightarrow> nat \<times> nat" where
  "monthOf [] n = (1, Suc n)"
| "monthOf (l # ls) n =
     (if n < l then (1, Suc n) else (case monthOf ls (n - l) of (m, d) \<Rightarrow> (Suc m, d)))"

definition dayOf :: "nat list \<Rightarrow> nat \<Rightarrow> nat \<Rightarrow> nat" where
  "dayOf ls m d = sum_list (take (m - 1) ls) + (d - 1)"

lemma yearDay_cycles:
  fixes d :: int
  obtains a b c e yd where "yearDay d = (400 * a + 100 * b + 4 * c + e + 1, yd)"
    and "d = 146097 * a + 36524 * b + 1461 * c + 365 * e + yd"
    and "0 \<le> b" "b \<le> 3" "0 \<le> c" "c \<le> 24" "0 \<le> e" "e \<le> 3" "0 \<le> yd" "yd \<le> 365"
    and "yd = 365 \<Longrightarrow> e = 3 \<and> (c \<noteq> 24 \<or> b = 3)"
proof -
  define d1 where "d1 = d mod 146097"
  define b where "b = min 3 (d1 div 36524)"
  define d2 where "d2 = d1 - 36524 * b"
  define c where "c = d2 div 1461"
  define d3 where "d3 = d2 mod 1461"
  define e where "e = min 3 (d3 div 365)"
  have 1: "0 \<le> d1" "d1 \<le> 146096" "d = 146097 * (d div 146097) + d1"
    by (simp_all add: d1_def)
  have 2: "0 \<le> b" "b \<le> 3" "0 \<le> d2" "d2 \<le> 36524" "d2 = 36524 \<Longrightarrow> b = 3"
    using 1(1,2) unfolding b_def d2_def by linarith+
  have "d2 = 1461 * c + d3"
    by (simp add: c_def d3_def)
  with 2(3,4) have 3: "0 \<le> c" "c \<le> 24" "0 \<le> d3" "d3 \<le> 1460" "d2 = 1461 * c + d3"
    unfolding c_def d3_def by linarith+
  have 4: "0 \<le> e" "e \<le> 3" "0 \<le> d3 - 365 * e" "d3 - 365 * e \<le> 365"
    using 3(3,4) unfolding e_def by linarith+
  have "d3 div 365 \<le> 2 \<Longrightarrow> d3 - 365 * (d3 div 365) \<le> 364"
    using 3(3) by linarith
  then have 5: "e = 3" if "d3 - 365 * e = 365"
    using that unfolding e_def by (cases "d3 div 365 \<le> 2") (simp_all add: min_def)
  show thesis
  proof (rule that)
    show "yearDay d = (400 * (d div 146097) + 100 * b + 4 * c + e + 1, d3 - 365 * e)"
      unfolding yearDay_def Let_def e_def d3_def c_def d2_def b_def d1_def by (rule refl)
    show "d = 146097 * (d div 146097) + 36524 * b + 1461 * c + 365 * e + (d3 - 365 * e)"
      using 1(3) 3(5) unfolding d2_def by linarith
    show "e = 3 \<and> (c \<noteq> 24 \<or> b = 3)" if "d3 - 365 * e = 365"
      using 5 [OF that] that 2 3 by auto
  qed (use 2 3 4 in simp_all)
qed

lemma isLeap_cycle: "isLeap (n + 400 * a) = isLeap n"
proof -
  have "(n + 400 * a) mod 4 = n mod 4"
    using mod_mult_self2 [of n 4 "100 * a"] by simp
  moreover have "(n + 400 * a) mod 100 = n mod 100"
    using mod_mult_self2 [of n 100 "4 * a"] by simp
  ultimately show ?thesis
    unfolding isLeap_def mod_mult_self2 by simp
qed

lemma isLeap_first_cycle:
  "\<forall>b \<in> set [0..3]. \<forall>c \<in> set [0..24]. \<forall>e \<in> set [0..3].
     isLeap (100 * b + 4 * c + e + 1) \<longleftrightarrow> e = 3 \<and> (c \<noteq> 24 \<or> b = 3)"
  by code_simp

lemma daysTo_cycles:
  assumes "0 \<le> b" "b \<le> 3" "0 \<le> c" "c \<le> 24" "0 \<le> e" "e \<le> (3 :: int)"
  shows "daysTo (400 * a + 100 * b + 4 * c + e + 1) = 146097 * a + 36524 * b + 1461 * c + 365 * e"
    and "isLeap (400 * a + 100 * b + 4 * c + e + 1) \<longleftrightarrow> e = 3 \<and> (c \<noteq> 24 \<or> b = 3)"
proof -
  define Y where "Y = 400 * a + 100 * b + 4 * c + e"
  have r: "100 * b + 4 * c + e \<in> {0..399}" "4 * c + e \<in> {0..99}"
    using assms by auto
  have "Y div 400 = a"
    using r(1) unfolding Y_def by auto
  then have a: "Y div 400 = a" "Y mod 400 = 100 * b + 4 * c + e"
    unfolding minus_div_mult_eq_mod [symmetric] by (simp_all add: Y_def)
  have b: "(100 * b + 4 * c + e) div 100 = b"
    using r(2) by auto
  have c: "(100 * b + 4 * c + e) mod 100 = 4 * c + e" "(4 * c + e) div 4 = c"
    unfolding minus_div_mult_eq_mod [symmetric] b using assms(5,6) by auto
  have "(e + 4 * (25 * b + c)) mod 4 = e"
    unfolding mod_mult_self2 using assms(5,6) by simp
  then have e: "(100 * b + 4 * c + e) mod 4 = e"
    by (simp only: algebra_simps) simp
  have "daysTo (Y + 1) = 146097 * a + 36524 * b + 1461 * c + 365 * e"
    unfolding daysTo_def Let_def add_diff_cancel_right' a b c e by (rule refl)
  then show "daysTo (400 * a + 100 * b + 4 * c + e + 1) =
      146097 * a + 36524 * b + 1461 * c + 365 * e"
    unfolding Y_def .
  show "isLeap (400 * a + 100 * b + 4 * c + e + 1) \<longleftrightarrow> e = 3 \<and> (c \<noteq> 24 \<or> b = 3)"
  proof -
    have "isLeap (100 * b + 4 * c + e + 1) \<longleftrightarrow> e = 3 \<and> (c \<noteq> 24 \<or> b = 3)"
      using assms by (intro isLeap_first_cycle [rule_format]) (simp_all only: set_upto atLeastAtMost_iff)
    then show ?thesis
      using isLeap_cycle [of "100 * b + 4 * c + e + 1" a] by (simp only: ac_simps)
  qed
qed

lemma daysTo_yearDay:
  "yearDay d = (y, yd) \<Longrightarrow> daysTo y + yd = d \<and> 0 \<le> yd \<and> yd < (if isLeap y then 366 else 365)"
proof (rule yearDay_cycles [of d])
  fix a b c e yd'
  assume y: "yearDay d = (y, yd)" "yearDay d = (400 * a + 100 * b + 4 * c + e + 1, yd')"
    and d: "d = 146097 * a + 36524 * b + 1461 * c + 365 * e + yd'"
    and bounds: "0 \<le> b" "b \<le> 3" "0 \<le> c" "c \<le> 24" "0 \<le> e" "e \<le> 3" "0 \<le> yd'" "yd' \<le> 365"
    and leap: "yd' = 365 \<Longrightarrow> e = 3 \<and> (c \<noteq> 24 \<or> b = 3)"
  note cyc = daysTo_cycles [OF bounds(1-6), of a]
  have "yd' < 365" if "\<not> isLeap y"
    using that cyc(2) y leap bounds(8) by (cases "yd' = 365") auto
  then show ?thesis
    using y d cyc(1) bounds by auto
qed

lemma dayOf_monthOf:
  assumes "n < sum_list ls" and "monthOf ls n = (m, d)"
  shows "dayOf ls m d = n \<and> 1 \<le> m \<and> m \<le> length ls \<and> 1 \<le> d \<and> d \<le> ls ! (m - 1)"
  using assms
proof (induction ls n arbitrary: m d rule: monthOf.induct)
  case (2 l ls n)
  show ?case
  proof (cases "n < l")
    case False
    obtain m' d' where m': "monthOf ls (n - l) = (m', d')" by fastforce
    then have "m = Suc m'" "d = d'" using 2(3) False by auto
    moreover have "n - l < sum_list ls" using 2(2) False by simp
    ultimately show ?thesis
      using 2(1) [OF False _ m'] False by (cases m') (auto simp: dayOf_def)
  qed (use 2 in \<open>auto simp: dayOf_def\<close>)
qed simp

lemma sum_monthDays: "sum_list (monthDays leap) = (if leap then 366 else 365)"
  by (simp add: monthDays_def)

subsection \<open>Digits\<close>

definition digit :: "nat \<Rightarrow> char" where
  "digit n = char_of (48 + n)"

definition digitVal :: "char \<Rightarrow> nat option" where
  "digitVal c = (let n = (of_char c :: nat) in if 48 \<le> n \<and> n \<le> 57 then Some (n - 48) else None)"

text \<open>A number in exactly \<open>w\<close> digits, and the value of a text of digits.\<close>

fun pad :: "nat \<Rightarrow> nat \<Rightarrow> string" where
  "pad 0 n = []"
| "pad (Suc w) n = pad w (n div 10) @ [digit (n mod 10)]"

fun digitsVal :: "nat \<Rightarrow> string \<Rightarrow> nat option" where
  "digitsVal acc [] = Some acc"
| "digitsVal acc (c # cs) =
     (case digitVal c of None \<Rightarrow> None | Some v \<Rightarrow> digitsVal (10 * acc + v) cs)"

lemma digitVal_digit [simp]: "n < 10 \<Longrightarrow> digitVal (digit n) = Some n"
  by (simp add: digitVal_def digit_def Let_def)

lemma length_pad [simp]: "length (pad w n) = w"
  by (induction w arbitrary: n) auto

lemma digitsVal_append:
  "digitsVal acc (xs @ ys) = (case digitsVal acc xs of None \<Rightarrow> None | Some v \<Rightarrow> digitsVal v ys)"
  by (induction xs arbitrary: acc) (auto split: option.splits)

lemma digitsVal_pad: "n < 10 ^ w \<Longrightarrow> digitsVal acc (pad w n) = Some (acc * 10 ^ w + n)"
proof (induction w arbitrary: n acc)
  case (Suc w)
  have "n div 10 < 10 ^ w"
    using Suc.prems by (simp add: less_mult_imp_div_less mult.commute)
  then show ?case
    using Suc.IH by (simp add: digitsVal_append algebra_simps)
qed simp

text \<open>The fraction of a second: nine digits without the zeros at the end.\<close>

definition trimZeros :: "string \<Rightarrow> string" where
  "trimZeros s = rev (dropWhile (\<lambda>c. c = CHR ''0'') (rev s))"

lemma trimZeros_fill:
  "trimZeros s @ replicate (length s - length (trimZeros s)) (CHR ''0'') = s"
proof -
  define n where "n = length (takeWhile (\<lambda>c. c = CHR ''0'') (rev s))"
  have t: "takeWhile (\<lambda>c. c = CHR ''0'') (rev s) = replicate n (CHR ''0'')"
    unfolding n_def by (rule replicate_length_same [symmetric]) (auto dest: set_takeWhileD)
  have "s = rev (takeWhile (\<lambda>c. c = CHR ''0'') (rev s) @ dropWhile (\<lambda>c. c = CHR ''0'') (rev s))"
    by (simp only: takeWhile_dropWhile_id rev_rev_ident)
  then have s: "s = trimZeros s @ replicate n (CHR ''0'')"
    unfolding t trimZeros_def by simp
  then have "length s - length (trimZeros s) = n"
    by (metis add_diff_cancel_left' length_append length_replicate)
  with s show ?thesis
    by simp
qed

subsection \<open>RFC 3339\<close>

definition fracText :: "nat \<Rightarrow> string" where
  "fracText ns = (let f = trimZeros (pad 9 ns) in if f = [] then [] else CHR ''.'' # f)"

definition clockText :: "nat \<Rightarrow> string" where
  "clockText sod =
     pad 2 (sod div 3600) @ [CHR '':''] @ pad 2 (sod mod 3600 div 60) @ [CHR '':''] @
     pad 2 (sod mod 60)"

text \<open>\<open>MarshalJSON\<close> fails on a year that does not have four digits.\<close>

definition fmtTime :: "Time \<Rightarrow> string option" where
  "fmtTime t =
     (let secs = Unix t;
          (year, yd) = yearDay (secs div 86400 + 719162);
          (month, day) = monthOf (monthDays (isLeap year)) (nat yd)
      in if year < 0 \<or> 9999 < year then None
         else Some (pad 4 (nat year) @ [CHR ''-''] @ pad 2 month @ [CHR ''-''] @ pad 2 day @
           [CHR ''T''] @ clockText (nat (secs mod 86400)) @
           fracText (nat (t mod Second)) @ [CHR ''Z'']))"

lemma fmtTime_defined:
  "fst (yearDay (Unix t div 86400 + 719162)) \<in> {0..9999} \<Longrightarrow> fmtTime t \<noteq> None"
  by (auto simp: fmtTime_def Let_def split: prod.splits)

definition field :: "string \<Rightarrow> nat \<Rightarrow> nat \<Rightarrow> nat option" where
  "field s i n = digitsVal 0 (take n (drop i s))"

definition parseFrac :: "string \<Rightarrow> nat option" where
  "parseFrac s =
     (if s = [CHR ''Z''] then Some 0
      else (let f = butlast (tl s) in
        if s \<noteq> [] \<and> hd s = CHR ''.'' \<and> last s = CHR ''Z'' \<and> f \<noteq> [] \<and> length f \<le> 9
        then digitsVal 0 (f @ replicate (9 - length f) (CHR ''0'')) else None))"

text \<open>The reader of such a text, with the range checks of \<open>time.Parse\<close>.\<close>

definition parseTime :: "string \<Rightarrow> Time option" where
  "parseTime s =
     (case (field s 0 4, field s 5 2, field s 8 2, field s 11 2, field s 14 2, field s 17 2,
            parseFrac (drop 19 s)) of
        (Some y, Some mo, Some d, Some h, Some mi, Some sec, Some ns) \<Rightarrow>
          (let ls = monthDays (isLeap (int y)) in
           if s ! 4 = CHR ''-'' \<and> s ! 7 = CHR ''-'' \<and> s ! 10 = CHR ''T'' \<and> s ! 13 = CHR '':'' \<and>
              s ! 16 = CHR '':'' \<and> 1 \<le> mo \<and> mo \<le> 12 \<and> 1 \<le> d \<and> d \<le> ls ! (mo - 1) \<and>
              h < 24 \<and> mi < 60 \<and> sec < 60
           then Some (((daysTo (int y) + int (dayOf ls mo d) - 719162) * 86400 +
               int (h * 3600 + mi * 60 + sec)) * Second + int ns)
           else None)
      | _ \<Rightarrow> None)"

lemma parseFrac_fracText: "ns < 10 ^ 9 \<Longrightarrow> parseFrac (fracText ns @ [CHR ''Z'']) = Some ns"
proof -
  assume ns: "ns < 10 ^ 9"
  define f where "f = trimZeros (pad 9 ns)"
  have fill: "f @ replicate (9 - length f) (CHR ''0'') = pad 9 ns"
    using trimZeros_fill [of "pad 9 ns"] by (simp only: f_def length_pad)
  have "length f \<le> 9"
    using arg_cong [OF fill, of length] by simp
  moreover have v: "digitsVal 0 (pad 9 ns) = Some ns"
    using digitsVal_pad [OF ns, of 0] by simp
  moreover have "ns = 0" if "f = []"
  proof -
    have "pad 9 ns = replicate 9 (CHR ''0'')"
      using fill that by simp
    moreover have "digitsVal 0 (replicate 9 (CHR ''0'')) = Some 0"
      by code_simp
    ultimately show ?thesis
      using v by simp
  qed
  ultimately show ?thesis
    using fill by (auto simp: parseFrac_def fracText_def f_def [symmetric] Let_def)
qed

lemma layout_fields:
  assumes s: "s = pad 4 y @ [CHR ''-''] @ pad 2 mo @ [CHR ''-''] @ pad 2 d @ [CHR ''T''] @
      (pad 2 h @ [CHR '':''] @ pad 2 mi @ [CHR '':''] @ pad 2 sec) @ rest"
    and "y < 10000" "mo < 100" "d < 100" "h < 100" "mi < 100" "sec < 100"
  shows "field s 0 4 = Some y" "field s 5 2 = Some mo" "field s 8 2 = Some d"
    and "field s 11 2 = Some h" "field s 14 2 = Some mi" "field s 17 2 = Some sec"
    and "drop 19 s = rest" "s ! 4 = CHR ''-''" "s ! 7 = CHR ''-''" "s ! 10 = CHR ''T''"
    and "s ! 13 = CHR '':''" "s ! 16 = CHR '':''"
  using assms digitsVal_pad [of _ 4 0] digitsVal_pad [of _ 2 0]
  by (simp_all add: field_def nth_append)

lemma clock_parts:
  assumes "sod < (86400 :: nat)"
  shows "sod div 3600 < 24" "sod mod 3600 div 60 < 60" "sod mod 60 < 60"
    "sod div 3600 * 3600 + sod mod 3600 div 60 * 60 + sod mod 60 = sod"
proof -
  show "sod div 3600 < 24" "sod mod 3600 div 60 < 60"
    using assms by (simp_all add: less_mult_imp_div_less)
  have "sod mod 60 = sod mod 3600 mod 60"
    by (simp add: mod_mod_cancel)
  then show "sod div 3600 * 3600 + sod mod 3600 div 60 * 60 + sod mod 60 = sod"
    by (simp only: add.assoc div_mult_mod_eq)
qed simp

lemma parseTime_fmtTime: "fmtTime t = Some s \<Longrightarrow> parseTime s = Some t"
proof -
  assume fmt: "fmtTime t = Some s"
  define secs where "secs = Unix t"
  define sod where "sod = nat (secs mod 86400)"
  define ns where "ns = nat (t mod Second)"
  obtain y yd where yd: "yearDay (secs div 86400 + 719162) = (y, yd)" by fastforce
  define ls where "ls = monthDays (isLeap y)"
  obtain mo d where mo: "monthOf ls (nat yd) = (mo, d)" by fastforce
  have y: "0 \<le> y" "y \<le> 9999"
    and s: "s = pad 4 (nat y) @ [CHR ''-''] @ pad 2 mo @ [CHR ''-''] @ pad 2 d @ [CHR ''T''] @
      (pad 2 (sod div 3600) @ [CHR '':''] @ pad 2 (sod mod 3600 div 60) @ [CHR '':''] @
       pad 2 (sod mod 60)) @ (fracText ns @ [CHR ''Z''])"
    using fmt yd mo
    by (auto simp: fmtTime_def secs_def [symmetric] ls_def [symmetric] Let_def clockText_def
        sod_def [symmetric] ns_def [symmetric] split: if_splits)
  have day: "daysTo y + yd = secs div 86400 + 719162" "0 \<le> yd" "yd < (if isLeap y then 366 else 365)"
    using daysTo_yearDay [OF yd] by auto
  have "nat yd < sum_list ls"
    using day(2,3) by (auto simp: ls_def sum_monthDays)
  note md = dayOf_monthOf [OF this mo]
  have len: "length ls = 12" and le: "ls ! (mo - 1) \<le> 31"
    using md by (auto simp: ls_def monthDays_def nth_Cons' split: if_splits)
  have sod: "sod < 86400" "int sod = secs mod 86400"
    by (auto simp: sod_def)
  note hms = clock_parts [OF sod(1)]
  have ns: "ns < 10 ^ 9" "int ns = t mod Second" "t = secs * Second + int ns"
    by (auto simp: ns_def secs_def time_defs)
  have small: "nat y < 10000" "mo < 100" "d < 100" "sod div 3600 < 100"
    "sod mod 3600 div 60 < 100" "sod mod 60 < 100"
    using y md len le hms by auto
  note flds = layout_fields [OF s small]
  have "((daysTo y + int (dayOf ls mo d) - 719162) * 86400 +
      int (sod div 3600 * 3600 + sod mod 3600 div 60 * 60 + sod mod 60)) * Second + int ns = t"
    unfolding hms(4) using day md sod(2) ns(3) by simp
  then show ?thesis
    using flds hms(1-3) md len y(1) parseFrac_fracText [OF ns(1)]
    by (simp add: parseTime_def ls_def [symmetric] Let_def)
qed

end
