(* ===== verification/GoJson.thy ===== *)
theory GoJson
  imports StoreSpec GoTime
begin

text \<open>
  Package \<open>encoding/json\<close> for the values the store keeps: strings, arrays, objects, booleans and
  \<open>null\<close> as text, the reader of that text, and the encoder and decoder of \<open>SandboxInfo\<close> with the
  struct tags of \<open>pkg/common/types/sandbox.go\<close>.  It is the instance of the codec the stores are run
  with.  Strings are taken to be valid UTF-8, whose bytes beyond ASCII pass through unchanged.
\<close>

subsection \<open>Strings\<close>

definition hexDigit :: "nat \<Rightarrow> char" where
  "hexDigit n = char_of (if n < 10 then 48 + n else 87 + n)"

definition hexVal :: "char \<Rightarrow> nat option" where
  "hexVal c =
     (let n = (of_char c :: nat) in
      if 48 \<le> n \<and> n \<le> 57 then Some (n - 48)
      else if 97 \<le> n \<and> n \<le> 102 then Some (n - 87)
      else if 65 \<le> n \<and> n \<le> 70 then Some (n - 55) else None)"

text \<open>Quotes, backslashes, control characters and the HTML characters are escaped.\<close>

definition escChar :: "char \<Rightarrow> string" where
  "escChar c =
     (let n = (of_char c :: nat) in
      if n = 0x22 \<or> n = 0x5C then [CHR 0x5C, c]
      else if n = 8 then [CHR 0x5C, CHR ''b''] else if n = 12 then [CHR 0x5C, CHR ''f'']
      else if n = 10 then [CHR 0x5C, CHR ''n''] else if n = 13 then [CHR 0x5C, CHR ''r'']
      else if n = 9 then [CHR 0x5C, CHR ''t'']
      else if n < 32 \<or> n = 0x3C \<or> n = 0x3E \<or> n = 0x26
      then [CHR 0x5C, CHR ''u'', CHR ''0'', CHR ''0'', hexDigit (n div 16), hexDigit (n mod 16)]
      else [c])"

definition strText :: "string \<Rightarrow> string" where
  "strText s = CHR 0x22 # concat (map escChar s) @ [CHR 0x22]"

definition unescChar :: "char \<Rightarrow> char option" where
  "unescChar c =
     (if c \<in> {CHR 0x22, CHR 0x5C, CHR ''/''} then Some c
      else if c = CHR ''b'' then Some (CHR 0x08) else if c = CHR ''f'' then Some (CHR 0x0C)
      else if c = CHR ''n'' then Some (CHR 0x0A) else if c = CHR ''r'' then Some (CHR 0x0D)
      else if c = CHR ''t'' then Some (CHR 0x09) else None)"

text \<open>
  The rest of a string literal after its opening quote; \<open>None\<close> is a syntax error or an escape
  beyond ASCII, which the encoder does not write.
\<close>

fun readStr :: "string \<Rightarrow> (string \<times> string) option" where
  "readStr [] = None"
| "readStr (c # cs) =
     (if c = CHR 0x22 then Some ([], cs)
      else if c \<noteq> CHR 0x5C then
        (if (of_char c :: nat) < 32 then None
         else map_option (\<lambda>(s, rest). (c # s, rest)) (readStr cs))
      else
        (case cs of
           [] \<Rightarrow> None
         | e # cs1 \<Rightarrow>
             if e \<noteq> CHR ''u'' then
               (case unescChar e of
                  None \<Rightarrow> None
                | Some x \<Rightarrow> map_option (\<lambda>(s, rest). (x # s, rest)) (readStr cs1))
             else
               (case cs1 of
                  z1 # z2 # h # l # cs2 \<Rightarrow>
                    (case (hexVal h, hexVal l) of
                       (Some hv, Some lv) \<Rightarrow>
                         if z1 = CHR ''0'' \<and> z2 = CHR ''0'' \<and> 16 * hv + lv < 128
                         then map_option (\<lambda>(s, rest). (char_of (16 * hv + lv) # s, rest)) (readStr cs2)
                         else None
                     | _ \<Rightarrow> None)
                | _ \<Rightarrow> None)))"

declare readStr.simps [simp del]

lemma hexVal_hexDigit: "n < 16 \<Longrightarrow> hexVal (hexDigit n) = Some n"
  by (auto simp: hexVal_def hexDigit_def Let_def)

lemma char_codes:
  "char_of (0x22 :: nat) = CHR 0x22" "char_of (0x5C :: nat) = CHR 0x5C"
  "char_of (8 :: nat) = CHR 0x08" "char_of (12 :: nat) = CHR 0x0C" "char_of (10 :: nat) = CHR 0x0A"
  "char_of (13 :: nat) = CHR 0x0D" "char_of (9 :: nat) = CHR 0x09"
  by code_simp+

lemma readStr_hex:
  assumes "n < 128"
  shows "readStr (CHR 0x5C # CHR ''u'' # CHR ''0'' # CHR ''0'' # hexDigit (n div 16) #
       hexDigit (n mod 16) # cs) = map_option (\<lambda>(s, rest). (char_of n # s, rest)) (readStr cs)"
proof -
  have "n div 16 < 16" "16 * (n div 16) + n mod 16 = n"
    using assms by auto
  then show ?thesis
    using assms by (subst readStr.simps) (simp add: hexVal_hexDigit)
qed

lemma readStr_esc:
  "readStr (escChar c @ cs) = map_option (\<lambda>(s, rest). (c # s, rest)) (readStr cs)"
proof -
  define n where "n = (of_char c :: nat)"
  have c: "c = char_of n"
    by (simp add: n_def)
  consider "n \<in> {0x22, 0x5C, 8, 12, 10, 13, 9}"
    | "n \<notin> {0x22, 0x5C, 8, 12, 10, 13, 9}" "n < 32 \<or> n = 0x3C \<or> n = 0x3E \<or> n = 0x26"
    | "n \<notin> {0x22, 0x5C}" "32 \<le> n" "n \<notin> {0x3C, 0x3E, 0x26}"
    by (cases "n < 32"; cases "n \<in> {0x22, 0x5C, 8, 12, 10, 13, 9}") auto
  then show ?thesis
  proof cases
    case 1
    then have "c \<in> {CHR 0x22, CHR 0x5C, CHR 0x08, CHR 0x0C, CHR 0x0A, CHR 0x0D, CHR 0x09}"
      unfolding c by (auto simp: char_codes)
    then show ?thesis
      by (auto simp: escChar_def unescChar_def readStr.simps)
  next
    case 2
    then have "escChar c = [CHR 0x5C, CHR ''u'', CHR ''0'', CHR ''0'', hexDigit (n div 16),
        hexDigit (n mod 16)]"
      by (auto simp: escChar_def n_def [symmetric] Let_def)
    then show ?thesis
      using 2 readStr_hex [of n cs] c by auto
  next
    case 3
    then have "escChar c = [c]" "c \<noteq> CHR 0x22" "c \<noteq> CHR 0x5C"
      by (auto simp: escChar_def n_def [symmetric] Let_def) (auto simp: n_def)
    then show ?thesis
      using 3 by (simp add: readStr.simps n_def [symmetric])
  qed
qed

lemma readStr_strText: "readStr (concat (map escChar s) @ CHR 0x22 # rest) = Some (s, rest)"
  by (induction s) (simp_all add: readStr_esc, simp add: readStr.simps)

subsection \<open>Values\<close>

datatype json =
    JNull
  | JBool bool
  | JStr string
  | JArr "json list"
  | JObj "(string \<times> json) list"

fun commaSep :: "string list \<Rightarrow> string" where
  "commaSep [] = []"
| "commaSep [x] = x"
| "commaSep (x # y # ys) = x @ CHR '','' # commaSep (y # ys)"

fun jsonText :: "json \<Rightarrow> string" where
  "jsonText JNull = ''null''"
| "jsonText (JBool b) = (if b then ''true'' else ''false'')"
| "jsonText (JStr s) = strText s"
| "jsonText (JArr js) = CHR ''['' # commaSep (map jsonText js) @ '']''"
| "jsonText (JObj kvs) =
     CHR ''{'' # commaSep (map (\<lambda>(k, v). strText k @ CHR '':'' # jsonText v) kvs) @ ''}''"

text \<open>
  The reader of a value, of the elements of an array and of the members of an object.  The fuel
  bounds the depth of the recursion; every call on a text that is well formed uses less of it than
  twice the length of what it reads.
\<close>

fun readVal :: "nat \<Rightarrow> string \<Rightarrow> (json \<times> string) option"
  and readElems :: "nat \<Rightarrow> string \<Rightarrow> (json list \<times> string) option"
  and readMembers :: "nat \<Rightarrow> string \<Rightarrow> ((string \<times> json) list \<times> string) option" where
  "readVal 0 s = None"
| "readVal (Suc n) s =
     (if s = [] then None
      else if hd s = CHR 0x22 then map_option (\<lambda>(x, r). (JStr x, r)) (readStr (tl s))
      else if HasPrefix s ''[]'' then Some (JArr [], drop 2 s)
      else if hd s = CHR ''['' then map_option (\<lambda>(x, r). (JArr x, r)) (readElems n (tl s))
      else if HasPrefix s ''{}'' then Some (JObj [], drop 2 s)
      else if hd s = CHR ''{'' then map_option (\<lambda>(x, r). (JObj x, r)) (readMembers n (tl s))
      else if HasPrefix s ''null'' then Some (JNull, drop 4 s)
      else if HasPrefix s ''true'' then Some (JBool True, drop 4 s)
      else if HasPrefix s ''false'' then Some (JBool False, drop 5 s)
      else None)"
| "readElems 0 s = None"
| "readElems (Suc n) s =
     (case readVal n s of
        None \<Rightarrow> None
      | Some (v, r) \<Rightarrow>
          if r = [] then None
          else if hd r = CHR '']'' then Some ([v], tl r)
          else if hd r = CHR '','' then map_option (\<lambda>(vs, r'). (v # vs, r')) (readElems n (tl r))
          else None)"
| "readMembers 0 s = None"
| "readMembers (Suc n) s =
     (if s = [] \<or> hd s \<noteq> CHR 0x22 then None
      else
        (case readStr (tl s) of
           None \<Rightarrow> None
         | Some (k, r0) \<Rightarrow>
             if r0 = [] \<or> hd r0 \<noteq> CHR '':'' then None
             else
               (case readVal n (tl r0) of
                  None \<Rightarrow> None
                | Some (v, r) \<Rightarrow>
                    if r = [] then None
                    else if hd r = CHR ''}'' then Some ([(k, v)], tl r)
                    else if hd r = CHR '',''
                    then map_option (\<lambda>(vs, r'). ((k, v) # vs, r')) (readMembers n (tl r))
                    else None)))"

lemma jsonText_start: "jsonText j \<noteq> []" "hd (jsonText j) \<notin> {CHR '']'', CHR ''}''}"
  by (cases j; auto simp: strText_def)+

lemma strText_start: "strText s \<noteq> []" "hd (strText s) = CHR 0x22"
  by (simp_all add: strText_def)

declare readVal.simps(2) [simp del] readElems.simps(2) [simp del] readMembers.simps(2) [simp del]

definition reads :: "json \<Rightarrow> bool" where
  "reads j \<longleftrightarrow> (\<forall>n rest. 2 * length (jsonText j) \<le> n \<longrightarrow> readVal n (jsonText j @ rest) = Some (j, rest))"

lemma readsD: "reads j \<Longrightarrow> 2 * length (jsonText j) \<le> n \<Longrightarrow> readVal n (jsonText j @ rest) = Some (j, rest)"
  by (simp add: reads_def)

lemma readElems_text:
  "js \<noteq> [] \<Longrightarrow> (\<And>j. j \<in> set js \<Longrightarrow> reads j) \<Longrightarrow>
   2 * length (commaSep (map jsonText js)) + 1 \<le> n \<Longrightarrow>
     readElems n (commaSep (map jsonText js) @ CHR '']'' # rest) = Some (js, rest)"
proof (induction js arbitrary: n rest rule: induct_list012)
  case (2 j)
  then show ?case by (cases n) (simp_all add: readsD readElems.simps(2))
next
  case (3 j j' js)
  then obtain m where n: "n = Suc m" by (cases n) auto
  have "readVal m (jsonText j @ CHR '','' # commaSep (map jsonText (j' # js)) @ CHR '']'' # rest) =
      Some (j, CHR '','' # commaSep (map jsonText (j' # js)) @ CHR '']'' # rest)"
    using 3(3-5) n by (intro readsD) simp_all
  moreover have "readElems m (commaSep (map jsonText (j' # js)) @ CHR '']'' # rest) =
      Some (j' # js, rest)"
    using 3(4,5) n by (intro 3(2)) simp_all
  ultimately show ?case
    by (simp add: n readElems.simps(2))
qed simp

definition memberText :: "string \<times> json \<Rightarrow> string" where
  "memberText = (\<lambda>(k, v). strText k @ CHR '':'' # jsonText v)"

lemma readMembers_step:
  assumes "reads v" and "2 * length (jsonText v) \<le> m"
  shows "readMembers (Suc m) (memberText (k, v) @ c # r) =
     (if c = CHR ''}'' then Some ([(k, v)], r)
      else if c = CHR '','' then map_option (\<lambda>(vs, r'). ((k, v) # vs, r')) (readMembers m r)
      else None)"
  using readsD [OF assms, of "c # r"]
  by (simp add: memberText_def strText_def readStr_strText readMembers.simps(2))

lemma readMembers_text:
  "kvs \<noteq> [] \<Longrightarrow> (\<And>kv. kv \<in> set kvs \<Longrightarrow> reads (snd kv)) \<Longrightarrow>
   2 * length (commaSep (map memberText kvs)) + 1 \<le> n \<Longrightarrow>
     readMembers n (commaSep (map memberText kvs) @ CHR ''}'' # rest) = Some (kvs, rest)"
proof (induction kvs arbitrary: n rest rule: induct_list012)
  case (2 kv)
  obtain k v where kv: "kv = (k, v)" by fastforce
  from 2 obtain m where n: "n = Suc m" by (cases n) auto
  have "2 * length (jsonText v) \<le> m"
    using 2(3) by (simp add: n kv memberText_def)
  then show ?case
    using readMembers_step [of v m k "CHR ''}''" rest] 2 by (simp add: n kv)
next
  case (3 kv kv' kvs)
  obtain k v where kv: "kv = (k, v)" by fastforce
  from 3(5) obtain m where n: "n = Suc m" by (cases n) auto
  have v: "2 * length (jsonText v) \<le> m"
    using 3(5) by (simp add: n kv memberText_def)
  have "readMembers m (commaSep (map memberText (kv' # kvs)) @ CHR ''}'' # rest) =
      Some (kv' # kvs, rest)"
    using 3(4,5) n by (intro 3(2)) simp_all
  then show ?case
    using readMembers_step [OF _ v, of k "CHR '',''" "commaSep (map memberText (kv' # kvs)) @ CHR ''}'' # rest"]
      3(4) [of kv] by (simp add: n kv)
qed simp

lemma commaSep_Cons: "\<exists>t. commaSep (x # xs) = x @ t"
  by (cases xs) auto

lemma readsI:
  "(\<And>m rest. 2 * length (jsonText j) \<le> Suc m \<Longrightarrow> readVal (Suc m) (jsonText j @ rest) = Some (j, rest)) \<Longrightarrow>
     reads j"
  unfolding reads_def using jsonText_start(1) [of j]
  by (metis Suc_pred length_greater_0_conv less_le_trans nat_0_less_mult_iff zero_less_numeral)

lemma reads_all: "reads j"
proof (induction j)
  case (JArr js)
  show ?case
  proof (cases js)
    case Nil
    then show ?thesis by (intro readsI) (simp add: readVal.simps(2) HasPrefix_def)
  next
    case (Cons j js')
    obtain t where t: "commaSep (map jsonText js) = jsonText j @ t"
      using commaSep_Cons [of "jsonText j" "map jsonText js'"] Cons by auto
    have "\<not> HasPrefix (jsonText (JArr js) @ rest) ''[]''" for rest
      using jsonText_start [of j] by (cases "jsonText j") (auto simp: HasPrefix_def t)
    moreover have "readElems m (commaSep (map jsonText js) @ CHR '']'' # rest) = Some (js, rest)"
      if "2 * length (jsonText (JArr js)) \<le> Suc m" for m rest
      using that Cons JArr by (intro readElems_text) simp_all
    ultimately show ?thesis
      by (intro readsI) (simp add: readVal.simps(2))
  qed
next
  case (JObj kvs)
  have obj: "jsonText (JObj kvs) = CHR ''{'' # commaSep (map memberText kvs) @ ''}''"
    by (simp add: memberText_def)
  show ?case
  proof (cases kvs)
    case Nil
    then show ?thesis by (intro readsI) (simp add: readVal.simps(2) HasPrefix_def)
  next
    case (Cons kv kvs')
    obtain t where t: "commaSep (map memberText kvs) = memberText kv @ t"
      using commaSep_Cons [of "memberText kv" "map memberText kvs'"] Cons by auto
    have "\<not> HasPrefix (jsonText (JObj kvs) @ rest) ''{}''" for rest
      unfolding obj t by (cases kv) (auto simp: HasPrefix_def memberText_def strText_def)
    moreover have "\<not> HasPrefix (jsonText (JObj kvs) @ rest) ''[]''" for rest
      unfolding obj by (simp add: HasPrefix_def)
    moreover have "readMembers m (commaSep (map memberText kvs) @ CHR ''}'' # rest) = Some (kvs, rest)"
      if "2 * length (jsonText (JObj kvs)) \<le> Suc m" for m rest
      using that Cons JObj unfolding obj
      by (intro readMembers_text) (auto simp: snds.simps intro: JObj)
    ultimately show ?thesis
      by (intro readsI) (simp add: readVal.simps(2) obj del: jsonText.simps)
  qed
qed (intro readsI; simp add: readVal.simps(2) HasPrefix_def strText_def readStr_strText)+

lemmas readVal_text = readsD [OF reads_all]

subsection \<open>\<open>SandboxInfo\<close> as JSON\<close>

text \<open>
  \<open>metav1.Duration\<close>, which is not part of the repository, writes and reads the text of a duration;
  the two functions are arguments.  A nil slice is \<open>null\<close>; the model has one empty list.
\<close>

definition entryPointJson :: "SandboxEntryPoint \<Rightarrow> json" where
  "entryPointJson ep =
     JObj [(''path'', JStr (ep_Path ep)), (''protocol'', JStr (ep_Protocol ep)),
           (''endpoint'', JStr (ep_Endpoint ep))]"

definition sandboxJson :: "(Duration \<Rightarrow> string) \<Rightarrow> SandboxInfo \<Rightarrow> json res" where
  "sandboxJson durText i =
     (case (fmtTime (si_CreatedAt i), fmtTime (si_ExpiresAt i)) of
        (Some created, Some expires) \<Rightarrow>
          Inr (JObj (
            [(''kind'', JStr (si_Kind i)),
             (''sandboxId'', JStr (si_SandboxID i)),
             (''sandboxNamespace'', JStr (si_SandboxNamespace i)),
             (''name'', JStr (si_Name i)),
             (''entryPoints'',
               if si_EntryPoints i = [] then JNull else JArr (map entryPointJson (si_EntryPoints i))),
             (''sessionId'', JStr (si_SessionID i))] @
            (if si_OwnerID i = [] then [] else [(''ownerId'', JStr (si_OwnerID i))]) @
            [(''createdAt'', JStr created),
             (''expiresAt'', JStr expires),
             (''idleTimeout'', JStr (durText (si_IdleTimeout i))),
             (''status'', JStr (si_Status i))]))
      | _ \<Rightarrow> Inl (ErrMsg ''Time.MarshalJSON: year outside of range [0,9999]''))"

text \<open>The fields a key names; keys match without regard to case.\<close>

datatype sandboxField =
    FKind | FSandboxID | FNamespace | FName | FEntryPoints | FSessionID | FOwnerID | FCreatedAt
  | FExpiresAt | FIdleTimeout | FStatus

definition fieldNames :: "(string \<times> sandboxField) list" where
  "fieldNames =
     [(''kind'', FKind), (''sandboxid'', FSandboxID), (''sandboxnamespace'', FNamespace),
      (''name'', FName), (''entrypoints'', FEntryPoints), (''sessionid'', FSessionID),
      (''ownerid'', FOwnerID), (''createdat'', FCreatedAt), (''expiresat'', FExpiresAt),
      (''idletimeout'', FIdleTimeout), (''status'', FStatus)]"

definition fieldOf :: "string \<Rightarrow> sandboxField option" where
  "fieldOf k = map_of fieldNames (ToLower k)"

definition typeErr :: gerr where
  "typeErr = ErrMsg ''json: cannot unmarshal value''"

text \<open>A string field keeps its value on \<open>null\<close>.\<close>

fun intoStr :: "json \<Rightarrow> string \<Rightarrow> string res" where
  "intoStr (JStr s) old = Inr s"
| "intoStr JNull old = Inr old"
| "intoStr _ old = Inl typeErr"

fun intoTime :: "json \<Rightarrow> Time \<Rightarrow> Time res" where
  "intoTime (JStr s) old =
     (case parseTime s of None \<Rightarrow> Inl (ErrMsg ''parsing time'') | Some t \<Rightarrow> Inr t)"
| "intoTime JNull old = Inr old"
| "intoTime _ old = Inl (ErrMsg ''Time.UnmarshalJSON: input is not a JSON string'')"

fun intoDuration :: "(string \<Rightarrow> Duration option) \<Rightarrow> json \<Rightarrow> Duration res" where
  "intoDuration durParse (JStr s) =
     (case durParse s of None \<Rightarrow> Inl (ErrMsg ''time: invalid duration'') | Some d \<Rightarrow> Inr d)"
| "intoDuration durParse JNull =
     (case durParse [] of None \<Rightarrow> Inl (ErrMsg ''time: invalid duration'') | Some d \<Rightarrow> Inr d)"
| "intoDuration durParse _ = Inl typeErr"

fun intoEntryPoint :: "(string \<times> json) list \<Rightarrow> SandboxEntryPoint \<Rightarrow> SandboxEntryPoint res" where
  "intoEntryPoint [] ep = Inr ep"
| "intoEntryPoint ((k, v) # kvs) ep =
     (let set = (\<lambda>old upd. case intoStr v old of Inl e \<Rightarrow> Inl e | Inr s \<Rightarrow> intoEntryPoint kvs (upd s)) in
      if EqualFold k ''path'' then set (ep_Path ep) (\<lambda>s. ep\<lparr>ep_Path := s\<rparr>)
      else if EqualFold k ''protocol'' then set (ep_Protocol ep) (\<lambda>s. ep\<lparr>ep_Protocol := s\<rparr>)
      else if EqualFold k ''endpoint'' then set (ep_Endpoint ep) (\<lambda>s. ep\<lparr>ep_Endpoint := s\<rparr>)
      else intoEntryPoint kvs ep)"

fun intoEntryPoints :: "json list \<Rightarrow> SandboxEntryPoint list res" where
  "intoEntryPoints [] = Inr []"
| "intoEntryPoints (j # js) =
     (let one = (case j of
          JObj kvs \<Rightarrow> intoEntryPoint kvs \<lparr>ep_Path = [], ep_Protocol = [], ep_Endpoint = []\<rparr>
        | JNull \<Rightarrow> Inr \<lparr>ep_Path = [], ep_Protocol = [], ep_Endpoint = []\<rparr>
        | _ \<Rightarrow> Inl typeErr) in
      case (one, intoEntryPoints js) of
        (Inr ep, Inr eps) \<Rightarrow> Inr (ep # eps)
      | (Inl e, _) \<Rightarrow> Inl e
      | (_, Inl e) \<Rightarrow> Inl e)"

definition rmap :: "('a \<Rightarrow> 'b) \<Rightarrow> 'a res \<Rightarrow> 'b res" where
  "rmap f r = (case r of Inl e \<Rightarrow> Inl e | Inr x \<Rightarrow> Inr (f x))"

definition intoField ::
  "(string \<Rightarrow> Duration option) \<Rightarrow> sandboxField \<Rightarrow> json \<Rightarrow> SandboxInfo \<Rightarrow> SandboxInfo res" where
  "intoField durParse f v i =
     (case f of
        FKind \<Rightarrow> rmap (\<lambda>s. i\<lparr>si_Kind := s\<rparr>) (intoStr v (si_Kind i))
      | FSandboxID \<Rightarrow> rmap (\<lambda>s. i\<lparr>si_SandboxID := s\<rparr>) (intoStr v (si_SandboxID i))
      | FNamespace \<Rightarrow> rmap (\<lambda>s. i\<lparr>si_SandboxNamespace := s\<rparr>) (intoStr v (si_SandboxNamespace i))
      | FName \<Rightarrow> rmap (\<lambda>s. i\<lparr>si_Name := s\<rparr>) (intoStr v (si_Name i))
      | FEntryPoints \<Rightarrow>
          (case v of
             JArr js \<Rightarrow> rmap (\<lambda>eps. i\<lparr>si_EntryPoints := eps\<rparr>) (intoEntryPoints js)
           | JNull \<Rightarrow> Inr (i\<lparr>si_EntryPoints := []\<rparr>)
           | _ \<Rightarrow> Inl typeErr)
      | FSessionID \<Rightarrow> rmap (\<lambda>s. i\<lparr>si_SessionID := s\<rparr>) (intoStr v (si_SessionID i))
      | FOwnerID \<Rightarrow> rmap (\<lambda>s. i\<lparr>si_OwnerID := s\<rparr>) (intoStr v (si_OwnerID i))
      | FCreatedAt \<Rightarrow> rmap (\<lambda>t. i\<lparr>si_CreatedAt := t\<rparr>) (intoTime v (si_CreatedAt i))
      | FExpiresAt \<Rightarrow> rmap (\<lambda>t. i\<lparr>si_ExpiresAt := t\<rparr>) (intoTime v (si_ExpiresAt i))
      | FIdleTimeout \<Rightarrow> rmap (\<lambda>d. i\<lparr>si_IdleTimeout := d\<rparr>) (intoDuration durParse v)
      | FStatus \<Rightarrow> rmap (\<lambda>s. i\<lparr>si_Status := s\<rparr>) (intoStr v (si_Status i)))"

text \<open>Members are read in order, unknown ones skipped.\<close>

fun intoSandbox ::
  "(string \<Rightarrow> Duration option) \<Rightarrow> (string \<times> json) list \<Rightarrow> SandboxInfo \<Rightarrow> SandboxInfo res" where
  "intoSandbox durParse [] i = Inr i"
| "intoSandbox durParse ((k, v) # kvs) i =
     (case fieldOf k of
        None \<Rightarrow> intoSandbox durParse kvs i
      | Some f \<Rightarrow>
          (case intoField durParse f v i of
             Inl e \<Rightarrow> Inl e
           | Inr i' \<Rightarrow> intoSandbox durParse kvs i'))"

definition goCodec :: "(Duration \<Rightarrow> string) \<Rightarrow> (string \<Rightarrow> Duration option) \<Rightarrow> codec" where
  "goCodec durText durParse =
     \<lparr>Marshal = (\<lambda>i. rmap jsonText (sandboxJson durText i)),
      Unmarshal = (\<lambda>b.
        case readVal (2 * length b) b of
          Some (JObj kvs, []) \<Rightarrow> intoSandbox durParse kvs zeroSandboxInfo
        | Some (JNull, []) \<Rightarrow> Inr zeroSandboxInfo
        | Some (_, []) \<Rightarrow> Inl typeErr
        | _ \<Rightarrow> Inl (ErrMsg ''invalid character in JSON text''))\<rparr>"

lemma goCodec_marshal:
  "fmtTime (si_CreatedAt i) \<noteq> None \<Longrightarrow> fmtTime (si_ExpiresAt i) \<noteq> None \<Longrightarrow>
     \<exists>b. Marshal (goCodec durText durParse) i = Inr b"
  by (auto simp: goCodec_def sandboxJson_def rmap_def)

lemma fieldOf_simps:
  "fieldOf ''kind'' = Some FKind" "fieldOf ''sandboxId'' = Some FSandboxID"
  "fieldOf ''sandboxNamespace'' = Some FNamespace" "fieldOf ''name'' = Some FName"
  "fieldOf ''entryPoints'' = Some FEntryPoints" "fieldOf ''sessionId'' = Some FSessionID"
  "fieldOf ''ownerId'' = Some FOwnerID" "fieldOf ''createdAt'' = Some FCreatedAt"
  "fieldOf ''expiresAt'' = Some FExpiresAt" "fieldOf ''idleTimeout'' = Some FIdleTimeout"
  "fieldOf ''status'' = Some FStatus"
  by code_simp+

lemma intoEntryPoints_map: "intoEntryPoints (map entryPointJson eps) = Inr eps"
proof (induction eps)
  case (Cons ep eps)
  have "EqualFold ''path'' ''path''" "\<not> EqualFold ''protocol'' ''path''"
    "EqualFold ''protocol'' ''protocol''" "\<not> EqualFold ''endpoint'' ''path''"
    "\<not> EqualFold ''endpoint'' ''protocol''" "EqualFold ''endpoint'' ''endpoint''"
    by code_simp+
  then show ?case
    using Cons by (simp add: entryPointJson_def Let_def)
qed simp

text \<open>What the store relies on of \<open>metav1.Duration\<close>: its text reads back as itself.\<close>

locale duration_text =
  fixes durText :: "Duration \<Rightarrow> string" and durParse :: "string \<Rightarrow> Duration option"
  assumes dur_round_trip: "durParse (durText d) = Some d"
begin

lemma intoSandbox_sandboxJson:
  assumes "sandboxJson durText i = Inr j"
  shows "\<exists>kvs. j = JObj kvs \<and> intoSandbox durParse kvs zeroSandboxInfo = Inr (persisted i)"
proof -
  obtain c e where t: "fmtTime (si_CreatedAt i) = Some c" "fmtTime (si_ExpiresAt i) = Some e"
    using assms by (auto simp: sandboxJson_def split: option.splits)
  show ?thesis
    using assms
    by (auto simp: sandboxJson_def t parseTime_fmtTime [OF t(1)] parseTime_fmtTime [OF t(2)]
        fieldOf_simps intoField_def rmap_def intoEntryPoints_map dur_round_trip zeroSandboxInfo_def
        persisted_def)
qed

lemma goCodec_round_trip:
  "Marshal (goCodec durText durParse) i = Inr b \<Longrightarrow>
     Unmarshal (goCodec durText durParse) b = Inr (persisted i)"
  using intoSandbox_sandboxJson readVal_text [OF order_refl, where rest = "[]"]
  by (fastforce simp: goCodec_def rmap_def split: sum.splits)

end

lemma into_foreign:
  "intoStr v x = Inl e \<Longrightarrow> \<not> errors_Is e StoreErrNotFound"
  "intoTime v t = Inl e \<Longrightarrow> \<not> errors_Is e StoreErrNotFound"
  "intoDuration p v = Inl e \<Longrightarrow> \<not> errors_Is e StoreErrNotFound"
  by (cases v; auto simp: typeErr_def split: option.splits)+

lemma intoEntryPoint_foreign:
  "intoEntryPoint kvs ep = Inl e \<Longrightarrow> \<not> errors_Is e StoreErrNotFound"
  by (induction kvs ep rule: intoEntryPoint.induct)
    (auto simp: Let_def into_foreign split: sum.splits if_splits)

lemma intoEntryPoints_foreign:
  "intoEntryPoints js = Inl e \<Longrightarrow> \<not> errors_Is e StoreErrNotFound"
  by (induction js) (auto simp: typeErr_def intoEntryPoint_foreign split: sum.splits json.splits)

lemma intoSandbox_foreign:
  "intoSandbox p kvs i = Inl e \<Longrightarrow> \<not> errors_Is e StoreErrNotFound"
proof (induction p kvs i rule: intoSandbox.induct)
  case (2 p k v kvs i)
  have "\<not> errors_Is e StoreErrNotFound" if "intoField p f v i = Inl e" for f
    using that into_foreign intoEntryPoints_foreign
    by (auto simp: intoField_def rmap_def typeErr_def
        split: sandboxField.splits sum.splits json.splits)
  with 2 show ?case
    by (auto split: option.splits sum.splits)
qed simp

sublocale duration_text \<subseteq> goJson: json_codec "goCodec durText durParse"
proof
  fix i b e
  show "Marshal (goCodec durText durParse) i = Inr b \<Longrightarrow>
      Unmarshal (goCodec durText durParse) b = Inr (persisted i)"
    by (rule goCodec_round_trip)
  show "Marshal (goCodec durText durParse) i = Inr b \<Longrightarrow> b \<noteq> []"
    using jsonText_start(1) by (auto simp: goCodec_def rmap_def split: sum.splits)
  show "Unmarshal (goCodec durText durParse) b = Inl e \<Longrightarrow> \<not> errors_Is e StoreErrNotFound"
    using intoSandbox_foreign
    by (auto simp: goCodec_def typeErr_def split: option.splits json.splits list.splits)
qed

context duration_text
begin

lemmas goJson_codec = goJson.json_codec_axioms

end

text \<open>A duration in nanoseconds, one of the texts \<open>time.ParseDuration\<close> accepts.\<close>

definition nsText :: "Duration \<Rightarrow> string" where
  "nsText d = Itoa d @ ''ns''"

definition nsParse :: "string \<Rightarrow> Duration option" where
  "nsParse s =
     (let n = take (length s - 2) s in
      if drop (length s - 2) s \<noteq> ''ns'' \<or> n = [] then None
      else if hd n = CHR ''-'' then map_option (\<lambda>v. - int v) (digitsVal 0 (tl n))
      else map_option int (digitsVal 0 n))"

lemma digitsVal_digits_of: "digitsVal 0 (digits_of n) = Some n"
proof (induction n rule: digits_of.induct)
  case (1 n)
  then show ?case
    by (subst digits_of.simps) (auto simp: digitsVal_append digit_def [symmetric])
qed

lemma digits_of_start: "digits_of n \<noteq> [] \<and> hd (digits_of n) \<noteq> CHR ''-''"
proof (induction n rule: digits_of.induct)
  case (1 n)
  have "digit n \<noteq> CHR ''-''" if "n < 10"
    using digitVal_digit [OF that] by (auto simp: digitVal_def)
  with 1 show ?case
    by (auto simp: digits_of.simps [of n] digit_def [symmetric])
qed

interpretation ns: duration_text nsText nsParse
  by unfold_locales
    (use digits_of_start in \<open>auto simp: nsText_def nsParse_def Itoa_def Let_def digitsVal_digits_of\<close>)

end
