(* ===== verification/StoreProps.thy ===== *)
theory StoreProps
  imports StoreValkey GoJson
begin

text \<open>
  The properties of the session store: both implementations provide the contract, they agree with
  each other on a server that answers every command, what is stored can be read back, and the two
  indexes always name exactly the sessions that exist.  The places where the two part are here as
  well.
\<close>

subsection \<open>A server that answers every command\<close>

abbreviation mem_backend :: "codec \<Rightarrow> (keyspace \<Rightarrow> Time) \<Rightarrow> keyspace backend" where
  "mem_backend cd clock \<equiv> \<lparr>be_exec = kv_step, be_codec = cd, be_clock = clock\<rparr>"

sublocale json_codec \<subseteq> mem_store: kv_backed kv_step "\<lambda>ks. ks" cd clock
  for clock :: "keyspace \<Rightarrow> Time"
  by unfold_locales

text \<open>The codec of package \<open>encoding/json\<close>, with durations in nanoseconds.\<close>

abbreviation ns_codec :: codec where
  "ns_codec \<equiv> goCodec nsText nsParse"

lemma exec_all_kv_step: "exec_all kv_step ks cs = (rs, ks') \<Longrightarrow> ks' = run_cmds ks cs"
  by (induction cs arbitrary: ks rs) (auto split: prod.splits)

context json_codec
begin

lemma store_cmds_reliable:
  assumes "layout_ok cd ks" and "safe_sid (si_SessionID i)" and "Marshal cd i = Inr b"
  shows "\<exists>rs. exec_all kv_step ks (store_cmds b now i) = (rs, run_cmds ks (store_cmds b now i)) \<and>
     first_err rs = None \<and> rs \<noteq> []"
proof -
  let ?sid = "si_SessionID i"
  define k1 where "k1 = snd (kv_step ks (SETNX (skey ?sid) b))"
  define k2 where "k2 = snd (kv_step k1 (ZADD expKey (Unix (si_ExpiresAt i)) ?sid))"
  have l1: "layout_ok cd k1"
    using step_setnx(1) [OF assms refl] by (simp add: k1_def)
  have l2: "layout_ok cd k2"
    using step_zadd(1) [OF l1] by (simp add: k2_def)
  obtain n1 where "kv_step ks (SETNX (skey ?sid) b) = (RInt n1, k1)"
    by (cases "ks (skey ?sid) = None") (auto simp: k1_def kv_step_def)
  moreover obtain n2 where "kv_step k1 (ZADD expKey (Unix (si_ExpiresAt i)) ?sid) = (RInt n2, k2)"
    using step_zadd(5) [OF l1, of expKey "Unix (si_ExpiresAt i)" ?sid] by (auto simp: k2_def prod_eq_iff)
  moreover obtain n3 k3 where "kv_step k2 (ZADD actKey (Unix now) ?sid) = (RInt n3, k3)"
    using step_zadd(5) [OF l2, of actKey "Unix now" ?sid] by (auto simp: prod_eq_iff)
  ultimately show ?thesis
    by (simp add: store_cmds_def)
qed

lemma delete_cmds_reliable:
  assumes "layout_ok cd ks" and "safe_sid sid"
  shows "\<exists>rs. exec_all kv_step ks (delete_cmds sid) = (rs, run_cmds ks (delete_cmds sid)) \<and>
     first_err rs = None"
proof -
  define k1 where "k1 = snd (kv_step ks (DEL (skey sid)))"
  define k2 where "k2 = snd (kv_step k1 (ZREM expKey sid))"
  have l1: "layout_ok cd k1"
    using step_del(1) [OF assms] by (simp add: k1_def)
  have l2: "layout_ok cd k2"
    using step_zrem(1) [OF l1] by (simp add: k2_def)
  have zrem: "\<exists>n. fst (kv_step k (ZREM z sid)) = RInt n" if "layout_ok cd k" "z \<in> {expKey, actKey}" for k z
    using layout_index [OF that] by (auto simp: kv_step_def)
  obtain n1 where "kv_step ks (DEL (skey sid)) = (RInt n1, k1)"
    by (auto simp: k1_def kv_step_def)
  moreover obtain n2 where "kv_step k1 (ZREM expKey sid) = (RInt n2, k2)"
    using zrem [OF l1, of expKey] by (auto simp: k2_def prod_eq_iff)
  moreover obtain n3 k3 where "kv_step k2 (ZREM actKey sid) = (RInt n3, k3)"
    using zrem [OF l2, of actKey] by (auto simp: prod_eq_iff)
  ultimately show ?thesis
    by (simp add: delete_cmds_def)
qed

text \<open>The two stores on such a server, operation by operation.\<close>

lemma redis_store_reliable:
  assumes "layout_ok cd ks" and "safe_sid (si_SessionID i)"
  shows "StoreSandbox_redis (mem_backend cd clock) sessionKeys (Some i) ks =
     (case Marshal cd i of
        Inl e \<Rightarrow> (Some (ErrWrap ''StoreSandbox: marshal sandbox failed'' e), ks)
      | Inr b \<Rightarrow>
          if IsZero (si_ExpiresAt i) then (Some (ErrMsg ''StoreSandbox: sandbox expired at is zero''), ks)
          else (None, run_cmds ks (store_cmds b (clock ks) i)))"
  using store_cmds_reliable [OF assms, where now = "clock ks"]
  by (fastforce simp: StoreSandbox_redis_def store_cmds_def split: sum.splits)

lemma valkey_store_reliable:
  assumes "layout_ok cd ks" and "safe_sid (si_SessionID i)"
  shows "StoreSandbox_valkey (mem_backend cd clock) sessionKeys (Some i) ks =
     (if IsZero (si_ExpiresAt i) then (Some (ErrMsg ''StoreSandbox: sandbox expires time is zero''), ks)
      else
        (case Marshal cd i of
           Inl e \<Rightarrow> (Some (ErrWrap ''StoreSandbox: marshal sandbox'' e), ks)
         | Inr b \<Rightarrow> (None, run_cmds ks (store_cmds b (clock ks) i))))"
  using store_cmds_reliable [OF assms, where now = "clock ks"]
  by (fastforce simp: StoreSandbox_valkey_def store_cmds_def split: sum.splits)

lemma delete_reliable:
  assumes "layout_ok cd ks" and "safe_sid sid"
  shows "DeleteSandboxBySessionID_redis (mem_backend cd clock) sessionKeys sid ks =
      (None, run_cmds ks (delete_cmds sid))"
    and "DeleteSandboxBySessionID_valkey (mem_backend cd clock) sessionKeys sid ks =
      (None, run_cmds ks (delete_cmds sid))"
  using delete_cmds_reliable [OF assms]
  by (auto simp: DeleteSandboxBySessionID_redis_def DeleteSandboxBySessionID_valkey_def
      delete_cmds_def simp del: exec_all.simps run_cmds.simps)

lemma get_reliable:
  assumes "layout_ok cd ks" and "safe_sid sid"
  shows "GetSandboxBySessionID_redis (mem_backend cd clock) sessionKeys sid ks =
      (case sess cd ks sid of None \<Rightarrow> Inl (ErrVar StoreErrNotFound) | Some i \<Rightarrow> Inr i, ks)"
    and "GetSandboxBySessionID_valkey (mem_backend cd clock) sessionKeys sid ks =
      (case sess cd ks sid of None \<Rightarrow> Inl (ErrVar StoreErrNotFound) | Some i \<Rightarrow> Inr i, ks)"
  by (rule kv_step_get_cases [OF assms(1), of sid];
      use assms in \<open>auto simp: GetSandboxBySessionID_redis_def GetSandboxBySessionID_valkey_def\<close>)+

lemma update_reliable:
  assumes "layout_ok cd ks" and "safe_sid (si_SessionID i)"
  shows "UpdateSandbox_redis (mem_backend cd clock) sessionKeys (Some i) ks = (r, ks') \<Longrightarrow>
      (r = None \<longleftrightarrow> sess cd ks (si_SessionID i) \<noteq> None \<and> (\<exists>b. Marshal cd i = Inr b)) \<and>
      ks' = (case Marshal cd i of
        Inr b \<Rightarrow> if r = None then ks(skey (si_SessionID i) \<mapsto> VStr b) else ks | Inl e \<Rightarrow> ks)"
    and "UpdateSandbox_valkey (mem_backend cd clock) sessionKeys (Some i) ks = (r, ks') \<Longrightarrow>
      (r = None \<longleftrightarrow> sess cd ks (si_SessionID i) \<noteq> None \<and> (\<exists>b. Marshal cd i = Inr b)) \<and>
      ks' = (case Marshal cd i of
        Inr b \<Rightarrow> if r = None then ks(skey (si_SessionID i) \<mapsto> VStr b) else ks | Inl e \<Rightarrow> ks)"
  using sess_None_iff [OF assms]
  by (auto simp: UpdateSandbox_redis_def UpdateSandbox_valkey_def Let_def kv_step_def
      split: sum.splits if_splits)

lemma touch_reliable:
  fixes clock :: "keyspace \<Rightarrow> Time" and at :: Time
  assumes "layout_ok cd ks" and "safe_sid sid" and "sid \<noteq> []"
  defines "out \<equiv> (if sess cd ks sid = None then (Some (ErrVar StoreErrNotFound), ks)
      else (None, snd (kv_step ks (ZADD actKey (Unix (if IsZero at then clock ks else at)) sid))))"
  shows "UpdateSessionLastActivity_redis (mem_backend cd clock) sessionKeys sid at ks = out"
    and "UpdateSessionLastActivity_valkey (mem_backend cd clock) sessionKeys sid at ks = out"
proof -
  let ?z = "ZADD actKey (Unix (if IsZero at then clock ks else at)) sid"
  show "UpdateSessionLastActivity_redis (mem_backend cd clock) sessionKeys sid at ks = out"
    using step_touch [OF assms(1,2)] assms(3)
    by (simp add: UpdateSessionLastActivity_redis_def Let_def out_def)
  obtain n ks' where "kv_step ks ?z = (RInt n, ks')"
    using step_zadd(5) [OF assms(1), of actKey] by (metis insertI1 insertI2 prod.collapse)
  then show "UpdateSessionLastActivity_valkey (mem_backend cd clock) sessionKeys sid at ks = out"
    using sess_None_iff [OF assms(1,2)] assms(3)
    by (cases "IsZero at")
      (simp_all add: UpdateSessionLastActivity_valkey_def Let_def out_def kv_step_def [of _ "EXISTS _"])
qed

lemma get_safe:
  assumes "layout_ok cd ks" and "safe_sid sid"
  shows "(\<exists>b i. ks (skey sid) = Some (VStr b) \<and> b \<noteq> [] \<and> Unmarshal cd b = Inr i \<and>
      sess cd ks sid = Some i) \<or> (ks (skey sid) = None \<and> sess cd ks sid = None)"
  by (rule layout_session_cases [OF assms]) auto

lemma load_redis_reliable:
  assumes "layout_ok cd ks" and "\<forall>sid \<in> set sids. safe_sid sid"
  shows "loadSandboxesBySessionIDs_redis (mem_backend cd clock) sessionKeys sids ks =
      (Inr (List.map_filter (sess cd ks) sids), ks)"
proof -
  let ?get = "\<lambda>sid. fst (kv_step ks (GET (skey sid)))"
  have "exec_all kv_step ks (map (\<lambda>sid. GET (skey sid)) sids) = (map ?get sids, ks)"
  proof (induction sids)
    case (Cons sid sids)
    then show ?case
      using kv_step_read_only [of "GET (skey sid)" ks] by (cases "kv_step ks (GET (skey sid))") auto
  qed simp
  moreover have "collectSandboxes_redis cd (zip sids (map ?get sids)) =
      Inr (List.map_filter (sess cd ks) sids)"
    using assms(2)
  proof (induction sids)
    case (Cons sid sids)
    then show ?case
      using get_safe [OF assms(1), of sid] by (auto simp: kv_step_def List.map_filter_simps)
  qed (simp add: List.map_filter_simps)
  moreover have "first_err (map ?get sids) \<in> {None, Some (ErrVar KvNil)}"
    using assms(2)
  proof (induction sids)
    case (Cons sid sids)
    then show ?case
      using get_safe [OF assms(1), of sid] by (auto simp: kv_step_def)
  qed simp
  ultimately show ?thesis
    by (auto simp: loadSandboxesBySessionIDs_redis_def List.map_filter_simps)
qed

lemma load_valkey_reliable:
  assumes "layout_ok cd ks" and "\<forall>sid \<in> set sids. safe_sid sid"
  shows "loadSandboxesBySessionIDs_valkey (mem_backend cd clock) sessionKeys sids ks =
      (Inr (List.map_filter (sess cd ks) sids), ks)"
proof -
  let ?val = "\<lambda>sid. case_option [] id (case ks (skey sid) of Some (VStr v) \<Rightarrow> Some v | _ \<Rightarrow> None)"
  have "collectSandboxes_valkey cd (map ?val sids) = Inr (List.map_filter (sess cd ks) sids)"
    using assms(2)
  proof (induction sids)
    case (Cons sid sids)
    then show ?case
      using get_safe [OF assms(1), of sid] by (auto simp: List.map_filter_simps)
  qed (simp add: List.map_filter_simps)
  then show ?thesis
    by (auto simp: loadSandboxesBySessionIDs_valkey_def kv_step_def Let_def comp_def
        List.map_filter_simps)
qed

end

text \<open>Every id in an index is one a session may have.\<close>

definition index_safe :: "keyspace \<Rightarrow> bool" where
  "index_safe ks \<longleftrightarrow>
     (\<forall>sid \<in> fst ` set (zs ks expKey). safe_sid sid) \<and> (\<forall>sid \<in> fst ` set (zs ks actKey). safe_sid sid)"

context json_codec
begin

lemma list_reliable:
  assumes "layout_ok cd ks" and "index_safe ks"
  defines "ezs \<equiv> (\<lambda>before lim. zset_range (Unix before) (nat lim) (zs ks expKey))"
    and "azs \<equiv> (\<lambda>before lim. zset_range (Unix before) (nat lim) (zs ks actKey))"
  shows "ListExpiredSandboxes_redis (mem_backend cd clock) sessionKeys before lim ks =
      (Inr (listed cd ks (ezs before lim)), ks)"
    and "ListExpiredSandboxes_valkey (mem_backend cd clock) sessionKeys before lim ks =
      (Inr (listed cd ks (ezs before lim)), ks)"
    and "ListInactiveSandboxes_redis (mem_backend cd clock) sessionKeys before lim ks =
      (Inr (map (with_activity (scores_of (azs before lim))) (listed cd ks (azs before lim))), ks)"
    and "ListInactiveSandboxes_valkey (mem_backend cd clock) sessionKeys before lim ks =
      (Inr (map (with_activity (scores_of (azs before lim))) (listed cd ks (azs before lim))), ks)"
proof -
  have e: "\<forall>sid \<in> set (map fst (ezs before lim)). safe_sid sid"
    and a: "\<forall>sid \<in> set (map fst (azs before lim)). safe_sid sid" for before lim
    using assms(2) by (auto simp: index_safe_def ezs_def azs_def dest!: zset_range_sound)
  have 0: "lim \<le> 0 \<Longrightarrow> ezs before lim = [] \<and> azs before lim = []" for before lim
    by (simp add: ezs_def azs_def zset_range_def)
  note ranges = kv_step_range [OF assms(1), of expKey] kv_step_range [OF assms(1), of actKey]
  show "ListExpiredSandboxes_redis (mem_backend cd clock) sessionKeys before lim ks =
      (Inr (listed cd ks (ezs before lim)), ks)"
    and "ListExpiredSandboxes_valkey (mem_backend cd clock) sessionKeys before lim ks =
      (Inr (listed cd ks (ezs before lim)), ks)"
    using load_redis_reliable [OF assms(1) e, where clock = clock]
      load_valkey_reliable [OF assms(1) e, where clock = clock] 0 [of lim before]
    by (auto simp: ListExpiredSandboxes_redis_def ListExpiredSandboxes_valkey_def ranges
        ezs_def comp_def listed_def List.map_filter_simps)
  show "ListInactiveSandboxes_redis (mem_backend cd clock) sessionKeys before lim ks =
      (Inr (map (with_activity (scores_of (azs before lim))) (listed cd ks (azs before lim))), ks)"
    and "ListInactiveSandboxes_valkey (mem_backend cd clock) sessionKeys before lim ks =
      (Inr (map (with_activity (scores_of (azs before lim))) (listed cd ks (azs before lim))), ks)"
    using load_redis_reliable [OF assms(1) a, where clock = clock]
      load_valkey_reliable [OF assms(1) a, where clock = clock] 0 [of lim before]
    by (auto simp: ListInactiveSandboxes_redis_def ListInactiveSandboxes_valkey_def ranges
        azs_def listed_def List.map_filter_simps)
qed

end

subsection \<open>Histories of operations\<close>

datatype storeOp =
    OpGet string
  | OpStore "SandboxInfo option"
  | OpUpdate "SandboxInfo option"
  | OpDelete string
  | OpTouch string Time
  | OpListExpired Time int
  | OpListInactive Time int

fun apply_op :: "'w Store \<Rightarrow> storeOp \<Rightarrow> 'w \<Rightarrow> 'w" where
  "apply_op st (OpGet sid) w = snd (st_GetSandboxBySessionID st sid w)"
| "apply_op st (OpStore i) w = snd (st_StoreSandbox st i w)"
| "apply_op st (OpUpdate i) w = snd (st_UpdateSandbox st i w)"
| "apply_op st (OpDelete sid) w = snd (st_DeleteSandboxBySessionID st sid w)"
| "apply_op st (OpTouch sid at) w = snd (st_UpdateSessionLastActivity st sid at w)"
| "apply_op st (OpListExpired before lim) w = snd (st_ListExpiredSandboxes st before lim w)"
| "apply_op st (OpListInactive before lim) w = snd (st_ListInactiveSandboxes st before lim w)"

fun op_safe :: "storeOp \<Rightarrow> bool" where
  "op_safe (OpStore (Some i)) = safe_sid (si_SessionID i)"
| "op_safe (OpUpdate (Some i)) = safe_sid (si_SessionID i)"
| "op_safe (OpDelete sid) = safe_sid sid"
| "op_safe (OpTouch sid at) = safe_sid sid"
| "op_safe _ = True"

text \<open>Both indexes name exactly the sessions there are.\<close>

definition indexed :: "sessionDB \<Rightarrow> bool" where
  "indexed d \<longleftrightarrow> dom (db_expiry d) = dom (db_sessions d) \<and> dom (db_activity d) = dom (db_sessions d)"

lemma indexed_db:
  "indexed d \<Longrightarrow> indexed (db_store now i d)"
  "indexed d \<Longrightarrow> indexed (db_delete sid d)"
  "indexed d \<Longrightarrow> db_sessions d (si_SessionID i) \<noteq> None \<Longrightarrow> indexed (db_update i d)"
  "indexed d \<Longrightarrow> db_sessions d sid \<noteq> None \<Longrightarrow> indexed (db_touch sid at d)"
  by (auto simp: indexed_def db_defs split: option.splits)

locale reliable_store = session_store st db clock ok
  for st :: "'w Store" and db clock ok +
  assumes fail_unchanged:
      "ok w \<Longrightarrow> safe_sid (si_SessionID i) \<Longrightarrow> st_StoreSandbox st (Some i) w = (Some e, w') \<Longrightarrow> w' = w"
      "ok w \<Longrightarrow> safe_sid (si_SessionID i) \<Longrightarrow> st_UpdateSandbox st (Some i) w = (Some e, w') \<Longrightarrow> w' = w"
      "ok w \<Longrightarrow> safe_sid sid \<Longrightarrow> st_UpdateSessionLastActivity st sid at w = (Some e, w') \<Longrightarrow> w' = w"
    and delete_succeeds: "ok w \<Longrightarrow> safe_sid sid \<Longrightarrow> fst (st_DeleteSandboxBySessionID st sid w) = None"
    and nil_unchanged:
      "snd (st_StoreSandbox st None w) = w" "snd (st_UpdateSandbox st None w) = w"
begin

lemma apply_op_indexed:
  assumes "ok w" and "indexed (db w)" and "op_safe op"
  shows "ok (apply_op st op w) \<and> indexed (db (apply_op st op w))"
proof (cases op)
  case (OpGet sid)
  then show ?thesis
    using get_frame [OF assms(1), of sid] assms by (cases "st_GetSandboxBySessionID st sid w") auto
next
  case (OpStore x)
  show ?thesis
  proof (cases x)
    case (Some i)
    obtain r w' where r: "st_StoreSandbox st (Some i) w = (r, w')" by fastforce
    have safe: "safe_sid (si_SessionID i)" using assms(3) OpStore Some by simp
    show ?thesis
      using r OpStore Some assms store_ok [OF assms(1) safe] store_frame [OF assms(1) safe r]
        fail_unchanged(1) [OF assms(1) safe]
      by (cases r) (auto intro: indexed_db)
  qed (use OpStore assms nil_unchanged in simp)
next
  case (OpUpdate x)
  show ?thesis
  proof (cases x)
    case (Some i)
    obtain r w' where r: "st_UpdateSandbox st (Some i) w = (r, w')" by fastforce
    have safe: "safe_sid (si_SessionID i)" using assms(3) OpUpdate Some by simp
    show ?thesis
      using r OpUpdate Some assms update_ok [OF assms(1) safe] update_frame [OF assms(1) safe r]
        fail_unchanged(2) [OF assms(1) safe]
      by (cases r) (auto intro: indexed_db)
  qed (use OpUpdate assms nil_unchanged in simp)
next
  case (OpDelete sid)
  obtain r w' where r: "st_DeleteSandboxBySessionID st sid w = (r, w')" by fastforce
  have safe: "safe_sid sid" using assms(3) OpDelete by simp
  show ?thesis
    using r OpDelete assms delete_ok [OF assms(1) safe] delete_frame [OF assms(1) safe r]
      delete_succeeds [OF assms(1) safe] by (auto intro: indexed_db)
next
  case (OpTouch sid at)
  obtain r w' where r: "st_UpdateSessionLastActivity st sid at w = (r, w')" by fastforce
  have safe: "safe_sid sid" using assms(3) OpTouch by simp
  show ?thesis
    using r OpTouch assms touch_ok [OF assms(1) safe] touch_frame [OF assms(1) safe r]
      fail_unchanged(3) [OF assms(1) safe, of at _ w'] by (cases r) (auto intro: indexed_db)
next
  case (OpListExpired before lim)
  then show ?thesis
    using expired_frame [OF assms(1), of before lim] assms
    by (cases "st_ListExpiredSandboxes st before lim w") auto
next
  case (OpListInactive before lim)
  then show ?thesis
    using inactive_frame [OF assms(1), of before lim] assms
    by (cases "st_ListInactiveSandboxes st before lim w") auto
qed

lemma history_indexed:
  "ok w \<Longrightarrow> indexed (db w) \<Longrightarrow> \<forall>op \<in> set ops. op_safe op \<Longrightarrow>
     ok (fold (apply_op st) ops w) \<and> indexed (db (fold (apply_op st) ops w))"
  by (induction ops arbitrary: w) (auto dest: apply_op_indexed)

end

sublocale json_codec \<subseteq> redis_rel: reliable_store "redisStore (mem_backend cd clock) sessionKeys"
  "\<lambda>ks. abs_db cd ks" clock "\<lambda>ks. layout_ok cd ks" for clock
proof (unfold_locales, goal_cases)
  case 1 then show ?case
    by (auto simp: redisStore_def redis_store_reliable split: sum.splits if_splits)
next
  case 2 then show ?case
    using update_reliable(1) by (fastforce simp: redisStore_def split: sum.splits)
next
  case (3 w sid at e w')
  then show ?case
    using touch_reliable(1) [OF 3(1,2), of clock at]
    by (cases "sid = []") (auto simp: redisStore_def UpdateSessionLastActivity_redis_def split: if_splits)
next
  case 4 then show ?case by (simp add: redisStore_def delete_reliable)
qed (simp_all add: redisStore_def StoreSandbox_redis_def UpdateSandbox_redis_def)

sublocale json_codec \<subseteq> valkey_rel: reliable_store "valkeyStore (mem_backend cd clock) sessionKeys"
  "\<lambda>ks. abs_db cd ks" clock "\<lambda>ks. layout_ok cd ks" for clock
proof (unfold_locales, goal_cases)
  case 1 then show ?case
    by (auto simp: valkeyStore_def valkey_store_reliable split: sum.splits if_splits)
next
  case 2 then show ?case
    using update_reliable(2) by (fastforce simp: valkeyStore_def split: sum.splits)
next
  case (3 w sid at e w')
  then show ?case
    using touch_reliable(2) [OF 3(1,2), of clock at]
    by (cases "sid = []") (auto simp: valkeyStore_def UpdateSessionLastActivity_valkey_def split: if_splits)
next
  case 4 then show ?case by (simp add: valkeyStore_def delete_reliable)
qed (simp_all add: valkeyStore_def StoreSandbox_valkey_def UpdateSandbox_valkey_def)

context json_codec
begin

lemma store_run_sess:
  assumes "layout_ok cd ks" and "safe_sid (si_SessionID i)" and "Marshal cd i = Inr b"
    and "sess cd ks (si_SessionID i) = None"
  shows "sess cd (run_cmds ks (store_cmds b now i)) (si_SessionID i) = Some (persisted i) \<and>
     layout_ok cd (run_cmds ks (store_cmds b now i))"
proof -
  obtain rs where e: "exec_all kv_step ks (store_cmds b now i) = (rs, run_cmds ks (store_cmds b now i))"
    using store_cmds_reliable [OF assms(1-3)] by blast
  have "layout_ok cd (run_cmds ks (store_cmds b now i))"
    using mem_store.store_cmds_keep [OF assms(3) e] assms(1,2) by (simp add: keeps_others_def)
  moreover have "db_sessions (abs_db cd (run_cmds ks (store_cmds b now i))) (si_SessionID i) =
      Some (persisted i)"
    using run_store [OF assms(1-3), of now] assms(4)
    by (simp only: store_cmds_def db_store_def abs_db_def) simp
  ultimately show ?thesis
    by (simp add: abs_db_def)
qed

end

context json_codec
begin

lemma delete_run_db:
  assumes "layout_ok cd ks" and "safe_sid sid"
  shows "layout_ok cd (run_cmds ks (delete_cmds sid)) \<and>
     abs_db cd (run_cmds ks (delete_cmds sid)) = db_delete sid (abs_db cd ks)"
proof -
  obtain rs where e: "exec_all kv_step ks (delete_cmds sid) = (rs, run_cmds ks (delete_cmds sid))"
    using delete_cmds_reliable [OF assms] by blast
  show ?thesis
    using mem_store.delete_cmds_keep [OF e] run_delete [OF assms] assms
    by (simp add: keeps_others_def delete_cmds_def del: run_cmds.simps)
qed

lemmas redis_history = redis_rel.history_indexed
lemmas valkey_history = valkey_rel.history_indexed

end

lemmas redis_store_refines_mem = kv_backed.redis_contract [OF kv_backed.intro [OF mem.kv_server_axioms]]

subsection \<open>Properties\<close>

definition sampleSandbox :: SandboxInfo where
  "sampleSandbox = zeroSandboxInfo
     \<lparr>si_Kind := ''CodeInterpreter'', si_SandboxID := ''uid-1'', si_SandboxNamespace := ''default'',
      si_Name := ''ci-1'', si_SessionID := ''s1'', si_CreatedAt := 1000 * Second,
      si_ExpiresAt := 2000 * Second, si_Status := ''running''\<rparr>"

lemma sampleSandbox_simps [simp]:
  "si_SessionID sampleSandbox = ''s1''" "si_ExpiresAt sampleSandbox = 2000 * Second"
  "safe_sid ''s1''" "\<not> IsZero (2000 * Second)"
  by (simp_all add: sampleSandbox_def safe_sid_def go_simps)

lemma sample_times: "fmtTime (1000 * Second) \<noteq> None" "fmtTime (2000 * Second) \<noteq> None"
proof -
  have "yearDay 719162 = (1970, 0)"
    by code_simp
  then show "fmtTime (1000 * Second) \<noteq> None" "fmtTime (2000 * Second) \<noteq> None"
    by (intro fmtTime_defined; simp add: go_simps)+
qed

lemma sample_marshal:
  "\<exists>b. Marshal ns_codec sampleSandbox = Inr b"
  "\<exists>b. Marshal ns_codec (sampleSandbox\<lparr>si_Status := st\<rparr>) = Inr b"
  by (rule goCodec_marshal; simp add: sampleSandbox_def sample_times)+

lemma sample_state:
  "\<exists>ks. sess ns_codec ks ''s1'' = Some (persisted sampleSandbox) \<and> layout_ok ns_codec ks"
proof -
  obtain b where b: "Marshal ns_codec sampleSandbox = Inr b"
    using sample_marshal(1) by blast
  from json_codec.store_run_sess [OF ns.goJson.json_codec_axioms layout_ok_empty _ b, of 0]
  show ?thesis
    by (auto simp: sess_def)
qed

text \<open>
  C1: On any server that behaves as documented, and may lose replies, the Redis store provides the
  contract of the session store: every operation that reports success has the effect of the abstract
  session database, a failed one touches only its own session, and listings are sound, and complete
  within their limit.
\<close>

theorem redis_store_refines:
  assumes "kv_server exec view" and "json_codec cd"
  shows "session_store (redisStore \<lparr>be_exec = exec, be_codec = cd, be_clock = clock\<rparr> sessionKeys)
     (\<lambda>s. abs_db cd (view s)) clock (\<lambda>s. layout_ok cd (view s))"
  by (rule kv_backed.redis_contract [OF kv_backed.intro [OF assms]])

theorem redis_store_refines_witness:
  "session_store (redisStore (mem_backend ns_codec (\<lambda>_. 0)) sessionKeys)
     (\<lambda>ks. abs_db ns_codec ks) (\<lambda>_. 0) (\<lambda>ks. layout_ok ns_codec ks)"
  by (rule redis_store_refines [OF mem.kv_server_axioms ns.goJson.json_codec_axioms])

text \<open>C8: The Valkey store provides the same contract.\<close>

theorem valkey_store_refines:
  assumes "kv_server exec view" and "json_codec cd"
  shows "session_store (valkeyStore \<lparr>be_exec = exec, be_codec = cd, be_clock = clock\<rparr> sessionKeys)
     (\<lambda>s. abs_db cd (view s)) clock (\<lambda>s. layout_ok cd (view s))"
  by (rule kv_backed.valkey_contract [OF kv_backed.intro [OF assms]])

theorem valkey_store_refines_witness:
  "session_store (valkeyStore (mem_backend ns_codec (\<lambda>_. 0)) sessionKeys)
     (\<lambda>ks. abs_db ns_codec ks) (\<lambda>_. 0) (\<lambda>ks. layout_ok ns_codec ks)"
  by (rule valkey_store_refines [OF mem.kv_server_axioms ns.goJson.json_codec_axioms])

text \<open>
  What \<open>StoreSandbox\<close> writes under a new session id, \<open>GetSandboxBySessionID\<close> reads back, but for
  \<open>LastActivityAt\<close>, through the JSON text in the server; on a server that answers, the write succeeds
  whenever the expiry is set and the struct has a JSON form.
\<close>

theorem store_get_round_trip:
  assumes "duration_text durText durParse" and "layout_ok (goCodec durText durParse) ks"
    and "safe_sid (si_SessionID i)" and "sess (goCodec durText durParse) ks (si_SessionID i) = None"
    and "\<not> IsZero (si_ExpiresAt i)" and "Marshal (goCodec durText durParse) i = Inr b"
    and "B = mem_backend (goCodec durText durParse) clock"
  shows "fst (StoreSandbox_redis B sessionKeys (Some i) ks) = None \<and>
     fst (GetSandboxBySessionID_redis B sessionKeys (si_SessionID i)
        (snd (StoreSandbox_redis B sessionKeys (Some i) ks))) = Inr (persisted i)"
proof -
  let ?cd = "goCodec durText durParse"
  have cd: "json_codec ?cd"
    using assms(1) by (rule duration_text.goJson_codec)
  let ?ks = "run_cmds ks (store_cmds b (clock ks) i)"
  have r: "StoreSandbox_redis B sessionKeys (Some i) ks = (None, ?ks)"
    using json_codec.redis_store_reliable [OF cd assms(2,3)] assms(5-7) by simp
  have "sess ?cd ?ks (si_SessionID i) = Some (persisted i)" "layout_ok ?cd ?ks"
    using json_codec.store_run_sess [OF cd assms(2,3,6,4)] by auto
  then show ?thesis
    using r json_codec.get_reliable(1) [OF cd _ assms(3)] assms(7) by simp_all
qed

theorem store_get_round_trip_witness:
  "fst (StoreSandbox_redis (mem_backend ns_codec (\<lambda>_. 0)) sessionKeys (Some sampleSandbox) Map.empty) =
     None \<and>
   fst (GetSandboxBySessionID_redis (mem_backend ns_codec (\<lambda>_. 0)) sessionKeys ''s1''
     (snd (StoreSandbox_redis (mem_backend ns_codec (\<lambda>_. 0)) sessionKeys (Some sampleSandbox)
        Map.empty))) = Inr (persisted sampleSandbox)"
proof -
  obtain b where "Marshal ns_codec sampleSandbox = Inr b"
    using sample_marshal(1) by blast
  from store_get_round_trip [OF ns.duration_text_axioms layout_ok_empty _ _ _ this refl, of "\<lambda>_. 0"]
  show ?thesis by (simp add: sess_def)
qed

text \<open>
  A second \<open>StoreSandbox\<close> under an id that is already there does not replace the stored object,
  and still moves the session in both indexes.
\<close>

theorem store_existing_keeps_object:
  assumes "json_codec cd" and "layout_ok cd ks" and "safe_sid (si_SessionID i)"
    and "sess cd ks (si_SessionID i) = Some j"
    and "StoreSandbox_redis (mem_backend cd clock) sessionKeys (Some i) ks = (None, ks')"
  shows "sess cd ks' = sess cd ks \<and>
     map_of (zs ks' expKey) (si_SessionID i) = Some (Unix (si_ExpiresAt i)) \<and>
     map_of (zs ks' actKey) (si_SessionID i) = Some (Unix (clock ks))"
  using session_store.store_ok [OF redis_store_refines_mem [OF assms(1)], OF assms(2,3)] assms(4,5)
  by (auto simp: redisStore_def abs_db_def db_store_def)

theorem store_existing_keeps_object_witness:
  "\<exists>ks ks'. StoreSandbox_redis (mem_backend ns_codec (\<lambda>_. 7 * Second)) sessionKeys
        (Some (sampleSandbox\<lparr>si_Status := ''paused''\<rparr>)) ks = (None, ks') \<and>
     sess ns_codec ks' ''s1'' = Some (persisted sampleSandbox) \<and> map_of (zs ks' actKey) ''s1'' = Some 7"
proof -
  let ?B = "mem_backend ns_codec (\<lambda>_. 7 * Second)" and ?j = "sampleSandbox\<lparr>si_Status := ''paused''\<rparr>"
  note cd = ns.goJson.json_codec_axioms
  obtain c where c: "Marshal ns_codec ?j = Inr c"
    using sample_marshal(2) by blast
  obtain ks where ks: "sess ns_codec ks ''s1'' = Some (persisted sampleSandbox)" "layout_ok ns_codec ks"
    using sample_state by blast
  have "StoreSandbox_redis ?B sessionKeys (Some ?j) ks =
      (None, run_cmds ks (store_cmds c (7 * Second) ?j))"
    using json_codec.redis_store_reliable [OF cd ks(2), of ?j] c by simp
  moreover from store_existing_keeps_object [OF cd ks(2) _ _ this] ks(1)
  have "sess ns_codec (run_cmds ks (store_cmds c (7 * Second) ?j)) ''s1'' = Some (persisted sampleSandbox) \<and>
      map_of (zs (run_cmds ks (store_cmds c (7 * Second) ?j)) actKey) ''s1'' = Some 7"
    by (simp add: go_simps)
  ultimately show ?thesis
    by blast
qed

text \<open>
  On a server that answers every command the two stores are the same database: every operation
  of one succeeds exactly when the other's does, with the same result and the same next state.
\<close>

theorem stores_agree:
  assumes "json_codec cd" and "layout_ok cd ks" and "index_safe ks"
    and "B = mem_backend cd clock" and "K = sessionKeys"
  shows "(safe_sid sid \<longrightarrow> GetSandboxBySessionID_redis B K sid ks = GetSandboxBySessionID_valkey B K sid ks) \<and>
     (safe_sid (si_SessionID i) \<longrightarrow>
        (fst (StoreSandbox_redis B K (Some i) ks) = None \<longleftrightarrow>
         fst (StoreSandbox_valkey B K (Some i) ks) = None) \<and>
        snd (StoreSandbox_redis B K (Some i) ks) = snd (StoreSandbox_valkey B K (Some i) ks)) \<and>
     (safe_sid (si_SessionID i) \<longrightarrow>
        (fst (UpdateSandbox_redis B K (Some i) ks) = None \<longleftrightarrow>
         fst (UpdateSandbox_valkey B K (Some i) ks) = None) \<and>
        snd (UpdateSandbox_redis B K (Some i) ks) = snd (UpdateSandbox_valkey B K (Some i) ks)) \<and>
     (safe_sid sid \<longrightarrow>
        DeleteSandboxBySessionID_redis B K sid ks = DeleteSandboxBySessionID_valkey B K sid ks) \<and>
     (safe_sid sid \<longrightarrow> UpdateSessionLastActivity_redis B K sid at ks =
        UpdateSessionLastActivity_valkey B K sid at ks) \<and>
     ListExpiredSandboxes_redis B K before lim ks = ListExpiredSandboxes_valkey B K before lim ks \<and>
     ListInactiveSandboxes_redis B K before lim ks = ListInactiveSandboxes_valkey B K before lim ks"
proof (intro conjI impI)
  assume sid: "safe_sid sid"
  show "GetSandboxBySessionID_redis B K sid ks = GetSandboxBySessionID_valkey B K sid ks"
    and "DeleteSandboxBySessionID_redis B K sid ks = DeleteSandboxBySessionID_valkey B K sid ks"
    using json_codec.get_reliable [OF assms(1,2) sid] json_codec.delete_reliable [OF assms(1,2) sid]
      assms(4,5) by simp_all
  show "UpdateSessionLastActivity_redis B K sid at ks = UpdateSessionLastActivity_valkey B K sid at ks"
    using json_codec.touch_reliable [OF assms(1,2) sid] assms(4,5)
    by (cases "sid = []")
      (simp_all add: UpdateSessionLastActivity_redis_def UpdateSessionLastActivity_valkey_def)
next
  assume i: "safe_sid (si_SessionID i)"
  show "fst (StoreSandbox_redis B K (Some i) ks) = None \<longleftrightarrow> fst (StoreSandbox_valkey B K (Some i) ks) = None"
    and "snd (StoreSandbox_redis B K (Some i) ks) = snd (StoreSandbox_valkey B K (Some i) ks)"
    using json_codec.redis_store_reliable [OF assms(1,2) i] json_codec.valkey_store_reliable [OF assms(1,2) i]
      assms(4,5) by (simp_all split: sum.splits)
  note up = json_codec.update_reliable [OF assms(1,2) i, of clock]
  show u: "fst (UpdateSandbox_redis B K (Some i) ks) = None \<longleftrightarrow>
      fst (UpdateSandbox_valkey B K (Some i) ks) = None"
    using up(1) [OF prod.collapse [symmetric]] up(2) [OF prod.collapse [symmetric]] assms(4,5) by simp
  show "snd (UpdateSandbox_redis B K (Some i) ks) = snd (UpdateSandbox_valkey B K (Some i) ks)"
    using up(1) [OF prod.collapse [symmetric]] up(2) [OF prod.collapse [symmetric]] u assms(4,5)
    by (simp split: sum.splits)
next
  show "ListExpiredSandboxes_redis B K before lim ks = ListExpiredSandboxes_valkey B K before lim ks"
    and "ListInactiveSandboxes_redis B K before lim ks = ListInactiveSandboxes_valkey B K before lim ks"
    using json_codec.list_reliable [OF assms(1-3)] assms(4,5) by simp_all
qed

theorem stores_agree_witness:
  "GetSandboxBySessionID_redis (mem_backend ns_codec (\<lambda>_. 0)) sessionKeys ''s1'' Map.empty =
     GetSandboxBySessionID_valkey (mem_backend ns_codec (\<lambda>_. 0)) sessionKeys ''s1'' Map.empty \<and>
   snd (StoreSandbox_redis (mem_backend ns_codec (\<lambda>_. 0)) sessionKeys (Some sampleSandbox) Map.empty) =
     snd (StoreSandbox_valkey (mem_backend ns_codec (\<lambda>_. 0)) sessionKeys (Some sampleSandbox) Map.empty)"
  using stores_agree [OF ns.goJson.json_codec_axioms layout_ok_empty _ refl refl, 
      where clock = "\<lambda>_. 0" and sid = "''s1''" and i = sampleSandbox]
  by (simp add: index_safe_def zs_def)



text \<open>
  \<open>UpdateSessionLastActivity\<close> of the Valkey store is two commands.  If another client deletes the
  session between them, the touch succeeds and its \<open>ZADD\<close> leaves the id of a deleted session in the
  activity index; the one script of the Redis store, run before or after the deletion, never does.
\<close>

theorem valkey_touch_race:
  assumes "json_codec cd" and "layout_ok cd ks" and "safe_sid sid"
    and "kv_step ks (EXISTS (skey sid)) = (RInt 1, ks1)"
    and "ks2 = run_cmds ks1 (delete_cmds sid)"
    and "kv_step ks2 (ZADD actKey sc sid) = (r, ks3)"
    and "kv_step ks2 (EVAL_touch (skey sid) actKey sid sc) = (r', ks3')"
  shows "(\<exists>n. r = RInt n) \<and> sess cd ks3 sid = None \<and> map_of (zs ks3 actKey) sid = Some sc \<and>
     r' = RInt 0 \<and> map_of (zs ks3' actKey) sid = None"
proof -
  have ks1: "ks1 = ks"
    using kv_step_read_only [of "EXISTS (skey sid)" ks] assms(4) by simp
  have ok2: "layout_ok cd ks2" and db2: "abs_db cd ks2 = db_delete sid (abs_db cd ks)"
    using json_codec.delete_run_db [OF assms(1-3)] by (simp_all add: assms(5) ks1)
  then have gone: "sess cd ks2 sid = None" "map_of (zs ks2 actKey) sid = None"
    by (auto simp: abs_db_def db_delete_def)
  note z = json_codec.step_zadd [OF assms(1) ok2, where k = actKey and sc = sc and m = sid]
  show ?thesis
    using z(2,3,5) assms(6,7) gone json_codec.step_touch [OF assms(1) ok2 assms(3)] by auto
qed

theorem valkey_touch_race_witness:
  "\<exists>ks. sess ns_codec ks ''s1'' = Some (persisted sampleSandbox) \<and>
     (let ks2 = run_cmds (snd (kv_step ks (EXISTS (skey ''s1'')))) (delete_cmds ''s1'');
          ks3 = snd (kv_step ks2 (ZADD actKey 9 ''s1'')) in
      sess ns_codec ks3 ''s1'' = None \<and> map_of (zs ks3 actKey) ''s1'' = Some 9)"
proof -
  note cd = ns.goJson.json_codec_axioms
  obtain ks where ks: "sess ns_codec ks ''s1'' = Some (persisted sampleSandbox)" "layout_ok ns_codec ks"
    using sample_state by blast
  have "kv_step ks (EXISTS (skey ''s1'')) = (RInt 1, snd (kv_step ks (EXISTS (skey ''s1''))))"
    using sess_None_iff [OF ks(2), of "''s1''"] ks(1) by (simp add: kv_step_def)
  from valkey_touch_race [OF cd ks(2) _ this refl prod.collapse [symmetric] prod.collapse [symmetric],
      where sc = 9] ks(1)
  show ?thesis
    by (auto simp: Let_def)
qed

text \<open>
  The indexes share the name space of the sessions.  As soon as one sandbox is stored, a lookup of
  the session id \<open>expiry\<close> or \<open>last_activity\<close>, which a client may put into a request, is an error
  that is not \<open>ErrNotFound\<close>, in both stores.
\<close>

theorem index_key_collision:
  assumes "json_codec cd" and "layout_ok cd ks" and "safe_sid (si_SessionID i)"
    and "StoreSandbox_redis (mem_backend cd clock) sessionKeys (Some i) ks = (None, ks')"
    and "sid \<in> {''expiry'', ''last_activity''}"
  shows "(\<exists>e. fst (GetSandboxBySessionID_redis (mem_backend cd clock) sessionKeys sid ks') = Inl e \<and>
        \<not> errors_Is e StoreErrNotFound) \<and>
     (\<exists>e. fst (GetSandboxBySessionID_valkey (mem_backend cd clock) sessionKeys sid ks') = Inl e \<and>
        \<not> errors_Is e StoreErrNotFound)"
proof -
  have db: "abs_db cd ks' = db_store (clock ks) i (abs_db cd ks)" and ok: "layout_ok cd ks'"
    using session_store.store_ok [OF redis_store_refines_mem [OF assms(1)], OF assms(2,3)]
      session_store.store_frame [OF redis_store_refines_mem [OF assms(1)], OF assms(2,3)] assms(4)
    by (simp_all add: redisStore_def)
  have key: "skey sid \<in> {expKey, actKey}"
    using assms(5) by (auto simp: skey_def expKey_def actKey_def)
  have "map_of (zs ks' k) (si_SessionID i) \<noteq> None" if "k \<in> {expKey, actKey}" for k
    using db that by (auto simp: abs_db_def db_store_def)
  then have "zs ks' (skey sid) \<noteq> []"
    using key by force
  then obtain z where "ks' (skey sid) = Some (VZset z)"
    using layout_index [OF ok key] by auto
  then show ?thesis
    by (simp add: GetSandboxBySessionID_redis_def GetSandboxBySessionID_valkey_def kv_step_def)
qed

theorem index_key_collision_witness:
  "\<exists>ks' e. StoreSandbox_redis (mem_backend ns_codec (\<lambda>_. 0)) sessionKeys (Some sampleSandbox) Map.empty =
       (None, ks') \<and>
     fst (GetSandboxBySessionID_redis (mem_backend ns_codec (\<lambda>_. 0)) sessionKeys ''expiry'' ks') = Inl e \<and>
     \<not> errors_Is e StoreErrNotFound"
proof -
  note cd = ns.goJson.json_codec_axioms
  obtain b where b: "Marshal ns_codec sampleSandbox = Inr b"
    using sample_marshal(1) by blast
  have r: "StoreSandbox_redis (mem_backend ns_codec (\<lambda>_. 0)) sessionKeys (Some sampleSandbox) Map.empty =
      (None, run_cmds Map.empty (store_cmds b 0 sampleSandbox))"
    using json_codec.redis_store_reliable [OF cd layout_ok_empty, of sampleSandbox] b by simp
  from index_key_collision [OF cd layout_ok_empty _ r, of "''expiry''"] r
  show ?thesis
    by auto
qed

end
