(* ===== verification/K8s.thy ===== *)
theory K8s
  imports StoreSpec GoTime
begin

text \<open>
  The Kubernetes objects the Workload Manager works on, as far as its code reads or writes them, and
  the API server as a record of operations on the state of the world.  The custom resources of
  \<open>pkg/apis/runtime/v1alpha1\<close> are here in full; of the types of \<open>k8s.io/api\<close> and of agent-sandbox,
  which are not part of the repository, the records keep the fields the code names, and one opaque
  field for what it only copies.

  The contract of the API server (locale \<open>cluster_api\<close>) says what a create and a delete do to the set
  of objects that exist.  The store and the cluster are separate services: locale
  \<open>store_and_cluster\<close> adds that neither changes the other.
\<close>

subsection \<open>\<open>time.Duration.String\<close>\<close>

text \<open>A fraction \<open>v / 10 ^ prec\<close> without the zeros at its end, and the whole part.\<close>

definition fmtFrac :: "nat \<Rightarrow> nat \<Rightarrow> string" where
  "fmtFrac v prec =
     (let f = trimZeros (pad prec (v mod 10 ^ prec)) in
      digits_of (v div 10 ^ prec) @ (if f = [] then [] else CHR ''.'' # f))"

definition DurationString :: "Duration \<Rightarrow> string" where
  "DurationString d =
     (let u = nat \<bar>d\<bar>; neg = (if d < 0 then ''-'' else []) in
      if u = 0 then ''0s''
      else if u < 1000 then neg @ digits_of u @ ''ns''
      else if u < 1000000 then neg @ fmtFrac u 3 @ [CHR 0xC2, CHR 0xB5, CHR ''s'']
      else if u < 1000000000 then neg @ fmtFrac u 6 @ ''ms''
      else
        (let secs = u div 1000000000; mins = secs div 60 in
         neg @
         (if mins div 60 > 0 then digits_of (mins div 60) @ ''h'' else []) @
         (if mins > 0 then digits_of (mins mod 60) @ ''m'' else []) @
         fmtFrac (u - secs div 60 * 60000000000) 9 @ ''s''))"

subsection \<open>Objects\<close>

record TargetPort =
  tp_PathPrefix :: string
  tp_Name :: string
  tp_Port :: nat
  tp_Protocol :: string

text \<open>An environment variable; the source of a value that is not given itself is an opaque text.\<close>

record EnvVar =
  env_Name :: string
  env_Value :: string
  env_ValueFrom :: "string option"

record Container =
  c_Name :: string
  c_Image :: string
  c_ImagePullPolicy :: string
  c_Env :: "EnvVar list"
  c_Command :: "string list"
  c_Args :: "string list"
  c_Resources :: string

record PodSpec =
  ps_ImagePullSecrets :: "string list"
  ps_RuntimeClassName :: "string option"
  ps_Containers :: "Container list"
  ps_Other :: string

type_synonym strmap = "string \<rightharpoonup> string"

record SandboxTemplate =
  st_Labels :: "strmap option"
  st_Annotations :: "strmap option"
  st_Spec :: PodSpec

record AgentRuntime =
  ar_Namespace :: string
  ar_Name :: string
  ar_Ports :: "TargetPort list"
  ar_Template :: "SandboxTemplate option"
  ar_SessionTimeout :: "Duration option"
  ar_MaxSessionDuration :: "Duration option"

record CodeInterpreterSandboxTemplate =
  ct_Labels :: "strmap option"
  ct_Annotations :: "strmap option"
  ct_RuntimeClassName :: "string option"
  ct_Image :: string
  ct_ImagePullPolicy :: string
  ct_ImagePullSecrets :: "string list"
  ct_Environment :: "EnvVar list"
  ct_Command :: "string list"
  ct_Args :: "string list"
  ct_Resources :: string

definition AuthModePicoD :: string where "AuthModePicoD = ''picod''"
definition AuthModeNone :: string where "AuthModeNone = ''none''"
definition ProtocolTypeHTTP :: string where "ProtocolTypeHTTP = ''HTTP''"

record CodeInterpreter =
  ci_Namespace :: string
  ci_Name :: string
  ci_UID :: string
  ci_Ports :: "TargetPort list"
  ci_Template :: "CodeInterpreterSandboxTemplate option"
  ci_SessionTimeout :: "Duration option"
  ci_MaxSessionDuration :: "Duration option"
  ci_WarmPoolSize :: "int option"
  ci_AuthMode :: string

record OwnerReference =
  or_APIVersion :: string
  or_Kind :: string
  or_Name :: string
  or_UID :: string
  or_Controller :: "bool option"

record Sandbox =
  sb_Namespace :: string
  sb_Name :: string
  sb_UID :: string
  sb_CreationTimestamp :: Time
  sb_Labels :: strmap
  sb_Annotations :: strmap
  sb_PodSpec :: PodSpec
  sb_PodLabels :: strmap
  sb_PodAnnotations :: strmap
  sb_ShutdownTime :: "Time option"
  sb_Replicas :: "int option"
  sb_Conditions :: "(string \<times> string) list"

record SandboxClaim =
  sc_Namespace :: string
  sc_Name :: string
  sc_Labels :: strmap
  sc_Annotations :: strmap
  sc_OwnerReferences :: "OwnerReference list"
  sc_TemplateRef :: string
  sc_StatusSandboxName :: string

record Pod =
  pod_Name :: string
  pod_OwnerReferences :: "OwnerReference list"
  pod_Phase :: string
  pod_PodIP :: string

text \<open>The zero values a composite literal fills in.\<close>

definition zeroPodSpec :: PodSpec where
  "zeroPodSpec = \<lparr>ps_ImagePullSecrets = [], ps_RuntimeClassName = None, ps_Containers = [],
     ps_Other = []\<rparr>"

definition zeroSandbox :: Sandbox where
  "zeroSandbox =
     \<lparr>sb_Namespace = [], sb_Name = [], sb_UID = [], sb_CreationTimestamp = zeroTime,
      sb_Labels = Map.empty, sb_Annotations = Map.empty, sb_PodSpec = zeroPodSpec,
      sb_PodLabels = Map.empty, sb_PodAnnotations = Map.empty, sb_ShutdownTime = None,
      sb_Replicas = None, sb_Conditions = []\<rparr>"

subsection \<open>The API server\<close>

text \<open>
  A client of the API server, the service's own or one with a user's token, with the converters
  \<open>ToUnstructured\<close> and \<open>FromUnstructured\<close> of \<open>k8s.io/apimachinery\<close>.  An unstructured object is taken as
  the typed object it represents; a conversion may fail.
\<close>

record 'w cluster =
  cv_ToSandbox :: "Sandbox \<Rightarrow> Sandbox res"
  cv_FromSandbox :: "Sandbox \<Rightarrow> Sandbox res"
  cv_ToClaim :: "SandboxClaim \<Rightarrow> SandboxClaim res"
  cv_FromClaim :: "SandboxClaim \<Rightarrow> SandboxClaim res"
  api_CreateSandbox :: "string \<Rightarrow> Sandbox \<Rightarrow> 'w \<Rightarrow> Sandbox res \<times> 'w"
  api_GetSandbox :: "string \<Rightarrow> string \<Rightarrow> 'w \<Rightarrow> Sandbox res \<times> 'w"
  api_DeleteSandbox :: "string \<Rightarrow> string \<Rightarrow> 'w \<Rightarrow> gerr option \<times> 'w"
  api_CreateSandboxClaim :: "string \<Rightarrow> SandboxClaim \<Rightarrow> 'w \<Rightarrow> SandboxClaim res \<times> 'w"
  api_GetSandboxClaim :: "string \<Rightarrow> string \<Rightarrow> 'w \<Rightarrow> SandboxClaim res \<times> 'w"
  api_DeleteSandboxClaim :: "string \<Rightarrow> string \<Rightarrow> 'w \<Rightarrow> gerr option \<times> 'w"

subsection \<open>The helpers of \<open>k8s_client.go\<close> over a client\<close>

definition DefaultSandboxTTL :: Duration where "DefaultSandboxTTL = 8 * Hour"
definition DefaultSandboxIdleTimeout :: Duration where "DefaultSandboxIdleTimeout = 15 * Minute"

lemmas ttl_defs [go_simps] = DefaultSandboxTTL_def DefaultSandboxIdleTimeout_def

text \<open>\<open>SandboxInfo\<close> of this package.\<close>

record createdInfo =
  cr_Name :: string
  cr_Namespace :: string

definition createSandbox :: "'w cluster \<Rightarrow> Sandbox \<Rightarrow> 'w \<Rightarrow> createdInfo res \<times> 'w" where
  "createSandbox client sandbox w =
     (case cv_ToSandbox client sandbox of
        Inl e \<Rightarrow> (Inl (ErrWrap ''failed to convert sandbox to unstructured'' e), w)
      | Inr unstructuredSandbox \<Rightarrow>
          (case api_CreateSandbox client (sb_Namespace sandbox) unstructuredSandbox w of
             (Inl e, w') \<Rightarrow> (Inl (ErrWrap ''failed to create sandbox'' e), w')
           | (Inr created, w') \<Rightarrow>
               (Inr \<lparr>cr_Name = sb_Name created, cr_Namespace = sb_Namespace created\<rparr>, w')))"

definition getSandbox :: "'w cluster \<Rightarrow> string \<Rightarrow> string \<Rightarrow> 'w \<Rightarrow> Sandbox res \<times> 'w" where
  "getSandbox client namespace sandboxName w =
     (case api_GetSandbox client namespace sandboxName w of
        (Inl e, w') \<Rightarrow>
          (Inl (ErrWrap (''failed to get sandbox '' @ namespace @ ''/'' @ sandboxName) e), w')
      | (Inr obj, w') \<Rightarrow>
          (case cv_FromSandbox client obj of
             Inl e \<Rightarrow>
               (Inl (ErrWrap (''failed to convert sandbox '' @ namespace @ ''/'' @ sandboxName) e), w')
           | Inr sandbox \<Rightarrow> (Inr sandbox, w')))"

definition createSandboxClaim :: "'w cluster \<Rightarrow> SandboxClaim \<Rightarrow> 'w \<Rightarrow> gerr option \<times> 'w" where
  "createSandboxClaim client sandboxClaim w =
     (case cv_ToClaim client sandboxClaim of
        Inl e \<Rightarrow> (Some (ErrWrap ''failed to convert sandbox claim to unstructured'' e), w)
      | Inr unstructuredSandbox \<Rightarrow>
          (case api_CreateSandboxClaim client (sc_Namespace sandboxClaim) unstructuredSandbox w of
             (Inl e, w') \<Rightarrow> (Some (ErrWrap ''failed to create sandbox claim'' e), w')
           | (Inr _, w') \<Rightarrow> (None, w')))"

definition getSandboxClaim :: "'w cluster \<Rightarrow> string \<Rightarrow> string \<Rightarrow> 'w \<Rightarrow> SandboxClaim res \<times> 'w" where
  "getSandboxClaim client namespace sandboxClaimName w =
     (case api_GetSandboxClaim client namespace sandboxClaimName w of
        (Inl e, w') \<Rightarrow>
          (Inl (ErrWrap (''failed to get sandbox claim '' @ namespace @ ''/'' @ sandboxClaimName) e), w')
      | (Inr obj, w') \<Rightarrow>
          (case cv_FromClaim client obj of
             Inl e \<Rightarrow>
               (Inl (ErrWrap (''failed to convert sandbox claim '' @ namespace @ ''/'' @ sandboxClaimName) e),
                w')
           | Inr sandboxClaim \<Rightarrow> (Inr sandboxClaim, w')))"

definition deleteSandbox ::
  "apierrors \<Rightarrow> 'w cluster \<Rightarrow> string \<Rightarrow> string \<Rightarrow> 'w \<Rightarrow> gerr option \<times> 'w" where
  "deleteSandbox ae client namespace sandboxName w =
     (case api_DeleteSandbox client namespace sandboxName w of
        (Some e, w') \<Rightarrow>
          (if \<not> ae_IsNotFound ae e then (Some (ErrWrap ''failed to delete sandbox'' e), w')
           else (None, w'))
      | (None, w') \<Rightarrow> (None, w'))"

definition deleteSandboxClaim ::
  "apierrors \<Rightarrow> 'w cluster \<Rightarrow> string \<Rightarrow> string \<Rightarrow> 'w \<Rightarrow> gerr option \<times> 'w" where
  "deleteSandboxClaim ae client namespace sandboxClaimName w =
     (case api_DeleteSandboxClaim client namespace sandboxClaimName w of
        (Some e, w') \<Rightarrow>
          (if \<not> ae_IsNotFound ae e then (Some (ErrWrap ''failed to delete sandbox claim'' e), w')
           else (None, w'))
      | (None, w') \<Rightarrow> (None, w'))"

subsection \<open>What the callers rely on\<close>

datatype objref = SandboxRef string string | ClaimRef string string

text \<open>The object a session record stands for, the one its deletion addresses.\<close>

definition refOf :: "SandboxInfo \<Rightarrow> objref" where
  "refOf s = (if si_Kind s = SandboxClaimsKind then ClaimRef (si_SandboxNamespace s) (si_Name s)
     else SandboxRef (si_SandboxNamespace s) (si_Name s))"

text \<open>
  \<open>objs w\<close> are the sandboxes and claims that exist and are not marked for deletion.  A call that
  fails may have taken effect or not.
\<close>

locale cluster_api = apierrors_api ae
  for ae :: apierrors +
  fixes cl :: "'w cluster" and objs :: "'w \<Rightarrow> objref set"
  assumes create_sandbox:
      "api_CreateSandbox cl ns s w = (rs, w') \<Longrightarrow>
       (\<forall>c. rs = Inr c \<longrightarrow> SandboxRef ns (sb_Name s) \<in> objs w') \<and>
       (\<forall>x. x \<noteq> SandboxRef ns (sb_Name s) \<longrightarrow> (x \<in> objs w' \<longleftrightarrow> x \<in> objs w))"
    and create_claim:
      "api_CreateSandboxClaim cl ns c w = (rc, w') \<Longrightarrow>
       (\<forall>d. rc = Inr d \<longrightarrow> ClaimRef ns (sc_Name c) \<in> objs w') \<and>
       (\<forall>x. x \<noteq> ClaimRef ns (sc_Name c) \<longrightarrow> (x \<in> objs w' \<longleftrightarrow> x \<in> objs w))"
    and convert_name:
      "cv_ToSandbox cl s = Inr s' \<Longrightarrow> sb_Name s' = sb_Name s"
      "cv_ToClaim cl c = Inr d' \<Longrightarrow> sc_Name d' = sc_Name c"
    and delete_sandbox:
      "api_DeleteSandbox cl ns n w = (r, w') \<Longrightarrow>
       ((\<forall>e. r = Some e \<longrightarrow> ae_IsNotFound ae e) \<longrightarrow> SandboxRef ns n \<notin> objs w') \<and>
       (SandboxRef ns n \<in> objs w' \<longrightarrow> SandboxRef ns n \<in> objs w) \<and>
       (\<forall>x. x \<noteq> SandboxRef ns n \<longrightarrow> (x \<in> objs w' \<longleftrightarrow> x \<in> objs w))"
    and delete_claim:
      "api_DeleteSandboxClaim cl ns n w = (r, w') \<Longrightarrow>
       ((\<forall>e. r = Some e \<longrightarrow> ae_IsNotFound ae e) \<longrightarrow> ClaimRef ns n \<notin> objs w') \<and>
       (ClaimRef ns n \<in> objs w' \<longrightarrow> ClaimRef ns n \<in> objs w) \<and>
       (\<forall>x. x \<noteq> ClaimRef ns n \<longrightarrow> (x \<in> objs w' \<longleftrightarrow> x \<in> objs w))"
    and get_sandbox: "api_GetSandbox cl ns n w = (g, w') \<Longrightarrow> objs w' = objs w"
    and get_claim: "api_GetSandboxClaim cl ns n w = (c', w') \<Longrightarrow> objs w' = objs w"
begin

lemma deleteSandbox_objs:
  "deleteSandbox ae cl ns n w = (r, w') \<Longrightarrow>
     (r = None \<longrightarrow> SandboxRef ns n \<notin> objs w') \<and> (\<forall>x. x \<in> objs w' \<longrightarrow> x \<in> objs w) \<and>
     (\<forall>x. x \<noteq> SandboxRef ns n \<longrightarrow> (x \<in> objs w' \<longleftrightarrow> x \<in> objs w))"
proof -
  assume d: "deleteSandbox ae cl ns n w = (r, w')"
  obtain r0 where a: "api_DeleteSandbox cl ns n w = (r0, w')"
    and r: "r = None \<Longrightarrow> \<forall>e. r0 = Some e \<longrightarrow> ae_IsNotFound ae e"
    using d by (auto simp: deleteSandbox_def split: prod.splits option.splits if_splits)
  note l = delete_sandbox [OF a]
  have "x \<in> objs w" if "x \<in> objs w'" for x
    using l that by (cases "x = SandboxRef ns n") simp_all
  moreover have "SandboxRef ns n \<notin> objs w'" if "r = None"
    using l r [OF that] by simp
  ultimately show ?thesis
    using l by simp
qed

lemma deleteSandboxClaim_objs:
  "deleteSandboxClaim ae cl ns n w = (r, w') \<Longrightarrow>
     (r = None \<longrightarrow> ClaimRef ns n \<notin> objs w') \<and> (\<forall>x. x \<in> objs w' \<longrightarrow> x \<in> objs w) \<and>
     (\<forall>x. x \<noteq> ClaimRef ns n \<longrightarrow> (x \<in> objs w' \<longleftrightarrow> x \<in> objs w))"
proof -
  assume d: "deleteSandboxClaim ae cl ns n w = (r, w')"
  obtain r0 where a: "api_DeleteSandboxClaim cl ns n w = (r0, w')"
    and r: "r = None \<Longrightarrow> \<forall>e. r0 = Some e \<longrightarrow> ae_IsNotFound ae e"
    using d by (auto simp: deleteSandboxClaim_def split: prod.splits option.splits if_splits)
  note l = delete_claim [OF a]
  have "x \<in> objs w" if "x \<in> objs w'" for x
    using l that by (cases "x = ClaimRef ns n") simp_all
  moreover have "ClaimRef ns n \<notin> objs w'" if "r = None"
    using l r [OF that] by simp
  ultimately show ?thesis
    using l by simp
qed

end

locale store_and_cluster = session_store st db clock ok + cluster_api ae cl objs
  for st :: "'w Store" and db clock ok ae and cl :: "'w cluster" and objs +
  assumes store_keeps_objs:
      "objs (snd (st_GetSandboxBySessionID st sid w)) = objs w"
      "objs (snd (st_StoreSandbox st i w)) = objs w"
      "objs (snd (st_UpdateSandbox st i w)) = objs w"
      "objs (snd (st_DeleteSandboxBySessionID st sid w)) = objs w"
      "objs (snd (st_ListExpiredSandboxes st before lim w)) = objs w"
      "objs (snd (st_ListInactiveSandboxes st before lim w)) = objs w"
    and cluster_keeps_db:
      "ok w \<Longrightarrow> ok (snd (api_CreateSandbox cl ns s w)) \<and> db (snd (api_CreateSandbox cl ns s w)) = db w"
      "ok w \<Longrightarrow> ok (snd (api_CreateSandboxClaim cl ns c w)) \<and> db (snd (api_CreateSandboxClaim cl ns c w)) = db w"
      "ok w \<Longrightarrow> ok (snd (api_DeleteSandbox cl ns n w)) \<and> db (snd (api_DeleteSandbox cl ns n w)) = db w"
      "ok w \<Longrightarrow> ok (snd (api_DeleteSandboxClaim cl ns n w)) \<and> db (snd (api_DeleteSandboxClaim cl ns n w)) = db w"
      "ok w \<Longrightarrow> ok (snd (api_GetSandbox cl ns n w)) \<and> db (snd (api_GetSandbox cl ns n w)) = db w"
      "ok w \<Longrightarrow> ok (snd (api_GetSandboxClaim cl ns n w)) \<and> db (snd (api_GetSandboxClaim cl ns n w)) = db w"
begin

lemma delete_keeps_db:
  "ok w \<Longrightarrow> deleteSandbox ae cl ns n w = (r, w') \<Longrightarrow> ok w' \<and> db w' = db w"
  "ok w \<Longrightarrow> deleteSandboxClaim ae cl ns n w = (r, w') \<Longrightarrow> ok w' \<and> db w' = db w"
  using cluster_keeps_db(3,4) [of w ns n]
  by (auto simp: deleteSandbox_def deleteSandboxClaim_def split: prod.splits option.splits if_splits)

end

end
