(* ===== verification/MemWorld.thy ===== *)
theory MemWorld
  imports StoreProps K8s
begin

text \<open>
  A world in which every service answers: the key space of the store, the objects of the cluster and
  the clock in one record.  It instantiates the contracts of the store and of the API server together,
  over the Redis store and the JSON codec of the development, and is where the witnesses of the
  Workload Manager run.
\<close>

record world =
  w_ks :: keyspace
  w_sandboxes :: "string \<times> string \<rightharpoonup> Sandbox"
  w_claims :: "string \<times> string \<rightharpoonup> SandboxClaim"
  w_pods :: "string \<times> string \<rightharpoonup> Pod"
  w_now :: Time

definition world_exec :: "world server" where
  "world_exec w c = (case kv_step (w_ks w) c of (r, ks') \<Rightarrow> (r, w\<lparr>w_ks := ks'\<rparr>))"

definition emptyWorld :: world where
  "emptyWorld = \<lparr>w_ks = Map.empty, w_sandboxes = Map.empty, w_claims = Map.empty,
     w_pods = Map.empty, w_now = 0\<rparr>"

definition conflictErr :: "string \<Rightarrow> gerr" where
  "conflictErr n = ErrStatus 409 ''AlreadyExists'' (n @ '' already exists'')"

definition missingErr :: "string \<Rightarrow> gerr" where
  "missingErr n = ErrStatus 404 ''NotFound'' (n @ '' not found'')"

definition memCluster :: "world cluster" where
  "memCluster =
     \<lparr>cv_ToSandbox = Inr, cv_FromSandbox = Inr, cv_ToClaim = Inr, cv_FromClaim = Inr,
      api_CreateSandbox = (\<lambda>ns s w.
        let s' = s\<lparr>sb_Namespace := ns, sb_UID := ''uid-'' @ sb_Name s, sb_CreationTimestamp := w_now w\<rparr> in
        if w_sandboxes w (ns, sb_Name s) \<noteq> None then (Inl (conflictErr (sb_Name s)), w)
        else (Inr s', w\<lparr>w_sandboxes := (w_sandboxes w)((ns, sb_Name s) \<mapsto> s')\<rparr>)),
      api_GetSandbox = (\<lambda>ns n w.
        case w_sandboxes w (ns, n) of None \<Rightarrow> (Inl (missingErr n), w) | Some s \<Rightarrow> (Inr s, w)),
      api_DeleteSandbox = (\<lambda>ns n w.
        if w_sandboxes w (ns, n) = None then (Some (missingErr n), w)
        else (None, w\<lparr>w_sandboxes := (w_sandboxes w)((ns, n) := None)\<rparr>)),
      api_CreateSandboxClaim = (\<lambda>ns c w.
        if w_claims w (ns, sc_Name c) \<noteq> None then (Inl (conflictErr (sc_Name c)), w)
        else (Inr c, w\<lparr>w_claims := (w_claims w)((ns, sc_Name c) \<mapsto> c)\<rparr>)),
      api_GetSandboxClaim = (\<lambda>ns n w.
        case w_claims w (ns, n) of None \<Rightarrow> (Inl (missingErr n), w) | Some c \<Rightarrow> (Inr c, w)),
      api_DeleteSandboxClaim = (\<lambda>ns n w.
        if w_claims w (ns, n) = None then (Some (missingErr n), w)
        else (None, w\<lparr>w_claims := (w_claims w)((ns, n) := None)\<rparr>))\<rparr>"

definition world_objs :: "world \<Rightarrow> objref set" where
  "world_objs w =
     {SandboxRef ns n |ns n. (ns, n) \<in> dom (w_sandboxes w)} \<union>
     {ClaimRef ns n |ns n. (ns, n) \<in> dom (w_claims w)}"

definition world_backend :: "world backend" where
  "world_backend = \<lparr>be_exec = world_exec, be_codec = ns_codec, be_clock = w_now\<rparr>"

definition worldStore :: "world Store" where
  "worldStore = redisStore world_backend sessionKeys"

interpretation world_kv: kv_server world_exec w_ks
proof (unfold_locales, goal_cases)
  case (3 s c e s')
  then show ?case
    by (auto simp: world_exec_def dest: kv_step_foreign split: prod.splits)
qed (auto simp: world_exec_def split: prod.splits)

interpretation world_backed: kv_backed world_exec w_ks ns_codec w_now
  by unfold_locales

subsection \<open>Commands touch only the key space\<close>

definition same_objs :: "world \<Rightarrow> world \<Rightarrow> bool" where
  "same_objs w w' \<longleftrightarrow> w_sandboxes w' = w_sandboxes w \<and> w_claims w' = w_claims w \<and>
     w_pods w' = w_pods w \<and> w_now w' = w_now w"

lemma world_exec_objs: "world_exec w c = (r, w') \<Longrightarrow> same_objs w w'"
  by (auto simp: world_exec_def same_objs_def split: prod.splits)

lemma world_exec_all_objs: "exec_all world_exec w cs = (rs, w') \<Longrightarrow> same_objs w w'"
proof (induction cs arbitrary: w rs)
  case (Cons c cs)
  then show ?case
    using world_exec_objs [of w c] by (fastforce simp: same_objs_def split: prod.splits)
qed (simp add: same_objs_def)

lemma same_objs_refl [simp]: "same_objs w w"
  by (simp add: same_objs_def)

lemma same_objs_trans: "same_objs w w1 \<Longrightarrow> same_objs w1 w2 \<Longrightarrow> same_objs w w2"
  by (simp add: same_objs_def)

lemma world_backend_simps [simp]:
  "be_exec world_backend = world_exec" "be_codec world_backend = ns_codec"
  "be_clock world_backend = w_now"
  by (simp_all add: world_backend_def)

lemma load_objs:
  "loadSandboxesBySessionIDs_redis world_backend sessionKeys sids w = (l, w') \<Longrightarrow> same_objs w w'"
  by (auto simp: loadSandboxesBySessionIDs_redis_def dest!: world_exec_all_objs
      split: if_splits prod.splits option.splits)

lemma worldStore_objs:
  shows "same_objs w (snd (st_GetSandboxBySessionID worldStore sid w))"
    and "same_objs w (snd (st_StoreSandbox worldStore i w))"
    and "same_objs w (snd (st_UpdateSandbox worldStore i w))"
    and "same_objs w (snd (st_DeleteSandboxBySessionID worldStore sid w))"
    and "same_objs w (snd (st_ListExpiredSandboxes worldStore before lim w))"
    and "same_objs w (snd (st_ListInactiveSandboxes worldStore before lim w))"
proof -
  show "same_objs w (snd (st_GetSandboxBySessionID worldStore sid w))"
    and "same_objs w (snd (st_UpdateSandbox worldStore i w))"
    by (auto simp: worldStore_def redis_ops dest: world_exec_objs
        split: prod.split option.split reply.split sum.split)
  show "same_objs w (snd (st_StoreSandbox worldStore i w))"
    and "same_objs w (snd (st_DeleteSandboxBySessionID worldStore sid w))"
    by (auto simp: worldStore_def redis_ops dest: world_exec_all_objs simp del: exec_all.simps
        split: prod.split option.split sum.split)
  show "same_objs w (snd (st_ListExpiredSandboxes worldStore before lim w))"
    by (auto simp: worldStore_def redis_ops dest!: world_exec_objs
        split: prod.split reply.split intro: same_objs_trans load_objs [OF surjective_pairing])
  show "same_objs w (snd (st_ListInactiveSandboxes worldStore before lim w))"
    by (auto simp: worldStore_def redis_ops dest!: world_exec_objs
        split: prod.split reply.split sum.split intro: same_objs_trans load_objs)
qed

lemma same_objs_world: "same_objs w w' \<Longrightarrow> world_objs w' = world_objs w"
  by (simp add: same_objs_def world_objs_def)

interpretation world_sc: store_and_cluster worldStore "\<lambda>w. abs_db ns_codec (w_ks w)" w_now
  "\<lambda>w. layout_ok ns_codec (w_ks w)" std_apierrors memCluster world_objs
proof (intro store_and_cluster.intro cluster_api.intro)
  show "session_store worldStore (\<lambda>w. abs_db ns_codec (w_ks w)) w_now (\<lambda>w. layout_ok ns_codec (w_ks w))"
    unfolding worldStore_def world_backend_def by (rule world_backed.redis_contract)
  show "apierrors_api std_apierrors"
    by unfold_locales
  show "cluster_api_axioms std_apierrors memCluster world_objs"
    by unfold_locales
      (auto simp: memCluster_def world_objs_def Let_def missingErr_def std_apierrors_def
        split: if_splits option.splits)
  show "store_and_cluster_axioms worldStore (\<lambda>w. abs_db ns_codec (w_ks w))
     (\<lambda>w. layout_ok ns_codec (w_ks w)) memCluster world_objs"
    by unfold_locales
      (simp_all add: same_objs_world [OF worldStore_objs(1)] same_objs_world [OF worldStore_objs(2)]
        same_objs_world [OF worldStore_objs(3)] same_objs_world [OF worldStore_objs(4)]
        same_objs_world [OF worldStore_objs(5)] same_objs_world [OF worldStore_objs(6)]
        memCluster_def Let_def split: option.split)
qed

subsection \<open>The store in this world\<close>

text \<open>Every operation acts on the key space as it does on a server that answers.\<close>

definition in_world :: "(keyspace \<Rightarrow> 'a \<times> keyspace) \<Rightarrow> world \<Rightarrow> 'a \<times> world" where
  "in_world f w = (case f (w_ks w) of (r, ks') \<Rightarrow> (r, w\<lparr>w_ks := ks'\<rparr>))"

abbreviation clock_backend :: "Time \<Rightarrow> keyspace backend" where
  "clock_backend t \<equiv> mem_backend ns_codec (\<lambda>_. t)"

lemma world_exec_all:
  "exec_all world_exec w cs = in_world (\<lambda>ks. exec_all kv_step ks cs) w"
  by (induction cs arbitrary: w) (auto simp: in_world_def world_exec_def split: prod.splits)

lemma world_get:
  "st_GetSandboxBySessionID worldStore sid w =
     in_world (GetSandboxBySessionID_redis (clock_backend (w_now w)) sessionKeys sid) w"
  by (auto simp: worldStore_def redis_ops in_world_def world_exec_def
      split: prod.splits reply.splits sum.splits)

lemma world_store:
  "st_StoreSandbox worldStore i w =
     in_world (StoreSandbox_redis (clock_backend (w_now w)) sessionKeys i) w"
  by (auto simp: worldStore_def redis_ops world_exec_all in_world_def simp del: exec_all.simps
      split: prod.splits option.splits sum.splits)

lemma world_update:
  "st_UpdateSandbox worldStore i w =
     in_world (UpdateSandbox_redis (clock_backend (w_now w)) sessionKeys i) w"
  by (auto simp: worldStore_def redis_ops in_world_def world_exec_def
      split: prod.splits option.splits reply.splits sum.splits)

lemma world_delete:
  "st_DeleteSandboxBySessionID worldStore sid w =
     in_world (DeleteSandboxBySessionID_redis (clock_backend (w_now w)) sessionKeys sid) w"
  by (auto simp: worldStore_def redis_ops world_exec_all in_world_def simp del: exec_all.simps
      split: prod.splits option.splits)

lemma world_load:
  "loadSandboxesBySessionIDs_redis world_backend sessionKeys sids w =
     in_world (loadSandboxesBySessionIDs_redis (clock_backend t) sessionKeys sids) w"
  by (auto simp: loadSandboxesBySessionIDs_redis_def world_exec_all in_world_def
      split: prod.splits option.splits)

lemma world_list:
  "st_ListExpiredSandboxes worldStore before lim w =
     in_world (ListExpiredSandboxes_redis (clock_backend (w_now w)) sessionKeys before lim) w"
  "st_ListInactiveSandboxes worldStore before lim w =
     in_world (ListInactiveSandboxes_redis (clock_backend (w_now w)) sessionKeys before lim) w"
  by (auto simp: worldStore_def redis_ops in_world_def world_exec_def world_load [where t = "w_now w"]
      split: prod.splits reply.splits sum.splits)

subsection \<open>A world with one session\<close>

definition sampleText :: string where
  "sampleText = (case Marshal ns_codec sampleSandbox of Inr b \<Rightarrow> b | Inl _ \<Rightarrow> [])"

definition sampleKs :: keyspace where
  "sampleKs = run_cmds Map.empty (store_cmds sampleText 0 sampleSandbox)"

definition sampleWorld :: "Time \<Rightarrow> world" where
  "sampleWorld t =
     \<lparr>w_ks = sampleKs,
      w_sandboxes = [(''default'', ''ci-1'') \<mapsto>
        zeroSandbox\<lparr>sb_Namespace := ''default'', sb_Name := ''ci-1'', sb_UID := ''uid-1''\<rparr>],
      w_claims = Map.empty, w_pods = Map.empty, w_now = t\<rparr>"

lemma sampleText: "Marshal ns_codec sampleSandbox = Inr sampleText"
  using sample_marshal(1) by (auto simp: sampleText_def)

lemma sampleKs_facts:
  "layout_ok ns_codec sampleKs"
  "sess ns_codec sampleKs ''s1'' = Some (persisted sampleSandbox)"
  "abs_db ns_codec sampleKs = db_store 0 sampleSandbox (abs_db ns_codec Map.empty)"
  using json_codec.store_run_sess [OF ns.goJson.json_codec_axioms layout_ok_empty _ sampleText, of 0]
    json_codec.run_store [OF ns.goJson.json_codec_axioms layout_ok_empty _ sampleText, of 0]
  by (simp_all add: sampleKs_def store_cmds_def sess_def)

lemma sampleKs_index:
  "zs sampleKs expKey = [(''s1'', 2000)]" "zs sampleKs actKey = [(''s1'', 0)]" "index_safe sampleKs"
proof -
  show "zs sampleKs expKey = [(''s1'', 2000)]" "zs sampleKs actKey = [(''s1'', 0)]"
    by (simp_all add: sampleKs_def store_cmds_def kv_step_def go_simps)
  then show "index_safe sampleKs"
    by (simp add: index_safe_def)
qed

end
