(* ===== verification/Gc.thy ===== *)
theory Gc
  imports MemWorld
begin

text \<open>
  \<open>pkg/workloadmanager/garbage_collection.go\<close>: one pass of the garbage collector over the store and
  the cluster.  It removes only sessions that are past their deadline or idle for longer than their own
  timeout, removes the object before the session, and, when nothing it does fails, leaves no session
  behind that is past its deadline.
\<close>

definition gcOnceTimeout :: Duration where "gcOnceTimeout = 2 * Minute"
definition gcMinInactiveLookback :: Duration where "gcMinInactiveLookback = 1 * Minute"
definition gcCandidateLimit :: int where "gcCandidateLimit = 100"

record 'w garbageCollector =
  gc_k8sClient :: "'w cluster"
  gc_interval :: Duration
  gc_storeClient :: "'w Store"

definition newGarbageCollector :: "'w cluster \<Rightarrow> 'w Store \<Rightarrow> Duration \<Rightarrow> 'w garbageCollector" where
  "newGarbageCollector k8sClient storeClient interval =
     \<lparr>gc_k8sClient = k8sClient, gc_interval = interval, gc_storeClient = storeClient\<rparr>"

definition deleteSandbox_gc ::
  "apierrors \<Rightarrow> 'w garbageCollector \<Rightarrow> string \<Rightarrow> string \<Rightarrow> 'w \<Rightarrow> gerr option \<times> 'w" where
  "deleteSandbox_gc ae gc namespace name w =
     (case api_DeleteSandbox (gc_k8sClient gc) namespace name w of
        (None, w') \<Rightarrow> (None, w')
      | (Some e, w') \<Rightarrow>
          (if ae_IsNotFound ae e then (None, w')
           else (Some (ErrWrap (''error deleting sandbox '' @ namespace @ ''/'' @ name) e), w')))"

definition deleteSandboxClaim_gc ::
  "apierrors \<Rightarrow> 'w garbageCollector \<Rightarrow> string \<Rightarrow> string \<Rightarrow> 'w \<Rightarrow> gerr option \<times> 'w" where
  "deleteSandboxClaim_gc ae gc namespace name w =
     (case api_DeleteSandboxClaim (gc_k8sClient gc) namespace name w of
        (None, w') \<Rightarrow> (None, w')
      | (Some e, w') \<Rightarrow>
          (if ae_IsNotFound ae e then (None, w')
           else (Some (ErrWrap (''error deleting sandboxClaim '' @ namespace @ ''/'' @ name) e), w')))"

text \<open>The filter on the inactive candidates.\<close>

definition idleElapsed :: "Time \<Rightarrow> SandboxInfo \<Rightarrow> bool" where
  "idleElapsed now s \<longleftrightarrow>
     (let activityAt = (if IsZero (si_LastActivityAt s) then si_CreatedAt s else si_LastActivityAt s);
          idleTimeout = (if si_IdleTimeout s = 0 then DefaultSandboxIdleTimeout else si_IdleTimeout s)
      in activityAt + idleTimeout < now)"

fun dedupInto :: "string set \<Rightarrow> SandboxInfo list \<Rightarrow> SandboxInfo list" where
  "dedupInto seen [] = []"
| "dedupInto seen (s # ss) =
     (if si_SessionID s \<notin> seen then s # dedupInto (insert (si_SessionID s) seen) ss
      else dedupInto seen ss)"

definition deduplicateSandboxes :: "SandboxInfo list list \<Rightarrow> SandboxInfo list" where
  "deduplicateSandboxes ls = dedupInto {} (concat ls)"

text \<open>The deletion loop; the result is the list of errors it collects.\<close>

fun gcDelete ::
  "apierrors \<Rightarrow> 'w garbageCollector \<Rightarrow> SandboxInfo list \<Rightarrow> 'w \<Rightarrow> gerr list \<times> 'w" where
  "gcDelete ae gc [] w = ([], w)"
| "gcDelete ae gc (s # ss) w =
     (case (if si_Kind s = SandboxClaimsKind
            then deleteSandboxClaim_gc ae gc (si_SandboxNamespace s) (si_Name s) w
            else deleteSandbox_gc ae gc (si_SandboxNamespace s) (si_Name s) w) of
        (Some e, w1) \<Rightarrow> (case gcDelete ae gc ss w1 of (errs, w') \<Rightarrow> (e # errs, w'))
      | (None, w1) \<Rightarrow>
          (case st_DeleteSandboxBySessionID (gc_storeClient gc) (si_SessionID s) w1 of
             (Some e, w2) \<Rightarrow> (case gcDelete ae gc ss w2 of (errs, w') \<Rightarrow> (e # errs, w'))
           | (None, w2) \<Rightarrow> gcDelete ae gc ss w2))"

text \<open>
  One pass.  A listing that fails is logged and counts as empty; the result is what the pass logs as
  errors.
\<close>

definition once :: "apierrors \<Rightarrow> 'w garbageCollector \<Rightarrow> ('w \<Rightarrow> Time) \<Rightarrow> 'w \<Rightarrow> gerr list \<times> 'w" where
  "once ae gc clock w =
     (let now = clock w in
      case st_ListInactiveSandboxes (gc_storeClient gc) (now - gcMinInactiveLookback)
          gcCandidateLimit w of (inactive, w1) \<Rightarrow>
        (let candidates = (case inactive of Inr cs \<Rightarrow> cs | Inl e \<Rightarrow> []);
             inactiveSandboxes = filter (idleElapsed now) candidates in
         case st_ListExpiredSandboxes (gc_storeClient gc) now gcCandidateLimit w1 of (expired, w2) \<Rightarrow>
           (let expiredSandboxes = (case expired of Inr es \<Rightarrow> es | Inl e \<Rightarrow> []);
                gcSandboxes = deduplicateSandboxes [inactiveSandboxes, expiredSandboxes] in
            case gcDelete ae gc gcSandboxes w2 of (errs, w') \<Rightarrow>
              ((case inactive of Inl e \<Rightarrow> [e] | Inr _ \<Rightarrow> []) @
               (case expired of Inl e \<Rightarrow> [e] | Inr _ \<Rightarrow> []) @ errs, w'))))"

text \<open>The loop over the ticker, between which other clients act on the world.\<close>

datatype 'w gcEvent = GcTick | GcStop | GcOther "'w \<Rightarrow> 'w"

fun gcRun :: "apierrors \<Rightarrow> 'w garbageCollector \<Rightarrow> ('w \<Rightarrow> Time) \<Rightarrow> 'w gcEvent list \<Rightarrow> 'w \<Rightarrow> 'w" where
  "gcRun ae gc clock [] w = w"
| "gcRun ae gc clock (GcStop # evs) w = w"
| "gcRun ae gc clock (GcTick # evs) w = gcRun ae gc clock evs (snd (once ae gc clock w))"
| "gcRun ae gc clock (GcOther f # evs) w = gcRun ae gc clock evs (f w)"

subsection \<open>Deduplication\<close>

lemma dedupInto_ids: "si_SessionID ` set (dedupInto seen ss) = si_SessionID ` set ss - seen"
  by (induction ss arbitrary: seen) auto

lemma dedupInto_subset: "set (dedupInto seen ss) \<subseteq> set ss"
  by (induction ss arbitrary: seen) auto

lemma dedupInto_distinct: "distinct (map si_SessionID (dedupInto seen ss))"
proof (induction ss arbitrary: seen)
  case (Cons s ss)
  then show ?case
    using dedupInto_ids [of "insert (si_SessionID s) seen" ss] by auto
qed simp

lemma deduplicate_ids:
  "si_SessionID ` set (deduplicateSandboxes ls) = (\<Union>l \<in> set ls. si_SessionID ` set l)"
  by (auto simp: deduplicateSandboxes_def dedupInto_ids image_UN)

lemma deduplicate_subset: "s \<in> set (deduplicateSandboxes ls) \<Longrightarrow> \<exists>l \<in> set ls. s \<in> set l"
  using dedupInto_subset [of "{}" "concat ls"] by (auto simp: deduplicateSandboxes_def)

subsection \<open>The deletion loop\<close>

definition deleteObj :: "apierrors \<Rightarrow> 'w garbageCollector \<Rightarrow> SandboxInfo \<Rightarrow> 'w \<Rightarrow> gerr option \<times> 'w" where
  "deleteObj ae gc s w =
     (if si_Kind s = SandboxClaimsKind
      then deleteSandboxClaim_gc ae gc (si_SandboxNamespace s) (si_Name s) w
      else deleteSandbox_gc ae gc (si_SandboxNamespace s) (si_Name s) w)"

lemma gcDelete_Cons:
  "gcDelete ae gc (s # ss) w =
     (case deleteObj ae gc s w of
        (Some e, w1) \<Rightarrow> (case gcDelete ae gc ss w1 of (errs, w') \<Rightarrow> (e # errs, w'))
      | (None, w1) \<Rightarrow>
          (case st_DeleteSandboxBySessionID (gc_storeClient gc) (si_SessionID s) w1 of
             (Some e, w2) \<Rightarrow> (case gcDelete ae gc ss w2 of (errs, w') \<Rightarrow> (e # errs, w'))
           | (None, w2) \<Rightarrow> gcDelete ae gc ss w2))"
  by (simp add: deleteObj_def)

declare gcDelete.simps(2) [simp del]

text \<open>What a run of the loop did to the sessions and to the objects.\<close>

definition gc_effect ::
  "('w \<Rightarrow> bool) \<Rightarrow> ('w \<Rightarrow> objref set) \<Rightarrow> ('w \<Rightarrow> sessionDB) \<Rightarrow> SandboxInfo list \<Rightarrow> 'w \<Rightarrow> gerr list \<Rightarrow> 'w \<Rightarrow> bool" where
  "gc_effect ok objs db ss w errs w' \<longleftrightarrow>
     ok w' \<and> objs w' \<subseteq> objs w \<and>
     (\<forall>sid. db_sessions (db w') sid \<noteq> db_sessions (db w) sid \<longrightarrow>
        (\<exists>s \<in> set ss. si_SessionID s = sid \<and> refOf s \<notin> objs w')) \<and>
     (errs = [] \<longrightarrow> (\<forall>s \<in> set ss. refOf s \<notin> objs w' \<and> db_sessions (db w') (si_SessionID s) = None))"

lemma gc_effect_changed:
  "gc_effect ok objs db ss w errs w' \<Longrightarrow> db_sessions (db w') sid \<noteq> db_sessions (db w) sid \<Longrightarrow>
     \<exists>s \<in> set ss. si_SessionID s = sid \<and> refOf s \<notin> objs w'"
  by (simp add: gc_effect_def)

context store_and_cluster
begin

lemma deleteObj_effect:
  assumes "deleteObj ae gc s w = (r, w')" and "gc_k8sClient gc = cl" and "ok w"
  shows "ok w'" and "db w' = db w" and "objs w' \<subseteq> objs w" and "r = None \<Longrightarrow> refOf s \<notin> objs w'"
proof -
  have eq: "r = None \<longleftrightarrow> r' = None"
    if "(if si_Kind s = SandboxClaimsKind
        then deleteSandboxClaim ae cl (si_SandboxNamespace s) (si_Name s) w
        else deleteSandbox ae cl (si_SandboxNamespace s) (si_Name s) w) = (r', w')" for r'
    using that assms(1,2)
    by (auto simp: deleteObj_def deleteSandboxClaim_gc_def deleteSandbox_gc_def deleteSandboxClaim_def
        deleteSandbox_def split: if_splits prod.splits option.splits)
  obtain r' where r': "(if si_Kind s = SandboxClaimsKind
        then deleteSandboxClaim ae cl (si_SandboxNamespace s) (si_Name s) w
        else deleteSandbox ae cl (si_SandboxNamespace s) (si_Name s) w) = (r', w')"
    using assms(1,2)
    by (auto simp: deleteObj_def deleteSandboxClaim_gc_def deleteSandbox_gc_def deleteSandboxClaim_def
        deleteSandbox_def split: if_splits prod.splits option.splits)
  show "ok w'" "db w' = db w"
    using r' delete_keeps_db [OF assms(3)] by (auto split: if_splits)
  show "objs w' \<subseteq> objs w"
    using r' deleteSandbox_objs deleteSandboxClaim_objs by (fastforce split: if_splits)
  show "refOf s \<notin> objs w'" if "r = None"
    using r' eq [OF r'] that deleteSandbox_objs deleteSandboxClaim_objs
    by (fastforce simp: refOf_def split: if_splits)
qed

lemma storeDelete_effect:
  assumes "st_DeleteSandboxBySessionID st sid w = (r, w')" and "ok w" and "safe_sid sid"
  shows "ok w'" and "objs w' = objs w" and "x \<noteq> sid \<Longrightarrow> db_sessions (db w') x = db_sessions (db w) x"
    and "r = None \<Longrightarrow> db_sessions (db w') sid = None"
  using delete_frame [OF assms(2,3,1)] delete_ok [OF assms(2,3)] assms(1)
    store_keeps_objs(4) [of sid w] by auto

lemma gc_effect_fail:
  assumes "gc_effect ok objs db ss w1 errs w'" and "db w1 = db w" and "objs w1 \<subseteq> objs w"
  shows "gc_effect ok objs db (s # ss) w (e # errs) w'"
  using assms by (auto simp: gc_effect_def)

lemma gc_effect_step:
  assumes "gc_effect ok objs db ss w2 errs w'" and "objs w2 \<subseteq> objs w" and "refOf s \<notin> objs w2"
    and "\<And>x. x \<noteq> si_SessionID s \<Longrightarrow> db_sessions (db w2) x = db_sessions (db w) x"
  shows "gc_effect ok objs db (s # ss) w (e # errs) w'"
    and "db_sessions (db w2) (si_SessionID s) = None \<Longrightarrow> gc_effect ok objs db (s # ss) w errs w'"
proof -
  have gone: "refOf s \<notin> objs w'"
    using assms(1,3) by (auto simp: gc_effect_def)
  have diff: "\<exists>s' \<in> set (s # ss). si_SessionID s' = sid \<and> refOf s' \<notin> objs w'"
    if "db_sessions (db w') sid \<noteq> db_sessions (db w) sid" for sid
  proof (cases "sid = si_SessionID s")
    case False
    then have "db_sessions (db w') sid \<noteq> db_sessions (db w2) sid"
      using that assms(4) by simp
    then show ?thesis
      using assms(1) by (auto simp: gc_effect_def)
  qed (use gone in auto)
  then show "gc_effect ok objs db (s # ss) w (e # errs) w'"
    using assms(1,2) by (auto simp: gc_effect_def)
  assume none: "db_sessions (db w2) (si_SessionID s) = None"
  have "db_sessions (db w') (si_SessionID s) = None" if "errs = []"
    using assms(1) none that by (auto simp: gc_effect_def) (metis option.distinct(1))
  then show "gc_effect ok objs db (s # ss) w errs w'"
    using assms(1,2) diff gone by (auto simp: gc_effect_def)
qed

lemma gcDelete_effect:
  assumes "gc_k8sClient gc = cl" and "gc_storeClient gc = st"
  shows "gcDelete ae gc ss w = (errs, w') \<Longrightarrow> ok w \<Longrightarrow> \<forall>s \<in> set ss. safe_sid (si_SessionID s) \<Longrightarrow>
     gc_effect ok objs db ss w errs w'"
proof (induction ss arbitrary: w errs)
  case Nil
  then show ?case by (simp add: gc_effect_def)
next
  case (Cons s ss)
  obtain r w1 where d: "deleteObj ae gc s w = (r, w1)" by fastforce
  note obj = deleteObj_effect [OF d assms(1) Cons.prems(2)]
  show ?case
  proof (cases r)
    case (Some e)
    then obtain errs' where e: "gcDelete ae gc ss w1 = (errs', w')" "errs = e # errs'"
      using Cons.prems(1) d by (auto simp: gcDelete_Cons split: prod.splits)
    show ?thesis
      using gc_effect_fail [OF Cons.IH [OF e(1) obj(1)] obj(2,3)] Cons.prems(3) e(2) by simp
  next
    case None
    obtain r2 w2 where d2: "st_DeleteSandboxBySessionID st (si_SessionID s) w1 = (r2, w2)" by fastforce
    have "safe_sid (si_SessionID s)"
      using Cons.prems(3) by simp
    note sto = storeDelete_effect [OF d2 obj(1) this]
    obtain errs' where e: "gcDelete ae gc ss w2 = (errs', w')"
      "errs = (case r2 of Some e \<Rightarrow> e # errs' | None \<Rightarrow> errs')"
      using Cons.prems(1) d d2 None assms(2) by (auto simp: gcDelete_Cons split: prod.splits option.splits)
    have "objs w2 \<subseteq> objs w" "refOf s \<notin> objs w2"
      using obj(3,4) sto(2) None by auto
    note step = gc_effect_step [OF Cons.IH [OF e(1) sto(1)] this]
    show ?thesis
      using step sto(3,4) obj(2) Cons.prems(3) e(2) by (cases r2) auto
  qed
qed

end

subsection \<open>One pass\<close>

text \<open>
  A session the collector may take: its deadline has passed, or its last activity is at least the
  lookback and more than its own timeout ago.
\<close>

definition gc_due :: "sessionDB \<Rightarrow> Time \<Rightarrow> string \<Rightarrow> SandboxInfo \<Rightarrow> bool" where
  "gc_due d now sid i \<longleftrightarrow>
     sid \<in> due (db_expiry d) now \<or>
     (\<exists>t. db_activity d sid = Some t \<and> t \<le> Unix (now - gcMinInactiveLookback) \<and>
        idleElapsed now (i\<lparr>si_LastActivityAt := unixTime t\<rparr>))"

lemma refOf_activity [simp]: "refOf (i\<lparr>si_LastActivityAt := t\<rparr>) = refOf i"
  by (simp add: refOf_def)

context store_and_cluster
begin

lemma once_effect:
  assumes "once ae gc clock w = (errs, w')" and "gc_k8sClient gc = cl" and "gc_storeClient gc = st"
    and "ok w"
  obtains ss errs' where "gc_effect ok objs db ss w errs' w'" and "errs = [] \<Longrightarrow> errs' = []"
    and "\<And>s. s \<in> set ss \<Longrightarrow> \<exists>i. db_sessions (db w) (si_SessionID s) = Some i \<and> refOf s = refOf i \<and>
        gc_due (db w) (clock w) (si_SessionID s) i"
    and "\<And>sid i. errs = [] \<Longrightarrow> int (card (due (db_expiry (db w)) (clock w))) \<le> gcCandidateLimit \<Longrightarrow>
        int (card (due (db_activity (db w)) (clock w - gcMinInactiveLookback))) \<le> gcCandidateLimit \<Longrightarrow>
        gc_due (db w) (clock w) sid i \<Longrightarrow> db_sessions (db w) sid = Some i \<Longrightarrow>
        sid \<in> si_SessionID ` set ss"
proof -
  define now where "now = clock w"
  obtain li w1 where li: "st_ListInactiveSandboxes st (now - gcMinInactiveLookback) gcCandidateLimit w = (li, w1)"
    by fastforce
  obtain le w2 where le: "st_ListExpiredSandboxes st now gcCandidateLimit w1 = (le, w2)" by fastforce
  define cs where "cs = (case li of Inr xs \<Rightarrow> xs | Inl e \<Rightarrow> [])"
  define es where "es = (case le of Inr xs \<Rightarrow> xs | Inl e \<Rightarrow> [])"
  define ss where "ss = deduplicateSandboxes [filter (idleElapsed now) cs, es]"
  obtain errs' where g: "gcDelete ae gc ss w2 = (errs', w')" and errs: "errs = [] \<Longrightarrow> errs' = []"
    "errs = [] \<Longrightarrow> li = Inr cs" "errs = [] \<Longrightarrow> le = Inr es"
    using assms(1) li le assms(3)
    by (auto simp: once_def now_def cs_def es_def ss_def Let_def split: prod.splits sum.splits)
  have w1: "ok w1" "db w1 = db w" "objs w1 = objs w"
    using inactive_frame [OF assms(4) li] store_keeps_objs(6) [of "now - gcMinInactiveLookback" gcCandidateLimit w] li
    by simp_all
  have w2: "ok w2" "db w2 = db w" "objs w2 = objs w"
    using expired_frame [OF w1(1) le] w1(2,3) store_keeps_objs(5) [of now gcCandidateLimit w1] le
    by simp_all
  have c: "\<exists>i. db_sessions (db w) (si_SessionID s) = Some i \<and> refOf s = refOf i \<and>
      gc_due (db w) now (si_SessionID s) i \<and> safe_sid (si_SessionID s)"
    if s: "s \<in> set cs" "idleElapsed now s" for s
  proof -
    have "li = Inr cs"
      using s by (auto simp: cs_def split: sum.splits)
    then obtain j t where "db_sessions (db w) (si_SessionID s) = Some j"
      "db_activity (db w) (si_SessionID s) = Some t" "t \<le> Unix (now - gcMinInactiveLookback)"
      "s = j\<lparr>si_LastActivityAt := unixTime t\<rparr>" "safe_sid (si_SessionID s)"
      using inactive_sound [OF assms(4) _ s(1)] li by blast
    then show ?thesis
      using s(2) by (auto simp: gc_due_def)
  qed
  have e: "\<exists>i. db_sessions (db w) (si_SessionID s) = Some i \<and> refOf s = refOf i \<and>
      gc_due (db w) now (si_SessionID s) i \<and> safe_sid (si_SessionID s)" if "s \<in> set es" for s
  proof -
    have "le = Inr es"
      using that by (auto simp: es_def split: sum.splits)
    then show ?thesis
      using expired_sound [OF w1(1) _ that] le w1(2) by (auto simp: gc_due_def)
  qed
  have ss: "\<exists>i. db_sessions (db w) (si_SessionID s) = Some i \<and> refOf s = refOf i \<and>
      gc_due (db w) now (si_SessionID s) i \<and> safe_sid (si_SessionID s)" if "s \<in> set ss" for s
    using deduplicate_subset [OF that [unfolded ss_def]] c e by auto
  show thesis
  proof (rule that [of ss errs'])
    show "gc_effect ok objs db ss w errs' w'"
      using gcDelete_effect [OF assms(2,3) g w2(1)] ss w2(2,3) by (fastforce simp: gc_effect_def)
    show "\<exists>i. db_sessions (db w) (si_SessionID s) = Some i \<and> refOf s = refOf i \<and>
        gc_due (db w) (clock w) (si_SessionID s) i" if "s \<in> set ss" for s
      using ss [OF that] by (auto simp: now_def)
    fix sid i
    assume err: "errs = []" and ce: "int (card (due (db_expiry (db w)) (clock w))) \<le> gcCandidateLimit"
      and ca: "int (card (due (db_activity (db w)) (clock w - gcMinInactiveLookback))) \<le> gcCandidateLimit"
      and due: "gc_due (db w) (clock w) sid i" and i: "db_sessions (db w) sid = Some i"
    have sid: "si_SessionID i = sid" "safe_sid sid"
      using session_wf [OF assms(4) i] by auto
    have ids: "si_SessionID ` set ss = si_SessionID ` set (filter (idleElapsed now) cs) \<union> si_SessionID ` set es"
      by (simp add: ss_def deduplicate_ids)
    from due consider "sid \<in> due (db_expiry (db w)) now"
      | t where "db_activity (db w) sid = Some t" "t \<le> Unix (now - gcMinInactiveLookback)"
        "idleElapsed now (i\<lparr>si_LastActivityAt := unixTime t\<rparr>)"
      by (auto simp: gc_due_def now_def)
    then show "sid \<in> si_SessionID ` set ss"
    proof cases
      case 1
      have "i \<in> set es"
        using expired_complete [OF w1(1) le [unfolded errs(3) [OF err]]] ce 1 sid(2) i w1(2)
        by (simp add: now_def)
      then show ?thesis
        using sid(1) ids by force
    next
      case (2 t)
      let ?i = "i\<lparr>si_LastActivityAt := unixTime t\<rparr>"
      have "?i \<in> set cs"
        using inactive_complete [OF assms(4) li [unfolded errs(2) [OF err]]] ca 2(1,2) sid(2) i
        by (simp add: now_def)
      then have "si_SessionID ?i \<in> si_SessionID ` set (filter (idleElapsed now) cs)"
        using 2(3) by (intro imageI) simp
      then show ?thesis
        using sid(1) ids by simp
    qed
  qed (rule errs)
qed

end

lemma newGarbageCollector_simps:
  "gc_k8sClient (newGarbageCollector cl st interval) = cl"
  "gc_storeClient (newGarbageCollector cl st interval) = st"
  by (simp_all add: newGarbageCollector_def)

text \<open>Every sandbox and claim in the cluster is named by a session.\<close>

definition no_orphans ::
  "('w \<Rightarrow> bool) \<Rightarrow> ('w \<Rightarrow> objref set) \<Rightarrow> ('w \<Rightarrow> sessionDB) \<Rightarrow> 'w \<Rightarrow> bool" where
  "no_orphans ok objs db w \<longleftrightarrow>
     ok w \<and> (\<forall>x \<in> objs w. \<exists>sid i. db_sessions (db w) sid = Some i \<and> refOf i = x)"

lemma sample_once:
  "\<exists>w'. once std_apierrors (newGarbageCollector memCluster worldStore Minute) w_now
     (sampleWorld (3000 * Second)) = ([], w') \<and> sess ns_codec (w_ks w') ''s1'' = None"
proof -
  let ?w = "sampleWorld (3000 * Second)" and ?s = "(persisted sampleSandbox)\<lparr>si_LastActivityAt := 0\<rparr>"
  note list = json_codec.list_reliable [OF ns.goJson.json_codec_axioms sampleKs_facts(1) sampleKs_index(3)]
  have li: "st_ListInactiveSandboxes worldStore (3000 * Second - gcMinInactiveLookback) gcCandidateLimit ?w =
      (Inr [?s], ?w)"
    by (simp add: world_list in_world_def list sampleWorld_def sampleKs_index zset_range_def
        listed_def sampleKs_facts List.map_filter_simps with_activity_def scores_of_def
        gcMinInactiveLookback_def gcCandidateLimit_def go_simps)
  have le: "st_ListExpiredSandboxes worldStore (3000 * Second) gcCandidateLimit ?w =
      (Inr [persisted sampleSandbox], ?w)"
    by (simp add: world_list in_world_def list sampleWorld_def sampleKs_index zset_range_def
        listed_def sampleKs_facts List.map_filter_simps gcCandidateLimit_def go_simps)
  have idle: "idleElapsed (3000 * Second) ?s"
    by (simp add: idleElapsed_def sampleSandbox_def zeroSandboxInfo_def persisted_def go_simps)
  have gone: "sess ns_codec (run_cmds sampleKs (delete_cmds ''s1'')) ''s1'' = None"
    using json_codec.delete_run_db [OF ns.goJson.json_codec_axioms sampleKs_facts(1), of "''s1''"]
    by (simp add: abs_db_def db_delete_def)
  have del: "\<exists>w'. gcDelete std_apierrors (newGarbageCollector memCluster worldStore Minute) [?s] ?w = ([], w') \<and>
      sess ns_codec (w_ks w') ''s1'' = None"
    by (simp add: gcDelete.simps deleteSandbox_gc_def newGarbageCollector_def memCluster_def
        sampleWorld_def sampleSandbox_def persisted_def zeroSandboxInfo_def kind_defs world_delete
        in_world_def json_codec.delete_reliable [OF ns.goJson.json_codec_axioms sampleKs_facts(1)]
        safe_sid_def gone)
  have "deduplicateSandboxes [filter (idleElapsed (3000 * Second)) [?s], [persisted sampleSandbox]] = [?s]"
    using idle by (simp add: deduplicateSandboxes_def)
  then show ?thesis
    using li le del
    by (simp add: once_def newGarbageCollector_simps Let_def sampleWorld_def [of "3000 * Second", simplified]
        del: filter.simps split: prod.split)
qed

subsection \<open>Properties\<close>

text \<open>
  C12: A pass of the garbage collector changes only sessions that are past their deadline, or whose last
  activity lies back the lookback and their own idle timeout; and whatever session it removes, the
  sandbox or claim behind it has been removed before.  This holds whatever calls fail.
\<close>

theorem gc_once_only_due:
  assumes "store_and_cluster st db clock ok ae cl objs" and "ok w"
    and "once ae (newGarbageCollector cl st interval) clock w = (errs, w')"
    and "db_sessions (db w) sid = Some i" and "db_sessions (db w') sid \<noteq> Some i"
  shows "gc_due (db w) (clock w) sid i \<and> refOf i \<notin> objs w'"
proof -
  obtain ss errs' where g: "gc_effect ok objs db ss w errs' w'"
    and ss: "\<And>s. s \<in> set ss \<Longrightarrow> \<exists>i. db_sessions (db w) (si_SessionID s) = Some i \<and> refOf s = refOf i \<and>
        gc_due (db w) (clock w) (si_SessionID s) i"
    by (rule store_and_cluster.once_effect [OF assms(1,3) newGarbageCollector_simps assms(2)]) blast
  obtain s where "s \<in> set ss" "si_SessionID s = sid" "refOf s \<notin> objs w'"
    using gc_effect_changed [OF g, of sid] assms(4,5) by auto
  then show ?thesis
    using ss [of s] assms(4) by auto
qed

theorem gc_once_only_due_witness:
  "gc_due (abs_db ns_codec sampleKs) (3000 * Second) ''s1'' (persisted sampleSandbox)"
proof -
  obtain w' where w': "once std_apierrors (newGarbageCollector memCluster worldStore Minute) w_now
      (sampleWorld (3000 * Second)) = ([], w')" "sess ns_codec (w_ks w') ''s1'' = None"
    using sample_once by blast
  from gc_once_only_due [OF world_sc.store_and_cluster_axioms _ w'(1), of "''s1''" "persisted sampleSandbox"] w'(2)
  show ?thesis
    by (simp add: sampleWorld_def sampleKs_facts abs_db_def)
qed

text \<open>
  C13: A pass that logs no error, with no more due sessions than it asks for, leaves none of them: each
  session past its deadline or idle for longer than its timeout is gone from the store, and its sandbox
  or claim from the cluster.
\<close>

theorem gc_once_complete:
  assumes "store_and_cluster st db clock ok ae cl objs" and "ok w"
    and "once ae (newGarbageCollector cl st interval) clock w = ([], w')"
    and "int (card (due (db_expiry (db w)) (clock w))) \<le> gcCandidateLimit"
    and "int (card (due (db_activity (db w)) (clock w - gcMinInactiveLookback))) \<le> gcCandidateLimit"
    and "db_sessions (db w) sid = Some i" and "gc_due (db w) (clock w) sid i"
  shows "db_sessions (db w') sid = None \<and> refOf i \<notin> objs w'"
proof -
  obtain ss where g: "gc_effect ok objs db ss w [] w'"
    and ss: "\<And>s. s \<in> set ss \<Longrightarrow> \<exists>i. db_sessions (db w) (si_SessionID s) = Some i \<and> refOf s = refOf i"
    and sid: "sid \<in> si_SessionID ` set ss"
    by (rule store_and_cluster.once_effect [OF assms(1,3) newGarbageCollector_simps assms(2)])
      (use assms(4-7) in blast)
  obtain s where "s \<in> set ss" "si_SessionID s = sid"
    using sid by auto
  then show ?thesis
    using g ss [of s] assms(6) by (auto simp: gc_effect_def)
qed

theorem gc_once_complete_witness:
  "\<exists>w'. once std_apierrors (newGarbageCollector memCluster worldStore Minute) w_now
      (sampleWorld (3000 * Second)) = ([], w') \<and> SandboxRef ''default'' ''ci-1'' \<notin> world_objs w'"
proof -
  obtain w' where w': "once std_apierrors (newGarbageCollector memCluster worldStore Minute) w_now
      (sampleWorld (3000 * Second)) = ([], w')"
    using sample_once by blast
  have card: "int (card (due (map_of [(''s1'', n)]) t)) \<le> gcCandidateLimit" for n t
    using due_card [of "[(''s1'', n)]" t] by (simp add: gcCandidateLimit_def)
  have "''s1'' \<in> due (map_of [(''s1'', 2000)]) (3000 * Second)"
    by (simp add: due_def go_simps)
  then have "refOf (persisted sampleSandbox) \<notin> world_objs w'"
    using gc_once_complete [OF world_sc.store_and_cluster_axioms _ w', of "''s1''" "persisted sampleSandbox"]
      card sampleKs_facts(1,2)
    by (simp add: sampleWorld_def abs_db_def sampleKs_index gc_due_def del: map_of.simps)
  then show ?thesis
    using w' by (auto simp: refOf_def persisted_def sampleSandbox_def kind_defs zeroSandboxInfo_def)
qed

text \<open>
  C5: However the ticks of the collector interleave with other clients that keep it, every sandbox and
  claim in the cluster stays named by a session of the store, so none is out of reach of a later pass.
\<close>

theorem gc_run_no_orphans:
  assumes "store_and_cluster st db clock ok ae cl objs"
    and "\<forall>f w. GcOther f \<in> set evs \<longrightarrow> no_orphans ok objs db w \<longrightarrow> no_orphans ok objs db (f w)"
    and "no_orphans ok objs db w"
  shows "no_orphans ok objs db (gcRun ae (newGarbageCollector cl st interval) clock evs w)"
proof -
  let ?inv = "no_orphans ok objs db" and ?gc = "newGarbageCollector cl st interval"
  have tick: "?inv (snd (once ae ?gc clock w))" if "?inv w" for w
  proof -
    obtain errs w' where o: "once ae ?gc clock w = (errs, w')" by fastforce
    have okw: "ok w" using that by (simp add: no_orphans_def)
    obtain ss errs' where g: "gc_effect ok objs db ss w errs' w'"
      and ss: "\<And>s. s \<in> set ss \<Longrightarrow> \<exists>i. db_sessions (db w) (si_SessionID s) = Some i \<and> refOf s = refOf i"
      by (rule store_and_cluster.once_effect [OF assms(1) o newGarbageCollector_simps okw]) blast
    have "\<exists>sid i. db_sessions (db w') sid = Some i \<and> refOf i = x" if x: "x \<in> objs w'" for x
    proof -
      have "x \<in> objs w"
        using g x by (auto simp: gc_effect_def)
      then obtain sid i where i: "db_sessions (db w) sid = Some i" "refOf i = x"
        using \<open>?inv w\<close> unfolding no_orphans_def by blast
      have "db_sessions (db w') sid = Some i"
      proof (rule ccontr)
        assume "db_sessions (db w') sid \<noteq> Some i"
        then obtain s where "s \<in> set ss" "si_SessionID s = sid" "refOf s \<notin> objs w'"
          using gc_effect_changed [OF g, of sid] i(1) by auto
        then show False
          using ss [of s] i x by auto
      qed
      with i show ?thesis by auto
    qed
    then show ?thesis
      using o g by (auto simp: gc_effect_def no_orphans_def)
  qed
  show ?thesis
    using assms(2,3)
  proof (induction evs arbitrary: w)
    case (Cons ev evs)
    then show ?case
      by (cases ev) (auto intro!: Cons.IH tick)
  qed simp
qed

theorem gc_run_no_orphans_witness:
  "no_orphans (\<lambda>w. layout_ok ns_codec (w_ks w)) world_objs (\<lambda>w. abs_db ns_codec (w_ks w))
     (gcRun std_apierrors (newGarbageCollector memCluster worldStore Minute) w_now
        [GcTick, GcOther (\<lambda>w. w\<lparr>w_now := 5\<rparr>), GcTick, GcStop] (sampleWorld (3000 * Second)))"
proof (rule gc_run_no_orphans [OF world_sc.store_and_cluster_axioms])
  show "no_orphans (\<lambda>w. layout_ok ns_codec (w_ks w)) world_objs (\<lambda>w. abs_db ns_codec (w_ks w))
      (sampleWorld (3000 * Second))"
    using sampleKs_facts(1,2)
    by (auto simp: no_orphans_def sampleWorld_def world_objs_def abs_db_def
        intro!: exI [of _ "''s1''"] split: if_splits)
      (simp add: refOf_def persisted_def sampleSandbox_def kind_defs zeroSandboxInfo_def)
qed (auto simp: no_orphans_def world_objs_def)

end
