(* ===== verification/Lru.thy ===== *)
theory Lru
  imports Prelude "HOL-Library.AList"
begin

text \<open>
  The structure both caches of \<open>pkg/workloadmanager/client_cache.go\<close> are built on: a map of bounded
  size and a list of its keys, the most recently used first.  The elements of the Go list are pointers to
  the entries; here they are the keys of the entries.

  Locale \<open>lru_structure\<close> says that every operation is one of the moves of such a structure at the key it
  is called with.  From that alone follow the bound on the size and what least recently used means: an
  entry outlives every sequence of operations that uses fewer other keys than the cache has places.
\<close>

record 'e lru =
  lc_cache :: "(string \<times> 'e) list"
  lc_list :: "string list"
  lc_max :: nat

definition lru_remove :: "string \<Rightarrow> 'e lru \<Rightarrow> 'e lru" where
  "lru_remove key c =
     c\<lparr>lc_cache := AList.delete key (lc_cache c), lc_list := remove1 key (lc_list c)\<rparr>"

definition lru_front :: "string \<Rightarrow> 'e lru \<Rightarrow> 'e lru" where
  "lru_front key c = c\<lparr>lc_list := key # remove1 key (lc_list c)\<rparr>"

definition lru_put :: "string \<Rightarrow> 'e \<Rightarrow> 'e lru \<Rightarrow> 'e lru" where
  "lru_put key e c = c\<lparr>lc_cache := AList.update key e (lc_cache c)\<rparr>"

definition lru_push :: "string \<Rightarrow> 'e \<Rightarrow> 'e lru \<Rightarrow> 'e lru" where
  "lru_push key e c = c\<lparr>lc_cache := AList.update key e (lc_cache c), lc_list := key # lc_list c\<rparr>"

definition evictOldest :: "'e lru \<Rightarrow> 'e lru" where
  "evictOldest c = (if lc_list c = [] then c else lru_remove (last (lc_list c)) c)"

lemmas lru_defs = lru_remove_def lru_front_def lru_put_def lru_push_def

definition lru_ok :: "'e lru \<Rightarrow> bool" where
  "lru_ok c \<longleftrightarrow>
     distinct (lc_list c) \<and> distinct (map fst (lc_cache c)) \<and>
     set (lc_list c) = fst ` set (lc_cache c) \<and> length (lc_cache c) \<le> lc_max c \<and> 0 < lc_max c"

text \<open>The moves at a key: nothing, remove, touch, update and touch, insert with an eviction when full.\<close>

definition lru_move :: "string \<Rightarrow> 'e lru \<Rightarrow> 'e lru \<Rightarrow> bool" where
  "lru_move k c c' \<longleftrightarrow>
     c' = c \<or> c' = lru_remove k c \<or>
     k \<in> set (lc_list c) \<and> (c' = lru_front k c \<or> (\<exists>e. c' = lru_front k (lru_put k e c))) \<or>
     k \<notin> set (lc_list c) \<and>
       (\<exists>e. c' = lru_push k e (if length (lc_cache c) \<ge> lc_max c then evictOldest c else c))"

subsection \<open>The moves keep the structure\<close>

lemma lru_okD:
  assumes "lru_ok c"
  shows "distinct (lc_list c)" "distinct (map fst (lc_cache c))"
    "set (lc_list c) = fst ` set (lc_cache c)" "length (lc_cache c) \<le> lc_max c" "0 < lc_max c"
    "length (lc_list c) = length (lc_cache c)"
  using assms by (auto simp: lru_ok_def dest!: distinct_card simp flip: distinct_card)

lemma length_delete_less: "k \<in> fst ` set xs \<Longrightarrow> length (AList.delete k xs) < length xs"
  by (fastforce simp: AList.delete_eq intro: length_filter_less)

lemma length_update:
  "distinct (map fst xs) \<Longrightarrow>
     length (AList.update k v xs) = (if k \<in> fst ` set xs then length xs else Suc (length xs))"
  by (induction xs) auto

lemma lru_remove_ok: "lru_ok c \<Longrightarrow> lru_ok (lru_remove k c)"
  by (auto simp: lru_ok_def lru_remove_def AList.delete_eq distinct_map_filter
      intro: order_trans [OF length_filter_le])

lemma lru_front_ok: "lru_ok c \<Longrightarrow> k \<in> set (lc_list c) \<Longrightarrow> lru_ok (lru_front k c)"
  by (auto simp: lru_ok_def lru_front_def)

lemma lru_put_ok: "lru_ok c \<Longrightarrow> k \<in> set (lc_list c) \<Longrightarrow> lru_ok (lru_put k e c)"
  by (auto simp: lru_ok_def lru_put_def length_update distinct_update dom_update insert_absorb)

lemma evictOldest_ok: "lru_ok c \<Longrightarrow> lru_ok (evictOldest c)"
  by (simp add: evictOldest_def lru_remove_ok)

lemma evictOldest_less:
  assumes "lru_ok c"
  shows "length (lc_cache (if length (lc_cache c) \<ge> lc_max c then evictOldest c else c)) < lc_max c"
proof (cases "length (lc_cache c) \<ge> lc_max c")
  case True
  then have ne: "lc_list c \<noteq> []"
    using lru_okD(5,6) [OF assms] by auto
  then have "last (lc_list c) \<in> fst ` set (lc_cache c)"
    using last_in_set lru_okD(3) [OF assms] by metis
  then show ?thesis
    using True ne lru_okD(4) [OF assms] length_delete_less
    by (fastforce simp: evictOldest_def lru_remove_def)
qed simp

lemma lru_push_ok:
  "lru_ok c \<Longrightarrow> k \<notin> set (lc_list c) \<Longrightarrow> length (lc_cache c) < lc_max c \<Longrightarrow> lru_ok (lru_push k e c)"
  by (auto simp: lru_ok_def lru_push_def length_update distinct_update dom_update)

lemma evictOldest_sub: "set (lc_list (evictOldest c)) \<subseteq> set (lc_list c)"
  using set_remove1_subset [of "last (lc_list c)" "lc_list c"]
  by (simp add: evictOldest_def lru_remove_def)

lemma max_simps [simp]:
  "lc_max (lru_remove k c) = lc_max c" "lc_max (lru_front k c) = lc_max c"
  "lc_max (lru_put k e c) = lc_max c" "lc_max (lru_push k e c) = lc_max c"
  "lc_max (evictOldest c) = lc_max c"
  by (simp_all add: lru_defs evictOldest_def)

lemma lru_move_ok:
  assumes "lru_ok c" "lru_move k c c'"
  shows "lru_ok c' \<and> lc_max c' = lc_max c"
proof -
  have "lru_ok (lru_push k e (if length (lc_cache c) \<ge> lc_max c then evictOldest c else c))"
    if "k \<notin> set (lc_list c)" for e
    by (rule lru_push_ok)
      (use assms(1) that evictOldest_ok evictOldest_sub [of c] evictOldest_less [OF assms(1)] in auto)
  then show ?thesis
    using assms lru_remove_ok lru_front_ok lru_put_ok
    by (auto simp: lru_move_def lru_put_def lru_front_ok [OF lru_put_ok, unfolded lru_put_def])
qed

subsection \<open>The entry at a key\<close>

definition lru_find :: "'e lru \<Rightarrow> string \<Rightarrow> 'e option" where
  "lru_find c = map_of (lc_cache c)"

lemma lru_find_in: "lru_ok c \<Longrightarrow> k \<in> set (lc_list c) \<longleftrightarrow> lru_find c k \<noteq> None"
  by (simp add: lru_ok_def lru_find_def map_of_eq_None_iff)

lemma lru_find_simps [simp]:
  "lru_find (lru_remove k c) k' = (if k' = k then None else lru_find c k')"
  "lru_find (lru_front k c) k' = lru_find c k'"
  "lru_find (lru_put k e c) k' = (if k' = k then Some e else lru_find c k')"
  "lru_find (lru_push k e c) k' = (if k' = k then Some e else lru_find c k')"
  by (simp_all add: lru_find_def lru_defs delete_conv' update_conv')

text \<open>The keys used more recently than \<open>key\<close>.\<close>

definition ahead :: "string \<Rightarrow> 'e lru \<Rightarrow> string set" where
  "ahead key c = set (takeWhile (\<lambda>k. k \<noteq> key) (lc_list c))"

lemma ahead_front [simp]: "ahead key (lru_front key c) = {}" "ahead key (lru_push key e c) = {}"
  by (simp_all add: ahead_def lru_defs)

lemma takeWhile_remove1: "set (takeWhile P (remove1 k xs)) \<subseteq> set (takeWhile P xs)" if "P k"
  using that by (induction xs) auto

lemma ahead_moves:
  assumes "k \<noteq> key"
  shows "ahead key (lru_remove k c) \<subseteq> ahead key c"
    "ahead key (lru_front k c) \<subseteq> insert k (ahead key c)"
    "ahead key (lru_push k e c) \<subseteq> insert k (ahead key c)"
    "ahead key (lru_put k e c) = ahead key c"
  using assms takeWhile_remove1 [of "\<lambda>k. k \<noteq> key" k "lc_list c"] by (auto simp: ahead_def lru_defs)

text \<open>When the oldest entry of a full cache is \<open>key\<close>, every other place is taken by a younger one.\<close>

lemma ahead_last:
  assumes "lru_ok c" "lc_list c \<noteq> []" "last (lc_list c) = key"
    and k: "k \<notin> set (lc_list c)"
  shows "card (insert k (ahead key c)) = length (lc_cache c)"
proof -
  have l: "lc_list c = butlast (lc_list c) @ [key]"
    using assms(2,3) by (metis append_butlast_last_id)
  have "distinct (butlast (lc_list c) @ [key])"
    using lru_okD(1) [OF assms(1)] l by simp
  then have "takeWhile (\<lambda>k. k \<noteq> key) (butlast (lc_list c) @ [key]) = butlast (lc_list c)"
    by (subst takeWhile_append2) auto
  then have t: "takeWhile (\<lambda>k. k \<noteq> key) (lc_list c) = butlast (lc_list c)"
    using l by simp
  have "distinct (butlast (lc_list c))"
    using lru_okD(1) [OF assms(1)] by (rule distinct_butlast)
  then have "card (ahead key c) = length (lc_list c) - 1"
    by (simp add: ahead_def t distinct_card)
  moreover have "k \<notin> ahead key c"
    using k by (auto simp: ahead_def t dest: in_set_butlastD)
  moreover have "0 < length (lc_cache c)"
    using assms(2) lru_okD(6) [OF assms(1)] by (metis length_greater_0_conv)
  ultimately show ?thesis
    using lru_okD(6) [OF assms(1)] by (simp add: ahead_def)
qed

lemma lru_move_keeps:
  assumes "lru_ok c" "lru_move k c c'" "k \<noteq> key" "lru_find c key = Some e"
    and "insert k (ahead key c) \<subseteq> T" "finite T" "card T < lc_max c"
  shows "lru_find c' key = Some e \<and> ahead key c' \<subseteq> T"
proof -
  have evict: "lru_find (evictOldest c) key = Some e \<and> ahead key (evictOldest c) \<subseteq> ahead key c"
    if "k \<notin> set (lc_list c)" "length (lc_cache c) \<ge> lc_max c"
  proof -
    have "key \<noteq> last (lc_list c)" if "lc_list c \<noteq> []"
      using ahead_last [OF assms(1) that refl \<open>k \<notin> set (lc_list c)\<close>] assms(5-7)
        \<open>length (lc_cache c) \<ge> lc_max c\<close> card_mono [of T "insert k (ahead key c)"] by auto
    then show ?thesis
      using assms(4) ahead_moves(1) [of "last (lc_list c)" key c] by (auto simp: evictOldest_def)
  qed
  let ?c = "if length (lc_cache c) \<ge> lc_max c then evictOldest c else c"
  have push: "lru_find (lru_push k d ?c) key = Some e \<and> ahead key (lru_push k d ?c) \<subseteq> insert k (ahead key c)"
    if "k \<notin> set (lc_list c)" for d
  proof -
    have "lru_find ?c key = Some e \<and> ahead key ?c \<subseteq> ahead key c"
      using evict [OF that] assms(4) by simp
    then show ?thesis
      using assms(3) ahead_moves(3) [OF assms(3), where e = d and c = ?c] by auto
  qed
  have b: "ahead key (lru_front k (lru_put k d c)) \<subseteq> insert k (ahead key c)" for d
    using ahead_moves(2) [OF assms(3), of "lru_put k d c"] by (simp add: ahead_moves(4) [OF assms(3)])
  from assms(2) consider "c' = c" | "c' = lru_remove k c" | "c' = lru_front k c"
    | d where "c' = lru_front k (lru_put k d c)"
    | d where "k \<notin> set (lc_list c)"
      "c' = lru_push k d (if length (lc_cache c) \<ge> lc_max c then evictOldest c else c)"
    unfolding lru_move_def by blast
  then show ?thesis
  proof cases
    case (5 d)
    then show ?thesis
      using push [OF 5(1), of d] assms(5) by blast
  qed (use assms(3-5) ahead_moves(1,2) [OF assms(3), of c] b in \<open>simp_all, blast+\<close>)
qed

subsection \<open>Histories\<close>

locale lru_structure =
  fixes view :: "'c \<Rightarrow> 'e lru" and run :: "'op \<Rightarrow> 'c \<Rightarrow> 'c" and keyOf :: "'op \<Rightarrow> string"
  assumes run_move: "lru_ok (view c) \<Longrightarrow> lru_move (keyOf op) (view c) (view (run op c))"
begin

lemma run_ok: "lru_ok (view c) \<Longrightarrow> lru_ok (view (run op c)) \<and> lc_max (view (run op c)) = lc_max (view c)"
  using lru_move_ok run_move by blast

lemma history_ok:
  "lru_ok (view c) \<Longrightarrow> lru_ok (view (fold run ops c)) \<and> lc_max (view (fold run ops c)) = lc_max (view c)"
  by (induction ops arbitrary: c) (use run_ok in auto)

lemma history_survives:
  assumes "lru_ok (view c)" "lru_find (view c) key = Some e" "ahead key (view c) \<subseteq> T"
    and "\<forall>op \<in> set ops. keyOf op \<noteq> key \<and> keyOf op \<in> T" "finite T" "card T < lc_max (view c)"
  shows "lru_find (view (fold run ops c)) key = Some e"
  using assms(1-4,6)
proof (induction ops arbitrary: c)
  case (Cons op ops)
  have "lru_find (view (run op c)) key = Some e \<and> ahead key (view (run op c)) \<subseteq> T"
    by (rule lru_move_keeps [OF Cons.prems(1) run_move [OF Cons.prems(1)]])
      (use Cons.prems assms(5) in auto)
  then show ?case
    using Cons.IH [of "run op c"] Cons.prems run_ok [OF Cons.prems(1)] by simp
qed simp

end

end
