(* ===== verification/JsonAny.thy ===== *)
theory JsonAny
  imports Complex_Main "HOL-Library.Countable" "HOL-Library.AList" GoJson
begin

text \<open>
  Package \<open>encoding/json\<close> for a document whose shape is not known in advance: the decoder into
  \<open>interface{}\<close> values and into \<open>map[string]interface{}\<close>, which the sources use for the claims of
  tokens, and the decoding of the fields of a struct from them.  A number is a \<open>float64\<close>, kept as the
  rational it denotes; one beyond the range of \<open>float64\<close> is an error.  Strings are valid UTF-8.
\<close>

datatype jval =
    VNull
  | VBool bool
  | VNum rat
  | VStr string
  | VArr "jval list"
  | VObj "(string \<times> jval) list"

instance jval :: countable
  by countable_datatype

type_synonym claims = "(string \<times> jval) list"

subsection \<open>Strings\<close>

definition utf8 :: "nat \<Rightarrow> string" where
  "utf8 r =
     (if r < 0x80 then [char_of r]
      else if r < 0x800 then [char_of (0xC0 + r div 64), char_of (0x80 + r mod 64)]
      else if r < 0x10000
      then [char_of (0xE0 + r div 4096), char_of (0x80 + r div 64 mod 64), char_of (0x80 + r mod 64)]
      else [char_of (0xF0 + r div 262144), char_of (0x80 + r div 4096 mod 64),
        char_of (0x80 + r div 64 mod 64), char_of (0x80 + r mod 64)])"

fun hex4 :: "string \<Rightarrow> nat option" where
  "hex4 (a # b # c # d # s) =
     (case (hexVal a, hexVal b, hexVal c, hexVal d) of
        (Some w, Some x, Some y, Some z) \<Rightarrow> Some (4096 * w + 256 * x + 16 * y + z)
      | _ \<Rightarrow> None)"
| "hex4 s = None"

text \<open>
  The rest of a literal after its opening quote.  An escape of the first half of a surrogate pair takes
  the escape of the second half with it; a half on its own is the replacement character.
\<close>

function readLit :: "string \<Rightarrow> (string \<times> string) option" where
  "readLit s =
     (case s of
        [] \<Rightarrow> None
      | c # cs \<Rightarrow>
          if c = CHR 0x22 then Some ([], cs)
          else if (of_char c :: nat) < 32 then None
          else if c \<noteq> CHR 0x5C then map_option (\<lambda>(t, rest). (c # t, rest)) (readLit cs)
          else
            (case cs of
               [] \<Rightarrow> None
             | e # cs1 \<Rightarrow>
                 if e \<noteq> CHR ''u'' then
                   (case unescChar e of
                      None \<Rightarrow> None
                    | Some x \<Rightarrow> map_option (\<lambda>(t, rest). (x # t, rest)) (readLit cs1))
                 else
                   (case hex4 cs1 of
                      None \<Rightarrow> None
                    | Some r \<Rightarrow>
                        if r < 0xD800 \<or> 0xE000 \<le> r
                        then map_option (\<lambda>(t, rest). (utf8 r @ t, rest)) (readLit (drop 4 cs1))
                        else
                          (case (HasPrefix (drop 4 cs1) [CHR 0x5C, CHR ''u''], hex4 (drop 6 cs1)) of
                             (True, Some r2) \<Rightarrow>
                               if r < 0xDC00 \<and> 0xDC00 \<le> r2 \<and> r2 < 0xE000
                               then map_option
                                 (\<lambda>(t, rest). (utf8 ((r - 0xD800) * 1024 + (r2 - 0xDC00) + 0x10000) @ t, rest))
                                 (readLit (drop 10 cs1))
                               else map_option (\<lambda>(t, rest). (utf8 0xFFFD @ t, rest)) (readLit (drop 4 cs1))
                           | _ \<Rightarrow> map_option (\<lambda>(t, rest). (utf8 0xFFFD @ t, rest)) (readLit (drop 4 cs1))))))"
  by pat_completeness auto
termination
  by (relation "measure length") auto

declare readLit.simps [simp del]

subsection \<open>Numbers\<close>

definition isDigit :: "char \<Rightarrow> bool" where
  "isDigit c \<longleftrightarrow> 48 \<le> (of_char c :: nat) \<and> (of_char c :: nat) \<le> 57"

definition decimal :: "string \<Rightarrow> nat" where
  "decimal ds = foldl (\<lambda>n c. 10 * n + (of_char c - 48)) 0 ds"

definition maxFloat64 :: rat where
  "maxFloat64 = 2 ^ 1024 - 2 ^ 970"

definition readExp :: "string \<Rightarrow> (rat \<times> string) option" where
  "readExp s =
     (if s = [] \<or> hd s \<notin> {CHR ''e'', CHR ''E''} then Some (1, s)
      else
        (let s1 = tl s; signed = (s1 \<noteq> [] \<and> hd s1 \<in> {CHR ''+'', CHR ''-''});
             s2 = (if signed then tl s1 else s1); ds = takeWhile isDigit s2;
             p = 10 ^ decimal ds in
         if ds = [] then None
         else Some (if signed \<and> hd s1 = CHR ''-'' then 1 / p else p, dropWhile isDigit s2)))"

definition readNum :: "string \<Rightarrow> (rat \<times> string) option" where
  "readNum s =
     (let neg = (s \<noteq> [] \<and> hd s = CHR ''-''); s1 = (if neg then tl s else s);
          ds = takeWhile isDigit s1; s2 = dropWhile isDigit s1;
          dot = (s2 \<noteq> [] \<and> hd s2 = CHR ''.''); s3 = (if dot then tl s2 else s2);
          fs = (if dot then takeWhile isDigit s3 else []); s4 = (if dot then dropWhile isDigit s3 else s2) in
      if ds = [] \<or> (1 < length ds \<and> hd ds = CHR ''0'') \<or> (dot \<and> fs = []) then None
      else
        (case readExp s4 of
           None \<Rightarrow> None
         | Some (p, rest) \<Rightarrow>
             (let v = (of_nat (decimal ds) + of_nat (decimal fs) / 10 ^ length fs) * p in
              if maxFloat64 \<le> v then None else Some (if neg then - v else v, rest))))"

subsection \<open>Values\<close>

definition skipWS :: "string \<Rightarrow> string" where
  "skipWS = dropWhile (\<lambda>c. c \<in> {CHR '' '', CHR 0x09, CHR 0x0A, CHR 0x0D})"

text \<open>
  The reader of a value, of the elements of an array and of the members of an object, all after white
  space.  The fuel bounds the depth of the recursion; twice the length of the text is enough.
\<close>

fun readAny :: "nat \<Rightarrow> string \<Rightarrow> (jval \<times> string) option"
  and readItems :: "nat \<Rightarrow> string \<Rightarrow> (jval list \<times> string) option"
  and readPairs :: "nat \<Rightarrow> string \<Rightarrow> ((string \<times> jval) list \<times> string) option" where
  "readAny 0 s = None"
| "readAny (Suc n) s =
     (if s = [] then None
      else if hd s = CHR 0x22 then map_option (\<lambda>(x, r). (VStr x, r)) (readLit (tl s))
      else if hd s = CHR ''['' then
        (let s1 = skipWS (tl s) in
         if HasPrefix s1 '']'' then Some (VArr [], tl s1)
         else map_option (\<lambda>(x, r). (VArr x, r)) (readItems n s1))
      else if hd s = CHR ''{'' then
        (let s1 = skipWS (tl s) in
         if HasPrefix s1 ''}'' then Some (VObj [], tl s1)
         else map_option (\<lambda>(x, r). (VObj x, r)) (readPairs n s1))
      else if HasPrefix s ''null'' then Some (VNull, drop 4 s)
      else if HasPrefix s ''true'' then Some (VBool True, drop 4 s)
      else if HasPrefix s ''false'' then Some (VBool False, drop 5 s)
      else map_option (\<lambda>(x, r). (VNum x, r)) (readNum s))"
| "readItems 0 s = None"
| "readItems (Suc n) s =
     (case readAny n s of
        None \<Rightarrow> None
      | Some (v, r0) \<Rightarrow>
          (let r = skipWS r0 in
           if HasPrefix r '']'' then Some ([v], tl r)
           else if HasPrefix r '',''
           then map_option (\<lambda>(vs, r'). (v # vs, r')) (readItems n (skipWS (tl r)))
           else None))"
| "readPairs 0 s = None"
| "readPairs (Suc n) s =
     (if \<not> HasPrefix s [CHR 0x22] then None
      else
        (case readLit (tl s) of
           None \<Rightarrow> None
         | Some (k, r0) \<Rightarrow>
             if \<not> HasPrefix (skipWS r0) '':'' then None
             else
               (case readAny n (skipWS (tl (skipWS r0))) of
                  None \<Rightarrow> None
                | Some (v, r1) \<Rightarrow>
                    (let r = skipWS r1 in
                     if HasPrefix r ''}'' then Some ([(k, v)], tl r)
                     else if HasPrefix r '',''
                     then map_option (\<lambda>(vs, r'). ((k, v) # vs, r')) (readPairs n (skipWS (tl r)))
                     else None))))"

definition parseJson :: "string \<Rightarrow> jval option" where
  "parseJson s =
     (case readAny (2 * length s) (skipWS s) of
        Some (v, r) \<Rightarrow> if skipWS r = [] then Some v else None
      | None \<Rightarrow> None)"

text \<open>\<open>json.Unmarshal\<close> into a \<open>map[string]interface{}\<close>: of two members with one name the later counts.\<close>

definition UnmarshalMap :: "string \<Rightarrow> claims option" where
  "UnmarshalMap s =
     (case parseJson s of
        Some (VObj kvs) \<Rightarrow> Some (rev kvs)
      | Some VNull \<Rightarrow> Some []
      | _ \<Rightarrow> None)"

subsection \<open>Structs\<close>

definition jsonErr :: gerr where "jsonErr = ErrMsg ''invalid JSON''"

text \<open>
  The members a struct is decoded from, and a string field of it, whose name is matched without regard
  to case: \<open>null\<close> leaves the field, any other type is an error.
\<close>

definition UnmarshalStruct :: "string \<Rightarrow> (string \<times> jval) list res" where
  "UnmarshalStruct s =
     (case parseJson s of
        Some (VObj kvs) \<Rightarrow> Inr kvs
      | Some VNull \<Rightarrow> Inr []
      | _ \<Rightarrow> Inl jsonErr)"

fun strField :: "string \<Rightarrow> (string \<times> jval) list \<Rightarrow> string \<Rightarrow> string res" where
  "strField name [] cur = Inr cur"
| "strField name ((k, v) # kvs) cur =
     (if \<not> EqualFold k name then strField name kvs cur
      else
        (case v of
           VStr s \<Rightarrow> strField name kvs s
         | VNull \<Rightarrow> strField name kvs cur
         | _ \<Rightarrow> Inl typeErr))"

end
