(* ===== verification/Jwt.thy ===== *)
theory Jwt
  imports JsonAny
begin

text \<open>
  What the sources use of JSON Web Tokens and of keys in PEM form.  The package
  \<open>github.com/golang-jwt/jwt/v5\<close> and the RSA, X.509 and PEM code are parameters: records of the
  functions that are called, with their documented behaviour as the laws of locales.  The decoder of the
  payload, \<open>encoding/base64\<close>, is here; the JSON it holds is read by \<open>JsonAny\<close>.
\<close>

subsection \<open>Claims\<close>

text \<open>\<open>int64(v)\<close> for a \<open>float64\<close>.\<close>

definition int64Of :: "rat \<Rightarrow> int" where
  "int64Of v = (if v \<ge> 0 then \<lfloor>v\<rfloor> else \<lceil>v\<rceil>)"

lemma int64Of_of_int [simp]: "int64Of (of_int n) = n" "int64Of (numeral k) = numeral k"
  by (simp_all add: int64Of_def)

text \<open>The type assertions \<open>m[k].(string)\<close> and \<open>m[k].(float64)\<close>, with the zero value otherwise.\<close>

definition strClaim :: "claims \<Rightarrow> string \<Rightarrow> string" where
  "strClaim c k = (case map_of c k of Some (VStr s) \<Rightarrow> s | _ \<Rightarrow> [])"

definition numClaim :: "claims \<Rightarrow> string \<Rightarrow> rat" where
  "numClaim c k = (case map_of c k of Some (VNum v) \<Rightarrow> v | _ \<Rightarrow> 0)"

subsection \<open>\<open>base64.RawURLEncoding\<close>\<close>

definition b64Val :: "char \<Rightarrow> nat option" where
  "b64Val c =
     (let n = (of_char c :: nat) in
      if 65 \<le> n \<and> n \<le> 90 then Some (n - 65)
      else if 97 \<le> n \<and> n \<le> 122 then Some (n - 71)
      else if 48 \<le> n \<and> n \<le> 57 then Some (n + 4)
      else if n = 45 then Some 62 else if n = 95 then Some 63 else None)"

fun b64Groups :: "nat list \<Rightarrow> string option" where
  "b64Groups [] = Some []"
| "b64Groups [a] = None"
| "b64Groups [a, b] = Some [char_of (a * 4 + b div 16)]"
| "b64Groups [a, b, c] = Some [char_of (a * 4 + b div 16), char_of (b mod 16 * 16 + c div 4)]"
| "b64Groups (a # b # c # d # vs) =
     map_option (\<lambda>s. char_of (a * 4 + b div 16) # char_of (b mod 16 * 16 + c div 4) #
       char_of (c mod 4 * 64 + d) # s) (b64Groups vs)"

definition RawURLDecode :: "string \<Rightarrow> string option" where
  "RawURLDecode s =
     (let s' = filter (\<lambda>c. c \<noteq> CHR 0x0A \<and> c \<noteq> CHR 0x0D) s in
      if \<forall>c \<in> set s'. b64Val c \<noteq> None then b64Groups (map (\<lambda>c. the (b64Val c)) s') else None)"

subsection \<open>The libraries\<close>

datatype pubKey = RsaPub string | OtherPub string

type_synonym privKey = string

record keyLib =
  kl_pemDecode :: "string \<Rightarrow> string option"
  kl_pemEncode :: "string \<Rightarrow> string \<Rightarrow> string"
  kl_ParsePKIXPublicKey :: "string \<Rightarrow> pubKey res"
  kl_MarshalPKIXPublicKey :: "string \<Rightarrow> string res"
  kl_ParsePKCS1PrivateKey :: "string \<Rightarrow> privKey res"
  kl_MarshalPKCS1PrivateKey :: "privKey \<Rightarrow> string"
  kl_PublicKey :: "privKey \<Rightarrow> string"

record jwtOpts =
  jo_ValidMethods :: "string list option"
  jo_ExpirationRequired :: bool
  jo_IssuedAt :: bool
  jo_Leeway :: Duration

record jwtLib =
  jl_SignedString :: "string \<Rightarrow> privKey \<Rightarrow> claims \<Rightarrow> string res"
  jl_Parse :: "jwtOpts \<Rightarrow> (string \<Rightarrow> string res) \<Rightarrow> Time \<Rightarrow> string \<Rightarrow> claims res"

text \<open>
  The registered claims the parser checks: an expiry not yet reached, a not-before and, when asked, an
  issued-at that is not in the future, each with the leeway.  A date counts in whole seconds, and an expiry of zero
  is as good as none; zero for the other dates passes by any clock after 1970.
\<close>

definition dateClaim :: "claims \<Rightarrow> string \<Rightarrow> Time option option" where
  "dateClaim c k =
     (case map_of c k of
        None \<Rightarrow> Some None
      | Some (VNum v) \<Rightarrow> Some (Some (\<lfloor>v\<rfloor> * 1000000000))
      | Some _ \<Rightarrow> None)"

definition claimsValid :: "jwtOpts \<Rightarrow> Time \<Rightarrow> claims \<Rightarrow> bool" where
  "claimsValid opts now c \<longleftrightarrow>
     (case dateClaim c ''exp'' of
        None \<Rightarrow> False
      | Some None \<Rightarrow> \<not> jo_ExpirationRequired opts
      | Some (Some t) \<Rightarrow> now < t + jo_Leeway opts \<or> t = 0 \<and> \<not> jo_ExpirationRequired opts) \<and>
     (case dateClaim c ''nbf'' of
        None \<Rightarrow> False | Some None \<Rightarrow> True | Some (Some t) \<Rightarrow> t - jo_Leeway opts \<le> now) \<and>
     (jo_IssuedAt opts \<longrightarrow>
       (case dateClaim c ''iat'' of
          None \<Rightarrow> False | Some None \<Rightarrow> True | Some (Some t) \<Rightarrow> t - jo_Leeway opts \<le> now))"

text \<open>
  \<open>signed alg pub tok c\<close>: the text \<open>tok\<close> is a token with payload \<open>c\<close> whose signature the key \<open>pub\<close>
  verifies.  A payload survives as the map it denotes.
\<close>

locale jwt_library =
  fixes jl :: jwtLib and kl :: keyLib
    and signed :: "string \<Rightarrow> string \<Rightarrow> string \<Rightarrow> claims \<Rightarrow> bool"
  assumes sign: "jl_SignedString jl alg priv c = Inr tok \<Longrightarrow>
      \<exists>c'. map_of c' = map_of c \<and> signed alg (kl_PublicKey kl priv) tok c'"
    and token_text: "jl_SignedString jl alg priv c = Inr tok \<Longrightarrow> tok \<noteq> [] \<and> CHR '' '' \<notin> set tok"
    and one_payload: "signed alg pub tok c \<Longrightarrow> signed alg' pub' tok c' \<Longrightarrow> c = c'"
    and parse_sound: "jl_Parse jl opts keyfunc now tok = Inr c \<Longrightarrow>
      \<exists>alg pub. keyfunc alg = Inr pub \<and> signed alg pub tok c \<and> claimsValid opts now c \<and>
        (\<forall>ms. jo_ValidMethods opts = Some ms \<longrightarrow> alg \<in> set ms)"
    and parse_complete: "signed alg pub tok c \<Longrightarrow> keyfunc alg = Inr pub \<Longrightarrow> claimsValid opts now c \<Longrightarrow>
      (\<And>ms. jo_ValidMethods opts = Some ms \<Longrightarrow> alg \<in> set ms) \<Longrightarrow>
      jl_Parse jl opts keyfunc now tok = Inr c"
    and pem_round_trip: "kl_pemDecode kl (kl_pemEncode kl ty bytes) = Some bytes"
    and public_round_trip: "kl_MarshalPKIXPublicKey kl pub = Inr b \<Longrightarrow>
      kl_ParsePKIXPublicKey kl b = Inr (RsaPub pub)"
    and private_round_trip: "kl_ParsePKCS1PrivateKey kl (kl_MarshalPKCS1PrivateKey kl priv) = Inr priv"
    and pem_nonempty: "kl_pemEncode kl ty bytes \<noteq> []"
    and parse_errors: "jl_Parse jl opts keyfunc now tok = Inl e \<Longrightarrow> errors_Is e v \<Longrightarrow>
      \<exists>alg e'. keyfunc alg = Inl e' \<and> errors_Is e' v"
    and key_errors: "kl_ParsePKIXPublicKey kl b = Inl e \<Longrightarrow> \<not> errors_Is e v"
begin

lemma sign_parse:
  assumes "jl_SignedString jl alg priv c = Inr tok" "keyfunc alg = Inr (kl_PublicKey kl priv)"
    and "\<And>c'. map_of c' = map_of c \<Longrightarrow> claimsValid opts now c'"
    and "\<And>ms. jo_ValidMethods opts = Some ms \<Longrightarrow> alg \<in> set ms"
  obtains c' where "map_of c' = map_of c" "jl_Parse jl opts keyfunc now tok = Inr c'"
proof -
  obtain c' where c': "map_of c' = map_of c" "signed alg (kl_PublicKey kl priv) tok c'"
    using sign [OF assms(1)] by blast
  have "jl_Parse jl opts keyfunc now tok = Inr c'"
    by (rule parse_complete [where alg = alg]) (use c' assms in auto)
  then show thesis
    using that c'(1) by blast
qed

end

lemma claims_congs:
  assumes "map_of c' = map_of c"
  shows "strClaim c' k = strClaim c k" "numClaim c' k = numClaim c k" "dateClaim c' k = dateClaim c k"
    "claimsValid opts now c' = claimsValid opts now c"
  using assms by (simp_all add: strClaim_def numClaim_def dateClaim_def claimsValid_def)

subsection \<open>An instance\<close>

text \<open>A library whose tokens and keys are numbers that encode their contents.\<close>

definition boxed :: "'a :: countable \<Rightarrow> string" where
  "boxed x = digits_of (to_nat x)"

definition unboxed :: "string \<Rightarrow> 'a :: countable option" where
  "unboxed s =
     (case digitsVal 0 s of
        None \<Rightarrow> None
      | Some n \<Rightarrow> (let x = from_nat n in if boxed x = s then Some x else None))"

lemma unboxed_boxed [simp]: "unboxed (boxed x) = Some x"
  by (simp add: unboxed_def boxed_def digitsVal_digits_of)

lemma unboxed_Some: "unboxed s = Some x \<Longrightarrow> s = boxed x"
  by (auto simp: unboxed_def Let_def split: option.splits if_splits)

definition boxKeys :: keyLib where
  "boxKeys =
     \<lparr>kl_pemDecode = (\<lambda>s. map_option snd (unboxed s :: (string \<times> string) option)),
      kl_pemEncode = (\<lambda>ty b. boxed (ty, b)),
      kl_ParsePKIXPublicKey = (\<lambda>b. Inr (RsaPub b)), kl_MarshalPKIXPublicKey = Inr,
      kl_ParsePKCS1PrivateKey = Inr, kl_MarshalPKCS1PrivateKey = (\<lambda>k. k), kl_PublicKey = (\<lambda>k. k)\<rparr>"

definition boxSigned :: "string \<Rightarrow> string \<Rightarrow> string \<Rightarrow> claims \<Rightarrow> bool" where
  "boxSigned alg pub tok c \<longleftrightarrow> tok = boxed (alg, pub, c)"

definition boxJwt :: jwtLib where
  "boxJwt =
     \<lparr>jl_SignedString = (\<lambda>alg priv c. Inr (boxed (alg, priv, c))),
      jl_Parse = (\<lambda>opts keyfunc now tok.
        case (unboxed tok :: (string \<times> string \<times> claims) option) of
          None \<Rightarrow> Inl (ErrMsg ''token is malformed'')
        | Some (alg, pub, c) \<Rightarrow>
            (case keyfunc alg of
               Inl e \<Rightarrow> Inl (ErrWrap ''token is unverifiable'' e)
             | Inr key \<Rightarrow>
                 if key = pub \<and> claimsValid opts now c \<and>
                    (case jo_ValidMethods opts of None \<Rightarrow> True | Some ms \<Rightarrow> alg \<in> set ms)
                 then Inr c else Inl (ErrMsg ''token has invalid claims'')))\<rparr>"

lemma digits_of_ne [simp]: "digits_of n \<noteq> []"
  using digits_of_start by blast

lemma digits_no_space: "CHR '' '' \<notin> set (digits_of n)"
proof (induction n rule: digits_of.induct)
  case (1 n)
  have "CHR '' '' \<noteq> char_of (48 + m :: nat)" if "m < 10" for m
  proof
    assume "CHR '' '' = char_of (48 + m :: nat)"
    then have "(of_char (CHR '' '') :: nat) = 48 + m"
      using that by simp
    then show False
      by simp
  qed
  then show ?case
    using 1 by (subst digits_of.simps) simp
qed

interpretation box: jwt_library boxJwt boxKeys boxSigned
proof (unfold_locales, goal_cases)
  case (1 alg priv c tok)
  then show ?case
    by (auto simp: boxJwt_def boxKeys_def boxSigned_def)
next
  case (2 alg priv c tok)
  then show ?case
    using digits_no_space by (auto simp: boxJwt_def boxed_def)
next
  case (3 alg pub tok c alg' pub' c')
  then have "unboxed (boxed (alg, pub, c)) = (unboxed (boxed (alg', pub', c')) :: (string \<times> string \<times> claims) option)"
    by (simp add: boxSigned_def)
  then show ?case
    by simp
next
  case (4 opts keyfunc now tok c)
  then show ?case
    by (fastforce simp: boxJwt_def boxSigned_def dest: unboxed_Some
        split: option.splits sum.splits if_splits)
next
  case (5 alg pub tok c keyfunc opts now)
  then show ?case
    by (simp add: boxJwt_def boxSigned_def split: option.split)
next
  case (9 ty bytes)
  then show ?case
    by (simp add: boxKeys_def boxed_def)
next
  case (10 opts keyfunc now tok e v)
  then show ?case
    by (fastforce simp: boxJwt_def split: option.splits sum.splits if_splits)
qed (simp_all add: boxKeys_def)

end
