(* ===== verification/Caches.thy ===== *)
theory Caches
  imports Lru Jwt
begin

text \<open>
  \<open>pkg/workloadmanager/client_cache.go\<close>: the cache of Kubernetes clients per service account and the
  cache of token reviews, \<open>GetOrCreateUserK8sClient\<close> of \<open>k8s_client.go\<close>, and the authentication
  middleware of \<open>auth.go\<close>.  Both caches are instances of \<open>lru_structure\<close>.

  The constructor of a client from a token is an argument.
  Every operation holds the mutex of its cache, so that concurrent calls are a sequence of them.
\<close>

subsection \<open>\<open>parseJWTExpiry\<close>\<close>

definition parseJWTExpiry :: "string \<Rightarrow> Time" where
  "parseJWTExpiry token =
     (case Split token (CHR ''.'') of
        [_, part, _] \<Rightarrow>
          (case RawURLDecode part of
             None \<Rightarrow> zeroTime
           | Some payload \<Rightarrow>
               (case UnmarshalMap payload of
                  None \<Rightarrow> zeroTime
                | Some claims \<Rightarrow>
                    (case map_of claims ''exp'' of
                       Some (VNum v) \<Rightarrow> unixTime (int64Of v)
                     | _ \<Rightarrow> zeroTime)))
      | _ \<Rightarrow> zeroTime)"

subsection \<open>\<open>ClientCache\<close>\<close>

record 'c clientCacheEntry =
  ce_client :: 'c
  ce_tokenExpiry :: Time

type_synonym 'c ClientCache = "'c clientCacheEntry lru"

definition NewClientCache :: "int \<Rightarrow> 'c ClientCache" where
  "NewClientCache maxSize =
     \<lparr>lc_cache = [], lc_list = [], lc_max = nat (if maxSize \<le> 0 then 100 else maxSize)\<rparr>"

definition ClientCache_Get :: "Time \<Rightarrow> string \<Rightarrow> 'c ClientCache \<Rightarrow> 'c option \<times> 'c ClientCache" where
  "ClientCache_Get now key c =
     (case lru_find c key of
        None \<Rightarrow> (None, c)
      | Some entry \<Rightarrow>
          if \<not> IsZero (ce_tokenExpiry entry) \<and> now > ce_tokenExpiry entry
          then (None, lru_remove key c)
          else (Some (ce_client entry), lru_front key c))"

definition ClientCache_Set ::
  "string \<Rightarrow> string \<Rightarrow> 'c \<Rightarrow> 'c ClientCache \<Rightarrow> 'c ClientCache" where
  "ClientCache_Set key token client c =
     (let entry = \<lparr>ce_client = client, ce_tokenExpiry = parseJWTExpiry token\<rparr> in
      if lru_find c key \<noteq> None then lru_front key (lru_put key entry c)
      else
        (let c' = (if length (lc_cache c) \<ge> lc_max c then evictOldest c else c) in
         lru_push key entry c'))"

definition ClientCache_Remove :: "string \<Rightarrow> 'c ClientCache \<Rightarrow> 'c ClientCache" where
  "ClientCache_Remove key c = (if lru_find c key = None then c else lru_remove key c)"

definition ClientCache_Size :: "'c ClientCache \<Rightarrow> nat" where
  "ClientCache_Size c = length (lc_cache c)"

definition makeCacheKey :: "string \<Rightarrow> string \<Rightarrow> string" where
  "makeCacheKey namespace serviceAccountName = namespace @ '':'' @ serviceAccountName"

text \<open>\<open>newClient token namespace\<close> is \<open>NewUserK8sClient\<close>: a client that presents the token.\<close>

definition GetOrCreateUserK8sClient ::
  "(string \<Rightarrow> string \<Rightarrow> 'c res) \<Rightarrow> Time \<Rightarrow> string \<Rightarrow> string \<Rightarrow> string \<Rightarrow>
   'c ClientCache \<Rightarrow> 'c res \<times> 'c ClientCache" where
  "GetOrCreateUserK8sClient newClient now userToken namespace serviceAccountName c =
     (let cacheKey = makeCacheKey namespace serviceAccountName in
      case ClientCache_Get now cacheKey c of
        (Some cachedClient, c') \<Rightarrow> (Inr cachedClient, c')
      | (None, c') \<Rightarrow>
          (case newClient userToken namespace of
             Inl e \<Rightarrow> (Inl e, c')
           | Inr client \<Rightarrow> (Inr client, ClientCache_Set cacheKey userToken client c')))"

subsection \<open>\<open>TokenCache\<close>\<close>

record tokenCacheEntry =
  te_authenticated :: bool
  te_username :: string
  te_lastAccess :: Time

record TokenCache =
  tc_lru :: "tokenCacheEntry lru"
  tc_ttl :: Duration

definition NewTokenCache :: "int \<Rightarrow> Duration \<Rightarrow> TokenCache" where
  "NewTokenCache maxSize ttl =
     \<lparr>tc_lru = \<lparr>lc_cache = [], lc_list = [], lc_max = nat (if maxSize \<le> 0 then 1000 else maxSize)\<rparr>,
      tc_ttl = (if ttl \<le> 0 then 5 * Minute else ttl)\<rparr>"

definition TokenCache_Get :: "Time \<Rightarrow> string \<Rightarrow> TokenCache \<Rightarrow> (bool \<times> bool \<times> string) \<times> TokenCache" where
  "TokenCache_Get now token c =
     (case lru_find (tc_lru c) token of
        None \<Rightarrow> ((False, False, []), c)
      | Some entry \<Rightarrow>
          if now - te_lastAccess entry > tc_ttl c
          then ((False, False, []), c\<lparr>tc_lru := lru_remove token (tc_lru c)\<rparr>)
          else ((True, te_authenticated entry, te_username entry),
                c\<lparr>tc_lru := lru_front token
                  (lru_put token (entry\<lparr>te_lastAccess := now\<rparr>) (tc_lru c))\<rparr>))"

definition TokenCache_Set :: "Time \<Rightarrow> string \<Rightarrow> bool \<Rightarrow> string \<Rightarrow> TokenCache \<Rightarrow> TokenCache" where
  "TokenCache_Set now token authenticated username c =
     (let entry = \<lparr>te_authenticated = authenticated, te_username = username, te_lastAccess = now\<rparr>;
          l = tc_lru c in
      if lru_find l token \<noteq> None then c\<lparr>tc_lru := lru_front token (lru_put token entry l)\<rparr>
      else
        (let l' = (if length (lc_cache l) \<ge> lc_max l then evictOldest l else l) in
         c\<lparr>tc_lru := lru_push token entry l'\<rparr>))"

definition TokenCache_Remove :: "string \<Rightarrow> TokenCache \<Rightarrow> TokenCache" where
  "TokenCache_Remove token c =
     (if lru_find (tc_lru c) token = None then c else c\<lparr>tc_lru := lru_remove token (tc_lru c)\<rparr>)"

definition TokenCache_Size :: "TokenCache \<Rightarrow> nat" where
  "TokenCache_Size c = length (lc_cache (tc_lru c))"

subsection \<open>The authentication middleware\<close>

text \<open>
  \<open>review token\<close> is the answer of the TokenReview API: the \<open>Authenticated\<close> flag and the user name.  The
  headers of a request are the function \<open>Header.Get\<close>.
\<close>

record userInfo =
  ui_userToken :: string
  ui_namespace :: string
  ui_serviceAccount :: string
  ui_serviceAccountName :: string

datatype authOutcome = AuthAbort nat string | AuthNext "userInfo option"

definition validateServiceAccountToken ::
  "(string \<Rightarrow> (bool \<times> string) res) \<Rightarrow> Time \<Rightarrow> string \<Rightarrow> TokenCache \<Rightarrow> (bool \<times> string) res \<times> TokenCache" where
  "validateServiceAccountToken review now token tokenCache =
     (case TokenCache_Get now token tokenCache of
        ((True, authenticated, username), c) \<Rightarrow>
          (if authenticated then (Inr (True, username), c) else (Inr (False, []), c))
      | ((False, _, _), c) \<Rightarrow>
          (case review token of
             Inl e \<Rightarrow> (Inl (ErrWrap ''failed to review token'' e), c)
           | Inr (auth, user) \<Rightarrow>
               (let username = (if auth then user else []);
                    c' = TokenCache_Set now token auth username c in
                if \<not> auth then (Inr (False, []), c') else (Inr (True, username), c'))))"

definition authMiddleware ::
  "bool \<Rightarrow> (string \<Rightarrow> (bool \<times> string) res) \<Rightarrow> Time \<Rightarrow> (string \<Rightarrow> string) \<Rightarrow> TokenCache \<Rightarrow>
   authOutcome \<times> TokenCache" where
  "authMiddleware enableAuth review now header tokenCache =
     (if \<not> enableAuth then (AuthNext None, tokenCache)
      else let authHeader = header ''Authorization'' in
      if authHeader = [] then (AuthAbort 401 ''Missing authorization header'', tokenCache)
      else
        (case Fields authHeader of
           [scheme, token] \<Rightarrow>
             if scheme \<noteq> ''Bearer''
             then (AuthAbort 401 ''Invalid authorization header format'', tokenCache)
             else
               (case validateServiceAccountToken review now token tokenCache of
                  (Inl e, c) \<Rightarrow> (AuthAbort 401 ''Token validation failed'', c)
                | (Inr (authenticated, serviceAccount), c) \<Rightarrow>
                    if \<not> authenticated then (AuthAbort 401 ''Invalid or expired token'', c)
                    else
                      (case Split serviceAccount (CHR '':'') of
                         [a, b, namespace, name] \<Rightarrow>
                           if a = ''system'' \<and> b = ''serviceaccount'' then
                             (AuthNext (Some
                                \<lparr>ui_userToken = token, ui_namespace = namespace,
                                 ui_serviceAccount = serviceAccount, ui_serviceAccountName = name\<rparr>), c)
                           else (AuthAbort 401 ''Invalid service account format'', c)
                       | _ \<Rightarrow> (AuthAbort 401 ''Invalid service account format'', c)))
         | _ \<Rightarrow> (AuthAbort 401 ''Invalid authorization header format'', tokenCache)))"

text \<open>Token, namespace, service account and its name; empty strings when nothing was stored.\<close>

definition extractUserInfo :: "userInfo option \<Rightarrow> string \<times> string \<times> string \<times> string" where
  "extractUserInfo ctx =
     (case ctx of
        None \<Rightarrow> ([], [], [], [])
      | Some u \<Rightarrow> (ui_userToken u, ui_namespace u, ui_serviceAccount u, ui_serviceAccountName u))"

subsection \<open>Both caches are bounded, least recently used first out\<close>

datatype 'c clientOp =
    CGet Time string
  | CSet string string 'c
  | CRemove string

fun clientRun :: "'c clientOp \<Rightarrow> 'c ClientCache \<Rightarrow> 'c ClientCache" where
  "clientRun (CGet now key) c = snd (ClientCache_Get now key c)"
| "clientRun (CSet key token client) c = ClientCache_Set key token client c"
| "clientRun (CRemove key) c = ClientCache_Remove key c"

fun clientKey :: "'c clientOp \<Rightarrow> string" where
  "clientKey (CGet now key) = key"
| "clientKey (CSet key token client) = key"
| "clientKey (CRemove key) = key"

datatype tokenOp =
    TGet Time string
  | TSet Time string bool string
  | TRemove string

fun tokenRun :: "tokenOp \<Rightarrow> TokenCache \<Rightarrow> TokenCache" where
  "tokenRun (TGet now token) c = snd (TokenCache_Get now token c)"
| "tokenRun (TSet now token a u) c = TokenCache_Set now token a u c"
| "tokenRun (TRemove token) c = TokenCache_Remove token c"

fun tokenKey :: "tokenOp \<Rightarrow> string" where
  "tokenKey (TGet now token) = token"
| "tokenKey (TSet now token a u) = token"
| "tokenKey (TRemove token) = token"

lemmas client_ops = ClientCache_Get_def ClientCache_Set_def ClientCache_Remove_def Let_def
lemmas token_ops = TokenCache_Get_def TokenCache_Set_def TokenCache_Remove_def Let_def

interpretation cc: lru_structure "\<lambda>c. c" clientRun clientKey
proof
  fix c :: "'c ClientCache" and op
  assume "lru_ok c"
  note k = lru_find_in [OF this]
  show "lru_move (clientKey op) c (clientRun op c)"
    by (cases op) (auto simp: lru_move_def client_ops k split: option.splits)
qed

interpretation tc: lru_structure tc_lru tokenRun tokenKey
proof
  fix c :: TokenCache and op
  assume "lru_ok (tc_lru c)"
  note k = lru_find_in [OF this]
  show "lru_move (tokenKey op) (tc_lru c) (tc_lru (tokenRun op c))"
    by (cases op) (auto simp: lru_move_def token_ops k split: option.splits)
qed

lemma new_ok: "lru_ok (NewClientCache n)" "lru_ok (tc_lru (NewTokenCache n ttl))"
  by (simp_all add: lru_ok_def NewClientCache_def NewTokenCache_def)


lemma ClientCache_Set_find:
  "lru_find (ClientCache_Set key token client c) key =
     Some \<lparr>ce_client = client, ce_tokenExpiry = parseJWTExpiry token\<rparr>"
  by (simp add: ClientCache_Set_def Let_def)

lemma ClientCache_Set_front: "ahead key (ClientCache_Set key token client c) = {}"
  by (simp add: ClientCache_Set_def Let_def)

text \<open>
  The caches are bounded.  After any sequence of operations on a new cache of clients or of token
  reviews, the map and the list of recency hold the same keys, each once, and there are no more entries
  than the configured size, or its default of 100 clients and 1000 tokens when the size is not positive.
\<close>
theorem caches_bounded:
  "lru_ok (fold clientRun ops (NewClientCache n)) \<and>
   int (ClientCache_Size (fold clientRun ops (NewClientCache n))) \<le> (if n \<le> 0 then 100 else n) \<and>
   lru_ok (tc_lru (fold tokenRun tops (NewTokenCache n ttl))) \<and>
   int (TokenCache_Size (fold tokenRun tops (NewTokenCache n ttl))) \<le> (if n \<le> 0 then 1000 else n)"
  using cc.history_ok [OF new_ok(1), of ops n] tc.history_ok [OF new_ok(2), of tops n ttl]
    lru_okD(4) [of "fold clientRun ops (NewClientCache n)"]
    lru_okD(4) [of "tc_lru (fold tokenRun tops (NewTokenCache n ttl))"]
  by (auto simp: ClientCache_Size_def TokenCache_Size_def NewClientCache_def NewTokenCache_def
      split: if_splits)

text \<open>
  The cache of clients evicts the least recently used entry.  A client that was set is returned until
  its token expires, as long as fewer other keys than the cache has places were used since.
\<close>
theorem client_cache_keeps_recent:
  assumes "lru_ok c" and "c' = ClientCache_Set key token client c"
    and "\<forall>op \<in> set ops. clientKey op \<noteq> key" and "card (clientKey ` set ops) < lc_max c"
    and "IsZero (parseJWTExpiry token) \<or> now \<le> parseJWTExpiry token"
  shows "fst (ClientCache_Get now key (fold clientRun ops c')) = Some client"
proof -
  have ok: "lru_ok c' \<and> lc_max c' = lc_max c"
    using cc.run_ok [OF assms(1), of "CSet key token client"] assms(2) by simp
  have "lru_find (fold clientRun ops c') key =
      Some \<lparr>ce_client = client, ce_tokenExpiry = parseJWTExpiry token\<rparr>"
    by (rule cc.history_survives [where T = "clientKey ` set ops"])
      (use ok assms in \<open>auto simp: ClientCache_Set_find ClientCache_Set_front\<close>)
  then show ?thesis
    using assms(5) by (auto simp: ClientCache_Get_def)
qed

text \<open>
  A cached client is served whatever token the caller presents.  Once a client was made from a token
  for a service account, a later call for that account with another token gets the client of the first
  token until that one expires.
\<close>
theorem cached_client_ignores_token:
  assumes "GetOrCreateUserK8sClient newClient t0 token0 ns sa (NewClientCache n) = (Inr client, c)"
    and "IsZero (parseJWTExpiry token0) \<or> t1 \<le> parseJWTExpiry token0"
  shows "newClient token0 ns = Inr client \<and>
     fst (GetOrCreateUserK8sClient newClient t1 token1 ns sa c) = Inr client"
proof -
  have miss: "ClientCache_Get t0 (makeCacheKey ns sa) (NewClientCache n) = (None, NewClientCache n)"
    by (simp add: ClientCache_Get_def lru_find_def NewClientCache_def)
  have client: "newClient token0 ns = Inr client"
    and c: "c = ClientCache_Set (makeCacheKey ns sa) token0 client (NewClientCache n)"
    using assms(1) by (auto simp: GetOrCreateUserK8sClient_def miss split: sum.splits)
  have "lru_find c (makeCacheKey ns sa) =
      Some \<lparr>ce_client = client, ce_tokenExpiry = parseJWTExpiry token0\<rparr>"
    unfolding c by (rule ClientCache_Set_find)
  then show ?thesis
    using client assms(2) by (auto simp: GetOrCreateUserK8sClient_def ClientCache_Get_def Let_def)
qed

subsection \<open>Reviews that are never repeated\<close>

text \<open>The answers to the requests that present one token at the given times.\<close>

fun validateAll ::
  "(string \<Rightarrow> (bool \<times> string) res) \<Rightarrow> string \<Rightarrow> Time list \<Rightarrow> TokenCache \<Rightarrow> (bool \<times> string) res list" where
  "validateAll review token [] c = []"
| "validateAll review token (t # ts) c =
     (case validateServiceAccountToken review t token c of
        (r, c') \<Rightarrow> r # validateAll review token ts c')"

text \<open>
  The time to live of a token review starts anew with every use.  A token that was once found valid
  is accepted, without another review, by every later request as long as no two of them are further apart
  than the time to live: also when the API server would reject it by then.
\<close>
theorem token_review_slides:
  assumes "lru_find (tc_lru c) token = Some e" and "te_authenticated e"
    and "successively (\<lambda>s t. t - s \<le> tc_ttl c) (te_lastAccess e # ts)"
  shows "validateAll review token ts c = map (\<lambda>_. Inr (True, te_username e)) ts"
  using assms
proof (induction ts arbitrary: c e)
  case (Cons t ts)
  let ?e = "e\<lparr>te_lastAccess := t\<rparr>"
  let ?c = "c\<lparr>tc_lru := lru_front token (lru_put token ?e (tc_lru c))\<rparr>"
  have g: "TokenCache_Get t token c = ((True, True, te_username e), ?c)"
    using Cons.prems by (simp add: TokenCache_Get_def)
  have "successively (\<lambda>s t. t - s \<le> tc_ttl ?c) (te_lastAccess ?e # ts)"
    using Cons.prems(3) by simp
  then have "validateAll review token ts ?c = map (\<lambda>_. Inr (True, te_username ?e)) ts"
    by (intro Cons.IH) (use Cons.prems in simp_all)
  then show ?case
    by (simp add: validateServiceAccountToken_def g)
qed simp

subsection \<open>What the middleware admits\<close>

definition reviews_true :: "(string \<Rightarrow> (bool \<times> string) res) \<Rightarrow> TokenCache \<Rightarrow> bool" where
  "reviews_true review c \<longleftrightarrow>
     (\<forall>token e. lru_find (tc_lru c) token = Some e \<and> te_authenticated e \<longrightarrow>
        review token = Inr (True, te_username e))"

lemma evict_find: "lru_find (evictOldest l) k = Some e \<Longrightarrow> lru_find l k = Some e"
  by (auto simp: evictOldest_def split: if_splits)

lemma TokenCache_Get_true:
  assumes "reviews_true review c" "TokenCache_Get now token c = (r, c')"
  shows "reviews_true review c' \<and> (\<forall>u. r = (True, True, u) \<longrightarrow> review token = Inr (True, u))"
  using assms by (auto simp: reviews_true_def TokenCache_Get_def split: option.splits if_splits)

lemma TokenCache_Set_true:
  assumes "reviews_true review c" "auth \<Longrightarrow> review token = Inr (True, user)"
  shows "reviews_true review (TokenCache_Set now token auth user c)"
  using assms evict_find [of "tc_lru c"]
  by (auto simp: reviews_true_def TokenCache_Set_def Let_def)

lemma validate_true:
  assumes "reviews_true review c" "validateServiceAccountToken review now token c = (r, c')"
  shows "reviews_true review c' \<and> (\<forall>u. r = Inr (True, u) \<longrightarrow> review token = Inr (True, u))"
proof -
  obtain f a u c1 where g: "TokenCache_Get now token c = ((f, a, u), c1)"
    by (metis prod_cases3 surj_pair)
  note t = TokenCache_Get_true [OF assms(1) g]
  show ?thesis
  proof (cases f)
    case True
    then show ?thesis
      using assms(2) t g by (auto simp: validateServiceAccountToken_def split: if_splits)
  next
    case False
    then show ?thesis
      using assms(2) t g TokenCache_Set_true [of review c1]
      by (auto simp: validateServiceAccountToken_def Let_def split: sum.splits if_splits)
  qed
qed

text \<open>
  With authentication enabled, a request is let through only as the service account the API server
  named for its token.  When all accepted entries of the token cache are answers of the API server, a
  request that passes carries a bearer token that the server reviews as authenticated, under the user name
  \<open>system:serviceaccount:<namespace>:<name>\<close> with exactly the namespace and the name that are handed on;
  the cache keeps to that.  Every other request is answered with 401.
\<close>
theorem auth_middleware_sound:
  assumes "reviews_true review c" and "authMiddleware True review now header c = (r, c')"
  shows "reviews_true review c' \<and>
     (\<exists>msg. r = AuthAbort 401 msg) \<or>
     reviews_true review c' \<and>
     (\<exists>u. r = AuthNext (Some u) \<and> Fields (header ''Authorization'') = [''Bearer'', ui_userToken u] \<and>
        review (ui_userToken u) = Inr (True, ui_serviceAccount u) \<and>
        ui_serviceAccount u = ''system:serviceaccount:'' @ ui_namespace u @ '':'' @ ui_serviceAccountName u \<and>
        CHR '':'' \<notin> set (ui_namespace u) \<and> CHR '':'' \<notin> set (ui_serviceAccountName u))"
proof -
  have split: "sa = ''system:serviceaccount:'' @ n @ '':'' @ m \<and> CHR '':'' \<notin> set n \<and> CHR '':'' \<notin> set m"
    if "Split sa (CHR '':'') = [''system'', ''serviceaccount'', n, m]" for sa n m
    using Join_Split [of sa "CHR '':''"] Split_no_sep [of n sa "CHR '':''"]
      Split_no_sep [of m sa "CHR '':''"] that by auto
  consider (abort) msg where "r = AuthAbort 401 msg" "c' = c"
    | (checked) token v where "Fields (header ''Authorization'') = [''Bearer'', token]"
      "validateServiceAccountToken review now token c = (v, c')"
      "(\<exists>msg. r = AuthAbort 401 msg) \<or>
       (\<exists>sa n m. v = Inr (True, sa) \<and> Split sa (CHR '':'') = [''system'', ''serviceaccount'', n, m] \<and>
          r = AuthNext (Some \<lparr>ui_userToken = token, ui_namespace = n, ui_serviceAccount = sa,
            ui_serviceAccountName = m\<rparr>))"
    using assms(2)
    by (auto simp: authMiddleware_def Let_def split: if_splits list.splits prod.splits sum.splits)
  then show ?thesis
  proof cases
    case abort
    then show ?thesis
      using assms(1) by simp
  next
    case checked
    then show ?thesis
      using validate_true [OF assms(1) checked(2)] split by fastforce
  qed
qed


subsection \<open>Witnesses\<close>

lemma opaque_token: "parseJWTExpiry [c] = zeroTime"
  by (cases "c = CHR ''.''") (simp_all add: parseJWTExpiry_def)

theorem client_cache_keeps_recent_witness:
  "fst (ClientCache_Get 5 ''a'' (fold clientRun [CSet ''b'' ''t'' 2, CGet 0 ''b'']
     (ClientCache_Set ''a'' ''t'' (1 :: nat) (NewClientCache 2)))) = Some 1"
  by (rule client_cache_keeps_recent [OF new_ok(1) refl])
    (simp_all add: opaque_token IsZero_def NewClientCache_def)

theorem cached_client_ignores_token_witness:
  "\<exists>c. GetOrCreateUserK8sClient (\<lambda>token ns. Inr token) 0 ''x'' ''ns'' ''sa'' (NewClientCache 2) =
      (Inr ''x'', c) \<and>
    fst (GetOrCreateUserK8sClient (\<lambda>token ns. Inr token) 7 ''y'' ''ns'' ''sa'' c) = Inr ''x''"
proof -
  obtain c where c: "GetOrCreateUserK8sClient (\<lambda>token ns. Inr token) 0 ''x'' ''ns'' ''sa''
      (NewClientCache 2) = (Inr ''x'', c)"
    by (simp add: GetOrCreateUserK8sClient_def ClientCache_Get_def lru_find_def NewClientCache_def)
  show ?thesis
    using c cached_client_ignores_token [OF c, of 7 "''y''"] by (auto simp: opaque_token IsZero_def)
qed

theorem token_review_slides_witness:
  "validateAll (\<lambda>_. Inr (False, [])) ''t'' [4 * Minute, 8 * Minute, 12 * Minute]
     (TokenCache_Set 0 ''t'' True ''u'' (NewTokenCache 10 0)) =
   [Inr (True, ''u''), Inr (True, ''u''), Inr (True, ''u'')]"
  using token_review_slides [of "TokenCache_Set 0 ''t'' True ''u'' (NewTokenCache 10 0)" "''t''" _
      "[4 * Minute, 8 * Minute, 12 * Minute]" "\<lambda>_. Inr (False, [])"]
  by (simp add: TokenCache_Set_def NewTokenCache_def lru_find_def lru_push_def go_simps)

definition sampleReview :: "string \<Rightarrow> (bool \<times> string) res" where
  "sampleReview t = (if t = ''tok'' then Inr (True, ''system:serviceaccount:ns:sa'') else Inr (False, []))"

theorem auth_middleware_sound_witness:
  "\<exists>u c. authMiddleware True sampleReview 0 (\<lambda>_. ''Bearer tok'') (NewTokenCache 10 0) = (AuthNext (Some u), c) \<and>
     reviews_true sampleReview c \<and> ui_namespace u = ''ns'' \<and>
     sampleReview (ui_userToken u) = Inr (True, ui_serviceAccount u)"
proof -
  have new: "reviews_true sampleReview (NewTokenCache 10 0)"
    by (simp add: reviews_true_def NewTokenCache_def lru_find_def)
  obtain u c where r: "authMiddleware True sampleReview 0 (\<lambda>_. ''Bearer tok'') (NewTokenCache 10 0) =
      (AuthNext (Some u), c)" "ui_namespace u = ''ns''"
    by (simp add: authMiddleware_def validateServiceAccountToken_def TokenCache_Get_def sampleReview_def
        NewTokenCache_def lru_find_def Fields.simps is_space_def Let_def)
  show ?thesis
    using auth_middleware_sound [OF new r(1)] r by auto
qed

end
