(* ===== verification/Builder.thy ===== *)
theory Builder
  imports K8s
begin

text \<open>
  \<open>pkg/workloadmanager/workload_builder.go\<close> and the constructors of \<open>sandbox_helper.go\<close>: the sandbox
  or claim built from an \<open>AgentRuntime\<close> or a \<open>CodeInterpreter\<close>, and the store records built from it.

  The random suffix of a name is a list of draws, the session id the value of \<open>uuid.New().String()\<close>,
  the owner hash the value of \<open>sha256\<close> and the listers the functions of the informers; all of them are
  arguments.  A nil template, which the API server does not admit, is the runtime's panic.
\<close>

text \<open>\<open>IdentitySecretNamespace\<close> after \<open>init\<close>, on the value of \<open>AGENTCUBE_NAMESPACE\<close>.\<close>

definition IdentitySecretNamespace :: "string \<Rightarrow> string" where
  "IdentitySecretNamespace ns = (if ns \<noteq> [] then ns else ''default'')"

definition IdentitySecretName :: string where "IdentitySecretName = ''picod-router-identity''"
definition PublicKeyDataKey :: string where "PublicKeyDataKey = ''public.pem''"

definition SessionIdLabelKey :: string where "SessionIdLabelKey = ''runtime.agentcube.io/session-id''"
definition WorkloadNameLabelKey :: string where
  "WorkloadNameLabelKey = ''runtime.agentcube.io/workload-name''"
definition SandboxNameLabelKey :: string where
  "SandboxNameLabelKey = ''runtime.agentcube.io/sandbox-name''"
definition IdleTimeoutAnnotationKey :: string where
  "IdleTimeoutAnnotationKey = ''runtime.agentcube.io/idle-timeout''"
definition ownerAnnotationKey :: string where "ownerAnnotationKey = ''agentcube.io/owner''"
definition ownerHashLabelKey :: string where "ownerHashLabelKey = ''agentcube.io/owner-hash''"

lemmas label_keys = SessionIdLabelKey_def WorkloadNameLabelKey_def SandboxNameLabelKey_def
  IdleTimeoutAnnotationKey_def ownerAnnotationKey_def ownerHashLabelKey_def

definition nilPanic :: gerr where
  "nilPanic = ErrMsg ''runtime error: invalid memory address or nil pointer dereference''"

subsection \<open>The cached public key\<close>

text \<open>
  \<open>loadPublicKeyFromSecret\<close> on the answer of the API server: the data of the secret, or an error.  The
  state is \<open>cachedPublicKey\<close>.
\<close>

definition loadPublicKeyFromSecret :: "string \<Rightarrow> strmap res \<Rightarrow> string \<Rightarrow> gerr option \<times> string" where
  "loadPublicKeyFromSecret namespace secret cachedPublicKey =
     (case secret of
        Inl e \<Rightarrow> (Some e, cachedPublicKey)
      | Inr data \<Rightarrow>
          (case data PublicKeyDataKey of
             None \<Rightarrow> (Some (ErrMsg (''public key not found in secret '' @ namespace @ ''/'' @
               IdentitySecretName @ '' (key: '' @ PublicKeyDataKey @ '')'')), cachedPublicKey)
           | Some publicKeyData \<Rightarrow> (None, publicKeyData)))"

definition IsPublicKeyCached :: "string \<Rightarrow> bool" where
  "IsPublicKeyCached cachedPublicKey \<longleftrightarrow> cachedPublicKey \<noteq> []"

text \<open>
  The loop of \<open>InitPublicKeyCache\<close>: one answer per attempt, until one succeeds.  The result is the
  state of the cache and the pauses slept between attempts.
\<close>

definition maxRetryInterval :: Duration where "maxRetryInterval = 10 * Second"

fun publicKeyLoop ::
  "string \<Rightarrow> Duration \<Rightarrow> strmap res list \<Rightarrow> string \<Rightarrow> string \<times> Duration list" where
  "publicKeyLoop namespace retryInterval [] key = (key, [])"
| "publicKeyLoop namespace retryInterval (answer # answers) key =
     (case loadPublicKeyFromSecret namespace answer key of
        (None, key') \<Rightarrow> (key', [])
      | (Some e, key') \<Rightarrow>
          (let next = retryInterval * 2;
               next' = (if next > maxRetryInterval then maxRetryInterval else next) in
           case publicKeyLoop namespace next' answers key' of
             (key'', sleeps) \<Rightarrow> (key'', retryInterval # sleeps)))"

definition InitPublicKeyCache :: "string \<Rightarrow> strmap res list \<Rightarrow> string \<Rightarrow> string \<times> Duration list" where
  "InitPublicKeyCache namespace answers = publicKeyLoop namespace (100 * Millisecond) answers"

subsection \<open>Names\<close>

definition letters :: string where "letters = ''abcdefghijklmnopqrstuvwxyz0123456789''"

definition RandString :: "nat \<Rightarrow> nat list \<Rightarrow> string" where
  "RandString n draws = map (\<lambda>r. letters ! (r mod length letters)) (take n draws)"

definition sha256Short :: "(string \<Rightarrow> string) \<Rightarrow> string \<Rightarrow> string" where
  "sha256Short sha256Hex s = take 63 (sha256Hex s)"

subsection \<open>Objects\<close>

record sandboxEntry =
  en_Kind :: string
  en_SessionID :: string
  en_OwnerID :: string
  en_Ports :: "TargetPort list"
  en_IdleTimeout :: Duration

record buildSandboxParams =
  bp_namespace :: string
  bp_workloadName :: string
  bp_sandboxName :: string
  bp_sessionID :: string
  bp_ownerID :: string
  bp_ttl :: Duration
  bp_idleTimeout :: Duration
  bp_podSpec :: PodSpec
  bp_podLabels :: "strmap option"
  bp_podAnnotations :: "strmap option"

record buildSandboxClaimParams =
  cp_namespace :: string
  cp_name :: string
  cp_sandboxTemplateName :: string
  cp_sessionID :: string
  cp_ownerID :: string
  cp_idleTimeout :: Duration
  cp_ownerReference :: "OwnerReference option"

definition mapOrEmpty :: "strmap option \<Rightarrow> strmap" where
  "mapOrEmpty m = (case m of None \<Rightarrow> Map.empty | Some f \<Rightarrow> f)"

definition buildSandboxObject ::
  "(string \<Rightarrow> string) \<Rightarrow> Time \<Rightarrow> buildSandboxParams \<Rightarrow> Sandbox" where
  "buildSandboxObject sha256Hex now params =
     (let ttl = (if bp_ttl params = 0 then DefaultSandboxTTL else bp_ttl params);
          idleTimeout = (if bp_idleTimeout params = 0 then DefaultSandboxIdleTimeout
                         else bp_idleTimeout params);
          shutdownTime = now + ttl;
          podLabels = (mapOrEmpty (bp_podLabels params))
            (SessionIdLabelKey \<mapsto> bp_sessionID params, SandboxNameLabelKey \<mapsto> bp_sandboxName params);
          podAnnotations = mapOrEmpty (bp_podAnnotations params);
          sandbox = zeroSandbox
            \<lparr>sb_Name := bp_sandboxName params, sb_Namespace := bp_namespace params,
             sb_Labels := [SessionIdLabelKey \<mapsto> bp_sessionID params,
                           WorkloadNameLabelKey \<mapsto> bp_workloadName params,
                           ''managed-by'' \<mapsto> ''agentcube-workload-manager''],
             sb_Annotations := [IdleTimeoutAnnotationKey \<mapsto> DurationString idleTimeout],
             sb_PodSpec := bp_podSpec params,
             sb_PodLabels := podLabels, sb_PodAnnotations := podAnnotations,
             sb_ShutdownTime := Some shutdownTime, sb_Replicas := Some 1\<rparr>
      in if bp_ownerID params \<noteq> [] then
           sandbox\<lparr>sb_Annotations := (sb_Annotations sandbox)(ownerAnnotationKey \<mapsto> bp_ownerID params),
                   sb_Labels := (sb_Labels sandbox)
                     (ownerHashLabelKey \<mapsto> sha256Short sha256Hex (bp_ownerID params))\<rparr>
         else sandbox)"

definition buildSandboxClaimObject ::
  "(string \<Rightarrow> string) \<Rightarrow> buildSandboxClaimParams \<Rightarrow> SandboxClaim" where
  "buildSandboxClaimObject sha256Hex params =
     (let idleTimeout = (if cp_idleTimeout params = 0 then DefaultSandboxIdleTimeout
                         else cp_idleTimeout params);
          claim = \<lparr>sc_Namespace = cp_namespace params, sc_Name = cp_name params,
                   sc_Labels = [SessionIdLabelKey \<mapsto> cp_sessionID params,
                                SandboxNameLabelKey \<mapsto> cp_name params],
                   sc_Annotations = [IdleTimeoutAnnotationKey \<mapsto> DurationString idleTimeout],
                   sc_OwnerReferences = (case cp_ownerReference params of None \<Rightarrow> [] | Some r \<Rightarrow> [r]),
                   sc_TemplateRef = cp_sandboxTemplateName params, sc_StatusSandboxName = []\<rparr>
      in if cp_ownerID params \<noteq> [] then
           claim\<lparr>sc_Annotations := (sc_Annotations claim)(ownerAnnotationKey \<mapsto> cp_ownerID params),
                 sc_Labels := (sc_Labels claim)
                   (ownerHashLabelKey \<mapsto> sha256Short sha256Hex (cp_ownerID params))\<rparr>
         else claim)"

text \<open>What a build reads besides its arguments: the clock, the draws, the uuid, the hash and the key.\<close>

record buildEnv =
  be_now :: Time
  be_draws :: "nat list"
  be_uuid :: string
  be_sha256 :: "string \<Rightarrow> string"
  be_publicKey :: string

definition normalizeRuntimeClass :: "string option \<Rightarrow> string option" where
  "normalizeRuntimeClass rc = (if rc = Some [] then None else rc)"

definition buildSandboxByAgentRuntime ::
  "apierrors \<Rightarrow> (string \<Rightarrow> string \<Rightarrow> AgentRuntime res) \<Rightarrow> buildEnv \<Rightarrow>
   string \<Rightarrow> string \<Rightarrow> string \<Rightarrow> (Sandbox \<times> sandboxEntry) res" where
  "buildSandboxByAgentRuntime ae lister env namespace name ownerID =
     (case lister namespace name of
        Inl e \<Rightarrow>
          (if ae_IsNotFound ae e then Inl (ErrVar ErrAgentRuntimeNotFound)
           else Inl (ErrWrap (''failed to get agent runtime '' @ namespace @ ''/'' @ name) e))
      | Inr agentRuntimeObj \<Rightarrow>
          (case ar_Template agentRuntimeObj of
             None \<Rightarrow> Inl nilPanic
           | Some template \<Rightarrow>
               (let sessionID = be_uuid env;
                    sandboxName = name @ ''-'' @ RandString 8 (be_draws env);
                    podSpec = (st_Spec template)
                      \<lparr>ps_RuntimeClassName := normalizeRuntimeClass (ps_RuntimeClassName (st_Spec template))\<rparr>;
                    idleTimeout = (case ar_SessionTimeout agentRuntimeObj of
                        None \<Rightarrow> DefaultSandboxIdleTimeout | Some d \<Rightarrow> d);
                    buildParams =
                      \<lparr>bp_namespace = namespace, bp_workloadName = name, bp_sandboxName = sandboxName,
                       bp_sessionID = sessionID, bp_ownerID = ownerID,
                       bp_ttl = (case ar_MaxSessionDuration agentRuntimeObj of None \<Rightarrow> 0 | Some d \<Rightarrow> d),
                       bp_idleTimeout = idleTimeout, bp_podSpec = podSpec,
                       bp_podLabels = st_Labels template, bp_podAnnotations = st_Annotations template\<rparr>
                in Inr (buildSandboxObject (be_sha256 env) (be_now env) buildParams,
                     \<lparr>en_Kind = SandboxKind, en_SessionID = sessionID, en_OwnerID = [],
                      en_Ports = ar_Ports agentRuntimeObj, en_IdleTimeout = idleTimeout\<rparr>))))"

definition buildCodeInterpreterEnvVars ::
  "string \<Rightarrow> EnvVar list \<Rightarrow> string \<Rightarrow> EnvVar list" where
  "buildCodeInterpreterEnvVars cachedPublicKey templateEnv authMode =
     (if authMode = AuthModePicoD
      then templateEnv @ [\<lparr>env_Name = ''PICOD_AUTH_PUBLIC_KEY'', env_Value = cachedPublicKey, env_ValueFrom = None\<rparr>]
      else templateEnv)"

definition defaultPort :: TargetPort where
  "defaultPort =
     \<lparr>tp_PathPrefix = ''/'', tp_Name = [], tp_Port = 8080, tp_Protocol = ProtocolTypeHTTP\<rparr>"

definition buildSandboxByCodeInterpreter ::
  "apierrors \<Rightarrow> (string \<Rightarrow> string \<Rightarrow> CodeInterpreter res) \<Rightarrow> buildEnv \<Rightarrow>
   string \<Rightarrow> string \<Rightarrow> string \<Rightarrow> (Sandbox \<times> SandboxClaim option \<times> sandboxEntry) res" where
  "buildSandboxByCodeInterpreter ae lister env namespace codeInterpreterName ownerID =
     (case lister namespace codeInterpreterName of
        Inl e \<Rightarrow>
          (if ae_IsNotFound ae e then Inl (ErrVar ErrCodeInterpreterNotFound)
           else Inl (ErrWrap
             (''failed to get code interpreter '' @ namespace @ ''/'' @ codeInterpreterName) e))
      | Inr ci \<Rightarrow>
          if ci_AuthMode ci = AuthModePicoD \<and> \<not> IsPublicKeyCached (be_publicKey env)
          then Inl (ErrVar ErrPublicKeyMissing)
          else
            (let sessionID = be_uuid env;
                 sandboxName = codeInterpreterName @ ''-'' @ RandString 8 (be_draws env);
                 idleTimeout = (case ci_SessionTimeout ci of
                     None \<Rightarrow> DefaultSandboxIdleTimeout | Some d \<Rightarrow> d);
                 entry = \<lparr>en_Kind = SandboxKind, en_SessionID = sessionID, en_OwnerID = [],
                          en_Ports = (if ci_Ports ci = [] then [defaultPort] else ci_Ports ci),
                          en_IdleTimeout = idleTimeout\<rparr> in
             if (case ci_WarmPoolSize ci of None \<Rightarrow> False | Some n \<Rightarrow> n > 0) then
               (let claim = buildSandboxClaimObject (be_sha256 env)
                      \<lparr>cp_namespace = namespace, cp_name = sandboxName,
                       cp_sandboxTemplateName = codeInterpreterName, cp_sessionID = sessionID,
                       cp_ownerID = ownerID, cp_idleTimeout = idleTimeout,
                       cp_ownerReference = Some
                         \<lparr>or_APIVersion = ''runtime.agentcube.volcano.sh/v1alpha1'',
                          or_Kind = CodeInterpreterKind, or_Name = ci_Name ci, or_UID = ci_UID ci,
                          or_Controller = None\<rparr>\<rparr>;
                    simpleSandbox = zeroSandbox
                      \<lparr>sb_Namespace := namespace, sb_Name := sandboxName,
                       sb_Labels := [SessionIdLabelKey \<mapsto> sessionID],
                       sb_ShutdownTime := map_option (\<lambda>d. be_now env + d) (ci_MaxSessionDuration ci)\<rparr>
                in Inr (simpleSandbox, Some claim, entry\<lparr>en_Kind := SandboxClaimsKind\<rparr>))
             else
               (case ci_Template ci of
                  None \<Rightarrow> Inl nilPanic
                | Some t \<Rightarrow>
                    (let podSpec = zeroPodSpec
                           \<lparr>ps_ImagePullSecrets := ct_ImagePullSecrets t,
                            ps_RuntimeClassName := normalizeRuntimeClass (ct_RuntimeClassName t),
                            ps_Containers :=
                              [\<lparr>c_Name = ''code-interpreter'', c_Image = ct_Image t,
                                c_ImagePullPolicy = ct_ImagePullPolicy t,
                                c_Env = buildCodeInterpreterEnvVars (be_publicKey env)
                                  (ct_Environment t) (ci_AuthMode ci),
                                c_Command = ct_Command t, c_Args = ct_Args t,
                                c_Resources = ct_Resources t\<rparr>]\<rparr>;
                         buildParams =
                           \<lparr>bp_namespace = namespace, bp_workloadName = codeInterpreterName,
                            bp_sandboxName = sandboxName, bp_sessionID = sessionID,
                            bp_ownerID = ownerID,
                            bp_ttl = (case ci_MaxSessionDuration ci of None \<Rightarrow> 0 | Some d \<Rightarrow> d),
                            bp_idleTimeout = idleTimeout, bp_podSpec = podSpec,
                            bp_podLabels = ct_Labels t, bp_podAnnotations = ct_Annotations t\<rparr>
                     in Inr (buildSandboxObject (be_sha256 env) (be_now env) buildParams, None, entry)))))"

subsection \<open>Store records\<close>

definition sandboxStatusReady :: string where "sandboxStatusReady = ''ready''"
definition sandboxStatusNotReady :: string where "sandboxStatusNotReady = ''not-ready''"

fun statusOfConditions :: "(string \<times> string) list \<Rightarrow> string" where
  "statusOfConditions [] = sandboxStatusNotReady"
| "statusOfConditions ((typ, status) # cs) =
     (if typ = ''Ready'' \<and> status = ''True'' then sandboxStatusReady else statusOfConditions cs)"

definition getSandboxStatus :: "Sandbox \<Rightarrow> string" where
  "getSandboxStatus sandbox = statusOfConditions (sb_Conditions sandbox)"

definition buildSandboxPlaceHolder :: "Time \<Rightarrow> Sandbox \<Rightarrow> sandboxEntry \<Rightarrow> SandboxInfo" where
  "buildSandboxPlaceHolder now sandboxCR entry =
     zeroSandboxInfo
       \<lparr>si_Kind := en_Kind entry, si_SessionID := en_SessionID entry, si_OwnerID := en_OwnerID entry,
        si_SandboxNamespace := sb_Namespace sandboxCR, si_Name := sb_Name sandboxCR,
        si_CreatedAt := (if IsZero (sb_CreationTimestamp sandboxCR) then now
          else sb_CreationTimestamp sandboxCR),
        si_ExpiresAt := (case sb_ShutdownTime sandboxCR of
          Some t \<Rightarrow> t | None \<Rightarrow> now + DefaultSandboxTTL),
        si_Status := ''creating'',
        si_IdleTimeout := (if en_IdleTimeout entry = 0 then DefaultSandboxIdleTimeout
          else en_IdleTimeout entry)\<rparr>"

definition entryPointOf :: "string \<Rightarrow> TargetPort \<Rightarrow> SandboxEntryPoint" where
  "entryPointOf podIP port =
     \<lparr>ep_Path = tp_PathPrefix port, ep_Protocol = tp_Protocol port,
      ep_Endpoint = JoinHostPort podIP (Itoa (int (tp_Port port)))\<rparr>"

definition buildSandboxInfo :: "Sandbox \<Rightarrow> string \<Rightarrow> sandboxEntry \<Rightarrow> SandboxInfo" where
  "buildSandboxInfo sandbox podIP entry =
     zeroSandboxInfo
       \<lparr>si_Kind := en_Kind entry, si_SandboxID := sb_UID sandbox, si_Name := sb_Name sandbox,
        si_SandboxNamespace := sb_Namespace sandbox,
        si_EntryPoints := map (entryPointOf podIP) (en_Ports entry),
        si_SessionID := en_SessionID entry, si_OwnerID := en_OwnerID entry,
        si_CreatedAt := sb_CreationTimestamp sandbox,
        si_ExpiresAt := (case sb_ShutdownTime sandbox of
          Some t \<Rightarrow> t | None \<Rightarrow> sb_CreationTimestamp sandbox + DefaultSandboxTTL),
        si_Status := getSandboxStatus sandbox,
        si_IdleTimeout := (if en_IdleTimeout entry = 0 then DefaultSandboxIdleTimeout
          else en_IdleTimeout entry)\<rparr>"

subsection \<open>Names and objects\<close>

lemma RandString_form:
  assumes "n \<le> length draws"
  shows "length (RandString n draws) = n \<and> set (RandString n draws) \<subseteq> set letters"
proof -
  have "letters ! (r mod length letters) \<in> set letters" for r
    by (rule nth_mem) (simp add: letters_def)
  then show ?thesis
    using assms by (auto simp: RandString_def)
qed

lemma buildSandboxObject_facts:
  "sb_Name (buildSandboxObject h now p) = bp_sandboxName p"
  "sb_Namespace (buildSandboxObject h now p) = bp_namespace p"
  "sb_ShutdownTime (buildSandboxObject h now p) =
     Some (now + (if bp_ttl p = 0 then DefaultSandboxTTL else bp_ttl p))"
  "sb_PodSpec (buildSandboxObject h now p) = bp_podSpec p"
  "sb_Labels (buildSandboxObject h now p) SessionIdLabelKey = Some (bp_sessionID p)"
  "sb_PodLabels (buildSandboxObject h now p) SandboxNameLabelKey = Some (bp_sandboxName p)"
  "sb_Annotations (buildSandboxObject h now p) ownerAnnotationKey =
     (if bp_ownerID p = [] then None else Some (bp_ownerID p))"
  by (simp_all add: buildSandboxObject_def Let_def zeroSandbox_def label_keys)

lemma buildSandboxClaimObject_facts:
  "sc_Name (buildSandboxClaimObject h p) = cp_name p"
  "sc_Namespace (buildSandboxClaimObject h p) = cp_namespace p"
  "sc_TemplateRef (buildSandboxClaimObject h p) = cp_sandboxTemplateName p"
  "sc_Labels (buildSandboxClaimObject h p) SessionIdLabelKey = Some (cp_sessionID p)"
  "sc_Annotations (buildSandboxClaimObject h p) ownerAnnotationKey =
     (if cp_ownerID p = [] then None else Some (cp_ownerID p))"
  by (simp_all add: buildSandboxClaimObject_def Let_def label_keys)

lemmas build_facts = buildSandboxObject_facts buildSandboxClaimObject_facts

lemma placeholder_ref:
  "refOf (buildSandboxPlaceHolder now sb en) =
     (if en_Kind en = SandboxClaimsKind then ClaimRef (sb_Namespace sb) (sb_Name sb)
      else SandboxRef (sb_Namespace sb) (sb_Name sb))"
  by (simp add: refOf_def buildSandboxPlaceHolder_def)

lemmas build_ci_simps = buildSandboxByCodeInterpreter_def IsPublicKeyCached_def Let_def

lemma build_ci_direct:
  "buildSandboxByCodeInterpreter ae lister env ns n owner = Inr (sb, None, en) \<Longrightarrow>
     \<exists>p. sb = buildSandboxObject (be_sha256 env) (be_now env) p \<and> bp_namespace p = ns \<and>
       bp_sandboxName p = n @ ''-'' @ RandString 8 (be_draws env) \<and> bp_sessionID p = be_uuid env \<and>
       bp_ownerID p = owner \<and> en_Kind en = SandboxKind \<and> en_SessionID en = be_uuid env \<and> en_Ports en \<noteq> []"
  by (force simp: build_ci_simps split: sum.splits if_splits option.splits)

lemma build_ci_claim:
  "buildSandboxByCodeInterpreter ae lister env ns n owner = Inr (sb, Some c, en) \<Longrightarrow>
     \<exists>p. c = buildSandboxClaimObject (be_sha256 env) p \<and> cp_namespace p = ns \<and> sb_Namespace sb = ns \<and>
       cp_name p = n @ ''-'' @ RandString 8 (be_draws env) \<and> sb_Name sb = cp_name p \<and>
       cp_sessionID p = be_uuid env \<and> cp_ownerID p = owner \<and> en_Kind en = SandboxClaimsKind \<and>
       en_SessionID en = be_uuid env \<and> en_Ports en \<noteq> []"
  by (force simp: build_ci_simps zeroSandbox_def split: sum.splits if_splits option.splits)

lemma normalizeRuntimeClass_ne [simp]: "normalizeRuntimeClass rc \<noteq> Some []"
  by (simp add: normalizeRuntimeClass_def)

lemma placeholder_session [simp]: "si_SessionID (buildSandboxPlaceHolder now sb en) = en_SessionID en"
  by (simp add: buildSandboxPlaceHolder_def)

subsection \<open>Properties\<close>

text \<open>
  What \<open>buildSandboxByCodeInterpreter\<close> returns is consistent.  The placeholder that is stored for
  it stands for exactly the object that will be created, the claim when there is one and the sandbox
  otherwise.  That object is named after the interpreter with eight letters or digits, lives in the
  namespace of the request and carries the session id of the entry as a label; it is annotated with the
  owner exactly when there is one.
\<close>
theorem build_code_interpreter:
  assumes "buildSandboxByCodeInterpreter ae lister env ns n owner = Inr (sb, cl, en)"
    and "8 \<le> length (be_draws env)"
  shows "refOf (buildSandboxPlaceHolder now sb en) =
       (case cl of None \<Rightarrow> SandboxRef ns (sb_Name sb) | Some c \<Rightarrow> ClaimRef (sc_Namespace c) (sc_Name c)) \<and>
     (\<exists>suffix. sb_Name sb = n @ ''-'' @ suffix \<and> length suffix = 8 \<and> set suffix \<subseteq> set letters) \<and>
     si_SessionID (buildSandboxPlaceHolder now sb en) = be_uuid env \<and>
     sb_Namespace sb = ns \<and> en_Ports en \<noteq> [] \<and>
     (let (labels, annotations) =
        (case cl of None \<Rightarrow> (sb_Labels sb, sb_Annotations sb) | Some c \<Rightarrow> (sc_Labels c, sc_Annotations c))
      in labels SessionIdLabelKey = Some (be_uuid env) \<and>
         annotations ownerAnnotationKey = (if owner = [] then None else Some owner))"
proof (cases cl)
  case None
  then show ?thesis
    using build_ci_direct [of ae lister env ns n owner sb en] RandString_form [OF assms(2)] assms(1)
    by (auto simp: build_facts placeholder_ref kind_defs)
next
  case (Some c)
  then show ?thesis
    using build_ci_claim [of ae lister env ns n owner sb c en] RandString_form [OF assms(2)] assms(1)
    by (auto simp: build_facts placeholder_ref)
qed

text \<open>
  What \<open>buildSandboxByAgentRuntime\<close> returns is consistent in the same way: the placeholder stands
  for the sandbox that will be created, which carries the session id and the owner, runs the pod of the
  template with an empty runtime class dropped, and expires after the configured duration or eight
  hours.
\<close>
theorem build_agent_runtime:
  assumes "buildSandboxByAgentRuntime ae lister env ns n owner = Inr (sb, en)"
    and "lister ns n = Inr ar" and "ar_Template ar = Some t"
  shows "refOf (buildSandboxPlaceHolder now sb en) = SandboxRef ns (sb_Name sb) \<and>
     sb_Labels sb SessionIdLabelKey = Some (en_SessionID en) \<and>
     sb_Annotations sb ownerAnnotationKey = (if owner = [] then None else Some owner) \<and>
     ps_Containers (sb_PodSpec sb) = ps_Containers (st_Spec t) \<and>
     ps_RuntimeClassName (sb_PodSpec sb) \<noteq> Some [] \<and>
     sb_ShutdownTime sb = Some (be_now env +
       (case ar_MaxSessionDuration ar of None \<Rightarrow> DefaultSandboxTTL
        | Some d \<Rightarrow> if d = 0 then DefaultSandboxTTL else d))"
  using assms
  by (auto simp: buildSandboxByAgentRuntime_def Let_def build_facts placeholder_ref
      kind_defs split: option.splits)

text \<open>
  C30: A sandbox built for an interpreter with \<open>picod\<close> authentication carries the Router's public key,
  which is not empty, in addition to the environment of the template; with another mode it has the
  environment of the template alone.
\<close>
theorem picod_key_injected:
  assumes "buildSandboxByCodeInterpreter ae lister env ns n owner = Inr (sb, None, en)"
    and "lister ns n = Inr ci" and "ci_Template ci = Some t"
  shows "(\<exists>c. ps_Containers (sb_PodSpec sb) = [c] \<and> c_Image c = ct_Image t \<and>
       c_Env c = ct_Environment t @ (if ci_AuthMode ci = AuthModePicoD
         then [\<lparr>env_Name = ''PICOD_AUTH_PUBLIC_KEY'', env_Value = be_publicKey env, env_ValueFrom = None\<rparr>] else [])) \<and>
     (ci_AuthMode ci = AuthModePicoD \<longrightarrow> be_publicKey env \<noteq> [])"
  using assms
  by (auto simp: build_ci_simps build_facts buildCodeInterpreterEnvVars_def split: if_splits option.splits)

text \<open>
  A maximum session duration of zero means eight hours for a sandbox created directly and no time at
  all for one claimed from the warm pool: \<open>buildSandboxObject\<close> replaces a zero duration by the default,
  the warm-pool branch adds it to the clock.
\<close>
theorem zero_max_session_duration:
  assumes "buildSandboxByCodeInterpreter ae lister env ns n owner = Inr (sb, cl, en)"
    and "lister ns n = Inr ci" and "ci_MaxSessionDuration ci = Some 0"
  shows "si_ExpiresAt (buildSandboxPlaceHolder now sb en) =
     be_now env + (if cl = None then DefaultSandboxTTL else 0)"
  using assms
  by (auto simp: build_ci_simps build_facts buildSandboxPlaceHolder_def zeroSandbox_def
      split: if_splits option.splits)

subsection \<open>The key cache\<close>

lemma publicKeyLoop_sleeps:
  assumes "0 < d" "d \<le> maxRetryInterval"
  shows "\<exists>k. snd (publicKeyLoop ns d answers key) = map (\<lambda>i. min (d * 2 ^ i) maxRetryInterval) [0..<k]"
  using assms
proof (induction answers arbitrary: d key)
  case Nil
  then show ?case
    by (auto intro: exI [of _ 0])
next
  case (Cons a answers)
  let ?d = "if d * 2 > maxRetryInterval then maxRetryInterval else d * 2"
  have d: "0 < ?d" "?d \<le> maxRetryInterval"
    using Cons.prems by (auto simp: maxRetryInterval_def go_simps)
  have m: "min (?d * 2 ^ i) maxRetryInterval = min (d * 2 ^ Suc i) maxRetryInterval" for i
  proof (cases "d * 2 > maxRetryInterval")
    case True
    have "maxRetryInterval * 1 \<le> maxRetryInterval * 2 ^ i" "maxRetryInterval * 1 \<le> d * 2 * 2 ^ i"
      using True d Cons.prems by (intro mult_mono; simp add: maxRetryInterval_def go_simps)+
    then show ?thesis
      using True by (simp add: ac_simps)
  qed (simp add: ac_simps)
  show ?case
  proof (cases "loadPublicKeyFromSecret ns a key")
    case (Pair r key')
    show ?thesis
    proof (cases r)
      case None
      then show ?thesis
        using Pair by (auto intro: exI [of _ 0])
    next
      case (Some e)
      obtain k where k: "snd (publicKeyLoop ns ?d answers key') =
          map (\<lambda>i. min (?d * 2 ^ i) maxRetryInterval) [0..<k]"
        using Cons.IH [OF d] by blast
      have "d # map (\<lambda>i. min (d * 2 ^ Suc i) maxRetryInterval) [0..<k] =
          map (\<lambda>i. min (d * 2 ^ i) maxRetryInterval) [0..<Suc k]"
        using Cons.prems by (simp add: upt_conv_Cons map_Suc_upt [symmetric] comp_def del: upt_Suc power_Suc)
      moreover have "snd (publicKeyLoop ns d (a # answers) key) =
          d # snd (publicKeyLoop ns ?d answers key')"
        using Pair Some by (simp add: Let_def case_prod_beta del: if_split)
      ultimately show ?thesis
        using k by (simp add: m del: upt_Suc power_Suc) blast
    qed
  qed
qed

lemma publicKeyLoop_loads:
  "(\<exists>data k. Inr data \<in> set answers \<and> data PublicKeyDataKey = Some k) \<Longrightarrow>
     \<exists>data. Inr data \<in> set answers \<and> data PublicKeyDataKey = Some (fst (publicKeyLoop ns d answers key))"
proof (induction answers arbitrary: d key)
  case (Cons a answers)
  show ?case
  proof (cases "\<exists>data k. a = Inr data \<and> data PublicKeyDataKey = Some k")
    case True
    then show ?thesis
      by (auto simp: loadPublicKeyFromSecret_def)
  next
    case False
    then obtain e where e: "loadPublicKeyFromSecret ns a key = (Some e, key)"
      by (cases a) (auto simp: loadPublicKeyFromSecret_def)
    have "\<exists>data k. Inr data \<in> set answers \<and> data PublicKeyDataKey = Some k"
      using Cons.prems False by auto
    note ih = Cons.IH [OF this]
    have "\<exists>d'. fst (publicKeyLoop ns d (a # answers) key) = fst (publicKeyLoop ns d' answers key)"
      using e by (simp add: Let_def case_prod_beta del: if_split) blast
    then show ?thesis
      using ih by (metis list.set_intros(2))
  qed
qed simp

text \<open>
  The key cache is filled as soon as the Router's secret can be read: if one of the answers of the API
  server holds the key, \<open>InitPublicKeyCache\<close> ends with a key that one of them holds.  The pauses between
  the attempts double from 100 milliseconds and never exceed ten seconds.
\<close>
theorem public_key_cache_filled:
  assumes "InitPublicKeyCache ns answers key = (key', sleeps)"
  shows "((\<exists>data k. Inr data \<in> set answers \<and> data PublicKeyDataKey = Some k) \<longrightarrow>
       (\<exists>data. Inr data \<in> set answers \<and> data PublicKeyDataKey = Some key')) \<and>
     (\<exists>k. sleeps = map (\<lambda>i. min (100 * Millisecond * 2 ^ i) (10 * Second)) [0..<k])"
  using publicKeyLoop_loads [of answers ns "100 * Millisecond" key]
    publicKeyLoop_sleeps [of "100 * Millisecond" ns answers key] assms
  by (simp add: InitPublicKeyCache_def maxRetryInterval_def go_simps)

subsection \<open>A concrete interpreter and runtime\<close>

definition sampleInterpreter :: "int option \<Rightarrow> CodeInterpreter" where
  "sampleInterpreter pool =
     \<lparr>ci_Namespace = ''default'', ci_Name = ''py'', ci_UID = ''u1'', ci_Ports = [],
      ci_Template = Some \<lparr>ct_Labels = None, ct_Annotations = None, ct_RuntimeClassName = Some [],
        ct_Image = ''picod:1'', ct_ImagePullPolicy = [], ct_ImagePullSecrets = [],
        ct_Environment = [\<lparr>env_Name = ''A'', env_Value = ''1'', env_ValueFrom = None\<rparr>], ct_Command = [], ct_Args = [], ct_Resources = []\<rparr>,
      ci_SessionTimeout = None, ci_MaxSessionDuration = Some 0, ci_WarmPoolSize = pool,
      ci_AuthMode = AuthModePicoD\<rparr>"

definition sampleRuntime :: AgentRuntime where
  "sampleRuntime =
     \<lparr>ar_Namespace = ''default'', ar_Name = ''agent'', ar_Ports = [defaultPort],
      ar_Template = Some \<lparr>st_Labels = None, st_Annotations = None,
        st_Spec = zeroPodSpec\<lparr>ps_RuntimeClassName := Some []\<rparr>\<rparr>,
      ar_SessionTimeout = None, ar_MaxSessionDuration = Some Hour\<rparr>"

definition sampleEnv :: buildEnv where
  "sampleEnv = \<lparr>be_now = 0, be_draws = [0, 1, 2, 3, 4, 5, 6, 7], be_uuid = ''s2'',
     be_sha256 = (\<lambda>s. s), be_publicKey = ''PEM''\<rparr>"

lemma sample_build:
  "\<exists>sb cl en. buildSandboxByCodeInterpreter std_apierrors (\<lambda>_ _. Inr (sampleInterpreter (Some 2)))
     sampleEnv ''default'' ''py'' ''u'' = Inr (sb, Some cl, en)"
  "\<exists>sb en. buildSandboxByCodeInterpreter std_apierrors (\<lambda>_ _. Inr (sampleInterpreter None))
     sampleEnv ''default'' ''py'' ''u'' = Inr (sb, None, en)"
  "\<exists>sb en. buildSandboxByAgentRuntime std_apierrors (\<lambda>_ _. Inr sampleRuntime)
     sampleEnv ''default'' ''agent'' ''u'' = Inr (sb, en)"
  by (simp_all add: build_ci_simps buildSandboxByAgentRuntime_def sampleInterpreter_def sampleEnv_def
      sampleRuntime_def)

theorem build_code_interpreter_witness:
  "\<exists>sb cl en. buildSandboxByCodeInterpreter std_apierrors (\<lambda>_ _. Inr (sampleInterpreter (Some 2)))
       sampleEnv ''default'' ''py'' ''u'' = Inr (sb, Some cl, en) \<and>
     refOf (buildSandboxPlaceHolder 0 sb en) = ClaimRef (sc_Namespace cl) (sc_Name cl) \<and>
     sc_Annotations cl ownerAnnotationKey = Some ''u''"
proof -
  obtain sb cl en where b: "buildSandboxByCodeInterpreter std_apierrors
      (\<lambda>_ _. Inr (sampleInterpreter (Some 2))) sampleEnv ''default'' ''py'' ''u'' = Inr (sb, Some cl, en)"
    using sample_build(1) by blast
  show ?thesis
    using build_code_interpreter [OF b] b by (auto simp: sampleEnv_def)
qed

theorem build_agent_runtime_witness:
  "\<exists>sb en. buildSandboxByAgentRuntime std_apierrors (\<lambda>_ _. Inr sampleRuntime)
       sampleEnv ''default'' ''agent'' ''u'' = Inr (sb, en) \<and>
     sb_ShutdownTime sb = Some Hour \<and> ps_RuntimeClassName (sb_PodSpec sb) \<noteq> Some []"
proof -
  obtain sb en where b: "buildSandboxByAgentRuntime std_apierrors (\<lambda>_ _. Inr sampleRuntime)
      sampleEnv ''default'' ''agent'' ''u'' = Inr (sb, en)"
    using sample_build(3) by blast
  show ?thesis
    using build_agent_runtime [OF b refl] b by (auto simp: sampleEnv_def sampleRuntime_def go_simps)
qed

theorem picod_key_injected_witness:
  "\<exists>sb en c. buildSandboxByCodeInterpreter std_apierrors (\<lambda>_ _. Inr (sampleInterpreter None))
       sampleEnv ''default'' ''py'' ''u'' = Inr (sb, None, en) \<and>
     ps_Containers (sb_PodSpec sb) = [c] \<and>
     map env_Value (c_Env c) = [''1'', ''PEM'']"
proof -
  obtain sb en where b: "buildSandboxByCodeInterpreter std_apierrors
      (\<lambda>_ _. Inr (sampleInterpreter None)) sampleEnv ''default'' ''py'' ''u'' = Inr (sb, None, en)"
    using sample_build(2) by blast
  show ?thesis
    using picod_key_injected [OF b refl] b by (auto simp: sampleEnv_def sampleInterpreter_def)
qed

theorem zero_max_session_duration_witness:
  "\<exists>sb cl en. buildSandboxByCodeInterpreter std_apierrors (\<lambda>_ _. Inr (sampleInterpreter (Some 2)))
       sampleEnv ''default'' ''py'' ''u'' = Inr (sb, Some cl, en) \<and>
     si_ExpiresAt (buildSandboxPlaceHolder 0 sb en) = 0"
proof -
  obtain sb cl en where b: "buildSandboxByCodeInterpreter std_apierrors
      (\<lambda>_ _. Inr (sampleInterpreter (Some 2))) sampleEnv ''default'' ''py'' ''u'' = Inr (sb, Some cl, en)"
    using sample_build(1) by blast
  show ?thesis
    using zero_max_session_duration [OF b refl] b
    by (auto simp: sampleEnv_def sampleInterpreter_def)
qed

theorem public_key_cache_filled_witness:
  "\<exists>sleeps. InitPublicKeyCache ''default''
       [Inl (ErrMsg ''forbidden''), Inr Map.empty, Inr [''public.pem'' \<mapsto> ''PEM'']] [] = (''PEM'', sleeps) \<and>
     (\<exists>k. sleeps = map (\<lambda>i. min (100 * Millisecond * 2 ^ i) (10 * Second)) [0..<k])"
proof -
  have e: "InitPublicKeyCache ''default''
      [Inl (ErrMsg ''forbidden''), Inr Map.empty, Inr [''public.pem'' \<mapsto> ''PEM'']] [] =
      (''PEM'', [100 * Millisecond, 200 * Millisecond])"
    by (simp add: InitPublicKeyCache_def loadPublicKeyFromSecret_def PublicKeyDataKey_def
        maxRetryInterval_def go_simps)
  show ?thesis
    by (rule exI, rule conjI, rule e, rule conjunct2 [OF public_key_cache_filled [OF e]])
qed

end
