(* ===== verification/Tokens.thy ===== *)
theory Tokens
  imports Jwt Builder
begin

text \<open>
  The tokens the parts of the system authenticate each other with: the Router's key pair and the tokens it
  signs (\<open>pkg/router/jwt.go\<close>), the Workload Manager's check of the identity token
  (\<open>pkg/workloadmanager/identity.go\<close>), and PicoD's check of the token of a request
  (\<open>pkg/picod/auth.go\<close>).

  The secret of the Router's identity is read and written through a \<open>secretApi\<close> on the state of the
  world.
\<close>

subsection \<open>The Router's keys\<close>

definition jwtExpiration :: Duration where "jwtExpiration = 5 * Minute"
definition PrivateKeyDataKey :: string where "PrivateKeyDataKey = ''private.pem''"

record JWTManager =
  jm_privateKey :: privKey
  jm_publicKey :: string

definition NewJWTManager :: "keyLib \<Rightarrow> privKey res \<Rightarrow> JWTManager res" where
  "NewJWTManager kl generated =
     (case generated of
        Inl e \<Rightarrow> Inl (ErrWrap ''failed to generate RSA key pair'' e)
      | Inr privateKey \<Rightarrow> Inr \<lparr>jm_privateKey = privateKey, jm_publicKey = kl_PublicKey kl privateKey\<rparr>)"

definition GenerateToken :: "jwtLib \<Rightarrow> JWTManager \<Rightarrow> Time \<Rightarrow> claims \<Rightarrow> string res" where
  "GenerateToken jl jm now claims =
     (let base = [(''exp'', VNum (of_int (Unix (now + jwtExpiration)))), (''iat'', VNum (of_int (Unix now))),
            (''iss'', VStr ''agentcube-router'')];
          jwtClaims = fold (\<lambda>(k, v). AList.update k v) claims base in
      case jl_SignedString jl ''RS256'' (jm_privateKey jm) jwtClaims of
        Inl e \<Rightarrow> Inl (ErrWrap ''failed to sign JWT token'' e)
      | Inr tokenString \<Rightarrow> Inr tokenString)"

definition GetPublicKeyPEM :: "keyLib \<Rightarrow> JWTManager \<Rightarrow> string res" where
  "GetPublicKeyPEM kl jm =
     (case kl_MarshalPKIXPublicKey kl (jm_publicKey jm) of
        Inl e \<Rightarrow> Inl (ErrWrap ''failed to marshal public key'' e)
      | Inr pubKeyBytes \<Rightarrow> Inr (kl_pemEncode kl ''PUBLIC KEY'' pubKeyBytes))"

definition GetPrivateKeyPEM :: "keyLib \<Rightarrow> JWTManager \<Rightarrow> string" where
  "GetPrivateKeyPEM kl jm =
     kl_pemEncode kl ''RSA PRIVATE KEY'' (kl_MarshalPKCS1PrivateKey kl (jm_privateKey jm))"

definition loadPrivateKeyPEM :: "keyLib \<Rightarrow> string \<Rightarrow> JWTManager \<Rightarrow> gerr option \<times> JWTManager" where
  "loadPrivateKeyPEM kl privateKeyPEM jm =
     (case kl_pemDecode kl privateKeyPEM of
        None \<Rightarrow> (Some (ErrMsg ''failed to decode private key PEM block''), jm)
      | Some bytes \<Rightarrow>
          (case kl_ParsePKCS1PrivateKey kl bytes of
             Inl e \<Rightarrow> (Some (ErrWrap ''failed to parse private key'' e), jm)
           | Inr privateKey \<Rightarrow>
               (None, jm\<lparr>jm_privateKey := privateKey, jm_publicKey := kl_PublicKey kl privateKey\<rparr>)))"

record 'w secretApi =
  sec_Create :: "string \<Rightarrow> string \<Rightarrow> strmap \<Rightarrow> 'w \<Rightarrow> gerr option \<times> 'w"
  sec_Get :: "string \<Rightarrow> string \<Rightarrow> 'w \<Rightarrow> strmap res \<times> 'w"

text \<open>\<open>clientset\<close> is the client of the cluster, or the error of making one; \<open>None\<close> outside a cluster.\<close>

definition TryStoreOrLoadJWTKeySecret ::
  "apierrors \<Rightarrow> keyLib \<Rightarrow> 'w secretApi res option \<Rightarrow> string \<Rightarrow> JWTManager \<Rightarrow> 'w \<Rightarrow>
   gerr option \<times> JWTManager \<times> 'w" where
  "TryStoreOrLoadJWTKeySecret ae kl clientset IdentityNamespace jm w =
     (case clientset of
        None \<Rightarrow> (None, jm, w)
      | Some (Inl e) \<Rightarrow> (Some (ErrWrap ''failed to create kubernetes client'' e), jm, w)
      | Some (Inr api) \<Rightarrow>
          (case GetPublicKeyPEM kl jm of
             Inl e \<Rightarrow> (Some (ErrWrap ''failed to get public key'' e), jm, w)
           | Inr publicKeyPEM \<Rightarrow>
               (case sec_Create api IdentityNamespace IdentitySecretName
                   [PrivateKeyDataKey \<mapsto> GetPrivateKeyPEM kl jm, PublicKeyDataKey \<mapsto> publicKeyPEM] w of
                  (None, w1) \<Rightarrow> (None, jm, w1)
                | (Some e, w1) \<Rightarrow>
                    if \<not> ae_IsAlreadyExists ae e
                    then (Some (ErrWrap ''failed to create identity secret'' e), jm, w1)
                    else
                      (case sec_Get api IdentityNamespace IdentitySecretName w1 of
                         (Inl e, w2) \<Rightarrow> (Some (ErrWrap ''failed to get identity secret'' e), jm, w2)
                       | (Inr data, w2) \<Rightarrow>
                           (case data PrivateKeyDataKey of
                              None \<Rightarrow>
                                (Some (ErrMsg ''private key data not found in identity secret''), jm, w2)
                            | Some privateKeyPEMInSecret \<Rightarrow>
                                (case loadPrivateKeyPEM kl privateKeyPEMInSecret jm of
                                   (Some e, jm') \<Rightarrow>
                                     (Some (ErrWrap ''failed to load private key from secret'' e), jm', w2)
                                 | (None, jm') \<Rightarrow> (None, jm', w2)))))))"

subsection \<open>The identity of a user at the Workload Manager\<close>

definition identityJWTHeader :: string where "identityJWTHeader = ''X-AgentCube-User-Identity''"

definition identityOpts :: jwtOpts where
  "identityOpts =
     \<lparr>jo_ValidMethods = Some [''RS256''], jo_ExpirationRequired = True, jo_IssuedAt = False, jo_Leeway = 0\<rparr>"

definition verifyIdentityJWT :: "jwtLib \<Rightarrow> keyLib \<Rightarrow> Time \<Rightarrow> string \<Rightarrow> string \<Rightarrow> string res" where
  "verifyIdentityJWT jl kl now publicKeyPEM rawToken =
     (case kl_pemDecode kl publicKeyPEM of
        None \<Rightarrow> Inl (ErrMsg ''failed to decode public key PEM'')
      | Some bytes \<Rightarrow>
          (case kl_ParsePKIXPublicKey kl bytes of
             Inl e \<Rightarrow> Inl (ErrWrap ''failed to parse public key'' e)
           | Inr (OtherPub _) \<Rightarrow> Inl (ErrMsg ''public key is not RSA'')
           | Inr (RsaPub rsaPub) \<Rightarrow>
               (case jl_Parse jl identityOpts (\<lambda>_. Inr rsaPub) now rawToken of
                  Inl e \<Rightarrow> Inl (ErrWrap ''token verification failed'' e)
                | Inr claims \<Rightarrow>
                    (let aud = strClaim claims ''aud''; sub = strClaim claims ''sub'' in
                     if aud \<noteq> ''workloadmanager'' then Inl (ErrMsg (''invalid audience: '' @ aud))
                     else if sub = [] then Inl (ErrMsg ''missing sub claim'')
                     else Inr sub))))"

definition extractOwnerID ::
  "jwtLib \<Rightarrow> keyLib \<Rightarrow> Time \<Rightarrow> string \<Rightarrow> (string \<Rightarrow> string) \<Rightarrow> string res" where
  "extractOwnerID jl kl now cachedPublicKey header =
     (let rawToken = header identityJWTHeader in
      if rawToken = [] then Inl (ErrVar ErrNoIdentityHeader)
      else if cachedPublicKey = [] then Inl (ErrVar ErrPublicKeyNotCached)
      else
        (case verifyIdentityJWT jl kl now cachedPublicKey rawToken of
           Inl e \<Rightarrow> Inl (ErrWrap2 (ErrVar ErrVerificationFailed) e)
         | Inr sub \<Rightarrow> Inr sub))"

text \<open>The owner, and the status and message of the response when the request is refused.\<close>

definition resolveSandboxOwnerID ::
  "jwtLib \<Rightarrow> keyLib \<Rightarrow> Time \<Rightarrow> string \<Rightarrow> (string \<Rightarrow> string) \<Rightarrow> string \<times> nat \<times> string" where
  "resolveSandboxOwnerID jl kl now cachedPublicKey header =
     (case extractOwnerID jl kl now cachedPublicKey header of
        Inr ownerID \<Rightarrow> (ownerID, 0, [])
      | Inl e \<Rightarrow>
          if errors_Is e ErrNoIdentityHeader then ([], 0, [])
          else if errors_Is e ErrPublicKeyNotCached then ([], 503, ''identity verifier not ready'')
          else ([], 401, ''invalid identity token''))"

subsection \<open>The token of a request at PicoD\<close>

definition PublicKeyEnvVar :: string where "PublicKeyEnvVar = ''PICOD_AUTH_PUBLIC_KEY''"

definition LoadPublicKeyFromEnv :: "keyLib \<Rightarrow> string \<Rightarrow> string res" where
  "LoadPublicKeyFromEnv kl keyData =
     (if keyData = [] then Inl (ErrMsg (''environment variable '' @ PublicKeyEnvVar @ '' is not set''))
      else
        (case kl_pemDecode kl keyData of
           None \<Rightarrow> Inl (ErrMsg (''failed to decode PEM block from '' @ PublicKeyEnvVar))
         | Some bytes \<Rightarrow>
             (case kl_ParsePKIXPublicKey kl bytes of
                Inl e \<Rightarrow> Inl (ErrWrap ''failed to parse public key'' e)
              | Inr (OtherPub _) \<Rightarrow> Inl (ErrMsg ''key is not an RSA public key'')
              | Inr (RsaPub rsaPub) \<Rightarrow> Inr rsaPub)))"

definition isSigningMethodRSA :: "string \<Rightarrow> bool" where
  "isSigningMethodRSA alg \<longleftrightarrow> alg \<in> {''RS256'', ''RS384'', ''RS512''}"

definition picodOpts :: jwtOpts where
  "picodOpts =
     \<lparr>jo_ValidMethods = None, jo_ExpirationRequired = True, jo_IssuedAt = True, jo_Leeway = Minute\<rparr>"

definition picodKeyfunc :: "string \<Rightarrow> string \<Rightarrow> string res" where
  "picodKeyfunc publicKey alg =
     (if \<not> isSigningMethodRSA alg then Inl (ErrMsg (''unexpected signing method: '' @ alg))
      else Inr publicKey)"

text \<open>\<open>None\<close> lets the request through; otherwise the status and the error of the response.\<close>

definition AuthMiddleware ::
  "jwtLib \<Rightarrow> string \<Rightarrow> Time \<Rightarrow> (string \<Rightarrow> string) \<Rightarrow> (nat \<times> string) option" where
  "AuthMiddleware jl publicKey now header =
     (let authHeader = header ''Authorization'' in
      if authHeader = [] then Some (401, ''Missing Authorization header'')
      else
        (case Split authHeader (CHR '' '') of
           [scheme, tokenString] \<Rightarrow>
             if scheme \<noteq> ''Bearer'' then Some (401, ''Invalid Authorization header format'')
             else
               (case jl_Parse jl picodOpts (picodKeyfunc publicKey) now tokenString of
                  Inl e \<Rightarrow> Some (401, ''Invalid token'')
                | Inr claims \<Rightarrow> None)
         | _ \<Rightarrow> Some (401, ''Invalid Authorization header format'')))"

subsection \<open>The claims of a token the Router signs\<close>

lemma map_of_fold_update:
  "k \<notin> fst ` set cs \<Longrightarrow> map_of (fold (\<lambda>(k, v). AList.update k v) cs base) k = map_of base k"
  by (induction cs arbitrary: base) (auto simp: update_conv')

lemma Unix_bounds: "Unix t * 1000000000 \<le> t" "t - 1000000000 < Unix t * 1000000000"
  by (simp_all add: Unix_def)

text \<open>The dates of a token that was signed at \<open>t\<close>, when no custom claim replaces them.\<close>

lemma router_dates:
  assumes "''exp'' \<notin> fst ` set cs" "''iat'' \<notin> fst ` set cs" "''nbf'' \<notin> fst ` set cs"
    and "jo_ExpirationRequired opts" and "map_of c = map_of (fold (\<lambda>(k, v). AList.update k v) cs
      [(''exp'', VNum (of_int (Unix (t + jwtExpiration)))), (''iat'', VNum (of_int (Unix t))),
       (''iss'', VStr ''agentcube-router'')])"
  shows "claimsValid opts now c \<longleftrightarrow>
     now < Unix (t + jwtExpiration) * 1000000000 + jo_Leeway opts \<and>
     (jo_IssuedAt opts \<longrightarrow> Unix t * 1000000000 - jo_Leeway opts \<le> now)"
  using assms by (simp add: claimsValid_def dateClaim_def map_of_fold_update)

lemma GenerateToken_signs:
  assumes "GenerateToken jl jm t cs = Inr tok"
  shows "jl_SignedString jl ''RS256'' (jm_privateKey jm) (fold (\<lambda>(k, v). AList.update k v) cs
      [(''exp'', VNum (of_int (Unix (t + jwtExpiration)))), (''iat'', VNum (of_int (Unix t))),
       (''iss'', VStr ''agentcube-router'')]) = Inr tok"
  using assms by (auto simp: GenerateToken_def Let_def split: sum.splits)

definition keyPair :: "keyLib \<Rightarrow> JWTManager \<Rightarrow> bool" where
  "keyPair kl jm \<longleftrightarrow> jm_publicKey jm = kl_PublicKey kl (jm_privateKey jm)"

context jwt_library
begin

lemma public_pem:
  assumes "GetPublicKeyPEM kl jm = Inr pem"
  shows "pem \<noteq> []" "\<exists>bytes. kl_pemDecode kl pem = Some bytes \<and>
     kl_ParsePKIXPublicKey kl bytes = Inr (RsaPub (jm_publicKey jm))"
  using assms public_round_trip pem_round_trip pem_nonempty
  by (auto simp: GetPublicKeyPEM_def split: sum.splits)

lemma verify_signed:
  assumes "verifyIdentityJWT jl kl now pem tok = Inr sub"
  shows "\<exists>pub c. (\<exists>bytes. kl_pemDecode kl pem = Some bytes \<and> kl_ParsePKIXPublicKey kl bytes = Inr (RsaPub pub)) \<and>
     signed ''RS256'' pub tok c \<and> claimsValid identityOpts now c \<and> strClaim c ''aud'' = ''workloadmanager'' \<and>
     strClaim c ''sub'' = sub \<and> sub \<noteq> []"
proof -
  obtain bytes pub c where s: "kl_pemDecode kl pem = Some bytes" "kl_ParsePKIXPublicKey kl bytes = Inr (RsaPub pub)"
    "jl_Parse jl identityOpts (\<lambda>_. Inr pub) now tok = Inr c"
    "strClaim c ''aud'' = ''workloadmanager''" "strClaim c ''sub'' = sub" "sub \<noteq> []"
    using assms
    by (auto simp: verifyIdentityJWT_def Let_def split: option.splits sum.splits pubKey.splits if_splits)
  then show ?thesis
    using parse_sound [OF s(3)] by (auto simp: identityOpts_def)
qed

lemma router_token_parses:
  assumes "GenerateToken jl jm t cs = Inr tok" "keyPair kl jm"
    and "''exp'' \<notin> fst ` set cs" "''iat'' \<notin> fst ` set cs" "''nbf'' \<notin> fst ` set cs"
    and "jo_ExpirationRequired opts" and "keyfunc ''RS256'' = Inr (jm_publicKey jm)"
    and "\<And>ms. jo_ValidMethods opts = Some ms \<Longrightarrow> ''RS256'' \<in> set ms"
  shows "if now < Unix (t + jwtExpiration) * 1000000000 + jo_Leeway opts \<and>
       (jo_IssuedAt opts \<longrightarrow> Unix t * 1000000000 - jo_Leeway opts \<le> now)
     then \<exists>c. jl_Parse jl opts keyfunc now tok = Inr c \<and>
       map_of c = map_of (fold (\<lambda>(k, v). AList.update k v) cs
         [(''exp'', VNum (of_int (Unix (t + jwtExpiration)))), (''iat'', VNum (of_int (Unix t))),
          (''iss'', VStr ''agentcube-router'')])
     else \<exists>e. jl_Parse jl opts keyfunc now tok = Inl e"
proof -
  obtain c where c: "map_of c = map_of (fold (\<lambda>(k, v). AList.update k v) cs
         [(''exp'', VNum (of_int (Unix (t + jwtExpiration)))), (''iat'', VNum (of_int (Unix t))),
          (''iss'', VStr ''agentcube-router'')])"
    and s: "signed ''RS256'' (jm_publicKey jm) tok c"
    using sign [OF GenerateToken_signs [OF assms(1)]] assms(2) by (auto simp: keyPair_def)
  note d = router_dates [OF assms(3-6) c, of now]
  have "jl_Parse jl opts keyfunc now tok = Inr c" if "claimsValid opts now c"
    by (rule parse_complete [where alg = "''RS256''"]) (use s assms(7,8) that in auto)
  moreover have "claimsValid opts now c" if "jl_Parse jl opts keyfunc now tok = Inr c'" for c'
    using parse_sound [OF that] one_payload s by blast
  ultimately show ?thesis
    using d c by (cases "jl_Parse jl opts keyfunc now tok") auto
qed

end

subsection \<open>Properties\<close>

text \<open>
  The identity of a user survives the way from the Router to the Workload Manager.  A token the Router
  signs for a subject, with the audience of the Workload Manager, resolves to that subject as the owner of
  the sandbox as long as it has not expired, when the Workload Manager holds the Router's public key.
\<close>
theorem identity_round_trip:
  assumes "jwt_library jl kl signed" and "keyPair kl jm" and "GetPublicKeyPEM kl jm = Inr pem"
    and "GenerateToken jl jm t ((''sub'', VStr sub) # (''aud'', VStr ''workloadmanager'') # email) = Inr tok"
    and "email = [] \<or> email = [(''email'', VStr m)]" and "sub \<noteq> []"
    and "now < Unix (t + jwtExpiration) * 1000000000" and "header identityJWTHeader = tok"
  shows "resolveSandboxOwnerID jl kl now pem header = (sub, 0, [])"
proof -
  let ?cs = "(''sub'', VStr sub) # (''aud'', VStr ''workloadmanager'') # email"
  note ne = jwt_library.token_text [OF assms(1) GenerateToken_signs [OF assms(4)]]
  obtain bytes where b: "kl_pemDecode kl pem = Some bytes"
    "kl_ParsePKIXPublicKey kl bytes = Inr (RsaPub (jm_publicKey jm))" and pem: "pem \<noteq> []"
    using jwt_library.public_pem [OF assms(1,3)] by blast
  obtain c where "jl_Parse jl identityOpts (\<lambda>_. Inr (jm_publicKey jm)) now tok = Inr c"
    and c: "map_of c = map_of (fold (\<lambda>(k, v). AList.update k v) ?cs
         [(''exp'', VNum (of_int (Unix (t + jwtExpiration)))), (''iat'', VNum (of_int (Unix t))),
          (''iss'', VStr ''agentcube-router'')])"
    using jwt_library.router_token_parses [OF assms(1,4,2), of identityOpts "\<lambda>_. Inr (jm_publicKey jm)" now]
      assms(5,7) by (auto simp: identityOpts_def)
  moreover have "strClaim c ''aud'' = ''workloadmanager''" "strClaim c ''sub'' = sub"
    using c assms(5) by (auto simp: strClaim_def update_conv')
  ultimately show ?thesis
    using b pem ne assms(6,8)
    by (simp add: resolveSandboxOwnerID_def extractOwnerID_def verifyIdentityJWT_def Let_def)
qed

text \<open>
  C17: A sandbox gets an owner only on the word of the Router.  When a request resolves to an owner, its
  identity header is a token that the key of the cached PEM block verifies with RS256 (the Router's public key, if
  the block is the one a Router published), that is meant for the Workload Manager, that names the owner and has
  not expired.  A header that cannot be verified is never
  taken for an absent one: the request is refused with 401, or with 503 while there is no key.
\<close>
theorem owner_is_verified:
  assumes "jwt_library jl kl signed"
    and "resolveSandboxOwnerID jl kl now pem header = (owner, code, msg)"
  shows "code = 0 \<and> owner = [] \<and> header identityJWTHeader = [] \<or>
     code = 503 \<and> pem = [] \<and> header identityJWTHeader \<noteq> [] \<or>
     code = 401 \<and> pem \<noteq> [] \<and> header identityJWTHeader \<noteq> [] \<or>
     code = 0 \<and> owner \<noteq> [] \<and>
       (\<exists>bytes pub c. kl_pemDecode kl pem = Some bytes \<and> kl_ParsePKIXPublicKey kl bytes = Inr (RsaPub pub) \<and>
          (\<forall>jm. GetPublicKeyPEM kl jm = Inr pem \<longrightarrow> pub = jm_publicKey jm) \<and>
          signed ''RS256'' pub (header identityJWTHeader) c \<and> claimsValid identityOpts now c \<and>
          strClaim c ''aud'' = ''workloadmanager'' \<and> strClaim c ''sub'' = owner)"
proof -
  have err: "\<not> errors_Is e v" if "verifyIdentityJWT jl kl now pem tok = Inl e" for tok e v
    using that jwt_library.parse_errors [OF assms(1)] jwt_library.key_errors [OF assms(1)]
    by (auto simp: verifyIdentityJWT_def Let_def split: option.splits sum.splits pubKey.splits if_splits)
      blast
  show ?thesis
  proof (cases "verifyIdentityJWT jl kl now pem (header identityJWTHeader)")
    case (Inl e)
    then show ?thesis
      using assms(2) err [OF Inl]
      by (auto simp: resolveSandboxOwnerID_def extractOwnerID_def Let_def split: if_splits)
  next
    case (Inr sub)
    obtain pub bytes c where v: "kl_pemDecode kl pem = Some bytes" "kl_ParsePKIXPublicKey kl bytes = Inr (RsaPub pub)"
        "signed ''RS256'' pub (header identityJWTHeader) c" "claimsValid identityOpts now c"
        "strClaim c ''aud'' = ''workloadmanager''" "strClaim c ''sub'' = sub" "sub \<noteq> []"
      using jwt_library.verify_signed [OF assms(1) Inr] by blast
    have "pub = jm_publicKey jm" if "GetPublicKeyPEM kl jm = Inr pem" for jm
      using jwt_library.public_pem(2) [OF assms(1) that] v(1,2) by simp
    then show ?thesis
      using assms(2) v Inr
      by (auto simp: resolveSandboxOwnerID_def extractOwnerID_def Let_def split: if_splits)
  qed
qed

text \<open>
  C32: PicoD accepts the tokens the Router signs, and accepts them for a limited time.  A request with a
  bearer token signed at \<open>t\<close> passes exactly from one minute before its issue, in whole seconds, until one
  minute after its expiry, whatever its other claims; at every other time it is answered with 401.
\<close>
theorem picod_accepts_router_token:
  assumes "jwt_library jl kl signed" and "keyPair kl jm" and "GetPublicKeyPEM kl jm = Inr pem"
    and "LoadPublicKeyFromEnv kl pem = Inr publicKey" and "GenerateToken jl jm t cs = Inr tok"
    and "''exp'' \<notin> fst ` set cs" "''iat'' \<notin> fst ` set cs" "''nbf'' \<notin> fst ` set cs"
    and "header ''Authorization'' = ''Bearer '' @ tok"
  shows "AuthMiddleware jl publicKey now header =
     (if Unix t * Second - Minute \<le> now \<and> now < Unix (t + jwtExpiration) * Second + Minute
      then None else Some (401, ''Invalid token''))"
proof -
  have pub: "publicKey = jm_publicKey jm"
    using assms(4) jwt_library.public_pem [OF assms(1,3)] by (auto simp: LoadPublicKeyFromEnv_def)
  have "Split (''Bearer '' @ tok) (CHR '' '') = [''Bearer'', tok]"
    using jwt_library.token_text [OF assms(1) GenerateToken_signs [OF assms(5)]]
      Split_append [of "CHR '' ''" "''Bearer''" tok] by (simp add: Split_clean)
  moreover have k: "picodKeyfunc publicKey ''RS256'' = Inr (jm_publicKey jm)"
    by (simp add: picodKeyfunc_def isSigningMethodRSA_def pub)
  ultimately show ?thesis
    using jwt_library.router_token_parses [OF assms(1,5,2,6-8), of picodOpts "picodKeyfunc publicKey" now]
      assms(9)
    by (auto simp: AuthMiddleware_def Let_def picodOpts_def Second_def split: if_splits)
qed

subsection \<open>Several Routers\<close>

text \<open>What the Router relies on of the API server for its secret.\<close>

locale secret_store =
  fixes ae :: apierrors and api :: "'w secretApi" and secrets :: "'w \<Rightarrow> string \<times> string \<rightharpoonup> strmap"
  assumes create: "sec_Create api ns n d w = (r, w') \<Longrightarrow>
      (case r of
         None \<Rightarrow> secrets w (ns, n) = None \<and> secrets w' = (secrets w)((ns, n) \<mapsto> d)
       | Some e \<Rightarrow> secrets w' = secrets w \<and> (ae_IsAlreadyExists ae e \<longrightarrow> secrets w (ns, n) \<noteq> None))"
    and get: "sec_Get api ns n w = (g, w') \<Longrightarrow>
      secrets w' = secrets w \<and> (\<forall>d. g = Inr d \<longrightarrow> secrets w (ns, n) = Some d)"

text \<open>The secret is absent or holds the two halves of one key pair.\<close>

definition secretPair :: "keyLib \<Rightarrow> strmap option \<Rightarrow> bool" where
  "secretPair kl s \<longleftrightarrow>
     (\<forall>d. s = Some d \<longrightarrow>
        (\<exists>jm pem. keyPair kl jm \<and> GetPublicKeyPEM kl jm = Inr pem \<and>
           d PrivateKeyDataKey = Some (GetPrivateKeyPEM kl jm) \<and> d PublicKeyDataKey = Some pem))"

lemma loadPrivateKeyPEM_pair:
  assumes "jwt_library jl kl signed" "keyPair kl jm0"
  shows "loadPrivateKeyPEM kl (GetPrivateKeyPEM kl jm0) jm = (None, jm0)"
  using assms jwt_library.pem_round_trip [OF assms(1)] jwt_library.private_round_trip [OF assms(1)]
  by (simp add: loadPrivateKeyPEM_def GetPrivateKeyPEM_def keyPair_def)

lemma TryStore_pair:
  assumes lib: "jwt_library jl kl signed" and sec: "secret_store ae api secrets" and pair: "keyPair kl jm"
    and wf: "secretPair kl (secrets w (ns, IdentitySecretName))"
    and run: "TryStoreOrLoadJWTKeySecret ae kl (Some (Inr api)) ns jm w = (None, jm', w')"
  shows "keyPair kl jm' \<and>
     (\<exists>d pem. secrets w' (ns, IdentitySecretName) = Some d \<and> GetPublicKeyPEM kl jm' = Inr pem \<and>
        d PrivateKeyDataKey = Some (GetPrivateKeyPEM kl jm') \<and> d PublicKeyDataKey = Some pem) \<and>
     (\<forall>d. secrets w (ns, IdentitySecretName) = Some d \<longrightarrow>
        secrets w' (ns, IdentitySecretName) = Some d)"
proof -
  obtain pem where pem: "GetPublicKeyPEM kl jm = Inr pem"
    using run by (auto simp: TryStoreOrLoadJWTKeySecret_def split: sum.splits)
  obtain r w1 where c: "sec_Create api ns IdentitySecretName
      [PrivateKeyDataKey \<mapsto> GetPrivateKeyPEM kl jm, PublicKeyDataKey \<mapsto> pem] w = (r, w1)"
    by (metis surj_pair)
  note cr = secret_store.create [OF sec c]
  have keys: "PrivateKeyDataKey \<noteq> PublicKeyDataKey"
    by (simp add: PrivateKeyDataKey_def PublicKeyDataKey_def)
  show ?thesis
  proof (cases r)
    case None
    then show ?thesis
      using run c cr pem pair keys by (auto simp: TryStoreOrLoadJWTKeySecret_def)
  next
    case (Some e)
    obtain d p w2 where g: "sec_Get api ns IdentitySecretName w1 = (Inr d, w2)" "d PrivateKeyDataKey = Some p"
      and l: "loadPrivateKeyPEM kl p jm = (None, jm')" "w' = w2"
      using run c Some pem
      by (auto simp: TryStoreOrLoadJWTKeySecret_def split: if_splits prod.splits sum.splits option.splits)
    have s: "secrets w1 = secrets w" "secrets w (ns, IdentitySecretName) = Some d" "secrets w' = secrets w"
      using secret_store.get [OF sec g(1)] cr Some l by auto
    obtain jm0 pem0 where j: "keyPair kl jm0" "GetPublicKeyPEM kl jm0 = Inr pem0"
      "d PrivateKeyDataKey = Some (GetPrivateKeyPEM kl jm0)" "d PublicKeyDataKey = Some pem0"
      using wf s(2) by (auto simp: secretPair_def)
    have "jm' = jm0"
      using l g(2) j(3) loadPrivateKeyPEM_pair [OF lib j(1), of jm] by simp
    then show ?thesis
      using j s by auto
  qed
qed

text \<open>
  C33: All replicas of the Router sign with one key, and it is the key the Workload Manager verifies with.
  When two Routers with fresh key pairs start one after the other, over a secret that is absent or holds a
  key pair, both end with the same pair, and the public key the Workload Manager then loads from the secret
  is the one of that pair.
\<close>
theorem routers_share_key:
  assumes "jwt_library jl kl signed" and "secret_store ae api secrets"
    and "keyPair kl jm1" and "keyPair kl jm2" and "secretPair kl (secrets w (ns, IdentitySecretName))"
    and "TryStoreOrLoadJWTKeySecret ae kl (Some (Inr api)) ns jm1 w = (None, jm1', w1)"
    and "TryStoreOrLoadJWTKeySecret ae kl (Some (Inr api)) ns jm2 w1 = (None, jm2', w2)"
    and "sec_Get api ns IdentitySecretName w2 = (Inr d, w3)"
  shows "jm1' = jm2' \<and> keyPair kl jm2' \<and>
     (\<exists>pem. GetPublicKeyPEM kl jm2' = Inr pem \<and> loadPublicKeyFromSecret ns (Inr d) key = (None, pem))"
proof -
  note t1 = TryStore_pair [OF assms(1-3,5,6)]
  then have wf: "secretPair kl (secrets w1 (ns, IdentitySecretName))"
    by (auto simp: secretPair_def)
  note t2 = TryStore_pair [OF assms(1,2,4) wf assms(7)]
  have d: "secrets w2 (ns, IdentitySecretName) = Some d"
    using secret_store.get [OF assms(2,8)] by simp
  obtain d1 where "secrets w1 (ns, IdentitySecretName) = Some d1" "d1 PrivateKeyDataKey = Some (GetPrivateKeyPEM kl jm1')"
    using t1 by blast
  then have "GetPrivateKeyPEM kl jm1' = GetPrivateKeyPEM kl jm2'"
    using t2 by auto
  then have "jm1' = jm2'"
    using loadPrivateKeyPEM_pair [OF assms(1) conjunct1 [OF t1], of jm1]
      loadPrivateKeyPEM_pair [OF assms(1) conjunct1 [OF t2], of jm1] by (metis prod.inject)
  then show ?thesis
    using t2 d by (auto simp: loadPublicKeyFromSecret_def)
qed

subsection \<open>Witnesses\<close>

definition sampleManager :: JWTManager where
  "sampleManager = \<lparr>jm_privateKey = ''k'', jm_publicKey = ''k''\<rparr>"

definition sampleToken :: "claims \<Rightarrow> string" where
  "sampleToken cs = (case GenerateToken boxJwt sampleManager 0 cs of Inr tok \<Rightarrow> tok | Inl _ \<Rightarrow> [])"

definition samplePem :: string where
  "samplePem = (case GetPublicKeyPEM boxKeys sampleManager of Inr pem \<Rightarrow> pem | Inl _ \<Rightarrow> [])"

lemma sample_tokens:
  "keyPair boxKeys sampleManager" "GetPublicKeyPEM boxKeys sampleManager = Inr samplePem"
  "GenerateToken boxJwt sampleManager 0 cs = Inr (sampleToken cs)"
  by (simp_all add: keyPair_def sampleManager_def boxKeys_def GetPublicKeyPEM_def samplePem_def
      GenerateToken_def boxJwt_def Let_def sampleToken_def)

lemma sample_env_key: "LoadPublicKeyFromEnv boxKeys samplePem = Inr ''k''"
  using box.public_pem [OF sample_tokens(2)] by (auto simp: LoadPublicKeyFromEnv_def sampleManager_def)

theorem identity_round_trip_witness:
  "resolveSandboxOwnerID boxJwt boxKeys 0 samplePem
     (\<lambda>_. sampleToken [(''sub'', VStr ''alice''), (''aud'', VStr ''workloadmanager'')]) = (''alice'', 0, [])"
  by (rule identity_round_trip [OF box.jwt_library_axioms sample_tokens])
    (simp_all add: jwtExpiration_def Unix_def go_simps)

text \<open>A token for alice that is signed with another key.\<close>

definition forgedToken :: string where
  "forgedToken = boxed (''RS256'', ''mallory'', [(''sub'', VStr ''alice''), (''aud'', VStr ''workloadmanager'')] :: claims)"

theorem owner_is_verified_witness:
  "\<exists>msg. resolveSandboxOwnerID boxJwt boxKeys 0 samplePem (\<lambda>_. forgedToken) = ([], 401, msg)"
proof -
  obtain owner code msg where
    r: "resolveSandboxOwnerID boxJwt boxKeys 0 samplePem (\<lambda>_. forgedToken) = (owner, code, msg)"
    by (metis prod_cases3)
  have ne: "forgedToken \<noteq> []" "samplePem \<noteq> []"
    using box.public_pem(1) [OF sample_tokens(2)] by (simp_all add: forgedToken_def boxed_def)
  have "pub = ''mallory''" if "boxSigned alg pub forgedToken c" for alg pub c
  proof -
    have b: "forgedToken = boxed (alg, pub, c)"
      using that by (simp add: boxSigned_def)
    have "unboxed forgedToken = Some (alg, pub, c)"
      unfolding b by simp
    then show ?thesis
      by (simp add: forgedToken_def)
  qed
  moreover have "jm_publicKey sampleManager = ''k''"
    by (simp add: sampleManager_def)
  ultimately have "code = 401"
    using owner_is_verified [OF box.jwt_library_axioms r] ne sample_tokens(2) by fastforce
  then show ?thesis
    using r by (auto simp: resolveSandboxOwnerID_def split: sum.splits if_splits)
qed

theorem picod_accepts_router_token_witness:
  "AuthMiddleware boxJwt ''k'' Minute (\<lambda>_. ''Bearer '' @ sampleToken [(''session_id'', VStr ''s1'')]) = None \<and>
   AuthMiddleware boxJwt ''k'' Hour (\<lambda>_. ''Bearer '' @ sampleToken [(''session_id'', VStr ''s1'')]) =
     Some (401, ''Invalid token'')"
  using picod_accepts_router_token [OF box.jwt_library_axioms sample_tokens(1,2) sample_env_key
      sample_tokens(3), of "[(''session_id'', VStr ''s1'')]" "\<lambda>_. ''Bearer '' @ sampleToken [(''session_id'', VStr ''s1'')]"]
  by (simp add: jwtExpiration_def Unix_def go_simps)

definition memSecrets :: "(string \<times> string \<rightharpoonup> strmap) secretApi" where
  "memSecrets =
     \<lparr>sec_Create = (\<lambda>ns n d w.
        if w (ns, n) \<noteq> None then (Some (ErrStatus 409 ''AlreadyExists'' n), w) else (None, w((ns, n) \<mapsto> d))),
      sec_Get = (\<lambda>ns n w.
        case w (ns, n) of None \<Rightarrow> (Inl (ErrStatus 404 ''NotFound'' n), w) | Some d \<Rightarrow> (Inr d, w))\<rparr>"

interpretation memSec: secret_store std_apierrors memSecrets "\<lambda>w. w"
  by unfold_locales (auto simp: memSecrets_def split: if_splits option.splits)

definition sampleManager2 :: JWTManager where
  "sampleManager2 = \<lparr>jm_privateKey = ''k2'', jm_publicKey = ''k2''\<rparr>"

theorem routers_share_key_witness:
  "\<exists>w1 w2. TryStoreOrLoadJWTKeySecret std_apierrors boxKeys (Some (Inr memSecrets)) ''default'' sampleManager
       Map.empty = (None, sampleManager, w1) \<and>
     TryStoreOrLoadJWTKeySecret std_apierrors boxKeys (Some (Inr memSecrets)) ''default'' sampleManager2 w1 =
       (None, sampleManager, w2)"
proof -
  let ?run = "TryStoreOrLoadJWTKeySecret std_apierrors boxKeys (Some (Inr memSecrets)) ''default''"
  let ?k = "(''default'', IdentitySecretName)"
  obtain w1 d where r1: "?run sampleManager Map.empty = (None, sampleManager, w1)" "w1 ?k = Some d"
    "d PrivateKeyDataKey = Some (GetPrivateKeyPEM boxKeys sampleManager)"
    by (simp add: TryStoreOrLoadJWTKeySecret_def sample_tokens memSecrets_def PrivateKeyDataKey_def
        PublicKeyDataKey_def)
  have p2: "keyPair boxKeys sampleManager2"
    by (simp add: keyPair_def sampleManager2_def boxKeys_def)
  obtain jm where r2: "?run sampleManager2 w1 = (None, jm, w1)"
    using r1 loadPrivateKeyPEM_pair [OF box.jwt_library_axioms sample_tokens(1), of sampleManager2]
    by (simp add: TryStoreOrLoadJWTKeySecret_def memSecrets_def GetPublicKeyPEM_def boxKeys_def
        std_apierrors_def)
  have g: "sec_Get memSecrets ''default'' IdentitySecretName w1 = (Inr d, w1)"
    using r1 by (simp add: memSecrets_def)
  have "sampleManager = jm"
    using routers_share_key [OF box.jwt_library_axioms memSec.secret_store_axioms sample_tokens(1) p2 _
        r1(1) r2 g] by (simp add: secretPair_def)
  then show ?thesis
    using r1(1) r2 by blast
qed

end
