(* ===== verification/WatchCtl.thy ===== *)
theory WatchCtl
  imports Builder
begin

text \<open>
  \<open>pkg/workloadmanager/sandbox_controller.go\<close>: the reconciler that tells a waiting request that its
  sandbox is ready.

  The map of watchers is changed under the mutex, the notification is sent outside of it.  So a run of
  \<open>Reconcile\<close> that finds a watcher is two steps, the removal of the watcher and the send, and other
  goroutines may act in between.  A channel is a number with its buffer; its capacity is one.
\<close>

type_synonym NamespacedName = "string \<times> string"

record SandboxReconciler =
  sr_watchers :: "NamespacedName \<rightharpoonup> nat"
  sr_chans :: "nat \<Rightarrow> Sandbox list"
  sr_next :: nat
  sr_sending :: "(nat \<times> Sandbox) list"
  sr_skipped :: "nat list"

text \<open>
  \<open>sr_sending\<close> are the notifications of goroutines between the two steps, \<open>sr_skipped\<close> the channels for
  which the \<open>default\<close> branch of the send was taken.
\<close>

definition newReconciler :: SandboxReconciler where
  "newReconciler =
     \<lparr>sr_watchers = Map.empty, sr_chans = (\<lambda>_. []), sr_next = 0, sr_sending = [], sr_skipped = []\<rparr>"

definition WatchSandboxOnce :: "string \<Rightarrow> string \<Rightarrow> SandboxReconciler \<Rightarrow> nat \<times> SandboxReconciler" where
  "WatchSandboxOnce namespace name r =
     (let resultChan = sr_next r in
      (resultChan,
       r\<lparr>sr_watchers := (sr_watchers r)((namespace, name) \<mapsto> resultChan),
         sr_chans := (sr_chans r)(resultChan := []), sr_next := Suc resultChan\<rparr>))"

definition UnWatchSandbox :: "string \<Rightarrow> string \<Rightarrow> SandboxReconciler \<Rightarrow> SandboxReconciler" where
  "UnWatchSandbox namespace name r = r\<lparr>sr_watchers := (sr_watchers r)((namespace, name) := None)\<rparr>"

text \<open>
  The part of \<open>Reconcile\<close> up to the unlock, on the answer of the lookup: the error that is returned, and
  the channel and sandbox still to be sent.
\<close>

definition reconcileTake ::
  "apierrors \<Rightarrow> NamespacedName \<Rightarrow> Sandbox res \<Rightarrow> SandboxReconciler \<Rightarrow>
   gerr option \<times> (nat \<times> Sandbox) option \<times> SandboxReconciler" where
  "reconcileTake ae req answer r =
     (case answer of
        Inl e \<Rightarrow> (if ae_IsNotFound ae e then None else Some e, None, r)
      | Inr sandbox \<Rightarrow>
          if getSandboxStatus sandbox \<noteq> sandboxStatusReady then (None, None, r)
          else
            (case sr_watchers r req of
               None \<Rightarrow> (None, None, r)
             | Some resultChan \<Rightarrow>
                 (None, Some (resultChan, sandbox), r\<lparr>sr_watchers := (sr_watchers r)(req := None)\<rparr>)))"

text \<open>The \<open>select\<close> with the send and the \<open>default\<close> branch.\<close>

definition reconcileSend :: "nat \<times> Sandbox \<Rightarrow> SandboxReconciler \<Rightarrow> SandboxReconciler" where
  "reconcileSend msg r =
     (case msg of
        (resultChan, sandbox) \<Rightarrow>
          if length (sr_chans r resultChan) < 1
          then r\<lparr>sr_chans := (sr_chans r)(resultChan := sr_chans r resultChan @ [sandbox])\<rparr>
          else r\<lparr>sr_skipped := resultChan # sr_skipped r\<rparr>)"

definition Reconcile ::
  "apierrors \<Rightarrow> NamespacedName \<Rightarrow> Sandbox res \<Rightarrow> SandboxReconciler \<Rightarrow> gerr option \<times> SandboxReconciler" where
  "Reconcile ae req answer r =
     (case reconcileTake ae req answer r of
        (err, None, r') \<Rightarrow> (err, r')
      | (err, Some msg, r') \<Rightarrow> (err, reconcileSend msg r'))"

subsection \<open>Interleavings\<close>

text \<open>
  The steps of all goroutines.  The answer of a lookup is an object of the name that was asked for; a
  waiting request receives from its channel.
\<close>

inductive wstep :: "apierrors \<Rightarrow> SandboxReconciler \<Rightarrow> SandboxReconciler \<Rightarrow> bool" for ae where
  watch: "wstep ae r (snd (WatchSandboxOnce ns n r))"
| unwatch: "wstep ae r (UnWatchSandbox ns n r)"
| lookup: "reconcileTake ae req answer r = (err, None, r') \<Longrightarrow> wstep ae r r'"
| take: "reconcileTake ae req answer r = (err, Some msg, r') \<Longrightarrow>
    (\<And>s. answer = Inr s \<Longrightarrow> req = (sb_Namespace s, sb_Name s)) \<Longrightarrow>
    wstep ae r (r'\<lparr>sr_sending := msg # sr_sending r'\<rparr>)"
| send: "msg \<in> set (sr_sending r) \<Longrightarrow>
    wstep ae r (reconcileSend msg (r\<lparr>sr_sending := remove1 msg (sr_sending r)\<rparr>))"
| receive: "sr_chans r c = s # ss \<Longrightarrow> wstep ae r (r\<lparr>sr_chans := (sr_chans r)(c := ss)\<rparr>)"

inductive_cases wstepE: "wstep ae r r'"

definition wreach :: "apierrors \<Rightarrow> SandboxReconciler \<Rightarrow> bool" where
  "wreach ae r \<longleftrightarrow> (wstep ae)\<^sup>*\<^sup>* newReconciler r"

text \<open>
  Every channel has one message at most in its life: it is registered under one name, or being sent to by
  one goroutine, or sent to already.
\<close>

definition one_sender :: "SandboxReconciler \<Rightarrow> bool" where
  "one_sender r \<longleftrightarrow>
     (\<forall>k c. sr_watchers r k = Some c \<longrightarrow>
        c < sr_next r \<and> sr_chans r c = [] \<and> c \<notin> fst ` set (sr_sending r) \<and>
        (\<forall>k'. sr_watchers r k' = Some c \<longrightarrow> k' = k)) \<and>
     distinct (map fst (sr_sending r)) \<and>
     (\<forall>m \<in> set (sr_sending r). fst m < sr_next r \<and> sr_chans r (fst m) = []) \<and>
     (\<forall>c. length (sr_chans r c) \<le> 1) \<and> sr_skipped r = []"

text \<open>What is sent is a ready sandbox.\<close>

definition only_ready :: "SandboxReconciler \<Rightarrow> bool" where
  "only_ready r \<longleftrightarrow>
     (\<forall>m \<in> set (sr_sending r). getSandboxStatus (snd m) = sandboxStatusReady) \<and>
     (\<forall>c. \<forall>s \<in> set (sr_chans r c). getSandboxStatus s = sandboxStatusReady)"

lemma one_senderD:
  assumes "one_sender r"
  shows "sr_watchers r k = Some c \<Longrightarrow> c < sr_next r \<and> sr_chans r c = [] \<and> c \<notin> fst ` set (sr_sending r)"
    and "sr_watchers r k = Some c \<Longrightarrow> sr_watchers r k' = Some c \<Longrightarrow> k' = k"
    and "distinct (map fst (sr_sending r))"
    and "m \<in> set (sr_sending r) \<Longrightarrow> fst m < sr_next r \<and> sr_chans r (fst m) = []"
    and "length (sr_chans r c) \<le> 1" and "sr_skipped r = []"
  using assms unfolding one_sender_def by blast+

lemma one_senderI:
  assumes "\<And>k c. sr_watchers r k = Some c \<Longrightarrow> c < sr_next r \<and> sr_chans r c = [] \<and> c \<notin> fst ` set (sr_sending r)"
    and "\<And>k k' c. sr_watchers r k = Some c \<Longrightarrow> sr_watchers r k' = Some c \<Longrightarrow> k' = k"
    and "distinct (map fst (sr_sending r))"
    and "\<And>m. m \<in> set (sr_sending r) \<Longrightarrow> fst m < sr_next r \<and> sr_chans r (fst m) = []"
    and "\<And>c. length (sr_chans r c) \<le> 1" and "sr_skipped r = []"
  shows "one_sender r"
  using assms unfolding one_sender_def by blast

lemma take_result:
  "reconcileTake ae req answer r = (err, msg, r') \<Longrightarrow>
     msg = None \<and> r' = r \<or>
     (\<exists>c s. msg = Some (c, s) \<and> answer = Inr s \<and> getSandboxStatus s = sandboxStatusReady \<and>
        sr_watchers r req = Some c \<and> r' = r\<lparr>sr_watchers := (sr_watchers r)(req := None)\<rparr>)"
  by (simp add: reconcileTake_def split: sum.splits if_splits option.splits)

lemma one_sender_take:
  assumes "one_sender r" "sr_watchers r req = Some c"
  shows "one_sender (r\<lparr>sr_watchers := (sr_watchers r)(req := None), sr_sending := (c, s) # sr_sending r\<rparr>)"
proof (rule one_senderI, goal_cases)
  case (1 k d)
  then show ?case
    using one_senderD(1) [OF assms(1), of k d] one_senderD(2) [OF assms(1,2), of k]
    by (auto split: if_splits)
next
  case (2 k k' d)
  then show ?case
    using one_senderD(2) [OF assms(1), of k d k'] by (simp split: if_splits)
next
  case (4 m)
  then show ?case
    using one_senderD(1) [OF assms] one_senderD(4) [OF assms(1), of m] by auto
next
  case (5 d)
  then show ?case
    using one_senderD(5) [OF assms(1), of d] by simp
qed (use one_senderD(1) [OF assms] one_senderD(3,6) [OF assms(1)] in simp_all)

lemma send_simp:
  assumes "one_sender r" "msg \<in> set (sr_sending r)"
  shows "reconcileSend msg (r\<lparr>sr_sending := remove1 msg (sr_sending r)\<rparr>) =
     r\<lparr>sr_sending := remove1 msg (sr_sending r), sr_chans := (sr_chans r)(fst msg := [snd msg])\<rparr>"
  using one_senderD(4) [OF assms] by (auto simp: reconcileSend_def split: prod.splits)

lemma remove1_fst:
  assumes "distinct (map fst xs)" "m \<in> set xs"
  shows "fst m \<notin> fst ` set (remove1 m xs)" "distinct (map fst (remove1 m xs))"
    "set (remove1 m xs) \<subseteq> set xs"
proof -
  have d: "distinct xs"
    using assms(1) by (rule distinct_map [THEN iffD1, THEN conjunct1])
  show "distinct (map fst (remove1 m xs))"
    using assms(1)
  proof (induction xs)
    case (Cons x xs)
    then show ?case
      using set_remove1_subset [of m xs] by auto
  qed simp
  show "set (remove1 m xs) \<subseteq> set xs"
    by (rule set_remove1_subset)
  show "fst m \<notin> fst ` set (remove1 m xs)"
    using assms d by (auto simp: distinct_map inj_on_def)
qed

lemma one_sender_send:
  assumes "one_sender r" "msg \<in> set (sr_sending r)"
  shows "one_sender (reconcileSend msg (r\<lparr>sr_sending := remove1 msg (sr_sending r)\<rparr>))"
proof -
  note d = one_senderD [OF assms(1)] and m = remove1_fst [OF one_senderD(3) [OF assms(1)] assms(2)]
  show ?thesis
    unfolding send_simp [OF assms]
  proof (rule one_senderI, goal_cases)
    case (1 k c)
    then have w: "sr_watchers r k = Some c"
      by simp
    then have "fst msg \<noteq> c"
      using d(1) [OF w] assms(2) by auto
    then show ?case
      using d(1) [OF w] m(3) by auto
  next
    case (2 k k' c)
    then show ?case
      using d(2) [of k c k'] by simp
  next
    case (4 x)
    then have "x \<in> set (remove1 msg (sr_sending r))"
      by simp
    then have "x \<in> set (sr_sending r)" "fst x \<noteq> fst msg"
      using m(1,3) by (blast, metis imageI)
    then show ?case
      using d(4) by simp
  next
    case (5 c)
    then show ?case
      using d(5) [of c] by simp
  qed (use d m in simp_all)
qed

lemma one_sender_step: "wstep ae r r' \<Longrightarrow> one_sender r \<Longrightarrow> one_sender r'"
proof (induction rule: wstep.induct)
  case (watch r ns n)
  note d = one_senderD [OF watch]
  have old: "fst m < sr_next r" if "m \<in> set (sr_sending r)" for m
    using d(4) [OF that] by simp
  show ?case
  proof (rule one_senderI, goal_cases)
    case (1 k c)
    then show ?case
      using d(1) [of k c] old by (fastforce simp: WatchSandboxOnce_def Let_def split: if_splits)
  next
    case (2 k k' c)
    then show ?case
      using d(1) [of k c] d(1) [of k' c] d(2) [of k c k']
      by (auto simp: WatchSandboxOnce_def Let_def split: if_splits)
  next
    case (4 m)
    then show ?case
      using d(4) [of m] by (simp add: WatchSandboxOnce_def Let_def)
  next
    case (5 c)
    then show ?case
      using d(5) [of c] by (simp add: WatchSandboxOnce_def Let_def)
  qed (use d in \<open>simp_all add: WatchSandboxOnce_def Let_def\<close>)
next
  case (unwatch r ns n)
  note d = one_senderD [OF unwatch]
  show ?case
  proof (rule one_senderI, goal_cases)
    case (1 k c)
    then show ?case
      using d(1) [of k c] by (simp add: UnWatchSandbox_def split: if_splits)
  next
    case (2 k k' c)
    then show ?case
      using d(2) [of k c k'] by (simp add: UnWatchSandbox_def split: if_splits)
  next
    case (5 c)
    then show ?case
      using d(5) [of c] by (simp add: UnWatchSandbox_def)
  qed (use d in \<open>simp_all add: UnWatchSandbox_def\<close>)
next
  case (lookup req answer r err r')
  then show ?case
    using take_result [OF lookup(1)] by simp
next
  case (take req answer r err msg r')
  then show ?case
    using take_result [OF take(1)] by (auto intro: one_sender_take)
next
  case (send msg r)
  show ?case
    by (rule one_sender_send [OF send(2,1)])
next
  case (receive r c s ss)
  note d = one_senderD [OF receive(2)]
  have "ss = []"
    using d(5) [of c] receive(1) by simp
  then show ?case
    using receive(2) by (simp add: one_sender_def)
qed

lemma only_ready_step: "wstep ae r r' \<Longrightarrow> only_ready r \<Longrightarrow> only_ready r'"
proof (induction rule: wstep.induct)
  case (lookup req answer r err r')
  then show ?case
    using take_result [OF lookup(1)] by simp
next
  case (take req answer r err msg r')
  then show ?case
    using take_result [OF take(1)] by (auto simp: only_ready_def)
next
  case (send msg r)
  then have "set (remove1 msg (sr_sending r)) \<subseteq> set (sr_sending r)"
    by (intro set_remove1_subset)
  then show ?case
    using send by (auto simp: only_ready_def reconcileSend_def split: prod.splits)
next
  case (receive r c s ss)
  then have "\<forall>x \<in> set (sr_chans r c). getSandboxStatus x = sandboxStatusReady"
    unfolding only_ready_def by blast
  then show ?case
    using receive by (simp add: only_ready_def)
qed (auto simp: only_ready_def WatchSandboxOnce_def UnWatchSandbox_def Let_def)

lemma wreach_inv: "wreach ae r \<Longrightarrow> one_sender r \<and> only_ready r"
  unfolding wreach_def
  by (induction rule: rtranclp_induct)
    (auto simp: one_sender_step only_ready_step,
     auto simp: one_sender_def only_ready_def newReconciler_def)

subsection \<open>Properties\<close>

text \<open>
  C23: A notification is never lost to a full channel.  However the goroutines that watch, stop watching,
  reconcile and receive interleave, a goroutine that is about to send finds the buffer of its channel empty
  and no other sender for it, so the \<open>default\<close> branch of the send is never taken; and every sandbox that is
  delivered or being sent is ready.
\<close>
theorem watcher_send_never_skipped:
  assumes "wreach ae r" and "msg \<in> set (sr_sending r)"
  shows "sr_chans (reconcileSend msg r) (fst msg) = [snd msg] \<and> sr_skipped (reconcileSend msg r) = [] \<and>
     getSandboxStatus (snd msg) = sandboxStatusReady \<and>
     (\<forall>m \<in> set (sr_sending r). fst m = fst msg \<longrightarrow> m = msg)"
proof -
  note inv = wreach_inv [OF assms(1)]
  then have o: "one_sender r"
    by simp
  have "inj_on fst (set (sr_sending r))"
    using one_senderD(3) [OF o] by (simp add: distinct_map)
  then have "\<forall>m \<in> set (sr_sending r). fst m = fst msg \<longrightarrow> m = msg"
    using assms(2) by (auto dest: inj_onD)
  moreover have "getSandboxStatus (snd msg) = sandboxStatusReady"
    using inv assms(2) unfolding only_ready_def by blast
  ultimately show ?thesis
    using one_senderD(4) [OF o assms(2)] one_senderD(6) [OF o]
    by (simp add: reconcileSend_def case_prod_beta)
qed

text \<open>
  A request that watches a sandbox is told.  In every reachable state, as long as a channel is
  registered for a sandbox, the next run of \<open>Reconcile\<close> that sees the sandbox ready delivers it on that
  channel and unregisters it; a run that sees it not ready, or not at all, leaves the registration.
\<close>
theorem watcher_is_notified:
  assumes "wreach ae r" and "sr_watchers r req = Some c" and "Reconcile ae req answer r = (err, r')"
  shows "case answer of
      Inr s \<Rightarrow>
        err = None \<and>
        (if getSandboxStatus s = sandboxStatusReady
         then sr_chans r' c = [s] \<and> sr_watchers r' req = None
         else r' = r)
    | Inl e \<Rightarrow> r' = r \<and> (err = None \<longleftrightarrow> ae_IsNotFound ae e)"
  using one_senderD(1) [OF conjunct1 [OF wreach_inv [OF assms(1)]] assms(2)] assms(2,3)
  by (auto simp: Reconcile_def reconcileTake_def reconcileSend_def split: sum.splits if_splits)

subsection \<open>Witnesses\<close>

definition readySandbox :: Sandbox where
  "readySandbox = zeroSandbox\<lparr>sb_Namespace := ''default'', sb_Name := ''py-1'',
     sb_Conditions := [(''Ready'', ''True'')]\<rparr>"

lemma readySandbox_ready: "getSandboxStatus readySandbox = sandboxStatusReady"
  by (simp add: getSandboxStatus_def readySandbox_def zeroSandbox_def)

definition watching :: SandboxReconciler where
  "watching = snd (WatchSandboxOnce ''default'' ''py-1'' newReconciler)"

lemma wreach_watching: "wreach ae watching" "sr_watchers watching (''default'', ''py-1'') = Some 0"
  by (auto simp: wreach_def watching_def intro: wstep.watch) (simp add: WatchSandboxOnce_def newReconciler_def)

theorem watcher_send_never_skipped_witness:
  "\<exists>r. wreach std_apierrors r \<and> (0, readySandbox) \<in> set (sr_sending r) \<and>
     sr_chans (reconcileSend (0, readySandbox) r) 0 = [readySandbox]"
proof -
  let ?r = "watching\<lparr>sr_watchers := (sr_watchers watching)((''default'', ''py-1'') := None)\<rparr>"
  have t: "reconcileTake std_apierrors (''default'', ''py-1'') (Inr readySandbox) watching =
      (None, Some (0, readySandbox), ?r)"
    by (simp add: reconcileTake_def readySandbox_ready wreach_watching(2))
  have "wstep std_apierrors watching (?r\<lparr>sr_sending := (0, readySandbox) # sr_sending ?r\<rparr>)"
    by (rule wstep.take [OF t]) (simp add: readySandbox_def)
  then have w: "wreach std_apierrors (?r\<lparr>sr_sending := (0, readySandbox) # sr_sending ?r\<rparr>)"
    using wreach_watching(1) unfolding wreach_def by (rule rtranclp.rtrancl_into_rtrancl [rotated])
  show ?thesis
    using watcher_send_never_skipped [OF w, of "(0, readySandbox)"] w
    by (intro exI [of _ "?r\<lparr>sr_sending := (0, readySandbox) # sr_sending ?r\<rparr>"]) simp
qed

theorem watcher_is_notified_witness:
  "sr_chans (snd (Reconcile std_apierrors (''default'', ''py-1'') (Inr readySandbox) watching)) 0 = [readySandbox]"
  using watcher_is_notified [OF wreach_watching surjective_pairing, of std_apierrors "Inr readySandbox"]
  by (simp add: readySandbox_ready)

end
