(* ===== verification/Waiting.thy ===== *)
theory Waiting
  imports Builder
begin

text \<open>
  The parts of \<open>pkg/workloadmanager/handlers.go\<close>, \<open>sandbox_helper.go\<close> and \<open>k8s_client.go\<close> that wait for a
  sandbox: for its readiness, for the address of its pod, and for its entry points to accept connections.

  What a request meets is the record \<open>reqEnv\<close>: the clock, the end of its context and when it came, and
  for every blocking operation the branch that was taken and the state of the world then.  A loop that may
  go on for ever is a \<open>partial_function\<close>; \<open>None\<close> means that it does not return.  Locale \<open>timed_env\<close> says
  how time passes, from which the loops return.
\<close>

subsection \<open>Contexts\<close>

datatype readyEvent =
    ReadyUpdate "Sandbox option"
  | ReadyClosed
  | ReadyDone
  | ReadyTimer

record 'w reqEnv =
  rq_now :: "'w \<Rightarrow> Time"
  rq_done :: "'w \<Rightarrow> (Time \<times> gerr) option"
  rq_ready :: "'w \<Rightarrow> readyEvent \<times> 'w"
  rq_tick :: "Time \<Rightarrow> Time \<Rightarrow> nat \<Rightarrow> 'w \<Rightarrow> bool \<times> 'w"
  rq_pause :: "Time \<Rightarrow> Duration \<Rightarrow> 'w \<Rightarrow> bool \<times> 'w"
  rq_dial :: "string \<Rightarrow> Duration \<Rightarrow> 'w \<Rightarrow> gerr option \<times> 'w"

text \<open>
  \<open>ctx.Err()\<close> of the request, and of a context derived from it with a deadline; the cause of the latter
  is \<open>errSandboxCreationTimeout\<close> when its own deadline came first.
\<close>

definition ctxErr :: "'w reqEnv \<Rightarrow> 'w \<Rightarrow> gerr option" where
  "ctxErr env w = map_option snd (rq_done env w)"

definition deadlineFirst :: "'w reqEnv \<Rightarrow> Time \<Rightarrow> 'w \<Rightarrow> bool" where
  "deadlineFirst env deadline w =
     (case rq_done env w of None \<Rightarrow> rq_now env w \<ge> deadline | Some (t, e) \<Rightarrow> t \<ge> deadline)"

definition waitCtxErr :: "'w reqEnv \<Rightarrow> Time \<Rightarrow> 'w \<Rightarrow> gerr option" where
  "waitCtxErr env deadline w =
     (if deadlineFirst env deadline w then Some (ErrVar DeadlineExceeded) else ctxErr env w)"

definition sandboxCreationTimeout :: Duration where "sandboxCreationTimeout = 2 * Minute"
definition storeCleanupTimeout :: Duration where "storeCleanupTimeout = 30 * Second"

definition isContextError :: "gerr \<Rightarrow> bool" where
  "isContextError e \<longleftrightarrow> errors_Is e Canceled \<or> errors_Is e DeadlineExceeded"

definition sandboxReadyWaitContextError :: "'w reqEnv \<Rightarrow> Time \<Rightarrow> 'w \<Rightarrow> gerr option" where
  "sandboxReadyWaitContextError env deadline w =
     (if waitCtxErr env deadline w = None then None
      else if deadlineFirst env deadline w then Some (ErrVar ErrSandboxCreationTimeout)
      else
        (case ctxErr env w of
           Some e \<Rightarrow> Some e
         | None \<Rightarrow> waitCtxErr env deadline w))"

definition sandboxReadyWaitEnded :: "'w reqEnv \<Rightarrow> Time \<Rightarrow> 'w \<Rightarrow> gerr option \<Rightarrow> gerr option" where
  "sandboxReadyWaitEnded env deadline w readErr =
     (case sandboxReadyWaitContextError env deadline w of
        Some waitErr \<Rightarrow> Some waitErr
      | None \<Rightarrow>
          (case readErr of
             Some e \<Rightarrow> if isContextError e then Some e else None
           | None \<Rightarrow> None))"

text \<open>The tests of \<open>apierrors\<close> and \<open>utilnet\<close> for an error that may pass.\<close>

record retryTests =
  rt_IsTimeout :: "gerr \<Rightarrow> bool"
  rt_IsServerTimeout :: "gerr \<Rightarrow> bool"
  rt_IsTooManyRequests :: "gerr \<Rightarrow> bool"
  rt_IsServiceUnavailable :: "gerr \<Rightarrow> bool"
  rt_IsUnexpectedServerError :: "gerr \<Rightarrow> bool"
  rt_NetIsTimeout :: "gerr \<Rightarrow> bool"
  rt_IsProbableEOF :: "gerr \<Rightarrow> bool"
  rt_IsConnectionReset :: "gerr \<Rightarrow> bool"
  rt_IsHTTP2ConnectionLost :: "gerr \<Rightarrow> bool"
  rt_IsConnectionRefused :: "gerr \<Rightarrow> bool"

definition isRetryableSandboxReadError :: "apierrors \<Rightarrow> retryTests \<Rightarrow> gerr \<Rightarrow> bool" where
  "isRetryableSandboxReadError ae rt e \<longleftrightarrow>
     \<not> isContextError e \<and>
     (ae_IsNotFound ae e \<or> rt_IsTimeout rt e \<or> rt_IsServerTimeout rt e \<or> rt_IsTooManyRequests rt e \<or>
      rt_IsServiceUnavailable rt e \<or> ae_IsInternalError ae e \<or> rt_IsUnexpectedServerError rt e \<or>
      errors_Is e EOF \<or> errors_Is e ErrUnexpectedEOF \<or> rt_NetIsTimeout rt e \<or> rt_IsProbableEOF rt e \<or>
      rt_IsConnectionReset rt e \<or> rt_IsHTTP2ConnectionLost rt e \<or> rt_IsConnectionRefused rt e)"

subsection \<open>Readiness\<close>

text \<open>
  \<open>rq_ready\<close> is the branch that the \<open>select\<close> of \<open>waitForDirectSandboxReady\<close> takes: an update from the
  watcher, with or without a sandbox, its channel closed, the context done, or the timer of
  \<open>sandboxCreationTimeout\<close>.  A context that is done has an error; without one the caller would
  dereference the nil sandbox that is returned.
\<close>

definition waitForDirectSandboxReady :: "'w reqEnv \<Rightarrow> bool \<Rightarrow> 'w \<Rightarrow> Sandbox res \<times> 'w" where
  "waitForDirectSandboxReady env registered w =
     (if \<not> registered then (Inl (ErrVar ErrSandboxReadyWatcherNotRegistered), w)
      else
        (case rq_ready env w of
           (ReadyClosed, w') \<Rightarrow> (Inl (ErrVar ErrSandboxReadyWatcherClosed), w')
         | (ReadyUpdate None, w') \<Rightarrow> (Inl (ErrVar ErrSandboxReadyWatcherMissingSandbox), w')
         | (ReadyUpdate (Some createdSandbox), w') \<Rightarrow> (Inr createdSandbox, w')
         | (ReadyDone, w') \<Rightarrow> (case ctxErr env w' of Some e \<Rightarrow> (Inl e, w') | None \<Rightarrow> (Inl nilPanic, w'))
         | (ReadyTimer, w') \<Rightarrow> (Inl (ErrVar ErrSandboxCreationTimeout), w')))"

text \<open>
  One round of the loop of \<open>waitForClaimSandboxReadyWithTimeout\<close>: a result to return, or \<open>None\<close> to wait
  for the next tick.
\<close>

definition claimRound ::
  "apierrors \<Rightarrow> retryTests \<Rightarrow> 'w reqEnv \<Rightarrow> 'w cluster \<Rightarrow> SandboxClaim \<Rightarrow> Time \<Rightarrow> 'w \<Rightarrow>
   Sandbox res option \<times> 'w" where
  "claimRound ae rt env dynamicClient sandboxClaim deadline w =
     (case getSandboxClaim dynamicClient (sc_Namespace sandboxClaim) (sc_Name sandboxClaim) w of
        (Inl e, w1) \<Rightarrow>
          (case sandboxReadyWaitEnded env deadline w1 (Some e) of
             Some waitErr \<Rightarrow> (Some (Inl waitErr), w1)
           | None \<Rightarrow>
               if \<not> isRetryableSandboxReadError ae rt e then (Some (Inl (NewInternalError ae e)), w1)
               else (None, w1))
      | (Inr claim, w1) \<Rightarrow>
          (case sandboxReadyWaitEnded env deadline w1 None of
             Some waitErr \<Rightarrow> (Some (Inl waitErr), w1)
           | None \<Rightarrow>
               if sc_StatusSandboxName claim = [] then (None, w1)
               else
                 (case getSandbox dynamicClient (sc_Namespace sandboxClaim) (sc_StatusSandboxName claim) w1 of
                    (Inl e, w2) \<Rightarrow>
                      (case sandboxReadyWaitEnded env deadline w2 (Some e) of
                         Some waitErr \<Rightarrow> (Some (Inl waitErr), w2)
                       | None \<Rightarrow>
                           if \<not> isRetryableSandboxReadError ae rt e
                           then (Some (Inl (NewInternalError ae e)), w2)
                           else (None, w2))
                  | (Inr createdSandbox, w2) \<Rightarrow>
                      (case sandboxReadyWaitEnded env deadline w2 None of
                         Some waitErr \<Rightarrow> (Some (Inl waitErr), w2)
                       | None \<Rightarrow>
                           if getSandboxStatus createdSandbox = sandboxStatusReady then
                             (case sandboxReadyWaitContextError env deadline w2 of
                                Some waitErr \<Rightarrow> (Some (Inl waitErr), w2)
                              | None \<Rightarrow> (Some (Inr createdSandbox), w2))
                           else (None, w2)))))"

text \<open>
  The loop; \<open>started\<close> is when the ticker was made and \<open>k\<close> the number of its ticks received.  The \<open>select\<close>
  is \<open>rq_tick\<close>: \<open>True\<close> when the context was done, \<open>False\<close> for a tick.  A context that is done has an
  error; without one the caller would dereference the nil sandbox that is returned.
\<close>

partial_function (option) claimLoop ::
  "apierrors \<Rightarrow> retryTests \<Rightarrow> 'w reqEnv \<Rightarrow> 'w cluster \<Rightarrow> SandboxClaim \<Rightarrow> Time \<Rightarrow> Time \<Rightarrow> nat \<Rightarrow> 'w \<Rightarrow>
   (Sandbox res \<times> 'w) option" where
  "claimLoop ae rt env dynamicClient sandboxClaim deadline started k w =
     (case claimRound ae rt env dynamicClient sandboxClaim deadline w of
        (Some r, w1) \<Rightarrow> Some (r, w1)
      | (None, w1) \<Rightarrow>
          (case rq_tick env deadline started k w1 of
             (ended, w2) \<Rightarrow>
               if ended then
                 (case sandboxReadyWaitContextError env deadline w2 of
                    Some waitErr \<Rightarrow> Some (Inl waitErr, w2)
                  | None \<Rightarrow> Some (Inl nilPanic, w2))
               else claimLoop ae rt env dynamicClient sandboxClaim deadline started (Suc k) w2))"

definition waitForClaimSandboxReadyWithTimeout ::
  "apierrors \<Rightarrow> retryTests \<Rightarrow> 'w reqEnv \<Rightarrow> 'w cluster \<Rightarrow> SandboxClaim \<Rightarrow> Duration \<Rightarrow> 'w \<Rightarrow>
   (Sandbox res \<times> 'w) option" where
  "waitForClaimSandboxReadyWithTimeout ae rt env dynamicClient sandboxClaim timeout w =
     claimLoop ae rt env dynamicClient sandboxClaim (rq_now env w + timeout) (rq_now env w) 0 w"

definition waitForCreatedSandbox ::
  "apierrors \<Rightarrow> retryTests \<Rightarrow> 'w reqEnv \<Rightarrow> 'w cluster \<Rightarrow> SandboxClaim option \<Rightarrow> bool \<Rightarrow> 'w \<Rightarrow>
   (Sandbox res \<times> 'w) option" where
  "waitForCreatedSandbox ae rt env dynamicClient sandboxClaim registered w =
     (case sandboxClaim of
        Some claim \<Rightarrow>
          waitForClaimSandboxReadyWithTimeout ae rt env dynamicClient claim sandboxCreationTimeout w
      | None \<Rightarrow> Some (waitForDirectSandboxReady env registered w))"

subsection \<open>The address of the pod\<close>

record 'w podApi =
  pa_GetPod :: "string \<Rightarrow> string \<Rightarrow> 'w \<Rightarrow> Pod res \<times> 'w"
  pa_ListPods :: "string \<Rightarrow> string \<Rightarrow> string \<Rightarrow> 'w \<Rightarrow> Pod list res \<times> 'w"

definition validateAndGetPodIP :: "Pod \<Rightarrow> string res" where
  "validateAndGetPodIP pod =
     (if pod_Phase pod \<noteq> ''Running'' then Inl (ErrMsg (''pod not running yet, status: '' @ pod_Phase pod))
      else if pod_PodIP pod = [] then Inl (ErrMsg ''pod IP not assigned yet'')
      else Inr (pod_PodIP pod))"

definition ownedBy :: "string \<Rightarrow> Pod \<Rightarrow> bool" where
  "ownedBy sandboxName pod \<longleftrightarrow>
     (\<exists>r \<in> set (pod_OwnerReferences pod).
        or_Kind r = ''Sandbox'' \<and> or_Name r = sandboxName \<and> or_Controller r \<noteq> Some False)"

definition GetSandboxPodIP ::
  "'w podApi \<Rightarrow> string \<Rightarrow> string \<Rightarrow> string \<Rightarrow> 'w \<Rightarrow> string res \<times> 'w" where
  "GetSandboxPodIP pods namespace sandboxName podName w =
     (if podName \<noteq> [] then
        (case pa_GetPod pods namespace podName w of
           (Inl e, w') \<Rightarrow>
             (Inl (ErrWrap (''failed to get sandbox pod '' @ namespace @ ''/'' @ podName) e), w')
         | (Inr pod, w') \<Rightarrow> (validateAndGetPodIP pod, w'))
      else
        (case pa_ListPods pods namespace SandboxNameLabelKey sandboxName w of
           (Inl e, w') \<Rightarrow> (Inl (ErrWrap ''failed to list pods from cache'' e), w')
         | (Inr ps, w') \<Rightarrow>
             (case find (ownedBy sandboxName) ps of
                Some pod \<Rightarrow> (validateAndGetPodIP pod, w')
              | None \<Rightarrow> (Inl (ErrMsg (''no pod found for sandbox '' @ sandboxName)), w'))))"

subsection \<open>Entry points\<close>

definition defaultSandboxReadyProbeTimeout :: Duration where
  "defaultSandboxReadyProbeTimeout = 15 * Second"
definition defaultSandboxReadyProbeInterval :: Duration where
  "defaultSandboxReadyProbeInterval = 1 * Second"
definition defaultSandboxReadyDialTimeout :: Duration where
  "defaultSandboxReadyDialTimeout = 1 * Second"

fun probePorts :: "'w reqEnv \<Rightarrow> string \<Rightarrow> Duration \<Rightarrow> TargetPort list \<Rightarrow> 'w \<Rightarrow> gerr option \<times> 'w" where
  "probePorts env podIP dialTimeout [] w = (None, w)"
| "probePorts env podIP dialTimeout (port # ports) w =
     (let endpoint = JoinHostPort podIP (Itoa (int (tp_Port port))) in
      case rq_dial env endpoint dialTimeout w of
        (Some e, w') \<Rightarrow> (Some (ErrWrap (''entrypoint '' @ endpoint @ '' not reachable'') e), w')
      | (None, w') \<Rightarrow> probePorts env podIP dialTimeout ports w')"

definition probeSandboxEntryPoints ::
  "'w reqEnv \<Rightarrow> string \<Rightarrow> TargetPort list \<Rightarrow> Duration \<Rightarrow> 'w \<Rightarrow> gerr option \<times> 'w" where
  "probeSandboxEntryPoints env podIP ports probeInterval w =
     (let dialTimeout = (if probeInterval \<le> 0 \<or> probeInterval > defaultSandboxReadyDialTimeout
          then defaultSandboxReadyDialTimeout else probeInterval) in
      probePorts env podIP dialTimeout ports w)"

partial_function (option) probeLoop ::
  "'w reqEnv \<Rightarrow> string \<Rightarrow> TargetPort list \<Rightarrow> Time \<Rightarrow> Duration \<Rightarrow> 'w \<Rightarrow> (gerr option \<times> 'w) option" where
  "probeLoop env podIP ports deadline probeInterval w =
     (case probeSandboxEntryPoints env podIP ports probeInterval w of
        (None, w1) \<Rightarrow> Some (None, w1)
      | (Some lastErr, w1) \<Rightarrow>
          (case rq_pause env deadline probeInterval w1 of
             (ended, w2) \<Rightarrow>
               if ended then
                 Some (Some (ErrWrap ''sandbox entrypoints not ready before timeout'' lastErr), w2)
               else probeLoop env podIP ports deadline probeInterval w2))"

definition waitForSandboxEntryPointsReady ::
  "'w reqEnv \<Rightarrow> Duration \<Rightarrow> Duration \<Rightarrow> string \<Rightarrow> sandboxEntry \<Rightarrow> 'w \<Rightarrow> (gerr option \<times> 'w) option" where
  "waitForSandboxEntryPointsReady env configTimeout configInterval podIP entry w =
     (if en_Ports entry = [] then Some (None, w)
      else
        (let probeTimeout = (if configTimeout > 0 then configTimeout else defaultSandboxReadyProbeTimeout);
             probeInterval = (if configInterval > 0 then configInterval
               else defaultSandboxReadyProbeInterval)
         in probeLoop env podIP (en_Ports entry) (rq_now env w + probeTimeout) probeInterval w))"

subsection \<open>What waiting leaves alone\<close>

text \<open>
  A relation between an earlier and a later state that every operation used while waiting respects holds
  between the states before and after the wait.
\<close>

locale quiet_env =
  fixes env :: "'w reqEnv" and cl :: "'w cluster" and pods :: "'w podApi" and rel :: "'w \<Rightarrow> 'w \<Rightarrow> bool"
  assumes rel_refl: "rel w w" and rel_trans: "rel w w1 \<Longrightarrow> rel w1 w2 \<Longrightarrow> rel w w2"
    and ready_rel: "rel w (snd (rq_ready env w))"
    and tick_rel: "rel w (snd (rq_tick env deadline started k w))"
    and pause_rel: "rel w (snd (rq_pause env deadline d w))"
    and dial_rel: "rel w (snd (rq_dial env endpoint d w))"
    and get_claim_rel: "rel w (snd (api_GetSandboxClaim cl ns n w))"
    and get_sandbox_rel: "rel w (snd (api_GetSandbox cl ns n w))"
    and get_pod_rel: "rel w (snd (pa_GetPod pods ns n w))"
    and list_pods_rel: "rel w (snd (pa_ListPods pods ns l n w))"
begin

lemma getSandboxClaim_rel: "getSandboxClaim cl ns n w = (r, w') \<Longrightarrow> rel w w'"
  using get_claim_rel [of w ns n] by (auto simp: getSandboxClaim_def split: prod.splits sum.splits)

lemma getSandbox_rel: "getSandbox cl ns n w = (r, w') \<Longrightarrow> rel w w'"
  using get_sandbox_rel [of w ns n] by (auto simp: getSandbox_def split: prod.splits sum.splits)

lemma claimRound_rel: "claimRound ae rt env cl c deadline w = (r, w') \<Longrightarrow> rel w w'"
  by (auto simp: claimRound_def dest!: getSandboxClaim_rel getSandbox_rel intro: rel_trans
      split: prod.splits sum.splits option.splits if_splits)

lemma claimLoop_rel:
  assumes "claimLoop ae rt env cl c deadline started k w = Some y"
  shows "rel w (snd y)"
proof -
  have "env' = env \<longrightarrow> cl' = cl \<longrightarrow> rel w (snd y)"
    if "claimLoop ae rt env' cl' c deadline started k w = Some y" for ae rt env' cl' c deadline started k w y
  proof (rule claimLoop.raw_induct [where P = "\<lambda>ae rt env' cl' c deadline started k w y.
        env' = env \<longrightarrow> cl' = cl \<longrightarrow> rel w (snd y)", OF _ that], goal_cases)
    case (1 loop ae rt env' cl' c deadline started k w y)
    show ?case
    proof (intro impI)
      assume e: "env' = env" "cl' = cl"
      obtain r w1 where r: "claimRound ae rt env cl c deadline w = (r, w1)"
        by (metis surj_pair)
      obtain b w2 where t: "rq_tick env deadline started k w1 = (b, w2)"
        by (metis surj_pair)
      have w: "rel w w1" "rel w w2"
        using claimRound_rel [OF r] tick_rel [of w1 deadline started k] t rel_trans by (simp, force)
      show "rel w (snd y)"
      proof (cases "r = None \<and> \<not> b")
        case True
        then have "loop ae rt env cl c deadline started (Suc k) w2 = Some y"
          using 1(2) r t e by simp
        then show ?thesis
          using 1(1) e w(2) rel_trans by blast
      next
        case False
        then show ?thesis
          using 1(2) r t e w by (auto split: option.splits if_splits)
      qed
    qed
  qed
  then show ?thesis
    using assms by blast
qed

lemma waitForCreatedSandbox_rel:
  "waitForCreatedSandbox ae rt env cl c registered w = Some (r, w') \<Longrightarrow> rel w w'"
  using claimLoop_rel ready_rel [of w] rel_refl [of w]
  by (auto simp: waitForCreatedSandbox_def waitForClaimSandboxReadyWithTimeout_def
      waitForDirectSandboxReady_def split: readyEvent.splits option.splits prod.splits sum.splits if_splits)

lemma GetSandboxPodIP_rel: "GetSandboxPodIP pods ns s p w = (r, w') \<Longrightarrow> rel w w'"
  using get_pod_rel [of w ns p] list_pods_rel [of w ns SandboxNameLabelKey s]
  by (auto simp: GetSandboxPodIP_def split: if_splits prod.splits sum.splits option.splits)

lemma probePorts_rel: "probePorts env ip d ports w = (r, w') \<Longrightarrow> rel w w'"
proof (induction ports arbitrary: w)
  case (Cons port ports)
  then show ?case
    using dial_rel [of w "JoinHostPort ip (Itoa (int (tp_Port port)))" d] rel_trans
    by (fastforce simp: Let_def split: prod.splits option.splits)
qed (simp add: rel_refl)

lemma probe_rel: "probeSandboxEntryPoints env ip ports d w = (r, w') \<Longrightarrow> rel w w'"
  by (auto simp: probeSandboxEntryPoints_def Let_def dest: probePorts_rel)

lemma probeLoop_rel:
  assumes "probeLoop env ip ports deadline d w = Some y"
  shows "rel w (snd y)"
proof -
  have "env' = env \<longrightarrow> rel w (snd y)"
    if "probeLoop env' ip ports deadline d w = Some y" for env' ip ports deadline d w y
  proof (rule probeLoop.raw_induct [where P = "\<lambda>env' ip ports deadline d w y.
        env' = env \<longrightarrow> rel w (snd y)", OF _ that], goal_cases)
    case (1 loop env' ip ports deadline d w y)
    show ?case
    proof (intro impI)
      assume e: "env' = env"
      obtain r w1 where r: "probeSandboxEntryPoints env ip ports d w = (r, w1)"
        by (metis surj_pair)
      obtain b w2 where t: "rq_pause env deadline d w1 = (b, w2)"
        by (metis surj_pair)
      have w: "rel w w1" "rel w w2"
        using probe_rel [OF r] pause_rel [of w1 deadline d] t rel_trans by (simp, force)
      show "rel w (snd y)"
      proof (cases "r \<noteq> None \<and> \<not> b")
        case True
        then have "loop env ip ports deadline d w2 = Some y"
          using 1(2) r t e by auto
        then show ?thesis
          using 1(1) e w(2) rel_trans by blast
      next
        case False
        then show ?thesis
          using 1(2) t e w unfolding e r by (auto split: option.splits if_splits)
      qed
    qed
  qed
  then show ?thesis
    using assms by blast
qed

lemma waitForSandboxEntryPointsReady_rel:
  "waitForSandboxEntryPointsReady env ct ci ip en w = Some (r, w') \<Longrightarrow> rel w w'"
  using probeLoop_rel rel_refl
  by (auto simp: waitForSandboxEntryPointsReady_def Let_def split: if_splits)

end

subsection \<open>Waiting ends\<close>

text \<open>
  Time does not run backwards; the \<open>k\<close>-th tick of a ticker comes at least \<open>k\<close> seconds after it was made,
  a pause lasts its duration, and a context that is done ends a pause at once.
\<close>

locale timed_env = quiet_env env cl pods "\<lambda>w w'. rq_now env w \<le> rq_now env w'"
  for env :: "'w reqEnv" and cl :: "'w cluster" and pods :: "'w podApi" +
  assumes tick_time: "rq_tick env deadline started k w = (False, w') \<Longrightarrow>
      started + int (Suc k) * Second \<le> rq_now env w'"
    and pause_time: "rq_pause env deadline d w = (False, w') \<Longrightarrow> rq_now env w + d \<le> rq_now env w'"
    and pause_done: "waitCtxErr env deadline w \<noteq> None \<Longrightarrow> 0 < d \<Longrightarrow> fst (rq_pause env deadline d w)"
begin

lemma after_deadline: "deadline \<le> rq_now env w \<Longrightarrow> sandboxReadyWaitContextError env deadline w \<noteq> None"
  by (auto simp: sandboxReadyWaitContextError_def waitCtxErr_def deadlineFirst_def ctxErr_def
      split: option.splits)

lemma claimRound_deadline:
  assumes "deadline \<le> rq_now env w"
  shows "\<exists>r w'. claimRound ae rt env cl c deadline w = (Some r, w')"
proof -
  obtain r w1 where g: "getSandboxClaim cl (sc_Namespace c) (sc_Name c) w = (r, w1)"
    by (metis surj_pair)
  have "sandboxReadyWaitContextError env deadline w1 \<noteq> None"
    using after_deadline getSandboxClaim_rel [OF g] assms by simp
  then show ?thesis
    using g by (auto simp: claimRound_def sandboxReadyWaitEnded_def split: sum.splits)
qed

lemma claimLoop_returns:
  assumes "started + int k * Second \<le> rq_now env w"
  shows "\<exists>y. claimLoop ae rt env cl c deadline started k w = Some y"
  using assms
proof (induction "nat (deadline - (started + int k * Second))" arbitrary: k w rule: less_induct)
  case less
  obtain r w1 where r: "claimRound ae rt env cl c deadline w = (r, w1)"
    by (metis surj_pair)
  obtain b w2 where t: "rq_tick env deadline started k w1 = (b, w2)"
    by (metis surj_pair)
  show ?case
  proof (cases "r = None \<and> \<not> b")
    case True
    then have "\<not> deadline \<le> rq_now env w"
      using claimRound_deadline [of deadline w ae rt c] r by auto
    then have "nat (deadline - (started + int (Suc k) * Second)) < nat (deadline - (started + int k * Second))"
      using less.prems by (simp add: Second_def)
    moreover have "started + int (Suc k) * Second \<le> rq_now env w2"
      using tick_time t True by simp
    ultimately show ?thesis
      using less.hyps [of "Suc k" w2] r t True by (subst claimLoop.simps) simp
  next
    case False
    then show ?thesis
      using r t by (subst claimLoop.simps) (auto split: option.split)
  qed
qed

lemma probeLoop_returns:
  assumes "0 < d"
  shows "\<exists>y. probeLoop env ip ports deadline d w = Some y"
proof (induction "nat (deadline - rq_now env w)" arbitrary: w rule: less_induct)
  case less
  obtain r w1 where r: "probeSandboxEntryPoints env ip ports d w = (r, w1)"
    by (metis surj_pair)
  obtain b w2 where t: "rq_pause env deadline d w1 = (b, w2)"
    by (metis surj_pair)
  show ?case
  proof (cases "r \<noteq> None \<and> \<not> b")
    case True
    then have "waitCtxErr env deadline w1 = None"
      using pause_done [of deadline w1 d] assms t by (cases "waitCtxErr env deadline w1") auto
    then have "rq_now env w1 < deadline"
      using after_deadline [of deadline w1]
      by (cases "deadline \<le> rq_now env w1") (simp_all add: sandboxReadyWaitContextError_def)
    then have "nat (deadline - rq_now env w2) < nat (deadline - rq_now env w)"
      using pause_time [of deadline d w1 w2] t True probe_rel [OF r] assms by simp
    then show ?thesis
      using less.hyps [of w2] r t True by (subst probeLoop.simps) auto
  next
    case False
    then show ?thesis
      using r t by (subst probeLoop.simps) (auto split: option.split)
  qed
qed

lemma waits_return:
  "\<exists>y. waitForCreatedSandbox ae rt env cl c registered w = Some y"
  "\<exists>y. waitForSandboxEntryPointsReady env ct ci ip en w = Some y"
  using claimLoop_returns [of "rq_now env w" 0 w] probeLoop_returns
  by (auto simp: waitForCreatedSandbox_def waitForClaimSandboxReadyWithTimeout_def
      waitForSandboxEntryPointsReady_def Let_def defaultSandboxReadyProbeInterval_def go_simps
      split: option.split)

end

end
