(* ===== verification/Handlers.thy ===== *)
theory Handlers
  imports Waiting WatchCtl Caches Tokens Gc
begin

text \<open>
  The handlers of \<open>pkg/workloadmanager/handlers.go\<close>: creation of a sandbox with its placeholder, its
  rollback and its responses, and deletion.

  The state of a handler is the world, which holds the store and the cluster, together with the watchers
  of the reconciler and the cache of user clients.  While a request waits, other goroutines act on the
  watchers: \<open>others\<close> is what they do.
\<close>

record 'w Server =
  sv_store :: "'w Store"
  sv_cluster :: "'w cluster"
  sv_pods :: "'w podApi"
  sv_EnableAuth :: bool
  sv_ProbeTimeout :: Duration
  sv_ProbeInterval :: Duration
  sv_PodNameAnnotation :: string

datatype httpResponse =
    ErrorJSON nat string
  | StatusOnly nat
  | CreatedJSON CreateSandboxResponse
  | MessageJSON nat string

definition respondError :: "nat \<Rightarrow> string \<Rightarrow> httpResponse" where
  "respondError statusCode message = ErrorJSON statusCode message"

definition handleHealth :: httpResponse where
  "handleHealth = MessageJSON 200 ''healthy''"

subsection \<open>Creation\<close>

definition createK8sResources ::
  "apierrors \<Rightarrow> 'w cluster \<Rightarrow> Sandbox \<Rightarrow> SandboxClaim option \<Rightarrow> 'w \<Rightarrow> gerr option \<times> 'w" where
  "createK8sResources ae dynamicClient sandbox sandboxClaim w =
     (case sandboxClaim of
        Some claim \<Rightarrow>
          (case createSandboxClaim dynamicClient claim w of
             (Some e, w') \<Rightarrow>
               (if isContextError e then (Some e, w')
                else (Some (NewInternalError ae (ErrWrap (''create sandbox claim '' @ sc_Namespace claim @
                  ''/'' @ sc_Name claim @ '' failed'') e)), w'))
           | (None, w') \<Rightarrow> (None, w'))
      | None \<Rightarrow>
          (case createSandbox dynamicClient sandbox w of
             (Inl e, w') \<Rightarrow>
               (if isContextError e then (Some e, w')
                else (Some (NewInternalError ae (ErrWrap ''failed to create sandbox'' e)), w'))
           | (Inr _, w') \<Rightarrow> (None, w')))"

definition rollbackSandboxCreation ::
  "apierrors \<Rightarrow> 'w Store \<Rightarrow> 'w cluster \<Rightarrow> Sandbox \<Rightarrow> SandboxClaim option \<Rightarrow> string \<Rightarrow> 'w \<Rightarrow> 'w" where
  "rollbackSandboxCreation ae st dynamicClient sandbox sandboxClaim sessionID w =
     (let w1 = (case sandboxClaim of
          Some claim \<Rightarrow> snd (deleteSandboxClaim ae dynamicClient (sc_Namespace claim) (sc_Name claim) w)
        | None \<Rightarrow> snd (deleteSandbox ae dynamicClient (sb_Namespace sandbox) (sb_Name sandbox) w))
      in snd (st_DeleteSandboxBySessionID st sessionID w1))"

text \<open>The error of a step of the creation, as it is returned.\<close>

definition stepError :: "apierrors \<Rightarrow> string \<Rightarrow> gerr \<Rightarrow> gerr" where
  "stepError ae what e = (if isContextError e then e else NewInternalError ae (ErrWrap what e))"

text \<open>The record that replaces the placeholder.\<close>

definition storeCacheInfo :: "Sandbox \<Rightarrow> string \<Rightarrow> sandboxEntry \<Rightarrow> SandboxClaim option \<Rightarrow> SandboxInfo \<Rightarrow> SandboxInfo" where
  "storeCacheInfo createdSandbox podIP entry sandboxClaim placeholder =
     (let info = buildSandboxInfo createdSandbox podIP entry in
      case sandboxClaim of
        None \<Rightarrow> info
      | Some claim \<Rightarrow>
          info\<lparr>si_Name := sc_Name claim, si_SandboxNamespace := sc_Namespace claim,
               si_ExpiresAt := si_ExpiresAt placeholder, si_CreatedAt := si_CreatedAt placeholder\<rparr>)"

text \<open>The steps of \<open>createSandbox\<close> that are rolled back when one of them fails.\<close>

definition createSteps ::
  "apierrors \<Rightarrow> retryTests \<Rightarrow> 'w Server \<Rightarrow> 'w reqEnv \<Rightarrow> 'w cluster \<Rightarrow> Sandbox \<Rightarrow> SandboxClaim option \<Rightarrow>
   sandboxEntry \<Rightarrow> bool \<Rightarrow> SandboxInfo \<Rightarrow> 'w \<Rightarrow> (CreateSandboxResponse res \<times> 'w) option" where
  "createSteps ae rt s env dynamicClient sandbox sandboxClaim entry registered placeholder w =
     (case createK8sResources ae dynamicClient sandbox sandboxClaim w of
        (Some e, w1) \<Rightarrow> Some (Inl e, w1)
      | (None, w1) \<Rightarrow>
          (case waitForCreatedSandbox ae rt env dynamicClient sandboxClaim registered w1 of
             None \<Rightarrow> None
           | Some (Inl e, w2) \<Rightarrow> Some (Inl e, w2)
           | Some (Inr createdSandbox, w2) \<Rightarrow>
               (let sandboxNameForPod = sb_Name createdSandbox;
                    name = sb_Namespace createdSandbox @ ''/'' @ sandboxNameForPod;
                    sandboxPodName = (case sb_Annotations createdSandbox (sv_PodNameAnnotation s) of
                        Some podName \<Rightarrow> podName | None \<Rightarrow> sb_Name createdSandbox) in
                case GetSandboxPodIP (sv_pods s) (sb_Namespace createdSandbox) sandboxNameForPod
                    sandboxPodName w2 of
                  (Inl e, w3) \<Rightarrow>
                    Some (Inl (stepError ae (''failed to get sandbox '' @ name @ '' pod IP'') e), w3)
                | (Inr podIP, w3) \<Rightarrow>
                    (case waitForSandboxEntryPointsReady env (sv_ProbeTimeout s) (sv_ProbeInterval s)
                        podIP entry w3 of
                       None \<Rightarrow> None
                     | Some (Some e, w4) \<Rightarrow>
                         Some (Inl (stepError ae
                           (''failed to verify sandbox '' @ name @ '' entrypoints'') e), w4)
                     | Some (None, w4) \<Rightarrow>
                         (let info = storeCacheInfo createdSandbox podIP entry sandboxClaim placeholder;
                              response = \<lparr>resp_Kind = si_Kind info, resp_SessionID = en_SessionID entry,
                                resp_SandboxID = si_SandboxID info, resp_SandboxName = si_Name info,
                                resp_EntryPoints = si_EntryPoints info, resp_OwnerID = en_OwnerID entry\<rparr> in
                          case st_UpdateSandbox (sv_store s) (Some info) w4 of
                            (Some e, w5) \<Rightarrow> Some (Inl (stepError ae ''update store cache failed'' e), w5)
                          | (None, w5) \<Rightarrow> Some (Inr response, w5))))))"

definition createSandbox_srv ::
  "apierrors \<Rightarrow> retryTests \<Rightarrow> 'w Server \<Rightarrow> 'w reqEnv \<Rightarrow> 'w cluster \<Rightarrow> Sandbox \<Rightarrow> SandboxClaim option \<Rightarrow>
   sandboxEntry \<Rightarrow> bool \<Rightarrow> 'w \<Rightarrow> (CreateSandboxResponse res \<times> 'w) option" where
  "createSandbox_srv ae rt s env dynamicClient sandbox sandboxClaim entry registered w =
     (let placeholder = buildSandboxPlaceHolder (rq_now env w) sandbox entry in
      case st_StoreSandbox (sv_store s) (Some placeholder) w of
        (Some e, w1) \<Rightarrow> Some (Inl (stepError ae ''store sandbox placeholder failed'' e), w1)
      | (None, w1) \<Rightarrow>
          (case createSteps ae rt s env dynamicClient sandbox sandboxClaim entry registered placeholder w1 of
             None \<Rightarrow> None
           | Some (Inr response, w2) \<Rightarrow> Some (Inr response, w2)
           | Some (Inl e, w2) \<Rightarrow>
               Some (Inl e, rollbackSandboxCreation ae (sv_store s) dynamicClient sandbox sandboxClaim
                 (en_SessionID entry) w2)))"

subsection \<open>Responses\<close>

definition isInternalSandboxCreateError :: "apierrors \<Rightarrow> gerr \<Rightarrow> bool" where
  "isInternalSandboxCreateError ae e \<longleftrightarrow>
     ae_IsInternalError ae e \<or> errors_Is e ErrSandboxReadyWatcherNotRegistered \<or>
     errors_Is e ErrSandboxReadyWatcherClosed \<or> errors_Is e ErrSandboxReadyWatcherMissingSandbox"

definition respondSandboxCreateError :: "apierrors \<Rightarrow> gerr \<Rightarrow> httpResponse" where
  "respondSandboxCreateError ae e =
     (if errors_Is e Canceled then StatusOnly 499
      else if errors_Is e DeadlineExceeded then respondError 504 ''request timed out''
      else if errors_Is e ErrSandboxCreationTimeout then respondError 504 (Error e)
      else
        (let msg = (if isInternalSandboxCreateError ae e then ''internal server error'' else Error e) in
         respondError 500 msg))"

subsection \<open>The handler of a creation\<close>

record 'w handlerState =
  hs_reconciler :: SandboxReconciler
  hs_clients :: "'w cluster ClientCache"
  hs_world :: 'w

text \<open>What a request brings: its body as bound, its headers and the user the middleware found.\<close>

record httpRequest =
  ht_body :: "CreateSandboxRequest res"
  ht_header :: "string \<Rightarrow> string"
  ht_user :: "userInfo option"

text \<open>What the handler reads besides: the libraries, the informers and the values drawn.\<close>

record 'w handlerDeps =
  hd_ae :: apierrors
  hd_rt :: retryTests
  hd_jl :: jwtLib
  hd_kl :: keyLib
  hd_runtimes :: "string \<Rightarrow> string \<Rightarrow> AgentRuntime res"
  hd_interpreters :: "string \<Rightarrow> string \<Rightarrow> CodeInterpreter res"
  hd_build :: buildEnv
  hd_newClient :: "string \<Rightarrow> string \<Rightarrow> 'w cluster res"

definition extractUserK8sClient ::
  "'w handlerDeps \<Rightarrow> Time \<Rightarrow> userInfo option \<Rightarrow> 'w cluster ClientCache \<Rightarrow>
   'w cluster res \<times> 'w cluster ClientCache" where
  "extractUserK8sClient d now user cache =
     (case extractUserInfo user of
        (userToken, userNamespace, _, serviceAccountName) \<Rightarrow>
          if userToken = [] \<or> userNamespace = [] \<or> serviceAccountName = []
          then (Inl (ErrMsg ''unable to extract user credentials''), cache)
          else
            (case GetOrCreateUserK8sClient (hd_newClient d) now userToken userNamespace
                serviceAccountName cache of
               (Inl e, cache') \<Rightarrow> (Inl (ErrWrap ''create user client failed'' e), cache')
             | (Inr client, cache') \<Rightarrow> (Inr client, cache')))"

definition chooseClient ::
  "'w handlerDeps \<Rightarrow> 'w Server \<Rightarrow> Time \<Rightarrow> userInfo option \<Rightarrow> 'w cluster ClientCache \<Rightarrow>
   'w cluster res \<times> 'w cluster ClientCache" where
  "chooseClient d s now user cache =
     (if sv_EnableAuth s then extractUserK8sClient d now user cache else (Inr (sv_cluster s), cache))"

definition buildForKind ::
  "'w handlerDeps \<Rightarrow> CreateSandboxRequest \<Rightarrow> string \<Rightarrow> (Sandbox \<times> SandboxClaim option \<times> sandboxEntry) res" where
  "buildForKind d req ownerID =
     (if req_Kind req = AgentRuntimeKind then
        (case buildSandboxByAgentRuntime (hd_ae d) (hd_runtimes d) (hd_build d) (req_Namespace req)
            (req_Name req) ownerID of
           Inl e \<Rightarrow> Inl e
         | Inr (sandbox, entry) \<Rightarrow> Inr (sandbox, None, entry))
      else
        buildSandboxByCodeInterpreter (hd_ae d) (hd_interpreters d) (hd_build d) (req_Namespace req)
          (req_Name req) ownerID)"

definition handleSandboxCreate ::
  "'w handlerDeps \<Rightarrow> 'w Server \<Rightarrow> 'w reqEnv \<Rightarrow> (SandboxReconciler \<Rightarrow> SandboxReconciler) \<Rightarrow> httpRequest \<Rightarrow>
   string \<Rightarrow> 'w handlerState \<Rightarrow> (httpResponse \<times> 'w handlerState) option" where
  "handleSandboxCreate d s env others c kind hs =
     (case ht_body c of
        Inl e \<Rightarrow> Some (respondError 400 ''Invalid request body'', hs)
      | Inr body \<Rightarrow>
          (let sandboxReq = body\<lparr>req_Kind := kind\<rparr>; now = rq_now env (hs_world hs) in
           case Validate sandboxReq of
             Some e \<Rightarrow> Some (respondError 400 (Error e), hs)
           | None \<Rightarrow>
               (case resolveSandboxOwnerID (hd_jl d) (hd_kl d) now (be_publicKey (hd_build d)) (ht_header c) of
                  (ownerID, statusCode, errMsg) \<Rightarrow>
                    if statusCode \<noteq> 0 then Some (respondError statusCode errMsg, hs)
                    else
                      (case buildForKind d sandboxReq ownerID of
                         Inl e \<Rightarrow>
                           Some (if e = nilPanic then StatusOnly 500
                             else if errors_Is e ErrAgentRuntimeNotFound \<or> errors_Is e ErrCodeInterpreterNotFound
                             then respondError 404 (Error e)
                             else respondError 500 ''internal server error'', hs)
                       | Inr (sandbox, sandboxClaim, entry0) \<Rightarrow>
                           (let entry = (if ownerID \<noteq> [] then entry0\<lparr>en_OwnerID := ownerID\<rparr> else entry0) in
                            case chooseClient d s now (ht_user c) (hs_clients hs) of
                              (Inl e, cache) \<Rightarrow> Some (respondError 401 (Error e), hs\<lparr>hs_clients := cache\<rparr>)
                            | (Inr dynamicClient, cache) \<Rightarrow>
                                (let direct = (sandboxClaim = None);
                                     watched = (if direct
                                       then snd (WatchSandboxOnce (sb_Namespace sandbox) (sb_Name sandbox)
                                         (hs_reconciler hs))
                                       else hs_reconciler hs) in
                                 case createSandbox_srv (hd_ae d) (hd_rt d) s env dynamicClient sandbox
                                     sandboxClaim entry direct (hs_world hs) of
                                   None \<Rightarrow> None
                                 | Some (r, w') \<Rightarrow>
                                     (let after = others watched;
                                          rec' = (if direct
                                            then UnWatchSandbox (sb_Namespace sandbox) (sb_Name sandbox) after
                                            else after) in
                                      Some (case r of
                                          Inl e \<Rightarrow> respondSandboxCreateError (hd_ae d) e
                                        | Inr response \<Rightarrow> CreatedJSON response,
                                        hs\<lparr>hs_reconciler := rec', hs_clients := cache, hs_world := w'\<rparr>))))))))"

definition handleAgentRuntimeCreate ::
  "'w handlerDeps \<Rightarrow> 'w Server \<Rightarrow> 'w reqEnv \<Rightarrow> (SandboxReconciler \<Rightarrow> SandboxReconciler) \<Rightarrow> httpRequest \<Rightarrow>
   'w handlerState \<Rightarrow> (httpResponse \<times> 'w handlerState) option" where
  "handleAgentRuntimeCreate d s env others c hs =
     handleSandboxCreate d s env others c AgentRuntimeKind hs"

definition handleCodeInterpreterCreate ::
  "'w handlerDeps \<Rightarrow> 'w Server \<Rightarrow> 'w reqEnv \<Rightarrow> (SandboxReconciler \<Rightarrow> SandboxReconciler) \<Rightarrow> httpRequest \<Rightarrow>
   'w handlerState \<Rightarrow> (httpResponse \<times> 'w handlerState) option" where
  "handleCodeInterpreterCreate d s env others c hs =
     handleSandboxCreate d s env others c CodeInterpreterKind hs"

subsection \<open>Deletion\<close>

definition handleDeleteSandbox ::
  "'w handlerDeps \<Rightarrow> 'w Server \<Rightarrow> ('w \<Rightarrow> Time) \<Rightarrow> userInfo option \<Rightarrow> string \<Rightarrow> 'w handlerState \<Rightarrow>
   httpResponse \<times> 'w handlerState" where
  "handleDeleteSandbox d s now user sessionID hs =
     (case st_GetSandboxBySessionID (sv_store s) sessionID (hs_world hs) of
        (Inl e, w1) \<Rightarrow>
          (if errors_Is e StoreErrNotFound
           then respondError 404 (''Session ID '' @ sessionID @ '' not found, maybe already deleted'')
           else respondError 500 ''internal server error'',
           hs\<lparr>hs_world := w1\<rparr>)
      | (Inr sandbox, w1) \<Rightarrow>
          (case chooseClient d s (now w1) user (hs_clients hs) of
             (Inl e, cache) \<Rightarrow> (respondError 401 (Error e), hs\<lparr>hs_clients := cache, hs_world := w1\<rparr>)
           | (Inr dynamicClient, cache) \<Rightarrow>
               (case (if si_Kind sandbox = SandboxClaimsKind
                   then deleteSandboxClaim (hd_ae d) dynamicClient (si_SandboxNamespace sandbox)
                     (si_Name sandbox) w1
                   else deleteSandbox (hd_ae d) dynamicClient (si_SandboxNamespace sandbox)
                     (si_Name sandbox) w1) of
                  (err, w2) \<Rightarrow>
                    if (case err of None \<Rightarrow> False | Some e \<Rightarrow> \<not> ae_IsNotFound (hd_ae d) e)
                    then (respondError 500 ''internal server error'',
                          hs\<lparr>hs_clients := cache, hs_world := w2\<rparr>)
                    else
                      (case st_DeleteSandboxBySessionID (sv_store s) sessionID w2 of
                         (Some e, w3) \<Rightarrow>
                           (respondError 500 ''internal server error'',
                            hs\<lparr>hs_clients := cache, hs_world := w3\<rparr>)
                       | (None, w3) \<Rightarrow>
                           (MessageJSON 200 ''Sandbox deleted successfully'',
                            hs\<lparr>hs_clients := cache, hs_world := w3\<rparr>)))))"

end
