(* ===== verification/HandlersProps.thy ===== *)
theory HandlersProps
  imports Handlers
begin

text \<open>
  What the handlers of the Workload Manager guarantee about the session store and the cluster together,
  over the contracts \<open>store_and_cluster\<close>, \<open>quiet_env\<close> and \<open>timed_env\<close>: a creation that succeeds leaves a
  record and the object it stands for, one that fails leaves neither when its clean-up works, every
  creation comes to an end, and a deletion removes the record only after the object.
\<close>

subsection \<open>The object a creation makes\<close>

definition createdRef :: "Sandbox \<Rightarrow> SandboxClaim option \<Rightarrow> objref" where
  "createdRef sandbox claim =
     (case claim of
        None \<Rightarrow> SandboxRef (sb_Namespace sandbox) (sb_Name sandbox)
      | Some c \<Rightarrow> ClaimRef (sc_Namespace c) (sc_Name c))"

definition entryFits :: "SandboxClaim option \<Rightarrow> sandboxEntry \<Rightarrow> bool" where
  "entryFits claim entry \<longleftrightarrow> en_Kind entry = (if claim = None then SandboxKind else SandboxClaimsKind)"

text \<open>The deletions of a rollback succeed.\<close>

definition cleanup_works ::
  "('w \<Rightarrow> bool) \<Rightarrow> apierrors \<Rightarrow> 'w Store \<Rightarrow> 'w cluster \<Rightarrow> Sandbox \<Rightarrow> SandboxClaim option \<Rightarrow> string \<Rightarrow> bool" where
  "cleanup_works ok ae st cl sandbox claim sid \<longleftrightarrow>
     (\<forall>w. ok w \<longrightarrow> fst (deleteSandbox ae cl (sb_Namespace sandbox) (sb_Name sandbox) w) = None) \<and>
     (\<forall>c w. ok w \<longrightarrow> claim = Some c \<longrightarrow>
        fst (deleteSandboxClaim ae cl (sc_Namespace c) (sc_Name c) w) = None) \<and>
     (\<forall>w. ok w \<longrightarrow> fst (st_DeleteSandboxBySessionID st sid w) = None)"

locale create_env = store_and_cluster st db clock ok ae cl objs +
    quiet_env env cl pods "\<lambda>w w'. ok w \<longrightarrow> ok w' \<and> db w' = db w \<and> objs w' = objs w"
  for st :: "'w Store" and db clock ok ae and cl :: "'w cluster" and objs and env :: "'w reqEnv" and pods
begin

lemma createK8sResources_effect:
  assumes "ok w" "createK8sResources ae cl sandbox claim w = (r, w')"
  shows "ok w' \<and> db w' = db w \<and> (r = None \<longrightarrow> createdRef sandbox claim \<in> objs w') \<and>
     (\<forall>x. x \<noteq> createdRef sandbox claim \<longrightarrow> (x \<in> objs w' \<longleftrightarrow> x \<in> objs w))"
proof (cases claim)
  case None
  show ?thesis
  proof (cases "cv_ToSandbox cl sandbox")
    case (Inl e)
    then show ?thesis
      using assms None by (auto simp: createK8sResources_def createSandbox_def split: if_splits)
  next
    case (Inr u)
    obtain c w1 where c: "api_CreateSandbox cl (sb_Namespace sandbox) u w = (c, w1)"
      by (metis surj_pair)
    have w1: "w' = w1" "r = None \<Longrightarrow> \<exists>d. c = Inr d"
      using assms(2) None Inr c
      by (auto simp: createK8sResources_def createSandbox_def split: sum.splits if_splits)
    have "sb_Name u = sb_Name sandbox"
      using convert_name(1) Inr by simp
    then show ?thesis
      using create_sandbox [OF c] cluster_keeps_db(1) [OF assms(1), of "sb_Namespace sandbox" u] c w1 None
      by (auto simp: createdRef_def)
  qed
next
  case (Some cm)
  show ?thesis
  proof (cases "cv_ToClaim cl cm")
    case (Inl e)
    then show ?thesis
      using assms Some by (auto simp: createK8sResources_def createSandboxClaim_def split: if_splits)
  next
    case (Inr u)
    obtain c w1 where c: "api_CreateSandboxClaim cl (sc_Namespace cm) u w = (c, w1)"
      by (metis surj_pair)
    have w1: "w' = w1" "r = None \<Longrightarrow> \<exists>d. c = Inr d"
      using assms(2) Some Inr c
      by (auto simp: createK8sResources_def createSandboxClaim_def split: sum.splits if_splits)
    have "sc_Name u = sc_Name cm"
      using convert_name(2) Inr by simp
    then show ?thesis
      using create_claim [OF c] cluster_keeps_db(2) [OF assms(1), of "sc_Namespace cm" u] c w1 Some
      by (auto simp: createdRef_def)
  qed
qed

lemma rollback_effect:
  assumes "ok w" "safe_sid sid"
    and "rollbackSandboxCreation ae st cl sandbox claim sid w = w'"
  shows "ok w' \<and> objs w' \<subseteq> objs w \<and>
     (\<forall>x. x \<noteq> createdRef sandbox claim \<longrightarrow> (x \<in> objs w' \<longleftrightarrow> x \<in> objs w)) \<and>
     (\<forall>s. s \<noteq> sid \<longrightarrow> db_sessions (db w') s = db_sessions (db w) s)"
    and "(case claim of
           None \<Rightarrow> fst (deleteSandbox ae cl (sb_Namespace sandbox) (sb_Name sandbox) w) = None
         | Some c \<Rightarrow> fst (deleteSandboxClaim ae cl (sc_Namespace c) (sc_Name c) w) = None) \<Longrightarrow>
       createdRef sandbox claim \<notin> objs w'"
    and "(\<And>w. ok w \<Longrightarrow> fst (st_DeleteSandboxBySessionID st sid w) = None) \<Longrightarrow> db_sessions (db w') sid = None"
proof -
  obtain r w1 where d: "(case claim of None \<Rightarrow> deleteSandbox ae cl (sb_Namespace sandbox) (sb_Name sandbox) w
      | Some c \<Rightarrow> deleteSandboxClaim ae cl (sc_Namespace c) (sc_Name c) w) = (r, w1)"
    by (metis surj_pair)
  have o: "(r = None \<longrightarrow> createdRef sandbox claim \<notin> objs w1) \<and> objs w1 \<subseteq> objs w \<and>
      (\<forall>x. x \<noteq> createdRef sandbox claim \<longrightarrow> (x \<in> objs w1 \<longleftrightarrow> x \<in> objs w))"
    using d deleteSandbox_objs [of "sb_Namespace sandbox" "sb_Name sandbox" w r w1] deleteSandboxClaim_objs [of _ _ w r w1]
    by (cases claim) (auto simp: createdRef_def)
  have k: "ok w1" "db w1 = db w"
    using d delete_keeps_db [OF assms(1)] by (cases claim; force)+
  obtain r2 w2 where s: "st_DeleteSandboxBySessionID st sid w1 = (r2, w2)"
    by (metis surj_pair)
  have w': "w' = w2"
    using assms(3) d s by (cases claim) (auto simp: rollbackSandboxCreation_def Let_def)
  have o2: "objs w' = objs w1"
    using store_keeps_objs(4) [of sid w1] s w' by simp
  show "ok w' \<and> objs w' \<subseteq> objs w \<and>
     (\<forall>x. x \<noteq> createdRef sandbox claim \<longrightarrow> (x \<in> objs w' \<longleftrightarrow> x \<in> objs w)) \<and>
     (\<forall>s. s \<noteq> sid \<longrightarrow> db_sessions (db w') s = db_sessions (db w) s)"
    using delete_frame [OF k(1) assms(2) s] o o2 k w' by auto
  show "createdRef sandbox claim \<notin> objs w'"
    if "(case claim of
           None \<Rightarrow> fst (deleteSandbox ae cl (sb_Namespace sandbox) (sb_Name sandbox) w) = None
         | Some c \<Rightarrow> fst (deleteSandboxClaim ae cl (sc_Namespace c) (sc_Name c) w) = None)"
    using that d o o2 by (cases claim) auto
  show "db_sessions (db w') sid = None"
    if "\<And>w. ok w \<Longrightarrow> fst (st_DeleteSandboxBySessionID st sid w) = None"
    using that [OF k(1)] delete_ok [OF k(1) assms(2), of w2] s w' by simp
qed

lemma storeCacheInfo_facts:
  "si_SessionID (storeCacheInfo sb ip entry claim ph) = en_SessionID entry"
  "si_OwnerID (storeCacheInfo sb ip entry claim ph) = en_OwnerID entry"
  "si_EntryPoints (storeCacheInfo sb ip entry claim ph) = map (entryPointOf ip) (en_Ports entry)"
  "si_Kind (storeCacheInfo sb ip entry claim ph) = en_Kind entry"
  "refOf (storeCacheInfo sb ip entry claim ph) =
     (if en_Kind entry = SandboxClaimsKind
      then (case claim of None \<Rightarrow> ClaimRef (sb_Namespace sb) (sb_Name sb) | Some c \<Rightarrow> ClaimRef (sc_Namespace c) (sc_Name c))
      else (case claim of None \<Rightarrow> SandboxRef (sb_Namespace sb) (sb_Name sb) | Some c \<Rightarrow> SandboxRef (sc_Namespace c) (sc_Name c)))"
  by (simp_all add: storeCacheInfo_def buildSandboxInfo_def refOf_def Let_def split: option.split)

text \<open>The steps up to the update of the store: they end early with an error, or reach the update.\<close>

lemma createSteps_cases:
  assumes "ok w" "sv_store s = st" "sv_pods s = pods"
    and "createSteps ae rt s env cl sandbox claim entry registered ph w = Some (r, w')"
  obtains (early) e where "r = Inl e" "ok w'" "db w' = db w"
      "\<And>x. x \<noteq> createdRef sandbox claim \<Longrightarrow> x \<in> objs w' \<longleftrightarrow> x \<in> objs w"
  | (update) w1 w4 sb ip info u where "createK8sResources ae cl sandbox claim w = (None, w1)"
      "\<exists>w2. waitForCreatedSandbox ae rt env cl claim registered w1 = Some (Inr sb, w2)"
      "ok w4" "db w4 = db w" "objs w4 = objs w1" "createdRef sandbox claim \<in> objs w4"
      "\<And>x. x \<noteq> createdRef sandbox claim \<Longrightarrow> x \<in> objs w4 \<longleftrightarrow> x \<in> objs w"
      "info = storeCacheInfo sb ip entry claim ph" "st_UpdateSandbox st (Some info) w4 = (u, w')"
      "r = (case u of
         Some e \<Rightarrow> Inl (stepError ae ''update store cache failed'' e)
       | None \<Rightarrow> Inr \<lparr>resp_Kind = si_Kind info, resp_SessionID = en_SessionID entry,
           resp_SandboxID = si_SandboxID info, resp_SandboxName = si_Name info,
           resp_EntryPoints = si_EntryPoints info, resp_OwnerID = en_OwnerID entry\<rparr>)"
proof -
  obtain r1 w1 where c: "createK8sResources ae cl sandbox claim w = (r1, w1)"
    by (metis surj_pair)
  note c1 = createK8sResources_effect [OF assms(1) c]
  show thesis
  proof (cases r1)
    case (Some e)
    then show thesis
      using assms(4) c c1 by (intro early) (auto simp: createSteps_def)
  next
    case None
    obtain r2 w2 where wt: "waitForCreatedSandbox ae rt env cl claim registered w1 = Some (r2, w2)"
      using assms(4) c None by (auto simp: createSteps_def split: option.splits)
    have w2: "ok w2" "db w2 = db w" "objs w2 = objs w1"
      using waitForCreatedSandbox_rel [OF wt] c1 by auto
    show thesis
    proof (cases r2)
      case (Inl e)
      then show thesis
        using assms(4) c c1 None wt w2 by (intro early) (auto simp: createSteps_def)
    next
      case (Inr sb)
      let ?pod = "case sb_Annotations sb (sv_PodNameAnnotation s) of Some p \<Rightarrow> p | None \<Rightarrow> sb_Name sb"
      obtain r3 w3 where ip: "GetSandboxPodIP pods (sb_Namespace sb) (sb_Name sb) ?pod w2 = (r3, w3)"
        by (metis surj_pair)
      have w3: "ok w3" "db w3 = db w" "objs w3 = objs w1"
        using GetSandboxPodIP_rel [OF ip] w2 by auto
      show thesis
      proof (cases r3)
        case (Inl e)
        then show thesis
          using assms(3,4) c c1 None wt w3 Inr ip by (intro early) (auto simp: createSteps_def Let_def)
      next
        case (Inr podIP)
        obtain r4 w4 where pr: "waitForSandboxEntryPointsReady env (sv_ProbeTimeout s) (sv_ProbeInterval s)
            podIP entry w3 = Some (r4, w4)"
          using assms(3,4) c None wt \<open>r2 = Inr sb\<close> ip Inr by (auto simp: createSteps_def Let_def split: option.splits)
        have w4: "ok w4" "db w4 = db w" "objs w4 = objs w1"
          using waitForSandboxEntryPointsReady_rel [OF pr] w3 by auto
        show thesis
        proof (cases r4)
          case (Some e)
          then show thesis
            using assms(3,4) c c1 None wt \<open>r2 = Inr sb\<close> ip Inr pr w4
            by (intro early) (auto simp: createSteps_def Let_def)
        next
          case None
          let ?info = "storeCacheInfo sb podIP entry claim ph"
          obtain u w5 where u: "st_UpdateSandbox st (Some ?info) w4 = (u, w5)"
            by (metis surj_pair)
          show thesis
            using assms(2-4) c c1 \<open>r1 = None\<close> wt \<open>r2 = Inr sb\<close> ip Inr pr None w4 u
            by (intro update [of w1 sb w4 ?info podIP u])
              (auto simp: createSteps_def Let_def split: option.splits)
        qed
      qed
    qed
  qed
qed

lemma no_orphans_mono:
  assumes "no_orphans ok objs db w" "ok w'"
    and "\<And>x. x \<in> objs w' \<Longrightarrow> x \<in> objs w \<or> (\<exists>i. db_sessions (db w') sid = Some i \<and> refOf i = x)"
    and "\<And>s. s \<noteq> sid \<Longrightarrow> db_sessions (db w') s = db_sessions (db w) s"
    and "db_sessions (db w) sid = None"
  shows "no_orphans ok objs db w'"
  unfolding no_orphans_def
proof (intro conjI ballI)
  fix x
  assume x: "x \<in> objs w'"
  show "\<exists>sid i. db_sessions (db w') sid = Some i \<and> refOf i = x"
  proof (cases "x \<in> objs w")
    case True
    then obtain s i where s: "db_sessions (db w) s = Some i" "refOf i = x"
      using assms(1) unfolding no_orphans_def by blast
    then have "s \<noteq> sid"
      using assms(5) by auto
    then have "db_sessions (db w') s = Some i"
      using s assms(4) by simp
    then show ?thesis
      using s(2) by blast
  next
    case False
    then show ?thesis
      using assms(3) [OF x] by blast
  qed
qed (rule assms(2))

lemma wait_names:
  assumes "waitForCreatedSandbox ae rt env cl None registered w = Some (Inr sb, w')"
    and "\<And>w s w'. rq_ready env w = (ReadyUpdate (Some s), w') \<Longrightarrow>
      sb_Namespace s = sb_Namespace sandbox \<and> sb_Name s = sb_Name sandbox"
  shows "sb_Namespace sb = sb_Namespace sandbox \<and> sb_Name sb = sb_Name sandbox"
  using assms
  by (auto simp: waitForCreatedSandbox_def waitForDirectSandboxReady_def
      split: if_splits prod.splits readyEvent.splits option.splits)

lemma refOf_persisted [simp]: "refOf (persisted i) = refOf i"
  by (simp add: refOf_def)

lemma create_succeeds:
  assumes "ok w" "safe_sid (en_SessionID entry)" "db_sessions (db w) (en_SessionID entry) = None"
    and "entryFits claim entry" "sv_store s = st" "sv_pods s = pods"
    and "\<And>w s w'. rq_ready env w = (ReadyUpdate (Some s), w') \<Longrightarrow>
      sb_Namespace s = sb_Namespace sandbox \<and> sb_Name s = sb_Name sandbox"
    and "createSandbox_srv ae rt s env cl sandbox claim entry registered w = Some (Inr resp, w')"
  shows "createdRef sandbox claim \<in> objs w' \<and>
     (\<exists>info. db_sessions (db w') (en_SessionID entry) = Some info \<and> refOf info = createdRef sandbox claim \<and>
        si_EntryPoints info = resp_EntryPoints resp \<and> si_OwnerID info = en_OwnerID entry) \<and>
     resp_SessionID resp = en_SessionID entry \<and> resp_OwnerID resp = en_OwnerID entry \<and>
     (no_orphans ok objs db w \<longrightarrow> no_orphans ok objs db w')"
proof -
  let ?sid = "en_SessionID entry" and ?ph = "buildSandboxPlaceHolder (rq_now env w) sandbox entry"
  obtain w1 where st: "st_StoreSandbox st (Some ?ph) w = (None, w1)"
    and steps: "createSteps ae rt s env cl sandbox claim entry registered ?ph w1 = Some (Inr resp, w')"
    using assms(5,8) by (auto simp: createSandbox_srv_def Let_def split: prod.splits option.splits sum.splits)
  have sid: "safe_sid (si_SessionID ?ph)"
    using assms(2) by simp
  note s1 = store_frame [OF assms(1) sid st]
  then have k1: "ok w1" and o1: "objs w1 = objs w"
    using store_keeps_objs(2) [of "Some ?ph" w] st by auto
  show ?thesis
  proof (rule createSteps_cases [OF k1 assms(5,6) steps], goal_cases early update)
    case (update w2 w4 sb ip info u)
    have u: "u = None"
      using update(10) by (cases u) auto
    have isid: "si_SessionID info = ?sid"
      using update(8) by (simp add: storeCacheInfo_facts)
    have safe: "safe_sid (si_SessionID info)"
      using isid assms(2) by simp
    have up: "st_UpdateSandbox st (Some info) w4 = (None, w')"
      using update(9) u by simp
    have d: "db w' = db_update info (db w4)"
      using update_ok [OF update(3) safe up] by simp
    have f: "ok w' \<and> (\<forall>s. s \<noteq> ?sid \<longrightarrow> db_sessions (db w') s = db_sessions (db w4) s)"
      using update_frame [OF update(3) safe up] isid by simp
    have o: "objs w' = objs w4"
      using store_keeps_objs(3) [of "Some info" w4] up by simp
    have ref: "refOf info = createdRef sandbox claim"
    proof (cases claim)
      case None
      then obtain w3 where "waitForCreatedSandbox ae rt env cl None registered w2 = Some (Inr sb, w3)"
        using update(2) by auto
      from wait_names [OF this assms(7)] show ?thesis
        using None update(8) assms(4)
        by (simp add: storeCacheInfo_facts createdRef_def entryFits_def kind_defs)
    next
      case (Some c)
      then show ?thesis
        using update(8) assms(4) by (simp add: storeCacheInfo_facts createdRef_def entryFits_def)
    qed
    have sess: "db_sessions (db w') ?sid = Some (persisted info)"
      using d isid by (metis db_update_lookup(1))
    have others: "db_sessions (db w') s = db_sessions (db w) s" if "s \<noteq> ?sid" for s
      using f s1 update(4) that by simp
    have "no_orphans ok objs db w'" if "no_orphans ok objs db w"
      by (rule no_orphans_mono [OF that, where sid = ?sid])
        (use f sess ref o update(6,7) o1 others assms(3) in auto)
    then show ?thesis
      using sess ref o update(6,8,10) u by (auto simp: storeCacheInfo_facts)
  qed auto
qed

lemma create_fails:
  assumes "ok w" "safe_sid (en_SessionID entry)" "db_sessions (db w) (en_SessionID entry) = None"
    and "createdRef sandbox claim \<notin> objs w" "sv_store s = st" "sv_pods s = pods"
    and "cleanup_works ok ae st cl sandbox claim (en_SessionID entry)"
    and "createSandbox_srv ae rt s env cl sandbox claim entry registered w = Some (Inl e, w')"
  shows "objs w' = objs w \<and> (\<forall>s. s \<noteq> en_SessionID entry \<longrightarrow> db_sessions (db w') s = db_sessions (db w) s) \<and>
     (fst (st_StoreSandbox st (Some (buildSandboxPlaceHolder (rq_now env w) sandbox entry)) w) = None \<longrightarrow>
        db_sessions (db w') (en_SessionID entry) = None) \<and>
     (no_orphans ok objs db w \<longrightarrow> no_orphans ok objs db w')"
proof -
  let ?sid = "en_SessionID entry" and ?ph = "buildSandboxPlaceHolder (rq_now env w) sandbox entry"
  have sid: "safe_sid (si_SessionID ?ph)"
    using assms(2) by simp
  obtain r w1 where st: "st_StoreSandbox st (Some ?ph) w = (r, w1)"
    by (metis surj_pair)
  note s1 = store_frame [OF assms(1) sid st]
  then have k1: "ok w1" and o1: "objs w1 = objs w"
    using store_keeps_objs(2) [of "Some ?ph" w] st by auto
  have main: "ok w' \<and> objs w' = objs w \<and> (\<forall>s. s \<noteq> ?sid \<longrightarrow> db_sessions (db w') s = db_sessions (db w) s) \<and>
      (r = None \<longrightarrow> db_sessions (db w') ?sid = None)"
  proof (cases r)
    case (Some e')
    then show ?thesis
      using assms(5,8) st s1 o1 by (auto simp: createSandbox_srv_def Let_def)
  next
    case None
    obtain w2 where steps: "createSteps ae rt s env cl sandbox claim entry registered ?ph w1 = Some (Inl e, w2)"
      and rb: "rollbackSandboxCreation ae st cl sandbox claim ?sid w2 = w'"
      using assms(5,8) st None
      by (auto simp: createSandbox_srv_def Let_def split: option.splits sum.splits)
    have w2: "ok w2 \<and> (\<forall>x. x \<noteq> createdRef sandbox claim \<longrightarrow> (x \<in> objs w2 \<longleftrightarrow> x \<in> objs w)) \<and>
        (\<forall>s. s \<noteq> ?sid \<longrightarrow> db_sessions (db w2) s = db_sessions (db w) s)"
    proof (rule createSteps_cases [OF k1 assms(5,6) steps], goal_cases early update)
      case (early e)
      then show ?case
        using s1 o1 by auto
    next
      case (update w3 w4 sb ip info u)
      have isid: "si_SessionID info = ?sid"
        using update(8) by (simp add: storeCacheInfo_facts)
      then have safe: "safe_sid (si_SessionID info)"
        using assms(2) by simp
      have "objs w2 = objs w4"
        using store_keeps_objs(3) [of "Some info" w4] update(9) by simp
      then show ?case
        using update_frame [OF update(3) safe update(9)] update(4,7) s1 o1 isid by auto
    qed
    have cw: "case claim of
           None \<Rightarrow> fst (deleteSandbox ae cl (sb_Namespace sandbox) (sb_Name sandbox) w2) = None
         | Some c \<Rightarrow> fst (deleteSandboxClaim ae cl (sc_Namespace c) (sc_Name c) w2) = None"
      using assms(7) w2 by (cases claim) (auto simp: cleanup_works_def)
    have del: "\<And>w. ok w \<Longrightarrow> fst (st_DeleteSandboxBySessionID st ?sid w) = None"
      using assms(7) by (simp add: cleanup_works_def)
    note r = rollback_effect(1) [OF _ assms(2) rb] rollback_effect(2) [OF _ assms(2) rb cw]
      rollback_effect(3) [OF _ assms(2) rb del]
    have "x \<in> objs w' \<longleftrightarrow> x \<in> objs w" for x
      using r w2 assms(4) by (cases "x = createdRef sandbox claim") auto
    then show ?thesis
      using r w2 by auto
  qed
  have "no_orphans ok objs db w'" if "no_orphans ok objs db w"
    by (rule no_orphans_mono [OF that, where sid = ?sid]) (use main assms(3) in auto)
  then show ?thesis
    using main st by auto
qed

end

subsection \<open>Deletion\<close>

context store_and_cluster
begin

lemma deleteObject_effect:
  assumes "(if si_Kind i = SandboxClaimsKind then deleteSandboxClaim ae cl (si_SandboxNamespace i) (si_Name i) w
      else deleteSandbox ae cl (si_SandboxNamespace i) (si_Name i) w) = (r, w')" and "ok w"
  shows "ok w' \<and> db w' = db w \<and> objs w' \<subseteq> objs w" and "\<And>e. r = Some e \<Longrightarrow> \<not> ae_IsNotFound ae e"
    and "r = None \<Longrightarrow> refOf i \<notin> objs w'"
proof -
  have k: "ok w' \<and> db w' = db w"
    using assms(1) delete_keeps_db [OF assms(2)] by (cases "si_Kind i = SandboxClaimsKind") simp_all
  have "objs w' \<subseteq> objs w"
    using assms(1) deleteSandbox_objs deleteSandboxClaim_objs
    by (cases "si_Kind i = SandboxClaimsKind") (simp, blast)+
  with k show "ok w' \<and> db w' = db w \<and> objs w' \<subseteq> objs w"
    by simp
  show "\<not> ae_IsNotFound ae e" if "r = Some e" for e
    using assms(1) that
    by (auto simp: deleteSandboxClaim_def deleteSandbox_def is_not_found
        split: if_splits prod.splits option.splits)
  show "refOf i \<notin> objs w'" if "r = None"
    using assms(1) that deleteSandbox_objs [of _ _ w r w'] deleteSandboxClaim_objs [of _ _ w r w']
    by (cases "si_Kind i = SandboxClaimsKind") (auto simp: refOf_def)
qed

lemma delete_effect:
  assumes "ok (hs_world hs)" "safe_sid sid" "hd_ae d = ae" "sv_store s = st"
    and "\<forall>t c cache. chooseClient d s t user (hs_clients hs) = (Inr c, cache) \<longrightarrow> c = cl"
    and "handleDeleteSandbox d s now user sid hs = (resp, hs')"
  shows "ok (hs_world hs') \<and> objs (hs_world hs') \<subseteq> objs (hs_world hs) \<and>
     (\<forall>x. x \<noteq> sid \<longrightarrow> db_sessions (db (hs_world hs')) x = db_sessions (db (hs_world hs)) x) \<and>
     (\<forall>i. db_sessions (db (hs_world hs)) sid = Some i \<longrightarrow>
        db_sessions (db (hs_world hs')) sid \<noteq> Some i \<longrightarrow> refOf i \<notin> objs (hs_world hs')) \<and>
     (resp = MessageJSON 200 ''Sandbox deleted successfully'' \<longrightarrow>
        db_sessions (db (hs_world hs')) sid = None \<and>
        (\<exists>i. db_sessions (db (hs_world hs)) sid = Some i \<and> refOf i \<notin> objs (hs_world hs')))"
proof -
  let ?w = "hs_world hs"
  obtain g w1 where g: "st_GetSandboxBySessionID st sid ?w = (g, w1)"
    by (metis surj_pair)
  have w1: "ok w1" "db w1 = db ?w" "objs w1 = objs ?w"
    using get_frame [OF assms(1) g] store_keeps_objs(1) [of sid ?w] g by auto
  show ?thesis
  proof (cases g)
    case (Inl e)
    then have "hs_world hs' = w1 \<and> resp \<noteq> MessageJSON 200 ''Sandbox deleted successfully''"
      using assms(4,6) g by (auto simp: handleDeleteSandbox_def respondError_def split: if_splits)
    then show ?thesis
      using w1 by simp
  next
    case (Inr i)
    have i: "db_sessions (db ?w) sid = Some i"
      using get_ok [OF assms(1,2)] g Inr by simp
    obtain c cache where ch: "chooseClient d s (now w1) user (hs_clients hs) = (c, cache)"
      by (metis surj_pair)
    show ?thesis
    proof (cases c)
      case (Inl e)
      then have "hs_world hs' = w1 \<and> resp \<noteq> MessageJSON 200 ''Sandbox deleted successfully''"
        using assms(4,6) g Inr ch by (auto simp: handleDeleteSandbox_def respondError_def)
      then show ?thesis
        using w1 by simp
    next
      case (Inr c')
      then have c: "c = Inr cl"
        using assms(5) ch by blast
      obtain r w2 where del: "(if si_Kind i = SandboxClaimsKind
          then deleteSandboxClaim ae cl (si_SandboxNamespace i) (si_Name i) w1
          else deleteSandbox ae cl (si_SandboxNamespace i) (si_Name i) w1) = (r, w2)"
        by (metis surj_pair)
      note de = deleteObject_effect [OF del w1(1)]
      show ?thesis
      proof (cases r)
        case (Some e)
        then have "hs_world hs' = w2 \<and> resp \<noteq> MessageJSON 200 ''Sandbox deleted successfully''"
          using assms(3,4,6) g \<open>g = Inr i\<close> ch c del de(2)
          by (auto simp: handleDeleteSandbox_def respondError_def)
        then show ?thesis
          using de(1) w1 i by simp
      next
        case None
        obtain q w3 where q: "st_DeleteSandboxBySessionID st sid w2 = (q, w3)"
          by (metis surj_pair)
        have out: "hs_world hs' = w3" "resp = MessageJSON 200 ''Sandbox deleted successfully'' \<Longrightarrow> q = None"
          using assms(3,4,6) g \<open>g = Inr i\<close> ch c del None q
          by (auto simp: handleDeleteSandbox_def respondError_def split: option.splits)
        show ?thesis
          using storeDelete_effect [OF q _ assms(2)] de None w1 i out by auto
      qed
    qed
  qed
qed

end

end
