(* ===== verification/HandlersWorld.thy ===== *)
theory HandlersWorld
  imports HandlersProps
begin

text \<open>
  The properties of the handlers of the Workload Manager, and the world their witnesses run in: the
  Redis store and the cluster of \<open>MemWorld\<close>, with a clock that moves when a request waits.
\<close>

subsection \<open>Errors of a creation\<close>

text \<open>
  The error of a context is one of the two the package knows, and a wait that ends because a context is
  done finds its error.
\<close>

definition context_errors :: "'w reqEnv \<Rightarrow> bool" where
  "context_errors env \<longleftrightarrow>
     (\<forall>w t e. rq_done env w = Some (t, e) \<longrightarrow> isContextError e) \<and>
     (\<forall>w w'. rq_ready env w = (ReadyDone, w') \<longrightarrow> ctxErr env w' \<noteq> None) \<and>
     (\<forall>deadline started k w w'. rq_tick env deadline started k w = (True, w') \<longrightarrow>
        waitCtxErr env deadline w' \<noteq> None)"

text \<open>The watcher hands over the sandbox it was registered for.\<close>

definition watches :: "'w reqEnv \<Rightarrow> string \<Rightarrow> string \<Rightarrow> bool" where
  "watches env ns n \<longleftrightarrow>
     (\<forall>w sb w'. rq_ready env w = (ReadyUpdate (Some sb), w') \<longrightarrow> sb_Namespace sb = ns \<and> sb_Name sb = n)"










context timed_env
begin

lemma createSteps_returns:
  assumes "sv_pods s = pods"
  shows "\<exists>y. createSteps ae rt s env cl sandbox claim entry registered ph w = Some y"
  using waits_return(1) [of ae rt claim registered] waits_return(2)
  by (auto simp: createSteps_def Let_def split: option.split prod.split sum.split) (metis option.distinct(1))+

lemma createSandbox_returns:
  assumes "sv_pods s = pods"
  shows "\<exists>y. createSandbox_srv ae rt s env cl sandbox claim entry registered w = Some y"
  using createSteps_returns [OF assms, of ae rt sandbox claim entry registered]
  by (auto simp: createSandbox_srv_def Let_def split: option.split prod.split sum.split)
    (metis option.distinct(1))+

end

subsection \<open>A world that waits\<close>

definition memEnv :: "string \<Rightarrow> string \<Rightarrow> world reqEnv" where
  "memEnv ns n =
     \<lparr>rq_now = w_now, rq_done = (\<lambda>_. None),
      rq_ready = (\<lambda>w. (case w_sandboxes w (ns, n) of
          None \<Rightarrow> ReadyTimer
        | Some s \<Rightarrow> ReadyUpdate (Some (s\<lparr>sb_Namespace := ns, sb_Name := n\<rparr>)), w)),
      rq_tick = (\<lambda>deadline started k w.
        let t = max (w_now w) (started + int (Suc k) * Second) in
        if deadline \<le> t then (True, w\<lparr>w_now := max (w_now w) deadline\<rparr>) else (False, w\<lparr>w_now := t\<rparr>)),
      rq_pause = (\<lambda>deadline d w.
        if deadline \<le> w_now w then (True, w) else (False, w\<lparr>w_now := w_now w + max d 0\<rparr>)),
      rq_dial = (\<lambda>_ _ w. (None, w))\<rparr>"

definition memPods :: "world podApi" where
  "memPods =
     \<lparr>pa_GetPod = (\<lambda>ns n w. (case w_pods w (ns, n) of None \<Rightarrow> Inl (missingErr n) | Some p \<Rightarrow> Inr p, w)),
      pa_ListPods = (\<lambda>ns label v w. (Inr [], w))\<rparr>"

definition memServer :: "world Server" where
  "memServer =
     \<lparr>sv_store = worldStore, sv_cluster = memCluster, sv_pods = memPods, sv_EnableAuth = False,
      sv_ProbeTimeout = 0, sv_ProbeInterval = 0, sv_PodNameAnnotation = ''agents.x-k8s.io/pod-name''\<rparr>"

definition noRetry :: retryTests where
  "noRetry = \<lparr>rt_IsTimeout = (\<lambda>_. False), rt_IsServerTimeout = (\<lambda>_. False), rt_IsTooManyRequests = (\<lambda>_. False),
     rt_IsServiceUnavailable = (\<lambda>_. False), rt_IsUnexpectedServerError = (\<lambda>_. False),
     rt_NetIsTimeout = (\<lambda>_. False), rt_IsProbableEOF = (\<lambda>_. False), rt_IsConnectionReset = (\<lambda>_. False),
     rt_IsHTTP2ConnectionLost = (\<lambda>_. False), rt_IsConnectionRefused = (\<lambda>_. False)\<rparr>"

lemmas memEnv_defs = memEnv_def memPods_def memCluster_def

interpretation memTimed: timed_env "memEnv ns n" memCluster memPods
  for ns n
  by unfold_locales
    (auto simp: memEnv_defs Let_def waitCtxErr_def deadlineFirst_def ctxErr_def
      split: option.split if_splits)

interpretation memCreate: create_env worldStore "\<lambda>w. abs_db ns_codec (w_ks w)" w_now
  "\<lambda>w. layout_ok ns_codec (w_ks w)" std_apierrors memCluster world_objs "memEnv ns n" memPods
  for ns n
  by unfold_locales (auto simp: memEnv_defs world_objs_def Let_def split: option.split)

lemma memEnv_context: "context_errors (memEnv ns n)" "watches (memEnv ns n) ns n"
  by (auto simp: context_errors_def watches_def memEnv_def Let_def waitCtxErr_def deadlineFirst_def ctxErr_def
      split: option.splits if_splits)

subsection \<open>A creation in this world\<close>

definition newSandbox :: Sandbox where
  "newSandbox = zeroSandbox\<lparr>sb_Namespace := ''default'', sb_Name := ''ci-2'', sb_ShutdownTime := Some (2000 * Second)\<rparr>"

definition newEntry :: sandboxEntry where
  "newEntry = \<lparr>en_Kind = SandboxKind, en_SessionID = ''s2'', en_OwnerID = ''alice'',
     en_Ports = [\<lparr>tp_PathPrefix = ''/'', tp_Name = [], tp_Port = 8080, tp_Protocol = ''HTTP''\<rparr>],
     en_IdleTimeout = 0\<rparr>"

definition newPod :: Pod where
  "newPod = \<lparr>pod_Name = ''ci-2'', pod_OwnerReferences = [], pod_Phase = ''Running'', pod_PodIP = ''10.0.0.9''\<rparr>"

definition startWorld :: "Pod option \<Rightarrow> world" where
  "startWorld p = emptyWorld\<lparr>w_now := 1000 * Second, w_pods := (\<lambda>(ns, n). if ns = ''default'' then p else None)\<rparr>"

lemma new_simps [simp]:
  "sb_Namespace newSandbox = ''default''" "sb_Name newSandbox = ''ci-2''"
  "sb_ShutdownTime newSandbox = Some (2000 * Second)" "IsZero (sb_CreationTimestamp newSandbox)"
  "en_SessionID newEntry = ''s2''" "en_Kind newEntry = SandboxKind" "safe_sid ''s2''"
  "en_Ports newEntry \<noteq> []" "sb_Annotations newSandbox k = None"
  by (simp_all add: newSandbox_def newEntry_def zeroSandbox_def safe_sid_def IsZero_def zeroTime_def)

lemma sess_empty [simp]: "sess cd (\<lambda>k. None) sid = None"
  by (simp add: sess_def)

lemma startWorld_facts:
  "layout_ok ns_codec (w_ks (startWorld p))" "abs_db ns_codec (w_ks (startWorld p)) = abs_db ns_codec Map.empty"
  "sess ns_codec (w_ks (startWorld p)) sid = None" "world_objs (startWorld p) = {}"
  "w_now (startWorld p) = 1000 * Second" "w_ks (startWorld p) = Map.empty"
  by (simp_all add: startWorld_def emptyWorld_def world_objs_def sess_def)

lemma memEnv_probe: "probePorts (memEnv ns n) ip d ports w = (None, w)"
  by (induction ports) (simp_all add: memEnv_def Let_def)

text \<open>The placeholder is stored and the object created.\<close>

definition placedKs :: "Sandbox \<Rightarrow> sandboxEntry \<Rightarrow> keyspace" where
  "placedKs sb en = w_ks (snd (st_StoreSandbox worldStore
     (Some (buildSandboxPlaceHolder (1000 * Second) sb en)) (startWorld None)))"

definition createdSb :: "Sandbox \<Rightarrow> Sandbox" where
  "createdSb sb = sb\<lparr>sb_Namespace := ''default'', sb_UID := ''uid-'' @ sb_Name sb, sb_CreationTimestamp := 1000 * Second\<rparr>"

definition placedWorld :: "Sandbox \<Rightarrow> sandboxEntry \<Rightarrow> Pod option \<Rightarrow> world" where
  "placedWorld sb en p =
     (startWorld p)\<lparr>w_ks := placedKs sb en, w_sandboxes := [(''default'', sb_Name sb) \<mapsto> createdSb sb]\<rparr>"

locale sample_creation =
  fixes sb :: Sandbox and en :: sandboxEntry
  assumes sample_sandbox: "sb_Namespace sb = ''default''" "sb_Name sb \<noteq> []" "sb_ShutdownTime sb = Some (2000 * Second)"
      "IsZero (sb_CreationTimestamp sb)" "sb_Annotations sb ''agents.x-k8s.io/pod-name'' = None"
    and sample_entry: "en_Kind en = SandboxKind" "safe_sid (en_SessionID en)"
begin

declare sample_sandbox [simp] sample_entry [simp]

lemma new_placeholder:
  "\<exists>b. Marshal ns_codec (buildSandboxPlaceHolder (1000 * Second) sb en) = Inr b"
  by (rule goCodec_marshal) (simp_all add: buildSandboxPlaceHolder_def sample_times)

lemma place_new:
  "st_StoreSandbox worldStore (Some (buildSandboxPlaceHolder (1000 * Second) sb en)) (startWorld p) =
     (None, (startWorld p)\<lparr>w_ks := (placedKs sb en)\<rparr>)"
  "layout_ok ns_codec (placedKs sb en)" "sess ns_codec (placedKs sb en) (en_SessionID en) \<noteq> None"
  "abs_db ns_codec (placedKs sb en) = db_store (1000 * Second)
     (buildSandboxPlaceHolder (1000 * Second) sb en) (abs_db ns_codec Map.empty)"
proof -
  let ?ph = "buildSandboxPlaceHolder (1000 * Second) sb en"
  obtain b where b: "Marshal ns_codec ?ph = Inr b"
    using new_placeholder by blast
  have e: "\<not> IsZero (si_ExpiresAt ?ph)"
    by (simp add: buildSandboxPlaceHolder_def)
  have st: "st_StoreSandbox worldStore (Some ?ph) (startWorld p) =
      (None, (startWorld p)\<lparr>w_ks := run_cmds Map.empty (store_cmds b (1000 * Second) ?ph)\<rparr>)" for p
    using json_codec.redis_store_reliable [OF ns.goJson.json_codec_axioms layout_ok_empty, of ?ph
        "\<lambda>_. 1000 * Second"] b e
    by (simp add: world_store in_world_def startWorld_facts)
  then have k: "(placedKs sb en) = run_cmds Map.empty (store_cmds b (1000 * Second) ?ph)"
    by (simp add: placedKs_def)
  then show "st_StoreSandbox worldStore (Some ?ph) (startWorld p) = (None, (startWorld p)\<lparr>w_ks := (placedKs sb en)\<rparr>)"
    using st by simp
  show "layout_ok ns_codec (placedKs sb en)" "sess ns_codec (placedKs sb en) (en_SessionID en) \<noteq> None"
    using json_codec.store_run_sess [OF ns.goJson.json_codec_axioms layout_ok_empty _ b, of "1000 * Second"]
    by (simp_all add: k sess_def)
  show "abs_db ns_codec (placedKs sb en) = db_store (1000 * Second) ?ph (abs_db ns_codec Map.empty)"
    using json_codec.run_store [OF ns.goJson.json_codec_axioms layout_ok_empty _ b, of "1000 * Second"]
    by (simp add: k store_cmds_def)
qed

lemma createdSb_simps [simp]:
  "sb_Namespace (createdSb sb) = ''default''" "sb_Name (createdSb sb) = (sb_Name sb)"
  "sb_ShutdownTime (createdSb sb) = Some (2000 * Second)" "sb_CreationTimestamp (createdSb sb) = 1000 * Second"
  "sb_Annotations (createdSb sb) ''agents.x-k8s.io/pod-name'' = None"
  "(createdSb sb)\<lparr>sb_Namespace := ''default'', sb_Name := (sb_Name sb)\<rparr> = (createdSb sb)"
  by (simp_all add: createdSb_def)

lemma create_new:
  assumes "cv_ToSandbox cl = Inr" "api_CreateSandbox cl = api_CreateSandbox memCluster"
  shows "createK8sResources ae cl sb None ((startWorld p)\<lparr>w_ks := (placedKs sb en)\<rparr>) = (None, placedWorld sb en p)"
  using assms
  by (simp add: createK8sResources_def createSandbox_def memCluster_def placedWorld_def createdSb_def
      startWorld_def emptyWorld_def Let_def)

lemma wait_new:
  "waitForCreatedSandbox ae rt (memEnv ''default'' (sb_Name sb)) cl None True (placedWorld sb en p) =
     Some (Inr (createdSb sb), placedWorld sb en p)"
  by (simp add: waitForCreatedSandbox_def waitForDirectSandboxReady_def memEnv_def placedWorld_def)

lemma pod_new:
  "GetSandboxPodIP memPods ''default'' (sb_Name sb) (sb_Name sb) (placedWorld sb en p) =
     (case p of None \<Rightarrow> Inl (ErrWrap (''failed to get sandbox pod default/'' @ sb_Name sb) (missingErr (sb_Name sb)))
      | Some pod \<Rightarrow> validateAndGetPodIP pod, placedWorld sb en p)"
  by (simp add: GetSandboxPodIP_def memPods_def placedWorld_def startWorld_def split: option.split)

lemma probe_new: "waitForSandboxEntryPointsReady (memEnv ns n) 0 0 ip en w = Some (None, w)"
  by (simp add: waitForSandboxEntryPointsReady_def probeLoop.simps probeSandboxEntryPoints_def memEnv_probe Let_def)

lemma update_new:
  "\<exists>w'. st_UpdateSandbox worldStore (Some (buildSandboxInfo (createdSb sb) ip en)) (placedWorld sb en p) = (None, w')"
proof -
  let ?i = "buildSandboxInfo (createdSb sb) ip en"
  have m: "\<exists>b. Marshal ns_codec ?i = Inr b"
    by (rule goCodec_marshal) (simp_all add: buildSandboxInfo_def sample_times)
  obtain r ks' where u: "UpdateSandbox_redis (clock_backend (1000 * Second)) sessionKeys (Some ?i) (placedKs sb en) = (r, ks')"
    by (metis surj_pair)
  have "si_SessionID ?i = (en_SessionID en)"
    by (simp add: buildSandboxInfo_def)
  then have "r = None"
    using json_codec.update_reliable(1) [OF ns.goJson.json_codec_axioms place_new(2) _ u] m place_new(3) by simp
  then show ?thesis
    using u by (simp add: world_update in_world_def placedWorld_def startWorld_facts)
qed

lemma create_new_ok:
  "\<exists>r w'. createSandbox_srv std_apierrors noRetry memServer (memEnv ''default'' (sb_Name sb)) memCluster
     sb None en True (startWorld (Some newPod)) = Some (Inr r, w')"
proof -
  obtain w' where "st_UpdateSandbox worldStore (Some (buildSandboxInfo (createdSb sb) ''10.0.0.9'' en))
      (placedWorld sb en (Some newPod)) = (None, w')"
    using update_new by blast
  then show ?thesis
    by (simp add: createSandbox_srv_def createSteps_def Let_def memServer_def place_new startWorld_facts
        create_new wait_new pod_new probe_new storeCacheInfo_def validateAndGetPodIP_def newPod_def
        memEnv_def [THEN arg_cong [where f = rq_now]] memCluster_def)
qed

lemma create_new_fails:
  assumes "cv_ToSandbox cl = Inr" "api_CreateSandbox cl = api_CreateSandbox memCluster"
  shows "\<exists>e. createSandbox_srv std_apierrors noRetry memServer (memEnv ''default'' (sb_Name sb)) cl
     sb None en True (startWorld None) =
     Some (Inl e, rollbackSandboxCreation std_apierrors worldStore cl sb None (en_SessionID en) (placedWorld sb en None))"
  using create_new [OF assms]
  by (simp add: createSandbox_srv_def createSteps_def Let_def memServer_def place_new startWorld_facts
      wait_new pod_new memEnv_def [THEN arg_cong [where f = rq_now]])

end

interpretation newSample: sample_creation newSandbox newEntry
  by unfold_locales simp_all

lemmas new_runs = newSample.create_new_ok [unfolded new_simps] newSample.create_new_fails [unfolded new_simps]



subsection \<open>Properties\<close>

text \<open>
  C9: A creation that succeeds leaves the sandbox or the claim in the cluster, and in the store a record
  of the session that names it, with the owner and the entry points of the answer; no object is left
  without a session.
\<close>

theorem create_success:
  assumes "create_env st db clock ok ae cl objs env pods"
    and "ok w" "safe_sid (en_SessionID entry)" "db_sessions (db w) (en_SessionID entry) = None"
    and "entryFits claim entry" "sv_store s = st" "sv_pods s = pods"
    and "watches env (sb_Namespace sandbox) (sb_Name sandbox)"
    and "createSandbox_srv ae rt s env cl sandbox claim entry registered w = Some (Inr resp, w')"
  shows "createdRef sandbox claim \<in> objs w' \<and>
     (\<exists>info. db_sessions (db w') (en_SessionID entry) = Some info \<and> refOf info = createdRef sandbox claim \<and>
        si_EntryPoints info = resp_EntryPoints resp \<and> si_OwnerID info = en_OwnerID entry) \<and>
     resp_SessionID resp = en_SessionID entry \<and> resp_OwnerID resp = en_OwnerID entry \<and>
     (no_orphans ok objs db w \<longrightarrow> no_orphans ok objs db w')"
  by (rule create_env.create_succeeds [OF assms(1-7) _ assms(9)]) (use assms(8) in \<open>unfold watches_def, blast\<close>)

theorem create_success_witness:
  "\<exists>r w'. createSandbox_srv std_apierrors noRetry memServer (memEnv ''default'' ''ci-2'') memCluster
       newSandbox None newEntry True (startWorld (Some newPod)) = Some (Inr r, w') \<and>
     SandboxRef ''default'' ''ci-2'' \<in> world_objs w' \<and> resp_OwnerID r = ''alice''"
proof -
  obtain r w' where c: "createSandbox_srv std_apierrors noRetry memServer (memEnv ''default'' ''ci-2'') memCluster
       newSandbox None newEntry True (startWorld (Some newPod)) = Some (Inr r, w')"
    using new_runs(1) by blast
  have "createdRef newSandbox None \<in> world_objs w' \<and> resp_OwnerID r = en_OwnerID newEntry"
    using create_success [OF memCreate.create_env_axioms _ _ _ _ _ _ _ c] memEnv_context(2)
    by (simp add: startWorld_facts abs_db_def entryFits_def memServer_def)
  then show ?thesis
    using c by (auto simp: createdRef_def newEntry_def)
qed



text \<open>
  The clean-up of a failed creation forgets the session even when the API server refuses to delete
  the object: the sandbox stays in the cluster and no session names it, so the garbage collector, which
  starts from the sessions, does not reach it.
\<close>

theorem rollback_orphans_object:
  "\<exists>e w'. createSandbox_srv std_apierrors noRetry memServer (memEnv ''default'' ''ci-2'')
       (memCluster\<lparr>api_DeleteSandbox := (\<lambda>ns n w. (Some (ErrStatus 503 ''ServiceUnavailable'' n), w))\<rparr>)
       newSandbox None newEntry True (startWorld None) = Some (Inl e, w') \<and>
     no_orphans (\<lambda>w. layout_ok ns_codec (w_ks w)) world_objs (\<lambda>w. abs_db ns_codec (w_ks w)) (startWorld None) \<and>
     SandboxRef ''default'' ''ci-2'' \<in> world_objs w' \<and> (\<forall>sid. sess ns_codec (w_ks w') sid = None)"
proof -
  let ?cl = "memCluster\<lparr>api_DeleteSandbox := (\<lambda>ns n w. (Some (ErrStatus 503 ''ServiceUnavailable'' n), w))\<rparr>"
  obtain e where c: "createSandbox_srv std_apierrors noRetry memServer (memEnv ''default'' ''ci-2'') ?cl
       newSandbox None newEntry True (startWorld None) =
     Some (Inl e, rollbackSandboxCreation std_apierrors worldStore ?cl newSandbox None ''s2'' (placedWorld newSandbox newEntry None))"
    using new_runs(2) [of ?cl] by (auto simp: memCluster_def)
  let ?w = "rollbackSandboxCreation std_apierrors worldStore ?cl newSandbox None ''s2'' (placedWorld newSandbox newEntry None)"
  have w: "?w = (placedWorld newSandbox newEntry None)\<lparr>w_ks := run_cmds (placedKs newSandbox newEntry) (delete_cmds ''s2'')\<rparr>"
    using json_codec.delete_reliable(1) [OF ns.goJson.json_codec_axioms newSample.place_new(2)]
    by (simp add: rollbackSandboxCreation_def deleteSandbox_def std_apierrors_def world_delete in_world_def
        placedWorld_def)
  have "sess ns_codec (run_cmds (placedKs newSandbox newEntry) (delete_cmds ''s2'')) sid = None" for sid
    using json_codec.delete_run_db [OF ns.goJson.json_codec_axioms newSample.place_new(2), of "''s2''"] newSample.place_new(4)
    by (cases "sid = ''s2''") (simp_all add: abs_db_def db_delete_def db_store_def)
  moreover have "no_orphans (\<lambda>w. layout_ok ns_codec (w_ks w)) world_objs
      (\<lambda>w. abs_db ns_codec (w_ks w)) (startWorld None)"
    by (simp add: no_orphans_def startWorld_facts)
  moreover have "SandboxRef ''default'' ''ci-2'' \<in> world_objs ?w"
    by (simp add: w) (simp add: world_objs_def placedWorld_def)
  ultimately show ?thesis
    using c w by auto
qed

text \<open>
  C28: Every creation comes to an end, whatever the cluster, the pods and the entry points do: the waits
  for readiness and for the entry points stop at their deadlines.
\<close>

theorem create_returns:
  assumes "\<And>t c cache. chooseClient d s t (ht_user req) (hs_clients hs) = (Inr c, cache) \<Longrightarrow>
      timed_env env c (sv_pods s)"
  shows "\<exists>resp hs'. handleSandboxCreate d s env others req kind hs = Some (resp, hs')"
proof -
  have ret: "createSandbox_srv ae rt s env c sandbox claim entry registered w \<noteq> None"
    if "chooseClient d s t (ht_user req) (hs_clients hs) = (Inr c, cache)"
    for t c cache ae rt sandbox claim entry registered w
    using timed_env.createSandbox_returns [OF assms [OF that] refl, of ae rt sandbox claim entry registered w]
    by auto
  show ?thesis
    by (auto simp: handleSandboxCreate_def Let_def split: sum.split option.split prod.split) (blast dest: ret)+
qed

definition memDeps :: "world handlerDeps" where
  "memDeps =
     \<lparr>hd_ae = std_apierrors, hd_rt = noRetry, hd_jl = boxJwt, hd_kl = boxKeys,
      hd_runtimes = (\<lambda>_ _. Inr sampleRuntime), hd_interpreters = (\<lambda>_ _. Inr (sampleInterpreter None)),
      hd_build = sampleEnv, hd_newClient = (\<lambda>_ _. Inr memCluster)\<rparr>"

definition memState :: "world \<Rightarrow> world handlerState" where
  "memState w =
     \<lparr>hs_reconciler = \<lparr>sr_watchers = Map.empty, sr_chans = (\<lambda>_. []), sr_next = 0, sr_sending = [],
        sr_skipped = []\<rparr>,
      hs_clients = NewClientCache 10, hs_world = w\<rparr>"

definition createRequest :: httpRequest where
  "createRequest =
     \<lparr>ht_body = Inr \<lparr>req_Kind = [], req_Name = ''py'', req_Namespace = ''default''\<rparr>,
      ht_header = (\<lambda>_. []), ht_user = None\<rparr>"

lemma memServer_client:
  "chooseClient d memServer t user cache = (Inr c, cache') \<Longrightarrow> c = memCluster"
  by (simp add: chooseClient_def memServer_def)

theorem create_returns_witness:
  "\<exists>resp hs'. handleSandboxCreate memDeps memServer (memEnv ''default'' ''py-abcdefgh'') (\<lambda>r. r) createRequest
     CodeInterpreterKind (memState (startWorld None)) = Some (resp, hs')"
proof (rule create_returns)
  fix t c cache
  assume "chooseClient memDeps memServer t (ht_user createRequest) (hs_clients (memState (startWorld None))) =
    (Inr c, cache)"
  then have "c = memCluster"
    by (rule memServer_client)
  then show "timed_env (memEnv ''default'' ''py-abcdefgh'') c (sv_pods memServer)"
    using memTimed.timed_env_axioms by (simp add: memServer_def)
qed




text \<open>
  C10: A deletion that answers 200 has removed the session and, before it, the object the session named;
  whatever the answer, a session is only forgotten once its object is gone, so no object is orphaned.
\<close>

theorem delete_removes_session:
  assumes "store_and_cluster st db clock ok ae cl objs"
    and "ok (hs_world hs)" "safe_sid sid" "hd_ae d = ae" "sv_store s = st"
    and "\<forall>t c cache. chooseClient d s t user (hs_clients hs) = (Inr c, cache) \<longrightarrow> c = cl"
    and "handleDeleteSandbox d s now user sid hs = (resp, hs')"
  shows "(resp = MessageJSON 200 ''Sandbox deleted successfully'' \<longrightarrow>
        db_sessions (db (hs_world hs')) sid = None \<and>
        (\<exists>i. db_sessions (db (hs_world hs)) sid = Some i \<and> refOf i \<notin> objs (hs_world hs'))) \<and>
     (no_orphans ok objs db (hs_world hs) \<longrightarrow> no_orphans ok objs db (hs_world hs'))"
proof -
  note e = store_and_cluster.delete_effect [OF assms]
  have "\<exists>x i. db_sessions (db (hs_world hs')) x = Some i \<and> refOf i = r"
    if n: "no_orphans ok objs db (hs_world hs)" and r: "r \<in> objs (hs_world hs')" for r
  proof -
    have "r \<in> objs (hs_world hs)"
      using e r by blast
    then obtain x i where x: "db_sessions (db (hs_world hs)) x = Some i" "refOf i = r"
      using n unfolding no_orphans_def by blast
    have "db_sessions (db (hs_world hs')) x = Some i"
      using e x r by (cases "x = sid") auto
    then show ?thesis
      using x(2) by blast
  qed
  then show ?thesis
    using e by (simp add: no_orphans_def)
qed

theorem delete_removes_session_witness:
  "\<exists>hs'. handleDeleteSandbox memDeps memServer w_now None ''s1'' (memState (sampleWorld 0)) =
       (MessageJSON 200 ''Sandbox deleted successfully'', hs') \<and>
     SandboxRef ''default'' ''ci-1'' \<notin> world_objs (hs_world hs')"
proof -
  have ref: "refOf (persisted sampleSandbox) = SandboxRef ''default'' ''ci-1''"
    by (simp add: refOf_def persisted_def sampleSandbox_def kind_defs zeroSandboxInfo_def)
  obtain hs' where h: "handleDeleteSandbox memDeps memServer w_now None ''s1'' (memState (sampleWorld 0)) =
      (MessageJSON 200 ''Sandbox deleted successfully'', hs')"
    using json_codec.get_reliable(1) [OF ns.goJson.json_codec_axioms sampleKs_facts(1), of "''s1''"]
      json_codec.delete_reliable(1) [OF ns.goJson.json_codec_axioms sampleKs_facts(1), of "''s1''"]
      sampleKs_facts(2)
    by (simp add: handleDeleteSandbox_def memServer_def memDeps_def memState_def chooseClient_def world_get
        world_delete in_world_def sampleWorld_def deleteSandbox_def memCluster_def persisted_def
        sampleSandbox_def kind_defs zeroSandboxInfo_def)
  have "\<exists>i. db_sessions (abs_db ns_codec (w_ks (hs_world (memState (sampleWorld 0))))) ''s1'' = Some i \<and>
      refOf i \<notin> world_objs (hs_world hs')"
    using delete_removes_session [OF world_sc.store_and_cluster_axioms _ _ _ _ _ h] sampleKs_facts(1)
      memServer_client
    by (simp add: memState_def sampleWorld_def memDeps_def memServer_def)
  then show ?thesis
    using h ref sampleKs_facts(2) by (auto simp: memState_def sampleWorld_def abs_db_def)
qed

end
