(* ===== verification/GoNet.thy ===== *)
theory GoNet
  imports GoJson
begin

text \<open>
  What the sources use of Go's packages \<open>net\<close>, \<open>net/url\<close>, \<open>net/textproto\<close> and \<open>net/http\<close>: the parser of
  URLs with its checks of hosts and ports, \<open>net.SplitHostPort\<close>, canonical header names and the removal of
  hop-by-hop headers by \<open>httputil.ReverseProxy\<close>.
\<close>

subsection \<open>Cutting strings\<close>

fun cutAt :: "char \<Rightarrow> string \<Rightarrow> string \<times> string option" where
  "cutAt x [] = ([], None)"
| "cutAt x (c # s) = (if c = x then ([], Some s) else (case cutAt x s of (a, b) \<Rightarrow> (c # a, b)))"

text \<open>The text before and after the last \<open>x\<close>, if there is one.\<close>

definition cutLast :: "char \<Rightarrow> string \<Rightarrow> (string \<times> string) option" where
  "cutLast x s =
     (if x \<notin> set s then None
      else Some (rev (tl (dropWhile (\<lambda>c. c \<noteq> x) (rev s))), rev (takeWhile (\<lambda>c. c \<noteq> x) (rev s))))"

fun cutDouble :: "string \<Rightarrow> (string \<times> string) option" where
  "cutDouble (a # b # s) =
     (if a = CHR '':'' \<and> b = CHR '':'' then Some ([], s)
      else map_option (\<lambda>(x, y). (a # x, y)) (cutDouble (b # s)))"
| "cutDouble s = None"

definition isLetter :: "char \<Rightarrow> bool" where
  "isLetter c \<longleftrightarrow>
     (let n = (of_char c :: nat) in 65 \<le> n \<and> n \<le> 90 \<or> 97 \<le> n \<and> n \<le> 122)"

definition isDecimal :: "char \<Rightarrow> bool" where
  "isDecimal c \<longleftrightarrow> 48 \<le> (of_char c :: nat) \<and> (of_char c :: nat) \<le> 57"

subsection \<open>\<open>url.Parse\<close>\<close>

record URL =
  u_Scheme :: string
  u_Opaque :: string
  u_Host :: string
  u_Path :: string
  u_RawQuery :: string

datatype escMode = EncHost | EncZone | EncOther

definition shouldEscapeHost :: "char \<Rightarrow> bool" where
  "shouldEscapeHost c \<longleftrightarrow>
     \<not> (isLetter c \<or> isDecimal c \<or> c \<in> set ''!$&()*+,;=:[]<>-_.~'' \<or> c = CHR 0x27 \<or> c = CHR 0x22)"

text \<open>\<open>unescape\<close>; \<open>None\<close> is an error.\<close>

fun unescape :: "escMode \<Rightarrow> string \<Rightarrow> string option" where
  "unescape m [] = Some []"
| "unescape m (c # s) =
     (if c = CHR ''%'' then
        (case s of
           h # l # rest \<Rightarrow>
             (case (hexVal h, hexVal l) of
                (Some hv, Some lv) \<Rightarrow>
                  if m = EncHost \<and> hv < 8 \<and> \<not> (h = CHR ''2'' \<and> l = CHR ''5'') then None
                  else if m = EncZone \<and> \<not> (h = CHR ''2'' \<and> l = CHR ''5'') \<and>
                    char_of (16 * hv + lv) \<noteq> CHR '' '' \<and> shouldEscapeHost (char_of (16 * hv + lv)) then None
                  else map_option (\<lambda>t. char_of (16 * hv + lv) # t) (unescape m rest)
              | _ \<Rightarrow> None)
         | _ \<Rightarrow> None)
      else if m \<noteq> EncOther \<and> (of_char c :: nat) < 128 \<and> shouldEscapeHost c then None
      else map_option (\<lambda>t. c # t) (unescape m s))"

definition validOptionalPort :: "string \<Rightarrow> bool" where
  "validOptionalPort port \<longleftrightarrow> port = [] \<or> hd port = CHR '':'' \<and> (\<forall>c \<in> set (tl port). isDecimal c)"

text \<open>The text of an IPv6 address: \<open>::\<close> stands for at least one group of zeros.\<close>

definition hexGroup :: "string \<Rightarrow> bool" where
  "hexGroup g \<longleftrightarrow> 1 \<le> length g \<and> length g \<le> 4 \<and> (\<forall>c \<in> set g. hexVal c \<noteq> None)"

definition octet :: "string \<Rightarrow> bool" where
  "octet g \<longleftrightarrow> 1 \<le> length g \<and> length g \<le> 3 \<and> (\<forall>c \<in> set g. isDecimal c) \<and>
     (length g = 1 \<or> hd g \<noteq> CHR ''0'') \<and> foldl (\<lambda>n c. 10 * n + (of_char c - 48)) 0 g \<le> (255 :: nat)"

definition dottedQuad :: "string \<Rightarrow> bool" where
  "dottedQuad s \<longleftrightarrow> length (Split s (CHR ''.'')) = 4 \<and> (\<forall>g \<in> set (Split s (CHR ''.'')). octet g)"

definition groupCount :: "bool \<Rightarrow> string \<Rightarrow> nat option" where
  "groupCount lastPart s =
     (if s = [] then Some 0
      else
        (let gs = Split s (CHR '':'') in
         if \<forall>g \<in> set gs. hexGroup g then Some (length gs)
         else if lastPart \<and> (\<forall>g \<in> set (butlast gs). hexGroup g) \<and> dottedQuad (last gs)
         then Some (length gs + 1) else None))"

definition validIPv6 :: "string \<Rightarrow> bool" where
  "validIPv6 s =
     (case cutDouble s of
        None \<Rightarrow> groupCount True s = Some 8
      | Some (l, r) \<Rightarrow>
          (case (groupCount False l, groupCount True r) of
             (Some a, Some b) \<Rightarrow> a + b \<le> 7
           | _ \<Rightarrow> False))"

text \<open>
  A host in brackets is an IPv6 address, perhaps with a zone after \<open>%25\<close>; otherwise the first colon
  begins the port.
\<close>

fun cutZone :: "string \<Rightarrow> (string \<times> string) option" where
  "cutZone [] = None"
| "cutZone (c # s) =
     (if HasPrefix (c # s) ''%25'' then Some ([], c # s)
      else map_option (\<lambda>(a, b). (c # a, b)) (cutZone s))"

definition parseHost :: "string \<Rightarrow> string option" where
  "parseHost host =
     (if CHR ''['' \<in> set (tl host) then None
      else if HasPrefix host ''['' then
        (case cutLast (CHR '']'') host of
           None \<Rightarrow> None
         | Some (inside, colonPort) \<Rightarrow>
             if \<not> validOptionalPort colonPort then None
             else
               (case cutZone inside of
                  None \<Rightarrow>
                    if validIPv6 (tl inside) then unescape EncHost host else None
                | Some (a, zone) \<Rightarrow>
                    if \<not> validIPv6 (tl a) then None
                    else
                      (case (unescape EncHost a, unescape EncZone zone,
                          unescape EncHost (CHR '']'' # colonPort)) of
                         (Some x, Some y, Some z) \<Rightarrow> Some (x @ y @ z)
                       | _ \<Rightarrow> None)))
      else
        (case cutAt (CHR '':'') host of
           (_, Some port) \<Rightarrow>
             if validOptionalPort (CHR '':'' # port) then unescape EncHost host else None
         | (_, None) \<Rightarrow> unescape EncHost host))"

definition validUserinfo :: "string \<Rightarrow> bool" where
  "validUserinfo s \<longleftrightarrow>
     (\<forall>c \<in> set s. isLetter c \<or> isDecimal c \<or> c \<in> set ''-._:~!$&()*+,;=%@'' \<or> c = CHR 0x27)"

definition parseAuthority :: "string \<Rightarrow> string option" where
  "parseAuthority authority =
     (case cutLast (CHR ''@'') authority of
        None \<Rightarrow> parseHost authority
      | Some (userinfo, host) \<Rightarrow>
          if validUserinfo userinfo \<and> unescape EncOther userinfo \<noteq> None then parseHost host else None)"

definition getScheme :: "string \<Rightarrow> (string \<times> string) option" where
  "getScheme raw =
     (let pre = takeWhile (\<lambda>c. isLetter c \<or> isDecimal c \<or> c \<in> set ''+-.'') raw;
          rest = drop (length pre) raw in
      if (pre \<noteq> [] \<and> \<not> isLetter (hd pre)) \<or> rest = [] \<or> hd rest \<noteq> CHR '':'' then Some ([], raw)
      else if pre = [] then None
      else Some (pre, tl rest))"

definition urlErr :: "string \<Rightarrow> gerr" where
  "urlErr raw = ErrMsg (''parse '' @ raw)"

definition setPath :: "string \<Rightarrow> string \<Rightarrow> string \<Rightarrow> string \<Rightarrow> string \<Rightarrow> URL res" where
  "setPath raw scheme host query rest =
     (case unescape EncOther rest of
        None \<Rightarrow> Inl (urlErr raw)
      | Some path \<Rightarrow> Inr \<lparr>u_Scheme = scheme, u_Opaque = [], u_Host = host, u_Path = path, u_RawQuery = query\<rparr>)"

definition parseURL :: "string \<Rightarrow> URL res" where
  "parseURL raw =
     (if \<exists>c \<in> set raw. (of_char c :: nat) < 32 \<or> c = CHR 0x7F then Inl (urlErr raw)
      else if raw = ''*''
      then Inr \<lparr>u_Scheme = [], u_Opaque = [], u_Host = [], u_Path = ''*'', u_RawQuery = []\<rparr>
      else
        (case getScheme raw of
           None \<Rightarrow> Inl (urlErr raw)
         | Some (scheme0, rest0) \<Rightarrow>
             (let scheme = ToLower scheme0;
                  (rest, query) = (case cutAt (CHR ''?'') rest0 of (a, b) \<Rightarrow> (a, case b of None \<Rightarrow> [] | Some q \<Rightarrow> q)) in
              if \<not> HasPrefix rest ''/'' \<and> scheme \<noteq> [] then
                Inr \<lparr>u_Scheme = scheme, u_Opaque = rest, u_Host = [], u_Path = [], u_RawQuery = query\<rparr>
              else if \<not> HasPrefix rest ''/'' \<and> CHR '':'' \<in> set (fst (cutAt (CHR ''/'') rest)) then Inl (urlErr raw)
              else if HasPrefix rest ''//'' \<and> (scheme \<noteq> [] \<or> \<not> HasPrefix rest ''///'') then
                (case cutAt (CHR ''/'') (drop 2 rest) of
                   (authority, after) \<Rightarrow>
                     (case parseAuthority authority of
                        None \<Rightarrow> Inl (urlErr raw)
                      | Some host \<Rightarrow>
                          setPath raw scheme host query (case after of None \<Rightarrow> [] | Some p \<Rightarrow> CHR ''/'' # p)))
              else setPath raw scheme [] query rest)))"

definition url_Parse :: "string \<Rightarrow> URL res" where
  "url_Parse rawURL =
     (case cutAt (CHR ''#'') rawURL of
        (u, frag) \<Rightarrow>
          (case parseURL u of
             Inl e \<Rightarrow> Inl e
           | Inr url \<Rightarrow>
               (case frag of
                  None \<Rightarrow> Inr url
                | Some f \<Rightarrow> if unescape EncOther f = None then Inl (urlErr rawURL) else Inr url)))"

subsection \<open>\<open>net.SplitHostPort\<close>\<close>

definition SplitHostPort :: "string \<Rightarrow> (string \<times> string) res" where
  "SplitHostPort hostport =
     (case cutLast (CHR '':'') hostport of
        None \<Rightarrow> Inl (ErrMsg ''missing port in address'')
      | Some (before, port) \<Rightarrow>
          if HasPrefix hostport ''['' then
            (case cutAt (CHR '']'') hostport of
               (_, None) \<Rightarrow> Inl (ErrMsg ''missing ']' in address'')
             | (inside, Some after) \<Rightarrow>
                 if after \<noteq> CHR '':'' # port then
                   Inl (ErrMsg (if HasPrefix after '':'' then ''too many colons in address''
                     else ''missing port in address''))
                 else if CHR ''['' \<in> set (tl inside) \<or> CHR ''['' \<in> set port then Inl (ErrMsg ''unexpected '[' in address'')
                 else if CHR '']'' \<in> set port then Inl (ErrMsg ''unexpected ']' in address'')
                 else Inr (tl inside, port))
          else if CHR '':'' \<in> set before then Inl (ErrMsg ''too many colons in address'')
          else if CHR ''['' \<in> set hostport then Inl (ErrMsg ''unexpected '[' in address'')
          else if CHR '']'' \<in> set hostport then Inl (ErrMsg ''unexpected ']' in address'')
          else Inr (before, port))"

subsection \<open>Headers\<close>

text \<open>The values of a header under its canonical name; none when it is absent.\<close>

type_synonym Header = "string \<Rightarrow> string list"

fun capitals :: "bool \<Rightarrow> string \<Rightarrow> string" where
  "capitals up [] = []"
| "capitals up (c # s) =
     (let n = (of_char c :: nat) in
      (if up \<and> 97 \<le> n \<and> n \<le> 122 then char_of (n - 32) else if up then c else lower_char c) #
      capitals (c = CHR ''-'') s)"

definition tokenByte :: "char \<Rightarrow> bool" where
  "tokenByte c \<longleftrightarrow> isLetter c \<or> isDecimal c \<or> c \<in> set ''!#$%&*+-.^_|~'' \<or> c = CHR 0x27 \<or> c = CHR 0x60"

definition CanonicalHeaderKey :: "string \<Rightarrow> string" where
  "CanonicalHeaderKey s = (if \<forall>c \<in> set s. tokenByte c then capitals True s else s)"

definition hdr_Get :: "Header \<Rightarrow> string \<Rightarrow> string" where
  "hdr_Get h k = (case h (CanonicalHeaderKey k) of [] \<Rightarrow> [] | v # vs \<Rightarrow> v)"

definition hdr_Set :: "string \<Rightarrow> string \<Rightarrow> Header \<Rightarrow> Header" where
  "hdr_Set k v h = h(CanonicalHeaderKey k := [v])"

definition hdr_Del :: "string \<Rightarrow> Header \<Rightarrow> Header" where
  "hdr_Del k h = h(CanonicalHeaderKey k := [])"

definition trimOWS :: "string \<Rightarrow> string" where
  "trimOWS s = rev (dropWhile (\<lambda>c. c = CHR '' '' \<or> c = CHR 0x09) (rev (dropWhile (\<lambda>c. c = CHR '' '' \<or> c = CHR 0x09) s)))"

definition headerTokens :: "string list \<Rightarrow> string list" where
  "headerTokens vs = filter (\<lambda>t. t \<noteq> []) (map trimOWS (concat (map (\<lambda>v. Split v (CHR '','')) vs)))"

definition containsToken :: "string list \<Rightarrow> string \<Rightarrow> bool" where
  "containsToken vs token \<longleftrightarrow> (\<exists>t \<in> set (headerTokens vs). EqualFold t token)"

definition hopHeaders :: "string list" where
  "hopHeaders = [''Connection'', ''Proxy-Connection'', ''Keep-Alive'', ''Proxy-Authenticate'',
     ''Proxy-Authorization'', ''Te'', ''Trailer'', ''Transfer-Encoding'', ''Upgrade'']"

definition removeHopByHopHeaders :: "Header \<Rightarrow> Header" where
  "removeHopByHopHeaders h = fold hdr_Del (headerTokens (h ''Connection'') @ hopHeaders) h"

subsection \<open>The address of a plain host\<close>

text \<open>Names and IPv4 addresses: letters, digits, dots and hyphens.\<close>

definition plainChar :: "char \<Rightarrow> bool" where
  "plainChar c \<longleftrightarrow> isLetter c \<or> isDecimal c \<or> c = CHR ''.'' \<or> c = CHR ''-''"

definition plainHost :: "string \<Rightarrow> bool" where
  "plainHost h \<longleftrightarrow> h \<noteq> [] \<and> (\<forall>c \<in> set h. plainChar c)"

lemma cutAt_none: "x \<notin> set s \<Longrightarrow> cutAt x s = (s, None)"
  by (induction s) auto

lemma cutAt_some: "x \<notin> set s \<Longrightarrow> cutAt x (s @ x # t) = (s, Some t)"
  by (induction s) auto

lemma plainChar_cases:
  assumes "plainChar c"
  shows "c \<notin> set ''%#?/:@[]''" "\<not> shouldEscapeHost c" "\<not> (of_char c :: nat) < 32" "c \<noteq> CHR 0x7F"
  using assms by (auto simp: plainChar_def shouldEscapeHost_def isLetter_def isDecimal_def Let_def)

lemma unescape_clean:
  "\<forall>c \<in> set s. c \<noteq> CHR ''%'' \<and> \<not> shouldEscapeHost c \<Longrightarrow> unescape m s = Some s"
  by (induction s) auto

lemma decimal_plain: "isDecimal c \<Longrightarrow> plainChar c" "isLetter c \<Longrightarrow> plainChar c"
  by (simp_all add: plainChar_def)

lemma isDecimal_not_colon [simp]: "\<not> isDecimal (CHR '':'')" "\<not> isLetter (CHR '':'')"
  by (simp_all add: isDecimal_def isLetter_def)

lemma parseHost_plain:
  assumes "plainHost h" "\<forall>c \<in> set p. isDecimal c"
  shows "parseHost (h @ '':'' @ p) = Some (h @ '':'' @ p)"
proof -
  have h: "\<forall>c \<in> set h. plainChar c" and p: "\<forall>c \<in> set p. plainChar c" and ne: "h \<noteq> []"
    using assms decimal_plain by (auto simp: plainHost_def)
  have "CHR ''['' \<notin> set (h @ '':'' @ p)" and colon: "CHR '':'' \<notin> set h"
    using h p plainChar_cases(1) by fastforce+
  then have "CHR ''['' \<notin> set (tl (h @ '':'' @ p))" "\<not> HasPrefix (h @ '':'' @ p) ''[''"
    using ne by (auto simp: HasPrefix_def dest: list.set_sel(2) split: list.splits) (cases h; auto)+
  moreover have "unescape EncHost (h @ '':'' @ p) = Some (h @ '':'' @ p)"
    using h p plainChar_cases(1,2) by (intro unescape_clean) (fastforce simp: shouldEscapeHost_def)
  ultimately show ?thesis
    using cutAt_some [OF colon, of p] assms(2) by (simp add: parseHost_def validOptionalPort_def)
qed

lemma getScheme_plain:
  assumes "s \<noteq> []" "\<forall>c \<in> set s. isLetter c"
  shows "getScheme (s @ '':'' @ t) = Some (s, t)"
proof -
  have "takeWhile (\<lambda>c. isLetter c \<or> isDecimal c \<or> c \<in> set ''+-.'') (s @ '':'' @ t) = s"
    using assms(2) by (subst takeWhile_append2) auto
  moreover have "isLetter (hd s)"
    using assms by simp
  ultimately show ?thesis
    using assms(1) by (simp add: getScheme_def Let_def)
qed

lemma url_Parse_plain:
  assumes "s \<noteq> []" "\<forall>c \<in> set s. isLetter c" "plainHost h" "\<forall>c \<in> set p. isDecimal c"
  shows "url_Parse (s @ ''://'' @ h @ '':'' @ p) =
     Inr \<lparr>u_Scheme = ToLower s, u_Opaque = [], u_Host = h @ '':'' @ p, u_Path = [], u_RawQuery = []\<rparr>"
proof -
  let ?a = "h @ '':'' @ p" and ?u = "s @ ''://'' @ h @ '':'' @ p"
  have all: "plainChar c \<or> c \<in> set '':/''" if "c \<in> set ?u" for c
    using that assms decimal_plain by (auto simp: plainHost_def)
  have clean: "c \<noteq> CHR ''#'' \<and> c \<noteq> CHR ''?'' \<and> c \<noteq> CHR ''@'' \<and> \<not> ((of_char c :: nat) < 32 \<or> c = CHR 0x7F)"
    if "c \<in> set ?u" for c
    using all [OF that] plainChar_cases [of c] by auto
  have "CHR ''#'' \<notin> set ?u" "CHR ''?'' \<notin> set ?u" "CHR ''@'' \<notin> set ?u"
    and ctl: "\<not> (\<exists>c \<in> set ?u. (of_char c :: nat) < 32 \<or> c = CHR 0x7F)"
    using clean by blast+
  then have cuts: "cutAt (CHR ''#'') ?u = (?u, None)" "cutAt (CHR ''?'') (''//'' @ ?a) = (''//'' @ ?a, None)"
    and at: "CHR ''@'' \<notin> set ?a"
    by (simp_all add: cutAt_none)
  have "c \<noteq> CHR ''/''" if "c \<in> set ?a" for c
    using that assms decimal_plain plainChar_cases(1) by (fastforce simp: plainHost_def)
  then have slash: "cutAt (CHR ''/'') ?a = (?a, None)"
    by (intro cutAt_none) blast
  have "getScheme ?u = Some (s, ''//'' @ ?a)"
    using getScheme_plain [OF assms(1,2), of "''//'' @ ?a"] by simp
  moreover have "?u \<noteq> ''*''"
    using assms(1) by (cases s) auto
  moreover have "parseAuthority ?a = Some ?a"
    using at parseHost_plain [OF assms(3,4)] by (simp add: parseAuthority_def cutLast_def)
  moreover have "ToLower s \<noteq> []"
    using assms(1) by (simp add: ToLower_def)
  ultimately have "parseURL ?u =
      Inr \<lparr>u_Scheme = ToLower s, u_Opaque = [], u_Host = ?a, u_Path = [], u_RawQuery = []\<rparr>"
    using ctl cuts(2) slash by (simp add: parseURL_def setPath_def HasPrefix_def)
  then show ?thesis
    using cuts(1) by (simp add: url_Parse_def)
qed

end
