(* ===== verification/Oidc.thy ===== *)
theory Oidc
  imports Tokens GoNet
begin

text \<open>
  The Router's external authentication: the validation of OIDC access tokens (\<open>pkg/router/oidc.go\<close>) and
  the middleware that applies it and enforces a role (\<open>pkg/router/auth.go\<close>).  The package
  \<open>github.com/coreos/go-oidc\<close> is a parameter: discovery of a provider, and the key set that checks the
  signature of a token and returns its payload.  Headers of a request are read by their name.
\<close>

subsection \<open>Tokens\<close>

definition clockSkewLeeway :: Duration where "clockSkewLeeway = 30 * Second"

lemmas leeway_def [go_simps] = clockSkewLeeway_def

record OIDCConfig =
  oc_IssuerURL :: string
  oc_Audience :: string
  oc_RolesClaim :: string

record Claims =
  cl_Subject :: string
  cl_Email :: string
  cl_Roles :: "string list"

type_synonym keySet = "string \<Rightarrow> string res"

record OIDCValidator =
  ov_keySet :: keySet
  ov_issuer :: string
  ov_audience :: string
  ov_rolesClaim :: string

record 'p oidcLib =
  ol_NewProvider :: "string \<Rightarrow> 'p res"
  ol_jwksURL :: "'p \<Rightarrow> string res"
  ol_NewRemoteKeySet :: "string \<Rightarrow> keySet"

definition NewOIDCValidator :: "'p oidcLib \<Rightarrow> OIDCConfig \<Rightarrow> OIDCValidator res" where
  "NewOIDCValidator ol cfg =
     (case ol_NewProvider ol (oc_IssuerURL cfg) of
        Inl e \<Rightarrow> Inl (ErrWrap (''failed to discover OIDC provider at '' @ oc_IssuerURL cfg) e)
      | Inr provider \<Rightarrow>
          (case ol_jwksURL ol provider of
             Inl e \<Rightarrow> Inl (ErrWrap ''failed to extract jwks_uri from OIDC discovery'' e)
           | Inr jwksURL \<Rightarrow>
               Inr \<lparr>ov_keySet = ol_NewRemoteKeySet ol jwksURL, ov_issuer = oc_IssuerURL cfg,
                 ov_audience = oc_Audience cfg, ov_rolesClaim = oc_RolesClaim cfg\<rparr>))"

definition strings :: "jval list \<Rightarrow> string list" where
  "strings vs = concat (map (\<lambda>v. case v of VStr s \<Rightarrow> [s] | _ \<Rightarrow> []) vs)"

fun parseAudienceClaim :: "jval option \<Rightarrow> string list" where
  "parseAudienceClaim (Some (VStr v)) = [v]"
| "parseAudienceClaim (Some (VArr vs)) = strings vs"
| "parseAudienceClaim _ = []"

text \<open>The walk along the parts of a path; of two members with one name the later counts.\<close>

fun walkClaims :: "string list \<Rightarrow> jval \<Rightarrow> jval option" where
  "walkClaims [] current = Some current"
| "walkClaims (part # parts) current =
     (case current of
        VObj m \<Rightarrow> (case map_of (rev m) part of None \<Rightarrow> None | Some v \<Rightarrow> walkClaims parts v)
      | _ \<Rightarrow> None)"

definition extractRolesFromClaims :: "claims \<Rightarrow> string \<Rightarrow> string list" where
  "extractRolesFromClaims claims path =
     (if path = [] then []
      else
        (let parts = (if map_of claims path \<noteq> None then [path] else Split path (CHR ''.'')) in
         case walkClaims parts (VObj (rev claims)) of
           Some (VArr arr) \<Rightarrow> strings arr
         | _ \<Rightarrow> []))"

definition allowedSigningAlgs :: "string set" where
  "allowedSigningAlgs = {''RS256'', ''RS384'', ''RS512'', ''ES256'', ''ES384'', ''ES512'', ''PS256'',
     ''PS384'', ''PS512'', ''EdDSA''}"

definition checkTokenAlgorithm :: "string \<Rightarrow> gerr option" where
  "checkTokenAlgorithm rawToken =
     (case SplitN rawToken (CHR ''.'') 3 of
        [header, _, _] \<Rightarrow>
          (case RawURLDecode header of
             None \<Rightarrow> Some (ErrMsg ''malformed JWT header'')
           | Some headerBytes \<Rightarrow>
               (case UnmarshalStruct headerBytes of
                  Inl e \<Rightarrow> Some (ErrWrap ''malformed JWT header JSON'' e)
                | Inr kvs \<Rightarrow>
                    (case strField ''alg'' kvs [] of
                       Inl e \<Rightarrow> Some (ErrWrap ''malformed JWT header JSON'' e)
                     | Inr alg \<Rightarrow>
                         if alg \<notin> allowedSigningAlgs
                         then Some (ErrMsg (''signing algorithm not supported: '' @ alg)) else None)))
      | parts \<Rightarrow> Some (ErrMsg (''malformed JWT: expected 3 parts, got '' @ Itoa (int (length parts)))))"

definition ValidateToken :: "OIDCValidator \<Rightarrow> Time \<Rightarrow> string \<Rightarrow> Claims res" where
  "ValidateToken v now rawToken =
     (if rawToken = [] then Inl (ErrMsg ''empty token'')
      else
        (case checkTokenAlgorithm rawToken of
           Some e \<Rightarrow> Inl e
         | None \<Rightarrow>
             (case ov_keySet v rawToken of
                Inl e \<Rightarrow> Inl (ErrWrap ''token signature verification failed'' e)
              | Inr payload \<Rightarrow>
                  (case UnmarshalMap payload of
                     None \<Rightarrow> Inl (ErrWrap ''failed to parse token claims'' jsonErr)
                   | Some allClaims \<Rightarrow>
                       (let issuer = strClaim allClaims ''iss''; subject = strClaim allClaims ''sub'';
                            email = strClaim allClaims ''email''; expiry = numClaim allClaims ''exp'';
                            notBefore = numClaim allClaims ''nbf'';
                            audiences = parseAudienceClaim (map_of allClaims ''aud'') in
                        if issuer \<noteq> ov_issuer v then Inl (ErrMsg ''invalid issuer'')
                        else if subject = [] then Inl (ErrMsg ''token missing required sub claim'')
                        else if expiry = 0 then Inl (ErrMsg ''token missing required exp claim'')
                        else if now > unixTime (int64Of expiry) + clockSkewLeeway
                        then Inl (ErrMsg ''token has expired'')
                        else if notBefore \<noteq> 0 \<and> now < unixTime (int64Of notBefore) - clockSkewLeeway
                        then Inl (ErrMsg ''token is not yet valid'')
                        else if ov_audience v \<noteq> [] \<and> ov_audience v \<notin> set audiences
                        then Inl (ErrMsg ''invalid audience'')
                        else
                          Inr \<lparr>cl_Subject = subject, cl_Email = email,
                            cl_Roles = extractRolesFromClaims allClaims (ov_rolesClaim v)\<rparr>)))))"

subsection \<open>Middleware\<close>

datatype ginResponse = GinJSON nat "(string \<times> string) list"

definition unauthorized :: "string \<Rightarrow> ginResponse" where
  "unauthorized message = GinJSON 401 [(''error'', message), (''code'', ''UNAUTHORIZED'')]"

text \<open>The claims left in the context of the request, or the response of one that is aborted.\<close>

definition oidcAuthMiddleware ::
  "OIDCValidator option \<Rightarrow> Time \<Rightarrow> (string \<Rightarrow> string) \<Rightarrow> ginResponse + Claims option" where
  "oidcAuthMiddleware oidcValidator now header =
     (case oidcValidator of
        None \<Rightarrow> Inr None
      | Some v \<Rightarrow>
          (let authHeader = header ''Authorization'' in
           if authHeader = [] then Inl (unauthorized ''missing authorization header'')
           else
             (case SplitN authHeader (CHR '' '') 2 of
                [scheme, rest] \<Rightarrow>
                  if \<not> EqualFold scheme ''Bearer'' then Inl (unauthorized ''invalid authorization header format'')
                  else
                    (let rawToken = TrimSpace rest in
                     if rawToken = [] then Inl (unauthorized ''empty bearer token'')
                     else
                       (case ValidateToken v now rawToken of
                          Inl e \<Rightarrow> Inl (unauthorized ''invalid or expired token'')
                        | Inr claims \<Rightarrow> Inr (Some claims)))
              | _ \<Rightarrow> Inl (unauthorized ''invalid authorization header format''))))"

text \<open>\<open>None\<close> lets the request through.\<close>

definition requireRole :: "string \<Rightarrow> Claims option \<Rightarrow> ginResponse option" where
  "requireRole role claims =
     (case claims of
        None \<Rightarrow> Some (unauthorized ''authentication required'')
      | Some c \<Rightarrow>
          if role \<notin> set (cl_Roles c)
          then Some (GinJSON 403 [(''error'', ''insufficient permissions: missing role '' @ role),
            (''code'', ''FORBIDDEN'')])
          else None)"

subsection \<open>What a validated token shows\<close>

definition tokenShows :: "OIDCValidator \<Rightarrow> Time \<Rightarrow> string \<Rightarrow> Claims \<Rightarrow> bool" where
  "tokenShows v now tok c \<longleftrightarrow>
     (\<exists>payload all. ov_keySet v tok = Inr payload \<and> UnmarshalMap payload = Some all \<and>
        strClaim all ''iss'' = ov_issuer v \<and> strClaim all ''sub'' = cl_Subject c \<and> cl_Subject c \<noteq> [] \<and>
        now \<le> unixTime (int64Of (numClaim all ''exp'')) + clockSkewLeeway \<and>
        (ov_audience v = [] \<or> ov_audience v \<in> set (parseAudienceClaim (map_of all ''aud''))) \<and>
        cl_Roles c = extractRolesFromClaims all (ov_rolesClaim v))"

lemma ValidateToken_shows:
  assumes "ValidateToken v now tok = Inr c"
  shows "tokenShows v now tok c \<and> checkTokenAlgorithm tok = None"
proof -
  obtain payload all where p: "checkTokenAlgorithm tok = None" "ov_keySet v tok = Inr payload"
    "UnmarshalMap payload = Some all"
    using assms by (auto simp: ValidateToken_def split: if_splits option.splits sum.splits)
  then show ?thesis
    using assms
    by (auto simp: ValidateToken_def tokenShows_def Let_def split: if_splits)
qed

text \<open>The token that a value of the authorisation header carries.\<close>

definition bearerToken :: "string \<Rightarrow> string \<Rightarrow> bool" where
  "bearerToken authHeader tok \<longleftrightarrow>
     (\<exists>scheme rest. authHeader = scheme @ '' '' @ rest \<and> CHR '' '' \<notin> set scheme \<and> EqualFold scheme ''Bearer'' \<and>
        tok = TrimSpace rest)"

lemma SplitN_two: "SplitN s sep (Suc (Suc 0)) = [a, b] \<Longrightarrow> s = a @ sep # b \<and> sep \<notin> set a"
proof (induction s arbitrary: a)
  case (Cons c s)
  then show ?case
    by (auto split: if_splits list.splits)
qed simp

lemma middleware_claims:
  assumes "oidcAuthMiddleware (Some v) now header = Inr c"
  shows "\<exists>claims tok. c = Some claims \<and> bearerToken (header ''Authorization'') tok \<and> ValidateToken v now tok = Inr claims"
proof -
  obtain scheme rest claims where "SplitN (header ''Authorization'') (CHR '' '') 2 = [scheme, rest]"
    "EqualFold scheme ''Bearer''" "ValidateToken v now (TrimSpace rest) = Inr claims" "c = Some claims"
    using assms
    by (auto simp: oidcAuthMiddleware_def Let_def split: if_splits list.splits sum.splits)
  then show ?thesis
    using SplitN_two [of "header ''Authorization''"] by (fastforce simp: bearerToken_def numeral_2_eq_2)
qed

end
