(* ===== verification/GoPath.thy ===== *)
theory GoPath
  imports Types
begin

text \<open>
  Package \<open>path/filepath\<close> on Unix: \<open>Clean\<close>, \<open>Join\<close>, \<open>Dir\<close>, \<open>Base\<close>, \<open>IsAbs\<close> and \<open>Rel\<close>.  They are
  computed on the list of the elements of a path.
\<close>

subsection \<open>Elements\<close>

definition elements :: "string \<Rightarrow> string list" where
  "elements p = filter (\<lambda>e. e \<noteq> [] \<and> e \<noteq> ''.'') (Split p (CHR ''/''))"

definition IsAbs :: "string \<Rightarrow> bool" where
  "IsAbs p \<longleftrightarrow> HasPrefix p ''/''"

text \<open>
  \<open>..\<close> removes the element before it; at the start it stays in a relative path and is dropped in a rooted
  one.  The result is kept in reverse.
\<close>

fun reduce :: "bool \<Rightarrow> string list \<Rightarrow> string list \<Rightarrow> string list" where
  "reduce rooted acc [] = rev acc"
| "reduce rooted acc (e # es) =
     (if e \<noteq> ''..'' then reduce rooted (e # acc) es
      else
        (case acc of
           [] \<Rightarrow> if rooted then reduce rooted [] es else reduce rooted [''..''] es
         | a # acc' \<Rightarrow> if a = ''..'' then reduce rooted (''..'' # acc) es else reduce rooted acc' es))"

definition cleanElements :: "string \<Rightarrow> string list" where
  "cleanElements p = reduce (IsAbs p) [] (elements p)"

text \<open>The path with the given elements.\<close>

definition pathOf :: "bool \<Rightarrow> string list \<Rightarrow> string" where
  "pathOf rooted es =
     (if rooted then ''/'' @ Join es ''/'' else if es = [] then ''.'' else Join es ''/'')"

subsection \<open>Functions of the package\<close>

definition Clean :: "string \<Rightarrow> string" where
  "Clean p = pathOf (IsAbs p) (cleanElements p)"

definition Join_path :: "string \<Rightarrow> string \<Rightarrow> string" where
  "Join_path a b =
     (if a = [] \<and> b = [] then []
      else if a = [] then Clean b else if b = [] then Clean a else Clean (a @ ''/'' @ b))"

definition Dir :: "string \<Rightarrow> string" where
  "Dir p = Clean (rev (dropWhile (\<lambda>c. c \<noteq> CHR ''/'') (rev p)))"

definition Base :: "string \<Rightarrow> string" where
  "Base p =
     (if p = [] then ''.''
      else
        (let q = rev (dropWhile (\<lambda>c. c = CHR ''/'') (rev p)) in
         if q = [] then ''/'' else rev (takeWhile (\<lambda>c. c \<noteq> CHR ''/'') (rev q))))"

fun dropCommon :: "string list \<Rightarrow> string list \<Rightarrow> string list \<times> string list" where
  "dropCommon (b # bs) (t # ts) = (if b = t then dropCommon bs ts else (b # bs, t # ts))"
| "dropCommon bs ts = (bs, ts)"

definition Rel :: "string \<Rightarrow> string \<Rightarrow> string res" where
  "Rel basepath targpath =
     (let base = Clean basepath; targ = Clean targpath in
      if targ = base then Inr ''.''
      else if IsAbs base \<noteq> IsAbs targ then Inl (ErrMsg (''Rel: can't make '' @ targpath @ '' relative to '' @ basepath))
      else
        (case dropCommon (cleanElements base) (cleanElements targ) of
           (bs, ts) \<Rightarrow>
             if bs \<noteq> [] \<and> hd bs = ''..''
             then Inl (ErrMsg (''Rel: can't make '' @ targpath @ '' relative to '' @ basepath))
             else Inr (Join (replicate (length bs) ''..'' @ ts) ''/'')))"

subsection \<open>Elements of a clean path\<close>

text \<open>An element is a name: not empty, without a slash, and not one of the two dot names.\<close>

definition isName :: "string \<Rightarrow> bool" where
  "isName e \<longleftrightarrow> e \<noteq> [] \<and> CHR ''/'' \<notin> set e \<and> e \<noteq> ''.'' \<and> e \<noteq> ''..''"

abbreviation names :: "string list \<Rightarrow> bool" where
  "names es \<equiv> (\<forall>e \<in> set es. isName e)"

lemma reduce_subset: "set (reduce r acc es) \<subseteq> insert ''..'' (set acc \<union> set es)"
proof (induction es arbitrary: acc)
  case (Cons e es)
  note ih = Cons.IH [of "e # acc"] Cons.IH [of "[]"] Cons.IH [of "[''..'']"] Cons.IH [of "''..'' # acc"]
    Cons.IH [of "tl acc"]
  show ?case
    by (cases acc) (use ih in \<open>auto simp: subset_iff\<close>)
qed auto

lemma reduce_rooted:
  assumes "names acc" "\<forall>e \<in> set es. e \<noteq> [] \<and> e \<noteq> ''.'' \<and> CHR ''/'' \<notin> set e"
  shows "names (reduce True acc es)"
  using assms
proof (induction es arbitrary: acc)
  case (Cons e es)
  have es: "\<forall>e \<in> set es. e \<noteq> [] \<and> e \<noteq> ''.'' \<and> CHR ''/'' \<notin> set e"
    using Cons.prems(2) by simp
  show ?case
  proof (cases "e = ''..''")
    case True
    show ?thesis
    proof (cases acc)
      case Nil
      have "names []"
        by simp
      from Cons.IH [OF this es] show ?thesis
        unfolding Nil True by simp
    next
      case (Cons a acc')
      then have "a \<noteq> ''..''" "names acc'"
        using Cons.prems(1) by (simp_all add: isName_def)
      then show ?thesis
        using Cons.IH [OF \<open>names acc'\<close> es] Cons True by simp
    qed
  next
    case False
    then have "names (e # acc)"
      using Cons.prems by (simp add: isName_def)
    from Cons.IH [OF this es] show ?thesis
      using False by simp
  qed
qed simp

lemma cleanElements_names: "IsAbs p \<Longrightarrow> names (cleanElements p)"
  unfolding cleanElements_def
  using reduce_rooted [of "[]" "elements p"] by (auto simp: elements_def dest: Split_no_sep)

lemma elements_pathOf:
  assumes "names es"
  shows "elements (pathOf True es) = es" "elements (pathOf False es) = es"
proof -
  have s: "\<forall>e \<in> set es. CHR ''/'' \<notin> set e" and f: "filter (\<lambda>e. e \<noteq> [] \<and> e \<noteq> ''.'') es = es"
    using assms by (auto simp: isName_def filter_id_conv)
  show "elements (pathOf True es) = es" "elements (pathOf False es) = es"
    using s f Split_Join [of es "CHR ''/''"] by (cases "es = []"; simp add: elements_def pathOf_def)+
qed

lemma reduce_names: "names es \<Longrightarrow> reduce r acc es = rev acc @ es"
  by (induction es arbitrary: acc) (auto simp: isName_def)

lemma pathOf_abs [simp]: "IsAbs (pathOf True es)"
  by (simp add: IsAbs_def pathOf_def HasPrefix_def)

lemma cleanElements_pathOf: "names es \<Longrightarrow> cleanElements (pathOf True es) = es"
  by (simp add: cleanElements_def elements_pathOf reduce_names)

lemma Clean_pathOf [simp]: "names es \<Longrightarrow> Clean (pathOf True es) = pathOf True es"
  by (simp add: Clean_def cleanElements_pathOf)

lemma Clean_abs [simp]: "IsAbs (Clean p) \<longleftrightarrow> IsAbs p"
proof (cases "IsAbs p")
  case False
  have "\<not> IsAbs (pathOf False es)" if es: "\<forall>e \<in> set es. e \<noteq> [] \<and> CHR ''/'' \<notin> set e" for es
  proof (cases es)
    case (Cons e es')
    then have "hd (pathOf False es) = hd e" "hd e \<noteq> CHR ''/''"
      using es by (cases es'; auto simp: pathOf_def dest: hd_in_set)+
    then show ?thesis
      by (cases "pathOf False es") (auto simp: IsAbs_def HasPrefix_def)
  qed (simp add: pathOf_def IsAbs_def HasPrefix_def)
  moreover have "\<forall>e \<in> set (reduce False [] (elements p)). e \<noteq> [] \<and> CHR ''/'' \<notin> set e"
    using reduce_subset [of False "[]" "elements p"] by (auto simp: elements_def dest: Split_no_sep)
  ultimately show ?thesis
    using False by (simp add: Clean_def cleanElements_def)
qed (simp add: Clean_def)

lemma pathOf_inj: "names es \<Longrightarrow> names fs \<Longrightarrow> pathOf True es = pathOf True fs \<longleftrightarrow> es = fs"
  using cleanElements_pathOf by metis

lemma Clean_rooted: "IsAbs p \<Longrightarrow> Clean p = pathOf True (cleanElements p)"
  by (simp add: Clean_def)

subsection \<open>Paths inside a directory\<close>

lemma dropCommon_prefix: "dropCommon bs ts = ([], r) \<Longrightarrow> ts = bs @ r"
  by (induction bs ts rule: dropCommon.induct) (auto split: if_splits)

lemma dropCommon_append [simp]: "dropCommon bs (bs @ r) = ([], r)"
  by (induction bs) (cases r; simp)+

text \<open>The test on the relative path that the sources use for being inside a directory.\<close>

definition escapes :: "string \<Rightarrow> bool" where
  "escapes rel \<longleftrightarrow> HasPrefix rel ''../'' \<or> rel = ''..''"

lemma Join_dots:
  assumes "n > 0"
  shows "escapes (Join (replicate n ''..'' @ ts) ''/'')"
proof -
  obtain m where "n = Suc m"
    using assms by (cases n) auto
  then show ?thesis
    by (cases "replicate m ''..'' @ ts") (auto simp: escapes_def HasPrefix_def)
qed

lemma Join_names_inside:
  assumes "names ts" "ts \<noteq> []"
  shows "\<not> escapes (Join ts ''/'')"
proof -
  obtain t ts' where ts: "ts = t # ts'"
    using assms(2) by (cases ts) auto
  have t: "t \<noteq> ''..''" "CHR ''/'' \<notin> set t" "t \<noteq> []"
    using assms(1) ts by (auto simp: isName_def)
  have "\<not> HasPrefix t ''../''" "\<not> HasPrefix (t @ ''/'' @ r) ''../''" for r
    using t by (auto simp: HasPrefix_def prefix_def append_eq_append_conv2 append_eq_Cons_conv Cons_eq_append_conv)
  moreover have "t @ ''/'' @ r \<noteq> ''..''" for r
    by (auto simp: append_eq_Cons_conv)
  ultimately show ?thesis
    using t(1) ts by (cases ts') (auto simp: escapes_def)
qed

lemma Rel_inside:
  assumes "names bs" "names ts"
  shows "(\<exists>r. Rel (pathOf True bs) (pathOf True ts) = Inr r \<and> \<not> escapes r) \<longleftrightarrow> prefix bs ts"
proof (cases "ts = bs")
  case True
  then show ?thesis
    using assms by (auto simp: Rel_def escapes_def HasPrefix_def prefix_def)
next
  case False
  obtain b t where d: "dropCommon bs ts = (b, t)"
    by (metis surj_pair)
  have sub: "set b \<subseteq> set bs" "set t \<subseteq> set ts"
    using d by (induction bs ts arbitrary: b t rule: dropCommon.induct) (auto split: if_splits)
  have "b = [] \<or> hd b \<noteq> ''..''"
    using sub(1) assms(1) hd_in_set [of b] unfolding isName_def by blast
  then have r: "Rel (pathOf True bs) (pathOf True ts) = Inr (Join (replicate (length b) ''..'' @ t) ''/'')"
    using assms False d by (simp add: Rel_def Let_def cleanElements_pathOf pathOf_inj)
  show ?thesis
  proof (cases "b = []")
    case True
    then have "ts = bs @ t" "t \<noteq> []"
      using d dropCommon_prefix False by auto
    then show ?thesis
      using r True assms(2) Join_names_inside [of t] by (auto simp: prefix_def)
  next
    case b: False
    have "\<not> prefix bs ts"
      using d b by (auto simp: prefix_def)
    then show ?thesis
      using r b Join_dots [of "length b" t] by auto
  qed
qed

end
