(* ===== verification/Mtls.thy ===== *)
theory Mtls
  imports GoPath GoJson
begin

text \<open>
  Mutual TLS between the Router and the Workload Manager, \<open>pkg/mtls\<close>: SPIFFE identities, the wait for the
  certificate files, the watcher that reloads them, and the verification of a peer.

  The loading of key pairs, the parsing and the verification of certificates (\<open>crypto/tls\<close>,
  \<open>crypto/x509\<close>) and \<open>fsnotify\<close> are parameters.  A load reads the files in some state of the file system
  \<open>'fs\<close>; certificates are \<open>'cert\<close>, pools of trusted roots \<open>'pool\<close>.
\<close>

subsection \<open>Configuration and identities\<close>

record mtlsConfig =
  mc_CertFile :: string
  mc_KeyFile :: string
  mc_CAFile :: string

definition mtlsConfigured :: "mtlsConfig \<Rightarrow> bool" where
  "mtlsConfigured cfg \<longleftrightarrow> mc_CertFile cfg \<noteq> [] \<and> mc_KeyFile cfg \<noteq> [] \<and> mc_CAFile cfg \<noteq> []"

definition configuredTrustDomain :: "(string \<Rightarrow> string) \<Rightarrow> string" where
  "configuredTrustDomain getenv =
     (let trustDomain = TrimSpace (getenv ''AGENTCUBE_SPIFFE_TRUST_DOMAIN'') in
      if trustDomain = [] then ''cluster.local'' else trustDomain)"

definition configuredNamespace :: "(string \<Rightarrow> string) \<Rightarrow> string" where
  "configuredNamespace getenv =
     (let namespace = TrimSpace (getenv ''AGENTCUBE_NAMESPACE'') in
      if namespace = [] then ''agentcube'' else namespace)"

definition componentSPIFFEID :: "string \<Rightarrow> string \<Rightarrow> string \<Rightarrow> string" where
  "componentSPIFFEID trustDomain namespace serviceAccount =
     ''spiffe://'' @ trustDomain @ ''/ns/'' @ namespace @ ''/sa/'' @ serviceAccount"

definition RouterSPIFFEID :: "(string \<Rightarrow> string) \<Rightarrow> string" where
  "RouterSPIFFEID getenv =
     componentSPIFFEID (configuredTrustDomain getenv) (configuredNamespace getenv) ''agentcube-router''"

definition WorkloadManagerSPIFFEID :: "(string \<Rightarrow> string) \<Rightarrow> string" where
  "WorkloadManagerSPIFFEID getenv =
     componentSPIFFEID (configuredTrustDomain getenv) (configuredNamespace getenv) ''workloadmanager''"

subsection \<open>Waiting for the files\<close>

record 'w fileEnv =
  fe_now :: "'w \<Rightarrow> Time"
  fe_Stat :: "string \<Rightarrow> 'w \<Rightarrow> gerr option"
  fe_IsNotExist :: "gerr \<Rightarrow> bool"
  fe_Sleep :: "Duration \<Rightarrow> 'w \<Rightarrow> 'w"

definition DefaultCertificateFileWaitTimeout :: Duration where
  "DefaultCertificateFileWaitTimeout = 30 * Second"

fun statFiles :: "'w fileEnv \<Rightarrow> 'w \<Rightarrow> string list \<Rightarrow> string list \<Rightarrow> string list res" where
  "statFiles env w [] missing = Inr missing"
| "statFiles env w (path # paths) missing =
     (case fe_Stat env path w of
        None \<Rightarrow> statFiles env w paths missing
      | Some e \<Rightarrow>
          if fe_IsNotExist env e then statFiles env w paths (missing @ [path])
          else Inl (ErrWrap (''stat '' @ path) e))"

definition certificateFilesStatus :: "'w fileEnv \<Rightarrow> mtlsConfig \<Rightarrow> 'w \<Rightarrow> (bool \<times> string list) res" where
  "certificateFilesStatus env cfg w =
     (case statFiles env w [mc_CertFile cfg, mc_KeyFile cfg, mc_CAFile cfg] [] of
        Inl e \<Rightarrow> Inl e
      | Inr missing \<Rightarrow> Inr (missing = [], missing))"

partial_function (option) waitLoop ::
  "'w fileEnv \<Rightarrow> mtlsConfig \<Rightarrow> Time \<Rightarrow> 'w \<Rightarrow> (gerr option \<times> 'w) option" where
  "waitLoop env cfg deadline w =
     (case certificateFilesStatus env cfg w of
        Inl e \<Rightarrow> Some (Some (ErrWrap ''failed to access mTLS cert/key/CA files'' e), w)
      | Inr (exist, missing) \<Rightarrow>
          if exist then Some (None, w)
          else if fe_now env w > deadline then
            Some (Some (ErrMsg (''timed out waiting for mTLS cert/key/CA files: missing '' @
              Join missing '', '')), w)
          else waitLoop env cfg deadline (fe_Sleep env (500 * Millisecond) w))"

definition WaitForCertificateFiles ::
  "'w fileEnv \<Rightarrow> mtlsConfig \<Rightarrow> Duration \<Rightarrow> 'w \<Rightarrow> (gerr option \<times> 'w) option" where
  "WaitForCertificateFiles env cfg timeout w =
     (if \<not> mtlsConfigured cfg
      then Some (Some (ErrMsg ''mTLS requires cert, key, and CA file paths to be provided''), w)
      else waitLoop env cfg (fe_now env w + timeout) w)"

subsection \<open>The watcher\<close>

record ('fs, 'cert, 'pool) tlsLib =
  tl_LoadX509KeyPair :: "string \<Rightarrow> string \<Rightarrow> 'fs \<Rightarrow> 'cert res"
  tl_ReadFile :: "string \<Rightarrow> 'fs \<Rightarrow> string res"
  tl_AppendCertsFromPEM :: "string \<Rightarrow> 'pool option"
  tl_NewWatcher :: "gerr option"
  tl_AddWatch :: "string \<Rightarrow> gerr option"

record ('cert, 'pool) CertWatcher =
  cw_certFile :: string
  cw_keyFile :: string
  cw_caFile :: string
  cw_cert :: "'cert option"
  cw_caPool :: "'pool option"
  cw_stopped :: bool

definition loadCertificate :: "('fs, 'cert, 'pool) tlsLib \<Rightarrow> ('cert, 'pool) CertWatcher \<Rightarrow> 'fs \<Rightarrow> 'cert res" where
  "loadCertificate lib cw fs = tl_LoadX509KeyPair lib (cw_certFile cw) (cw_keyFile cw) fs"

definition loadCAPool :: "('fs, 'cert, 'pool) tlsLib \<Rightarrow> ('cert, 'pool) CertWatcher \<Rightarrow> 'fs \<Rightarrow> 'pool res" where
  "loadCAPool lib cw fs =
     (case tl_ReadFile lib (cw_caFile cw) fs of
        Inl e \<Rightarrow> Inl (ErrWrap (''read CA file '' @ cw_caFile cw) e)
      | Inr caCert \<Rightarrow>
          (case tl_AppendCertsFromPEM lib caCert of
             None \<Rightarrow> Inl (ErrMsg (''no valid CA certificates found in '' @ cw_caFile cw))
           | Some caPool \<Rightarrow> Inr caPool))"

definition reload :: "('fs, 'cert, 'pool) tlsLib \<Rightarrow> 'fs \<Rightarrow> ('cert, 'pool) CertWatcher \<Rightarrow>
   gerr option \<times> ('cert, 'pool) CertWatcher" where
  "reload lib fs cw =
     (case loadCertificate lib cw fs of
        Inl e \<Rightarrow> (Some e, cw)
      | Inr cert \<Rightarrow> (None, cw\<lparr>cw_cert := Some cert\<rparr>))"

definition reloadCA :: "('fs, 'cert, 'pool) tlsLib \<Rightarrow> 'fs \<Rightarrow> ('cert, 'pool) CertWatcher \<Rightarrow>
   gerr option \<times> ('cert, 'pool) CertWatcher" where
  "reloadCA lib fs cw =
     (case loadCAPool lib cw fs of
        Inl e \<Rightarrow> (Some e, cw)
      | Inr caPool \<Rightarrow> (None, cw\<lparr>cw_caPool := Some caPool\<rparr>))"

text \<open>The certificate is read in the file system \<open>fs1\<close>, the bundle then in \<open>fs2\<close>.\<close>

definition reloadAll :: "('fs, 'cert, 'pool) tlsLib \<Rightarrow> 'fs \<Rightarrow> 'fs \<Rightarrow> ('cert, 'pool) CertWatcher \<Rightarrow>
   ('cert, 'pool) CertWatcher" where
  "reloadAll lib fs1 fs2 cw =
     (case loadCertificate lib cw fs1 of
        Inl e \<Rightarrow> cw
      | Inr cert \<Rightarrow>
          if cw_caFile cw = [] then cw\<lparr>cw_cert := Some cert, cw_caPool := None\<rparr>
          else
            (case loadCAPool lib cw fs2 of
               Inl e \<Rightarrow> cw
             | Inr caPool \<Rightarrow> cw\<lparr>cw_cert := Some cert, cw_caPool := Some caPool\<rparr>))"

definition NewCertWatcher :: "('fs, 'cert, 'pool) tlsLib \<Rightarrow> 'fs \<Rightarrow> 'fs \<Rightarrow> string \<Rightarrow> string \<Rightarrow> string \<Rightarrow>
   ('cert, 'pool) CertWatcher res" where
  "NewCertWatcher lib fs1 fs2 certFile keyFile caFile =
     (let cw = \<lparr>cw_certFile = certFile, cw_keyFile = keyFile, cw_caFile = caFile, cw_cert = None,
            cw_caPool = None, cw_stopped = False\<rparr> in
      case reload lib fs1 cw of
        (Some e, _) \<Rightarrow> Inl (ErrWrap ''initial cert load'' e)
      | (None, cw1) \<Rightarrow>
          (case (if caFile \<noteq> [] then reloadCA lib fs2 cw1 else (None, cw1)) of
             (Some e, _) \<Rightarrow> Inl (ErrWrap ''initial CA load'' e)
           | (None, cw2) \<Rightarrow>
               (case tl_NewWatcher lib of
                  Some e \<Rightarrow> Inl (ErrWrap ''create file watcher'' e)
                | None \<Rightarrow>
                    (let watchDirs = remdups ([Dir certFile, Dir keyFile] @ (if caFile \<noteq> [] then [Dir caFile] else [])) in
                     case filter (\<lambda>d. tl_AddWatch lib d \<noteq> None) watchDirs of
                       [] \<Rightarrow> Inr cw2
                     | dir # _ \<Rightarrow>
                         Inl (ErrWrap (''watch certificate directory '' @ dir) (the (tl_AddWatch lib dir)))))))"

definition GetCertificate :: "('cert, 'pool) CertWatcher \<Rightarrow> 'cert option" where
  "GetCertificate cw = cw_cert cw"

definition GetClientCertificate :: "('cert, 'pool) CertWatcher \<Rightarrow> 'cert option" where
  "GetClientCertificate cw = cw_cert cw"

definition GetCAPool :: "('cert, 'pool) CertWatcher \<Rightarrow> 'pool option" where
  "GetCAPool cw = cw_caPool cw"

definition Stop :: "('cert, 'pool) CertWatcher \<Rightarrow> ('cert, 'pool) CertWatcher" where
  "Stop cw = cw\<lparr>cw_stopped := True\<rparr>"

text \<open>
  One turn of \<open>watchLoop\<close>.  A file event names whether it has one of the five operations; the timer
  fires only when it was started, and the files are then read in the two states it carries.
\<close>

datatype 'fs watchEvent =
    FileEvent bool
  | WatchError
  | DebounceFires 'fs 'fs
  | LoopEnds

record ('cert, 'pool) loopState =
  ls_watcher :: "('cert, 'pool) CertWatcher"
  ls_debounce :: bool
  ls_running :: bool

fun watchLoop :: "('fs, 'cert, 'pool) tlsLib \<Rightarrow> 'fs watchEvent \<Rightarrow> ('cert, 'pool) loopState \<Rightarrow>
   ('cert, 'pool) loopState" where
  "watchLoop lib (FileEvent has) st =
     (if ls_running st \<and> has then st\<lparr>ls_debounce := True\<rparr> else st)"
| "watchLoop lib WatchError st = st"
| "watchLoop lib (DebounceFires fs1 fs2) st =
     (if ls_running st \<and> ls_debounce st
      then st\<lparr>ls_debounce := False, ls_watcher := reloadAll lib fs1 fs2 (ls_watcher st)\<rparr> else st)"
| "watchLoop lib LoopEnds st = st\<lparr>ls_running := False\<rparr>"

definition startLoop :: "('cert, 'pool) CertWatcher \<Rightarrow> ('cert, 'pool) loopState" where
  "startLoop cw = \<lparr>ls_watcher = cw, ls_debounce = False, ls_running = True\<rparr>"

subsection \<open>Verification of a peer\<close>

record x509Cert =
  xc_Raw :: string
  xc_URIs :: "string list"

record 'pool x509Lib =
  xl_ParseCertificate :: "string \<Rightarrow> x509Cert res"
  xl_Verify :: "'pool \<Rightarrow> x509Cert list \<Rightarrow> string \<Rightarrow> x509Cert \<Rightarrow> gerr option"

fun parseIntermediates :: "'pool x509Lib \<Rightarrow> string \<Rightarrow> nat \<Rightarrow> string list \<Rightarrow> x509Cert list res" where
  "parseIntermediates xl side i [] = Inr []"
| "parseIntermediates xl side i (raw # raws) =
     (case xl_ParseCertificate xl raw of
        Inl e \<Rightarrow> Inl (ErrWrap (''parse '' @ side @ '' intermediate certificate '' @ Itoa (int i)) e)
      | Inr ic \<Rightarrow>
          (case parseIntermediates xl side (Suc i) raws of Inl e \<Rightarrow> Inl e | Inr ics \<Rightarrow> Inr (ic # ics)))"

definition requireCAPool :: "('cert, 'pool) CertWatcher \<Rightarrow> 'pool res" where
  "requireCAPool watcher =
     (case GetCAPool watcher of
        None \<Rightarrow> Inl (ErrMsg ''CA pool is required for mTLS verification'')
      | Some caPool \<Rightarrow> Inr caPool)"

definition verifyClientCert :: "'pool x509Lib \<Rightarrow> ('cert, 'pool) CertWatcher \<Rightarrow> string list \<Rightarrow> gerr option" where
  "verifyClientCert xl watcher rawCerts =
     (case rawCerts of
        [] \<Rightarrow> Some (ErrMsg ''no client certificate presented'')
      | raw # rest \<Rightarrow>
          (case xl_ParseCertificate xl raw of
             Inl e \<Rightarrow> Some (ErrWrap ''parse client certificate'' e)
           | Inr peerCert \<Rightarrow>
               (case parseIntermediates xl ''client'' 1 rest of
                  Inl e \<Rightarrow> Some e
                | Inr intermediates \<Rightarrow>
                    (case requireCAPool watcher of
                       Inl e \<Rightarrow> Some (ErrWrap ''verify client certificate chain'' e)
                     | Inr caPool \<Rightarrow>
                         (case xl_Verify xl caPool intermediates ''ClientAuth'' peerCert of
                            Some e \<Rightarrow> Some (ErrWrap ''verify client certificate chain'' e)
                          | None \<Rightarrow> None)))))"

definition verifyServerCert ::
  "'pool x509Lib \<Rightarrow> ('cert, 'pool) CertWatcher \<Rightarrow> string \<Rightarrow> string list \<Rightarrow> gerr option" where
  "verifyServerCert xl watcher expectedID rawCerts =
     (case rawCerts of
        [] \<Rightarrow> Some (ErrMsg ''no server certificate presented'')
      | raw # rest \<Rightarrow>
          (case xl_ParseCertificate xl raw of
             Inl e \<Rightarrow> Some (ErrWrap ''parse server certificate'' e)
           | Inr peerCert \<Rightarrow>
               (case parseIntermediates xl ''server'' 1 rest of
                  Inl e \<Rightarrow> Some e
                | Inr intermediates \<Rightarrow>
                    (case requireCAPool watcher of
                       Inl e \<Rightarrow> Some (ErrWrap ''verify server certificate chain'' e)
                     | Inr caPool \<Rightarrow>
                         (case xl_Verify xl caPool intermediates ''ServerAuth'' peerCert of
                            Some e \<Rightarrow> Some (ErrWrap ''verify server certificate chain'' e)
                          | None \<Rightarrow>
                              if expectedID \<in> set (xc_URIs peerCert) then None
                              else Some (ErrMsg (''server certificate SPIFFE ID does not match expected '' @
                                expectedID)))))))"

text \<open>The fields of \<open>tls.Config\<close> that are set; the check of a peer is applied to the watcher as it is then.\<close>

record ('cert, 'pool) tlsConfig =
  tc_ClientAuth :: string
  tc_MinVersion :: nat
  tc_InsecureSkipVerify :: bool
  tc_VerifyPeerCertificate :: "('cert, 'pool) CertWatcher \<Rightarrow> string list \<Rightarrow> gerr option"

definition LoadServerConfig ::
  "('fs, 'cert, 'pool) tlsLib \<Rightarrow> 'pool x509Lib \<Rightarrow> 'fs \<Rightarrow> 'fs \<Rightarrow> mtlsConfig option \<Rightarrow>
   (('cert, 'pool) tlsConfig \<times> ('cert, 'pool) CertWatcher) res" where
  "LoadServerConfig lib xl fs1 fs2 cfg =
     (case cfg of
        None \<Rightarrow> Inl (ErrMsg ''server TLS config: mtls.Config is nil'')
      | Some c \<Rightarrow>
          if mc_CAFile c = [] then Inl (ErrMsg ''server TLS config: CAFile is required for mTLS verification'')
          else
            (case NewCertWatcher lib fs1 fs2 (mc_CertFile c) (mc_KeyFile c) (mc_CAFile c) of
               Inl e \<Rightarrow> Inl (ErrWrap ''server TLS cert watcher'' e)
             | Inr watcher \<Rightarrow>
                 Inr (\<lparr>tc_ClientAuth = ''RequireAnyClientCert'', tc_MinVersion = 0x0304,
                    tc_InsecureSkipVerify = False, tc_VerifyPeerCertificate = verifyClientCert xl\<rparr>, watcher)))"

definition LoadClientConfig ::
  "('fs, 'cert, 'pool) tlsLib \<Rightarrow> 'pool x509Lib \<Rightarrow> 'fs \<Rightarrow> 'fs \<Rightarrow> mtlsConfig option \<Rightarrow> string \<Rightarrow>
   (('cert, 'pool) tlsConfig \<times> ('cert, 'pool) CertWatcher) res" where
  "LoadClientConfig lib xl fs1 fs2 cfg expectedServerID =
     (if expectedServerID = []
      then Inl (ErrMsg ''client TLS config: expectedServerID is required for SPIFFE verification'')
      else
        (case cfg of
           None \<Rightarrow> Inl (ErrMsg ''client TLS config: mtls.Config is nil'')
         | Some c \<Rightarrow>
             if mc_CAFile c = [] then Inl (ErrMsg ''client TLS config: CAFile is required for mTLS verification'')
             else
               (case NewCertWatcher lib fs1 fs2 (mc_CertFile c) (mc_KeyFile c) (mc_CAFile c) of
                  Inl e \<Rightarrow> Inl (ErrWrap ''client TLS cert watcher'' e)
                | Inr watcher \<Rightarrow>
                    Inr (\<lparr>tc_ClientAuth = [], tc_MinVersion = 0x0304, tc_InsecureSkipVerify = True,
                       tc_VerifyPeerCertificate = (\<lambda>w. verifyServerCert xl w expectedServerID)\<rparr>, watcher))))"

subsection \<open>What the watcher holds\<close>

definition sameFiles :: "('cert, 'pool) CertWatcher \<Rightarrow> ('cert, 'pool) CertWatcher \<Rightarrow> bool" where
  "sameFiles cw cw' \<longleftrightarrow> cw_certFile cw' = cw_certFile cw \<and> cw_keyFile cw' = cw_keyFile cw \<and> cw_caFile cw' = cw_caFile cw"

text \<open>The certificate and the roots come from one reload.\<close>

definition loadedFrom :: "('fs, 'cert, 'pool) tlsLib \<Rightarrow> ('fs \<times> 'fs) set \<Rightarrow> ('cert, 'pool) CertWatcher \<Rightarrow> bool" where
  "loadedFrom lib S cw \<longleftrightarrow>
     (\<exists>(g1, g2) \<in> S. \<exists>c p. loadCertificate lib cw g1 = Inr c \<and> loadCAPool lib cw g2 = Inr p \<and>
        cw_cert cw = Some c \<and> cw_caPool cw = Some p)"

lemma load_sameFiles:
  assumes "sameFiles cw cw'"
  shows "loadCertificate lib cw' fs = loadCertificate lib cw fs" "loadCAPool lib cw' fs = loadCAPool lib cw fs"
  using assms by (auto simp: sameFiles_def loadCertificate_def loadCAPool_def split: sum.split option.split)

lemma NewCertWatcher_loaded:
  assumes "NewCertWatcher lib f1 f2 certFile keyFile caFile = Inr cw" "caFile \<noteq> []"
  shows "loadedFrom lib {(f1, f2)} cw" "cw_caFile cw = caFile" "cw_certFile cw = certFile" "cw_keyFile cw = keyFile"
proof -
  let ?cw = "\<lparr>cw_certFile = certFile, cw_keyFile = keyFile, cw_caFile = caFile, cw_cert = None,
      cw_caPool = None, cw_stopped = False\<rparr>"
  obtain c p where "loadCertificate lib ?cw f1 = Inr c" "loadCAPool lib (?cw\<lparr>cw_cert := Some c\<rparr>) f2 = Inr p"
    "cw = ?cw\<lparr>cw_cert := Some c, cw_caPool := Some p\<rparr>"
    using assms
    by (auto simp: NewCertWatcher_def reload_def reloadCA_def Let_def
        split: sum.splits option.splits list.splits if_splits)
  then show "loadedFrom lib {(f1, f2)} cw" "cw_caFile cw = caFile" "cw_certFile cw = certFile" "cw_keyFile cw = keyFile"
    by (auto simp: loadedFrom_def loadCertificate_def loadCAPool_def split: sum.splits option.splits)
qed

lemma reloadAll_loaded:
  assumes "cw_caFile cw \<noteq> []" "loadedFrom lib S cw"
  shows "loadedFrom lib (insert (g1, g2) S) (reloadAll lib g1 g2 cw)" "sameFiles cw (reloadAll lib g1 g2 cw)"
  using assms
  by (auto simp: reloadAll_def loadedFrom_def sameFiles_def loadCertificate_def loadCAPool_def
      split: sum.splits option.splits)

lemma loadedFrom_mono: "loadedFrom lib S cw \<Longrightarrow> S \<subseteq> T \<Longrightarrow> loadedFrom lib T cw"
  unfolding loadedFrom_def by blast

definition reloads :: "'fs watchEvent list \<Rightarrow> ('fs \<times> 'fs) set" where
  "reloads evs = {(g1, g2). DebounceFires g1 g2 \<in> set evs}"

lemma watch_run_loaded:
  assumes "loadedFrom lib S (ls_watcher st)" "cw_caFile (ls_watcher st) \<noteq> []"
  shows "loadedFrom lib (S \<union> reloads evs) (ls_watcher (fold (watchLoop lib) evs st)) \<and>
     sameFiles (ls_watcher st) (ls_watcher (fold (watchLoop lib) evs st))"
  using assms
proof (induction evs arbitrary: st S)
  case (Cons ev evs)
  let ?st = "watchLoop lib ev st"
  have step: "loadedFrom lib (S \<union> reloads [ev]) (ls_watcher ?st) \<and> sameFiles (ls_watcher st) (ls_watcher ?st)"
  proof (cases ev)
    case (DebounceFires g1 g2)
    then show ?thesis
      using reloadAll_loaded [OF Cons.prems(2,1), of g1 g2] loadedFrom_mono [OF Cons.prems(1), of "insert (g1, g2) S"]
      by (auto simp: reloads_def sameFiles_def)
  qed (use Cons.prems in \<open>auto simp: reloads_def sameFiles_def\<close>)
  have "S \<union> reloads (ev # evs) = S \<union> reloads [ev] \<union> reloads evs"
    by (auto simp: reloads_def)
  then show ?case
    using Cons.IH [of "S \<union> reloads [ev]" ?st] step Cons.prems(2) by (auto simp: sameFiles_def)
qed (simp add: reloads_def sameFiles_def)

lemma debounce_stays:
  assumes "ls_running st" "ls_debounce st" "\<forall>ev \<in> set evs. ev = WatchError \<or> (\<exists>h. ev = FileEvent h)"
  shows "ls_running (fold (watchLoop lib) evs st) \<and> ls_debounce (fold (watchLoop lib) evs st) \<and>
     ls_watcher (fold (watchLoop lib) evs st) = ls_watcher st"
  using assms by (induction evs arbitrary: st) auto

lemma waitLoop_returns:
  assumes "\<And>w. fe_now env w + 500 * Millisecond \<le> fe_now env (fe_Sleep env (500 * Millisecond) w)"
  shows "\<exists>y. waitLoop env cfg deadline w = Some y"
proof (induction "nat (deadline - fe_now env w + 1)" arbitrary: w rule: less_induct)
  case less
  let ?w = "fe_Sleep env (500 * Millisecond) w"
  show ?case
  proof (cases "certificateFilesStatus env cfg w")
    case (Inl e)
    then show ?thesis
      by (simp add: waitLoop.simps)
  next
    case (Inr r)
    show ?thesis
    proof (cases "fst r \<or> fe_now env w > deadline")
      case True
      then show ?thesis
        using Inr by (cases r) (auto simp: waitLoop.simps)
    next
      case False
      then have "nat (deadline - fe_now env ?w + 1) < nat (deadline - fe_now env w + 1)"
        using assms [of w] by (simp add: go_simps)
      from less.hyps [OF this] show ?thesis
        using Inr False by (cases r) (auto simp: waitLoop.simps [of env cfg deadline w])
    qed
  qed
qed

subsection \<open>Properties\<close>

text \<open>
  C25: However the certificate files change, the certificate a component presents and the roots it trusts
  come from one reload in which both could be read: a half written or unreadable pair is never taken, and
  the roots are never lost.
\<close>

theorem cert_watcher_consistent:
  assumes "NewCertWatcher lib f1 f2 certFile keyFile caFile = Inr cw" and "caFile \<noteq> []"
  shows "\<exists>(g1, g2) \<in> insert (f1, f2) (reloads evs). \<exists>c p.
     loadCertificate lib cw g1 = Inr c \<and> loadCAPool lib cw g2 = Inr p \<and>
     GetClientCertificate (ls_watcher (fold (watchLoop lib) evs (startLoop cw))) = Some c \<and>
     requireCAPool (ls_watcher (fold (watchLoop lib) evs (startLoop cw))) = Inr p"
proof -
  let ?cw = "ls_watcher (fold (watchLoop lib) evs (startLoop cw))"
  have "loadedFrom lib ({(f1, f2)} \<union> reloads evs) ?cw \<and> sameFiles cw ?cw"
    using watch_run_loaded [of lib "{(f1, f2)}" "startLoop cw" evs] NewCertWatcher_loaded [OF assms] assms(2)
    by (simp add: startLoop_def)
  then show ?thesis
    using load_sameFiles [of cw ?cw lib]
    by (auto simp: loadedFrom_def GetClientCertificate_def requireCAPool_def GetCAPool_def)
qed

text \<open>
  A rotation is picked up.  Once a change of a watched file was seen, the timer is running, and when
  it fires with files that can be loaded, the new certificate and the new roots are in use.
\<close>

theorem cert_rotation_live:
  assumes "ls_running st" and "cw_caFile (ls_watcher st) \<noteq> []"
    and "\<forall>ev \<in> set evs. ev = WatchError \<or> (\<exists>h. ev = FileEvent h)"
    and "loadCertificate lib (ls_watcher st) g1 = Inr c" and "loadCAPool lib (ls_watcher st) g2 = Inr p"
    and "st' = fold (watchLoop lib) (FileEvent True # evs @ [DebounceFires g1 g2]) st"
  shows "GetCertificate (ls_watcher st') = Some c \<and> GetCAPool (ls_watcher st') = Some p"
  using debounce_stays [of "watchLoop lib (FileEvent True) st" evs lib] assms
  by (simp add: reloadAll_def GetCertificate_def GetCAPool_def)

text \<open>
  C24: The Router talks only to the Workload Manager.  The check its client configuration installs accepts
  a chain of certificates exactly when every certificate parses, the first one verifies for server
  authentication against the roots trusted at that moment, and it carries the expected SPIFFE identity.
\<close>

theorem server_identity_verified:
  assumes "LoadClientConfig lib xl f1 f2 (Some cfg) expectedID = Inr (tls, cw)"
  shows "tc_VerifyPeerCertificate tls w raws = None \<longleftrightarrow>
     (\<exists>raw rest peer ics pool. raws = raw # rest \<and> xl_ParseCertificate xl raw = Inr peer \<and>
        parseIntermediates xl ''server'' 1 rest = Inr ics \<and> GetCAPool w = Some pool \<and>
        xl_Verify xl pool ics ''ServerAuth'' peer = None \<and> expectedID \<in> set (xc_URIs peer))"
proof -
  have "tc_VerifyPeerCertificate tls w raws = verifyServerCert xl w expectedID raws"
    using assms by (auto simp: LoadClientConfig_def split: if_splits sum.splits)
  then show ?thesis
    by (auto simp: verifyServerCert_def requireCAPool_def split: list.splits sum.splits option.splits if_splits)
qed

text \<open>
  The wait for the certificate files at start-up comes to an end, with or without the files.
\<close>

theorem certificate_wait_returns:
  assumes "\<And>w. fe_now env w + 500 * Millisecond \<le> fe_now env (fe_Sleep env (500 * Millisecond) w)"
  shows "\<exists>err w'. WaitForCertificateFiles env cfg timeout w = Some (err, w')"
  using waitLoop_returns [OF assms, of cfg "fe_now env w + timeout" w] by (auto simp: WaitForCertificateFiles_def)

subsection \<open>Witnesses\<close>

text \<open>Files as a map of their texts; a key pair loads when both files are there.\<close>

definition mapTls :: "(string \<rightharpoonup> string, string \<times> string, string) tlsLib" where
  "mapTls =
     \<lparr>tl_LoadX509KeyPair = (\<lambda>c k fs. case (fs c, fs k) of (Some a, Some b) \<Rightarrow> Inr (a, b) | _ \<Rightarrow> Inl (ErrMsg ''missing'')),
      tl_ReadFile = (\<lambda>f fs. case fs f of Some a \<Rightarrow> Inr a | None \<Rightarrow> Inl (ErrMsg ''missing'')),
      tl_AppendCertsFromPEM = (\<lambda>t. if t = [] then None else Some t), tl_NewWatcher = None,
      tl_AddWatch = (\<lambda>_. None)\<rparr>"

definition textX509 :: "string x509Lib" where
  "textX509 =
     \<lparr>xl_ParseCertificate = (\<lambda>r. Inr \<lparr>xc_Raw = r, xc_URIs = [r]\<rparr>),
      xl_Verify = (\<lambda>pool ics usage c. if pool = ''root'' then None else Some (ErrMsg ''unknown authority''))\<rparr>"

definition certFiles :: "string \<Rightarrow> (string \<rightharpoonup> string)" where
  "certFiles v = [''/tls/crt'' \<mapsto> v, ''/tls/key'' \<mapsto> ''k'', ''/tls/ca'' \<mapsto> ''root'']"

definition certConfig :: mtlsConfig where
  "certConfig = \<lparr>mc_CertFile = ''/tls/crt'', mc_KeyFile = ''/tls/key'', mc_CAFile = ''/tls/ca''\<rparr>"

lemma map_watcher:
  "\<exists>cw. NewCertWatcher mapTls (certFiles ''a'') (certFiles ''a'') ''/tls/crt'' ''/tls/key'' ''/tls/ca'' = Inr cw"
  by (simp add: NewCertWatcher_def reload_def reloadCA_def loadCertificate_def loadCAPool_def mapTls_def
      certFiles_def Let_def)

theorem cert_watcher_consistent_witness:
  "\<exists>cw. NewCertWatcher mapTls (certFiles ''a'') (certFiles ''a'') ''/tls/crt'' ''/tls/key'' ''/tls/ca'' = Inr cw \<and>
     requireCAPool (ls_watcher (fold (watchLoop mapTls)
       [FileEvent True, DebounceFires Map.empty (certFiles ''b'')] (startLoop cw))) = Inr ''root''"
proof -
  obtain cw where cw: "NewCertWatcher mapTls (certFiles ''a'') (certFiles ''a'') ''/tls/crt'' ''/tls/key'' ''/tls/ca'' = Inr cw"
    using map_watcher by blast
  have pool: "p = ''root''" if "loadCAPool mapTls cw (certFiles v) = Inr p" for p v
    using that NewCertWatcher_loaded(2) [OF cw] by (simp add: loadCAPool_def mapTls_def certFiles_def)
  show ?thesis
    using cert_watcher_consistent [OF cw, of "[FileEvent True, DebounceFires Map.empty (certFiles ''b'')]"] cw pool
    by (auto simp: reloads_def)
qed

theorem cert_rotation_live_witness:
  "\<exists>cw. NewCertWatcher mapTls (certFiles ''a'') (certFiles ''a'') ''/tls/crt'' ''/tls/key'' ''/tls/ca'' = Inr cw \<and>
     GetCertificate (ls_watcher (fold (watchLoop mapTls)
       (FileEvent True # [WatchError] @ [DebounceFires (certFiles ''b'') (certFiles ''b'')]) (startLoop cw))) =
       Some (''b'', ''k'')"
proof -
  obtain cw where cw: "NewCertWatcher mapTls (certFiles ''a'') (certFiles ''a'') ''/tls/crt'' ''/tls/key'' ''/tls/ca'' = Inr cw"
    using map_watcher by blast
  note files = NewCertWatcher_loaded [OF cw]
  have "GetCertificate (ls_watcher (fold (watchLoop mapTls)
       (FileEvent True # [WatchError] @ [DebounceFires (certFiles ''b'') (certFiles ''b'')]) (startLoop cw))) =
       Some (''b'', ''k'')"
    by (rule conjunct1 [OF cert_rotation_live [where c = "(''b'', ''k'')" and p = "''root''", OF _ _ _ _ _ refl]])
      (use files in \<open>simp_all add: startLoop_def loadCertificate_def loadCAPool_def mapTls_def certFiles_def\<close>)
  then show ?thesis
    using cw by blast
qed

theorem server_identity_verified_witness:
  "\<exists>tls cw. LoadClientConfig mapTls textX509 (certFiles ''a'') (certFiles ''a'') (Some certConfig)
       (WorkloadManagerSPIFFEID (\<lambda>_. [])) = Inr (tls, cw) \<and>
     tc_VerifyPeerCertificate tls cw [''spiffe://cluster.local/ns/agentcube/sa/workloadmanager''] = None \<and>
     tc_VerifyPeerCertificate tls cw [''spiffe://cluster.local/ns/agentcube/sa/agentcube-router''] \<noteq> None"
proof -
  obtain cw where cw: "NewCertWatcher mapTls (certFiles ''a'') (certFiles ''a'') ''/tls/crt'' ''/tls/key'' ''/tls/ca'' = Inr cw"
    using map_watcher by blast
  have id: "WorkloadManagerSPIFFEID (\<lambda>_. []) = ''spiffe://cluster.local/ns/agentcube/sa/workloadmanager''"
    by (simp add: WorkloadManagerSPIFFEID_def componentSPIFFEID_def configuredTrustDomain_def
        configuredNamespace_def TrimSpace_def Let_def)
  obtain tls where l: "LoadClientConfig mapTls textX509 (certFiles ''a'') (certFiles ''a'') (Some certConfig)
      (WorkloadManagerSPIFFEID (\<lambda>_. [])) = Inr (tls, cw)"
    using cw by (simp add: LoadClientConfig_def certConfig_def id)
  have "GetCAPool cw = Some ''root''"
    using NewCertWatcher_loaded [OF cw]
    by (auto simp: loadedFrom_def GetCAPool_def loadCAPool_def mapTls_def certFiles_def)
  then show ?thesis
    using server_identity_verified [OF l, of cw "[''spiffe://cluster.local/ns/agentcube/sa/workloadmanager'']"]
      server_identity_verified [OF l, of cw "[''spiffe://cluster.local/ns/agentcube/sa/agentcube-router'']"] l
    by (simp add: id textX509_def)
qed

definition clockEnv :: "Time fileEnv" where
  "clockEnv = \<lparr>fe_now = (\<lambda>w. w), fe_Stat = (\<lambda>_ _. Some (ErrMsg ''no such file'')), fe_IsNotExist = (\<lambda>_. True),
     fe_Sleep = (\<lambda>d w. w + d)\<rparr>"

theorem certificate_wait_returns_witness:
  "\<exists>err w'. WaitForCertificateFiles clockEnv certConfig DefaultCertificateFileWaitTimeout 0 = Some (err, w')"
  by (rule certificate_wait_returns) (simp add: clockEnv_def)

end
