(* ===== verification/Router.thy ===== *)
theory Router
  imports Oidc Mtls K8s
begin

text \<open>
  The Router: its configuration and server (\<open>pkg/router/config.go\<close>, \<open>server.go\<close>), the session manager
  (\<open>session_manager.go\<close>) and the handlers that check ownership and forward a request to a sandbox
  (\<open>handlers.go\<close>).

  A handler acts on the state of the world \<open>'w\<close>.  The record \<open>routerEnv\<close> holds what the code reaches
  through the network and the clock: dialling, the HTTP client of the Workload Manager, the round trip
  to a sandbox.
\<close>

subsection \<open>Configuration\<close>

record routerConfig =
  rc_Port :: string
  rc_Debug :: bool
  rc_EnableTLS :: bool
  rc_TLSCert :: string
  rc_TLSKey :: string
  rc_MaxConcurrentRequests :: int
  rc_InitialConnectRetryCount :: int
  rc_InitialConnectRetryInterval :: Duration
  rc_MTLSConfig :: mtlsConfig
  rc_JWTIssuerURL :: string
  rc_JWTAudience :: string
  rc_JWTRoleClaim :: string
  rc_JWTRequiredRole :: string

definition configDefaults :: "routerConfig \<Rightarrow> routerConfig" where
  "configDefaults config =
     config\<lparr>
       rc_MaxConcurrentRequests := (if rc_MaxConcurrentRequests config \<le> 0 then 1000
         else rc_MaxConcurrentRequests config),
       rc_InitialConnectRetryCount := (if rc_InitialConnectRetryCount config < 0 then 0
         else rc_InitialConnectRetryCount config),
       rc_InitialConnectRetryInterval := (if rc_InitialConnectRetryInterval config \<le> 0 then 200 * Millisecond
         else rc_InitialConnectRetryInterval config)\<rparr>"

subsection \<open>The environment\<close>

record wmRequest =
  wr_URL :: string
  wr_Header :: Header
  wr_Body :: string

record httpReply =
  hr_Status :: nat
  hr_Body :: "string res"

record proxyRequest =
  px_Scheme :: string
  px_URLHost :: string
  px_Path :: string
  px_RawQuery :: string
  px_Host :: string
  px_Header :: Header
  px_Body :: string

record upstreamResponse =
  ur_Status :: nat
  ur_Header :: Header
  ur_Body :: string

record 'w routerEnv =
  re_now :: "'w \<Rightarrow> Time"
  re_dial :: "string \<Rightarrow> Duration \<Rightarrow> 'w \<Rightarrow> gerr option \<times> 'w"
  re_pause :: "Duration \<Rightarrow> 'w \<Rightarrow> gerr option \<times> 'w"
  re_post :: "wmRequest \<Rightarrow> 'w \<Rightarrow> httpReply res \<times> 'w"
  re_roundTrip :: "proxyRequest \<Rightarrow> 'w \<Rightarrow> upstreamResponse res \<times> 'w"
  re_saToken :: "'w \<Rightarrow> string res"

subsection \<open>The session manager\<close>

record 'w manager =
  mg_storeClient :: "'w Store"
  mg_workloadMgrAddr :: string
  mg_jwtManager :: "JWTManager option"
  mg_closeMTLS :: bool

text \<open>
  \<open>loaded\<close> is the result of loading the client configuration of mTLS, \<open>http2\<close> the error of configuring
  HTTP/2 on the transport.
\<close>

definition NewSessionManager ::
  "'w Store \<Rightarrow> (string \<Rightarrow> string) \<Rightarrow> mtlsConfig option \<Rightarrow> unit res \<Rightarrow> gerr option \<Rightarrow> JWTManager option \<Rightarrow>
   'w manager res" where
  "NewSessionManager storeClient getenv mtlsCfg loaded http2 jwtMgr =
     (let addr = getenv ''WORKLOAD_MANAGER_URL''; configured = (\<exists>c. mtlsCfg = Some c \<and> mtlsConfigured c) in
      if addr = [] then Inl (ErrMsg ''WORKLOAD_MANAGER_URL environment variable is not set'')
      else
        (let workloadMgrAddr = (if configured \<and> \<not> HasPrefix addr ''https://''
             then ''https://'' @ TrimPrefix addr ''http://'' else addr) in
         case (if configured then loaded else Inr ()) of
           Inl e \<Rightarrow> Inl (ErrWrap ''failed to load mTLS client config for WorkloadManager'' e)
         | Inr _ \<Rightarrow>
             (case http2 of
                Some e \<Rightarrow> Inl (ErrWrap ''failed to configure HTTP/2 transport'' e)
              | None \<Rightarrow>
                  Inr \<lparr>mg_storeClient = storeClient, mg_workloadMgrAddr = workloadMgrAddr,
                    mg_jwtManager = jwtMgr, mg_closeMTLS = configured\<rparr>)))"

definition loadWorkloadManagerAuthToken :: "string res \<Rightarrow> string" where
  "loadWorkloadManagerAuthToken file = (case file of Inl e \<Rightarrow> [] | Inr b \<Rightarrow> TrimSpace b)"

definition identityClaims :: "Claims \<Rightarrow> claims" where
  "identityClaims claims =
     [(''sub'', VStr (cl_Subject claims)), (''aud'', VStr ''workloadmanager'')] @
     (if cl_Email claims \<noteq> [] then [(''email'', VStr (cl_Email claims))] else [])"

definition setIdentityHeader ::
  "jwtLib \<Rightarrow> JWTManager option \<Rightarrow> Time \<Rightarrow> Claims option \<Rightarrow> Header \<Rightarrow> Header" where
  "setIdentityHeader jl jwtManager now oidcClaims header =
     (case (jwtManager, oidcClaims) of
        (Some jm, Some claims) \<Rightarrow>
          (case GenerateToken jl jm now (identityClaims claims) of
             Inl e \<Rightarrow> header
           | Inr identityToken \<Rightarrow> hdr_Set ''X-AgentCube-User-Identity'' identityToken header)
      | _ \<Rightarrow> header)"

text \<open>The body of the request and of the response.\<close>

definition createRequestText :: "CreateSandboxRequest \<Rightarrow> string" where
  "createRequestText r =
     jsonText (JObj [(''kind'', JStr (req_Kind r)), (''name'', JStr (req_Name r)),
       (''namespace'', JStr (req_Namespace r))])"

definition rbind :: "'a res \<Rightarrow> ('a \<Rightarrow> 'b res) \<Rightarrow> 'b res" where
  "rbind r f = (case r of Inl e \<Rightarrow> Inl e | Inr x \<Rightarrow> f x)"

fun entryPointOfJson :: "jval \<Rightarrow> SandboxEntryPoint res" where
  "entryPointOfJson (VObj kvs) =
     rbind (strField ''path'' kvs []) (\<lambda>p. rbind (strField ''protocol'' kvs []) (\<lambda>pr.
       rbind (strField ''endpoint'' kvs []) (\<lambda>e. Inr \<lparr>ep_Path = p, ep_Protocol = pr, ep_Endpoint = e\<rparr>)))"
| "entryPointOfJson VNull = Inr \<lparr>ep_Path = [], ep_Protocol = [], ep_Endpoint = []\<rparr>"
| "entryPointOfJson _ = Inl typeErr"

fun entryPointsOfJson :: "jval list \<Rightarrow> SandboxEntryPoint list res" where
  "entryPointsOfJson [] = Inr []"
| "entryPointsOfJson (v # vs) =
     rbind (entryPointOfJson v) (\<lambda>e. rbind (entryPointsOfJson vs) (\<lambda>es. Inr (e # es)))"

fun entryPointsField :: "(string \<times> jval) list \<Rightarrow> SandboxEntryPoint list \<Rightarrow> SandboxEntryPoint list res" where
  "entryPointsField [] cur = Inr cur"
| "entryPointsField ((k, v) # kvs) cur =
     (if \<not> EqualFold k ''entryPoints'' then entryPointsField kvs cur
      else
        (case v of
           VArr vs \<Rightarrow> rbind (entryPointsOfJson vs) (\<lambda>es. entryPointsField kvs es)
         | VNull \<Rightarrow> entryPointsField kvs []
         | _ \<Rightarrow> Inl typeErr))"

definition createResponseOf :: "string \<Rightarrow> CreateSandboxResponse res" where
  "createResponseOf text =
     rbind (UnmarshalStruct text) (\<lambda>kvs.
       rbind (strField ''kind'' kvs []) (\<lambda>kind. rbind (strField ''sessionId'' kvs []) (\<lambda>sid.
         rbind (strField ''sandboxId'' kvs []) (\<lambda>sbid. rbind (strField ''sandboxName'' kvs []) (\<lambda>name.
           rbind (entryPointsField kvs []) (\<lambda>eps. rbind (strField ''ownerId'' kvs []) (\<lambda>owner.
             Inr \<lparr>resp_Kind = kind, resp_SessionID = sid, resp_SandboxID = sbid, resp_SandboxName = name,
               resp_EntryPoints = eps, resp_OwnerID = owner\<rparr>)))))))"

definition createSandbox_rt ::
  "apierrors \<Rightarrow> jwtLib \<Rightarrow> 'w routerEnv \<Rightarrow> 'w manager \<Rightarrow> Claims option \<Rightarrow> string \<Rightarrow> string \<Rightarrow> string \<Rightarrow> 'w \<Rightarrow>
   SandboxInfo res \<times> 'w" where
  "createSandbox_rt ae jl env m claims namespace name kind w =
     (case (if kind = AgentRuntimeKind then Some (mg_workloadMgrAddr m @ ''/v1/agent-runtime'')
         else if kind = CodeInterpreterKind then Some (mg_workloadMgrAddr m @ ''/v1/code-interpreter'')
         else None) of
        None \<Rightarrow> (Inl (ErrMsg (''unsupported kind: '' @ kind)), w)
      | Some endpoint \<Rightarrow>
          (case url_Parse endpoint of
             Inl e \<Rightarrow> (Inl (ErrWrap ''failed to create HTTP request'' e), w)
           | Inr _ \<Rightarrow>
               (let body = createRequestText \<lparr>req_Kind = kind, req_Name = name, req_Namespace = namespace\<rparr>;
                    h0 = hdr_Set ''Content-Type'' ''application/json'' (\<lambda>_. []);
                    token = loadWorkloadManagerAuthToken (re_saToken env w);
                    h1 = (if token \<noteq> [] then hdr_Set ''Authorization'' (''Bearer '' @ token) h0 else h0);
                    h2 = setIdentityHeader jl (mg_jwtManager m) (re_now env w) claims h1 in
                case re_post env \<lparr>wr_URL = endpoint, wr_Header = h2, wr_Body = body\<rparr> w of
                  (Inl e, w1) \<Rightarrow> (Inl (NewInternalError ae (ErrWrap ''failed calling workload manager'' e)), w1)
                | (Inr resp, w1) \<Rightarrow>
                    (case hr_Body resp of
                       Inl e \<Rightarrow> (Inl (ErrWrap ''failed to read response body'' e), w1)
                     | Inr respBody \<Rightarrow>
                         if hr_Status resp \<noteq> 200 then
                           (if hr_Status resp = 404 \<or> (hr_Status resp = 400 \<and> Contains respBody ''not found'')
                            then (Inl (NewSandboxTemplateNotFoundError ae namespace name kind), w1)
                            else (Inl (NewInternalError ae (ErrMsg (''workload manager returned status '' @
                              Itoa (int (hr_Status resp))))), w1))
                         else
                           (case createResponseOf respBody of
                              Inl e \<Rightarrow> (Inl (NewInternalError ae (ErrWrap ''failed to unmarshal response'' e)), w1)
                            | Inr res \<Rightarrow>
                                if resp_SessionID res = [] then
                                  (Inl (NewInternalError ae (ErrMsg
                                    ''response with empty session id from workload manager'')), w1)
                                else
                                  (Inr (zeroSandboxInfo
                                    \<lparr>si_Kind := resp_Kind res, si_SandboxNamespace := namespace,
                                     si_SandboxID := resp_SandboxID res, si_Name := resp_SandboxName res,
                                     si_SessionID := resp_SessionID res, si_OwnerID := resp_OwnerID res,
                                     si_EntryPoints := resp_EntryPoints res\<rparr>), w1))))))"

definition GetSandboxBySession ::
  "apierrors \<Rightarrow> jwtLib \<Rightarrow> 'w routerEnv \<Rightarrow> 'w manager \<Rightarrow> Claims option \<Rightarrow> string \<Rightarrow> string \<Rightarrow> string \<Rightarrow> string \<Rightarrow>
   'w \<Rightarrow> SandboxInfo res \<times> 'w" where
  "GetSandboxBySession ae jl env m claims sessionID namespace name kind w =
     (if sessionID = [] then createSandbox_rt ae jl env m claims namespace name kind w
      else
        (case st_GetSandboxBySessionID (mg_storeClient m) sessionID w of
           (Inl e, w1) \<Rightarrow>
             (if errors_Is e StoreErrNotFound then (Inl (NewSessionNotFoundError ae sessionID), w1)
              else (Inl (ErrWrap ''failed to get sandbox from store'' e), w1))
         | (Inr sandbox, w1) \<Rightarrow> (Inr sandbox, w1)))"

subsection \<open>The server\<close>

record 'w routerServer =
  rs_config :: routerConfig
  rs_sessionManager :: "'w manager"
  rs_storeClient :: "'w Store"
  rs_jwtManager :: "JWTManager option"
  rs_oidcValidator :: "OIDCValidator option"

text \<open>What \<open>NewServer\<close> takes from outside: keys, the cluster, the environment and the OIDC provider.\<close>

record ('w, 'p) serverDeps =
  sd_ae :: apierrors
  sd_kl :: keyLib
  sd_generated :: "privKey res"
  sd_clientset :: "'w secretApi res option"
  sd_identityNamespace :: string
  sd_store :: "'w Store"
  sd_getenv :: "string \<Rightarrow> string"
  sd_loadedMTLS :: "unit res"
  sd_http2 :: "gerr option"
  sd_oidc :: "'p oidcLib"

definition NewServer_router ::
  "('w, 'p) serverDeps \<Rightarrow> routerConfig option \<Rightarrow> 'w \<Rightarrow> 'w routerServer res \<times> 'w" where
  "NewServer_router d config w =
     (case config of
        None \<Rightarrow> (Inl (ErrMsg ''config cannot be nil''), w)
      | Some c \<Rightarrow>
          (let cfg = configDefaults c in
           case NewJWTManager (sd_kl d) (sd_generated d) of
             Inl e \<Rightarrow> (Inl (ErrWrap ''failed to create JWT manager'' e), w)
           | Inr jm \<Rightarrow>
               (case TryStoreOrLoadJWTKeySecret (sd_ae d) (sd_kl d) (sd_clientset d) (sd_identityNamespace d) jm w of
                  (Some e, _, w1) \<Rightarrow> (Inl (ErrWrap ''failed to store/load JWT key secret'' e), w1)
                | (None, jm', w1) \<Rightarrow>
                    (case NewSessionManager (sd_store d) (sd_getenv d) (Some (rc_MTLSConfig cfg))
                        (sd_loadedMTLS d) (sd_http2 d) (Some jm') of
                       Inl e \<Rightarrow> (Inl (ErrWrap ''failed to create session manager'' e), w1)
                     | Inr m \<Rightarrow>
                         (let server = \<lparr>rs_config = cfg, rs_sessionManager = m, rs_storeClient = sd_store d,
                            rs_jwtManager = Some jm', rs_oidcValidator = None\<rparr> in
                          if rc_JWTIssuerURL cfg = [] then (Inr server, w1)
                          else if rc_JWTRoleClaim cfg = []
                          then (Inl (ErrMsg ''--jwt-role-claim is required when --jwt-issuer-url is set''), w1)
                          else if rc_JWTRequiredRole cfg = []
                          then (Inl (ErrMsg ''--jwt-required-role is required when --jwt-issuer-url is set''), w1)
                          else
                            (case NewOIDCValidator (sd_oidc d) \<lparr>oc_IssuerURL = rc_JWTIssuerURL cfg,
                                oc_Audience = rc_JWTAudience cfg, oc_RolesClaim = rc_JWTRoleClaim cfg\<rparr> of
                               Inl e \<Rightarrow> (Inl (ErrWrap ''failed to initialize OIDC validator'' e), w1)
                             | Inr validator \<Rightarrow> (Inr (server\<lparr>rs_oidcValidator := Some validator\<rparr>), w1)))))))"

text \<open>The semaphore: a buffered channel and the number of its elements.\<close>

definition concurrencyLimitMiddleware :: "routerConfig \<Rightarrow> nat \<Rightarrow> ginResponse option \<times> nat" where
  "concurrencyLimitMiddleware config inflight =
     (if int inflight < rc_MaxConcurrentRequests config then (None, Suc inflight)
      else (Some (GinJSON 429 [(''error'', ''server overloaded, please try again later''),
        (''code'', ''SERVER_OVERLOADED'')]), inflight))"

definition releaseSlot :: "nat \<Rightarrow> nat" where
  "releaseSlot inflight = inflight - 1"

subsection \<open>Health\<close>

definition handleHealthLive :: ginResponse where
  "handleHealthLive = GinJSON 200 [(''status'', ''alive'')]"

definition handleHealthReady :: "'w manager option \<Rightarrow> ginResponse" where
  "handleHealthReady sessionManager =
     (case sessionManager of
        None \<Rightarrow> GinJSON 503 [(''status'', ''not ready''), (''error'', ''session manager not available'')]
      | Some _ \<Rightarrow> GinJSON 200 [(''status'', ''ready'')])"

subsection \<open>Ownership and errors\<close>

text \<open>\<open>None\<close> when the caller may use the sandbox.\<close>

definition checkSandboxOwnership ::
  "OIDCValidator option \<Rightarrow> Claims option \<Rightarrow> SandboxInfo \<Rightarrow> ginResponse option" where
  "checkSandboxOwnership oidcValidator claims sandbox =
     (case (oidcValidator, claims) of
        (Some _, Some c) \<Rightarrow>
          if ''admin'' \<in> set (cl_Roles c) then None
          else if si_OwnerID sandbox = []
          then Some (GinJSON 403 [(''error'', ''sandbox has no owner record''), (''code'', ''FORBIDDEN'')])
          else if si_OwnerID sandbox \<noteq> cl_Subject c
          then Some (GinJSON 403 [(''error'', ''you do not own this sandbox''), (''code'', ''FORBIDDEN'')])
          else None
      | _ \<Rightarrow> None)"

definition handleGetSandboxError :: "gerr \<Rightarrow> ginResponse" where
  "handleGetSandboxError e =
     (case e of
        ErrStatus statusCode reason statusMessage \<Rightarrow>
          (let code = (if statusCode \<noteq> 0 then nat statusCode else 500);
               message = (if statusMessage = [] then Error e else statusMessage);
               message' = (if code = 500 then ''internal server error'' else message) in
           GinJSON code [(''error'', message')])
      | _ \<Rightarrow> GinJSON 500 [(''error'', ''internal server error'')])"

subsection \<open>The target of a request\<close>

definition buildURL :: "string \<Rightarrow> string \<Rightarrow> URL res" where
  "buildURL protocol endpoint =
     (let endpoint' = (if protocol \<noteq> [] \<and> \<not> Contains endpoint ''://''
          then ToLower protocol @ ''://'' @ endpoint else endpoint) in
      case url_Parse endpoint' of
        Inl e \<Rightarrow> Inl (ErrWrap (''invalid upstream endpoint '' @ endpoint') e)
      | Inr parsedURL \<Rightarrow>
          if u_Host parsedURL = []
          then Inl (ErrMsg (''invalid upstream endpoint '' @ endpoint' @ '': missing host''))
          else Inr parsedURL)"

definition determineUpstreamURL :: "SandboxInfo \<Rightarrow> string \<Rightarrow> URL res" where
  "determineUpstreamURL sandbox path =
     (case find (\<lambda>ep. HasPrefix path (ep_Path ep)) (si_EntryPoints sandbox) of
        Some ep \<Rightarrow> buildURL (ep_Protocol ep) (ep_Endpoint ep)
      | None \<Rightarrow>
          (case si_EntryPoints sandbox of
             [] \<Rightarrow> Inl (ErrMsg ''no entry point found for sandbox'')
           | ep # _ \<Rightarrow> buildURL (ep_Protocol ep) (ep_Endpoint ep)))"

definition connectionRefusedRetryable :: "gerr \<Rightarrow> bool" where
  "connectionRefusedRetryable e \<longleftrightarrow> Contains (ToLower (Error e)) ''connection refused''"

definition preflightTargetAddress :: "URL \<Rightarrow> string" where
  "preflightTargetAddress targetURL =
     (if u_Host targetURL = [] then []
      else
        (case SplitHostPort (u_Host targetURL) of
           Inr _ \<Rightarrow> u_Host targetURL
         | Inl _ \<Rightarrow>
             JoinHostPort (u_Host targetURL) (if ToLower (u_Scheme targetURL) = ''https'' then ''443'' else ''80'')))"

text \<open>The attempts that are left, of which the last is number 0.\<close>

fun preflightLoop :: "'w routerEnv \<Rightarrow> string \<Rightarrow> Duration \<Rightarrow> nat \<Rightarrow> 'w \<Rightarrow> gerr option \<times> 'w" where
  "preflightLoop env address retryInterval left w =
     (case re_dial env address retryInterval w of
        (None, w1) \<Rightarrow> (None, w1)
      | (Some e, w1) \<Rightarrow>
          if \<not> connectionRefusedRetryable e \<or> left = 0
          then (Some (ErrWrap ''sandbox preflight connect failed'' e), w1)
          else
            (case re_pause env retryInterval w1 of
               (Some ctxErr, w2) \<Rightarrow> (Some ctxErr, w2)
             | (None, w2) \<Rightarrow> preflightLoop env address retryInterval (left - 1) w2))"

declare preflightLoop.simps [simp del]

definition waitForUpstreamReachable ::
  "'w routerEnv \<Rightarrow> routerConfig \<Rightarrow> URL \<Rightarrow> 'w \<Rightarrow> gerr option \<times> 'w" where
  "waitForUpstreamReachable env config targetURL w =
     (let address = preflightTargetAddress targetURL;
          retryCount = rc_InitialConnectRetryCount config;
          retryInterval = (if rc_InitialConnectRetryInterval config > 0
            then rc_InitialConnectRetryInterval config else 200 * Millisecond) in
      if address = [] \<or> retryCount < 0 then (None, w)
      else preflightLoop env address retryInterval (nat retryCount) w)"

definition upstreamUnavailableResponse :: "gerr \<Rightarrow> ginResponse" where
  "upstreamUnavailableResponse e =
     (let errText = ToLower (Error e) in
      if connectionRefusedRetryable e then GinJSON 502 [(''error'', ''sandbox unreachable'')]
      else if Contains errText ''deadline exceeded'' \<or> Contains errText ''timeout''
      then GinJSON 504 [(''error'', ''sandbox timeout'')]
      else GinJSON 503 [(''error'', ''sandbox unreachable'')])"

definition resolveSandboxTarget ::
  "'w routerEnv \<Rightarrow> routerConfig \<Rightarrow> SandboxInfo \<Rightarrow> string \<Rightarrow> 'w \<Rightarrow> (ginResponse + URL) \<times> 'w" where
  "resolveSandboxTarget env config sandbox path w =
     (case determineUpstreamURL sandbox path of
        Inl e \<Rightarrow> (Inl (GinJSON 404 [(''error'', Error e)]), w)
      | Inr targetURL \<Rightarrow>
          (case waitForUpstreamReachable env config targetURL w of
             (Some e, w1) \<Rightarrow> (Inl (upstreamUnavailableResponse e), w1)
           | (None, w1) \<Rightarrow> (Inr targetURL, w1)))"

subsection \<open>The forwarded request\<close>

record routerRequest =
  rr_Header :: Header
  rr_Host :: string
  rr_TLS :: bool
  rr_RemoteAddr :: string
  rr_ClientIP :: string
  rr_RawQuery :: string
  rr_Body :: string

definition sandboxClaims :: "SandboxInfo \<Rightarrow> Claims option \<Rightarrow> claims" where
  "sandboxClaims sandbox oidcClaims =
     (''session_id'', VStr (si_SessionID sandbox)) #
     (case oidcClaims of
        None \<Rightarrow> []
      | Some c \<Rightarrow>
          (''user_sub'', VStr (cl_Subject c)) #
          (if cl_Email c \<noteq> [] then [(''user_email'', VStr (cl_Email c))] else []))"

text \<open>The token, empty when none is made, or the response of a failure.\<close>

definition generateSandboxJWT ::
  "jwtLib \<Rightarrow> JWTManager option \<Rightarrow> Time \<Rightarrow> Claims option \<Rightarrow> SandboxInfo \<Rightarrow> ginResponse + string" where
  "generateSandboxJWT jl jwtManager now oidcClaims sandbox =
     (if si_Kind sandbox \<noteq> SandboxClaimsKind \<and> si_Kind sandbox \<noteq> SandboxKind then Inr []
      else
        (case jwtManager of
           None \<Rightarrow> Inr []
         | Some jm \<Rightarrow>
             (case GenerateToken jl jm now (sandboxClaims sandbox oidcClaims) of
                Inl e \<Rightarrow> Inl (GinJSON 500 [(''error'', ''failed to sign request''), (''code'', ''JWT_SIGNING_FAILED'')])
              | Inr token \<Rightarrow> Inr token)))"

definition normalizedProxyPath :: "string \<Rightarrow> string" where
  "normalizedProxyPath path = (if path \<noteq> [] \<and> \<not> HasPrefix path ''/'' then ''/'' @ path else path)"

definition forwardedClientIP :: "Header \<Rightarrow> string \<Rightarrow> string" where
  "forwardedClientIP header clientIP =
     (case header ''X-Forwarded-For'' of
        [] \<Rightarrow> clientIP
      | prior \<Rightarrow> Join prior '', '' @ '', '' @ clientIP)"

text \<open>The director: that of \<open>NewSingleHostReverseProxy\<close> and then the settings of the Router.\<close>

definition configureProxyDirector ::
  "routerRequest \<Rightarrow> URL \<Rightarrow> string \<Rightarrow> string \<Rightarrow> proxyRequest" where
  "configureProxyDirector req targetURL path jwtToken =
     (let h0 = rr_Header req;
          h1 = hdr_Set ''X-Forwarded-Host'' (rr_Host req) h0;
          h2 = hdr_Set ''X-Forwarded-Proto'' (if rr_TLS req then ''https'' else ''http'') h1;
          h3 = hdr_Set ''X-Forwarded-For'' (forwardedClientIP h2 (rr_ClientIP req)) h2;
          h4 = (if jwtToken \<noteq> [] then hdr_Set ''Authorization'' (''Bearer '' @ jwtToken) h3 else h3) in
      \<lparr>px_Scheme = u_Scheme targetURL, px_URLHost = u_Host targetURL, px_Path = normalizedProxyPath path,
       px_RawQuery = (if u_RawQuery targetURL = [] \<or> rr_RawQuery req = []
         then u_RawQuery targetURL @ rr_RawQuery req
         else u_RawQuery targetURL @ ''&'' @ rr_RawQuery req),
       px_Host = u_Host targetURL, px_Header = h4, px_Body = rr_Body req\<rparr>)"

text \<open>
  What \<open>ReverseProxy.ServeHTTP\<close> does to the request after the director: hop-by-hop headers are removed,
  an upgrade and trailers are kept, and the client address is appended to \<open>X-Forwarded-For\<close>.
\<close>

definition upgradeType :: "Header \<Rightarrow> string" where
  "upgradeType h = (if containsToken (h ''Connection'') ''Upgrade'' then hdr_Get h ''Upgrade'' else [])"

definition isPrint :: "string \<Rightarrow> bool" where
  "isPrint s \<longleftrightarrow> (\<forall>c \<in> set s. 32 \<le> (of_char c :: nat) \<and> (of_char c :: nat) \<le> 126)"

definition outgoing :: "routerRequest \<Rightarrow> proxyRequest \<Rightarrow> proxyRequest" where
  "outgoing req px =
     (let up = upgradeType (px_Header px);
          h0 = removeHopByHopHeaders (px_Header px);
          h1 = (if containsToken (rr_Header req ''Te'') ''trailers'' then hdr_Set ''Te'' ''trailers'' h0 else h0);
          h2 = (if up \<noteq> [] then hdr_Set ''Upgrade'' up (hdr_Set ''Connection'' ''Upgrade'' h1) else h1);
          h3 = (case SplitHostPort (rr_RemoteAddr req) of
              Inl _ \<Rightarrow> h2
            | Inr (clientIP, _) \<Rightarrow> hdr_Set ''X-Forwarded-For'' (forwardedClientIP h2 clientIP) h2);
          h4 = (if h3 ''User-Agent'' = [] then h3(''User-Agent'' := [[]]) else h3) in
      px\<lparr>px_Header := h4\<rparr>)"

datatype routerResult = Answered ginResponse | Proxied upstreamResponse

definition configureProxyErrorHandler :: "gerr \<Rightarrow> routerResult" where
  "configureProxyErrorHandler e = Answered (upstreamUnavailableResponse e)"

definition configureProxyResponse :: "string \<Rightarrow> upstreamResponse \<Rightarrow> upstreamResponse" where
  "configureProxyResponse sessionID resp =
     resp\<lparr>ur_Header := hdr_Set ''x-agentcube-session-id'' sessionID (ur_Header resp)\<rparr>"

definition serveProxy :: "'w routerEnv \<Rightarrow> routerRequest \<Rightarrow> string \<Rightarrow> proxyRequest \<Rightarrow> 'w \<Rightarrow> routerResult \<times> 'w" where
  "serveProxy env req sessionID px w =
     (if \<not> isPrint (upgradeType (px_Header px))
      then (configureProxyErrorHandler (ErrMsg (''client tried to switch to invalid protocol '' @
        upgradeType (px_Header px))), w)
      else
        (case re_roundTrip env (outgoing req px) w of
           (Inl e, w1) \<Rightarrow> (configureProxyErrorHandler e, w1)
         | (Inr resp, w1) \<Rightarrow>
             (Proxied (configureProxyResponse sessionID
               (resp\<lparr>ur_Header := removeHopByHopHeaders (ur_Header resp)\<rparr>)), w1)))"

definition forwardToSandbox ::
  "jwtLib \<Rightarrow> 'w routerEnv \<Rightarrow> 'w routerServer \<Rightarrow> routerRequest \<Rightarrow> Claims option \<Rightarrow> SandboxInfo \<Rightarrow> string \<Rightarrow> 'w \<Rightarrow>
   routerResult \<times> 'w" where
  "forwardToSandbox jl env s req claims sandbox path w =
     (case resolveSandboxTarget env (rs_config s) sandbox path w of
        (Inl r, w1) \<Rightarrow> (Answered r, w1)
      | (Inr targetURL, w1) \<Rightarrow>
          (case generateSandboxJWT jl (rs_jwtManager s) (re_now env w1) claims sandbox of
             Inl r \<Rightarrow> (Answered r, w1)
           | Inr jwtToken \<Rightarrow>
               serveProxy env req (si_SessionID sandbox) (configureProxyDirector req targetURL path jwtToken) w1))"

subsection \<open>Invocation\<close>

definition handleInvoke ::
  "apierrors \<Rightarrow> jwtLib \<Rightarrow> 'w routerEnv \<Rightarrow> 'w routerServer \<Rightarrow> routerRequest \<Rightarrow> Claims option \<Rightarrow>
   string \<Rightarrow> string \<Rightarrow> string \<Rightarrow> string \<Rightarrow> 'w \<Rightarrow> routerResult \<times> 'w" where
  "handleInvoke ae jl env s req claims namespace name path kind w =
     (let sessionID = hdr_Get (rr_Header req) ''x-agentcube-session-id'' in
      case GetSandboxBySession ae jl env (rs_sessionManager s) claims sessionID namespace name kind w of
        (Inl e, w1) \<Rightarrow> (Answered (handleGetSandboxError e), w1)
      | (Inr sandbox, w1) \<Rightarrow>
          (case (if sessionID \<noteq> [] then checkSandboxOwnership (rs_oidcValidator s) claims sandbox else None) of
             Some r \<Rightarrow> (Answered r, w1)
           | None \<Rightarrow>
               (let w2 = snd (st_UpdateSessionLastActivity (rs_storeClient s) (si_SessionID sandbox) (re_now env w1) w1) in
                case forwardToSandbox jl env s req claims sandbox path w2 of
                  (result, w3) \<Rightarrow>
                    (result, snd (st_UpdateSessionLastActivity (rs_storeClient s) (si_SessionID sandbox)
                      (re_now env w3) w3)))))"

definition handleAgentInvoke ::
  "apierrors \<Rightarrow> jwtLib \<Rightarrow> 'w routerEnv \<Rightarrow> 'w routerServer \<Rightarrow> routerRequest \<Rightarrow> Claims option \<Rightarrow>
   string \<Rightarrow> string \<Rightarrow> string \<Rightarrow> 'w \<Rightarrow> routerResult \<times> 'w" where
  "handleAgentInvoke ae jl env s req claims namespace name path w =
     handleInvoke ae jl env s req claims namespace name path AgentRuntimeKind w"

definition handleCodeInterpreterInvoke ::
  "apierrors \<Rightarrow> jwtLib \<Rightarrow> 'w routerEnv \<Rightarrow> 'w routerServer \<Rightarrow> routerRequest \<Rightarrow> Claims option \<Rightarrow>
   string \<Rightarrow> string \<Rightarrow> string \<Rightarrow> 'w \<Rightarrow> routerResult \<times> 'w" where
  "handleCodeInterpreterInvoke ae jl env s req claims namespace name path w =
     handleInvoke ae jl env s req claims namespace name path CodeInterpreterKind w"

text \<open>The route group \<open>/v1\<close>: authentication, the role, the semaphore, and the handler of the route.\<close>

datatype v1Route = AgentRoute string string string | CodeInterpreterRoute string string string

definition setupRoutes ::
  "apierrors \<Rightarrow> jwtLib \<Rightarrow> 'w routerEnv \<Rightarrow> 'w routerServer \<Rightarrow> v1Route \<Rightarrow> routerRequest \<Rightarrow> nat \<Rightarrow> 'w \<Rightarrow>
   routerResult \<times> 'w" where
  "setupRoutes ae jl env s route req inflight w =
     (case oidcAuthMiddleware (rs_oidcValidator s) (re_now env w) (hdr_Get (rr_Header req)) of
        Inl r \<Rightarrow> (Answered r, w)
      | Inr claims \<Rightarrow>
          (case (if rs_oidcValidator s \<noteq> None then requireRole (rc_JWTRequiredRole (rs_config s)) claims else None) of
             Some r \<Rightarrow> (Answered r, w)
           | None \<Rightarrow>
               (case concurrencyLimitMiddleware (rs_config s) inflight of
                  (Some r, _) \<Rightarrow> (Answered r, w)
                | (None, _) \<Rightarrow>
                    (case route of
                       AgentRoute namespace name path \<Rightarrow>
                         handleAgentInvoke ae jl env s req claims namespace name path w
                     | CodeInterpreterRoute namespace name path \<Rightarrow>
                         handleCodeInterpreterInvoke ae jl env s req claims namespace name path w))))"

end
