(* ===== verification/RouterProps.thy ===== *)
theory RouterProps
  imports Router Builder MemWorld
begin

text \<open>
  What the Router guarantees: who reaches a sandbox, where a request goes and with which credentials, how
  long it waits for a sandbox and how many requests it serves at once.
\<close>

subsection \<open>Authorisation\<close>

text \<open>The caller may use the sandbox of a session: the token in the header of the request shows it.\<close>

definition authorized :: "'w routerServer \<Rightarrow> OIDCValidator \<Rightarrow> Time \<Rightarrow> string \<Rightarrow> SandboxInfo \<Rightarrow> bool" where
  "authorized s v now authHeader i \<longleftrightarrow>
     (\<exists>claims tok. bearerToken authHeader tok \<and> tokenShows v now tok claims \<and> rc_JWTRequiredRole (rs_config s) \<in> set (cl_Roles claims) \<and>
        (''admin'' \<in> set (cl_Roles claims) \<or> si_OwnerID i = cl_Subject claims))"

lemma handleInvoke_refused:
  assumes "session_store st db clock ok" "ok w" "safe_sid sid" "sid \<noteq> []"
    and "mg_storeClient (rs_sessionManager s) = st" "hdr_Get (rr_Header req) ''x-agentcube-session-id'' = sid"
    and "rs_oidcValidator s = Some v" "oidcAuthMiddleware (Some v) now header = Inr claims"
    and "requireRole (rc_JWTRequiredRole (rs_config s)) claims = None"
    and "\<nexists>i. db_sessions (db w) sid = Some i \<and> authorized s v now (header ''Authorization'') i"
    and "handleInvoke ae jl env s req claims namespace name path kind w = (res, w')"
  shows "db w' = db w \<and> (\<exists>r. res = Answered r) \<and>
     (\<forall>dial trip. handleInvoke ae jl (env\<lparr>re_dial := dial, re_roundTrip := trip\<rparr>) s req claims namespace name path kind w =
        (res, w'))"
proof -
  obtain c tok where c: "claims = Some c" "ValidateToken v now tok = Inr c"
      "bearerToken (header ''Authorization'') tok"
    using middleware_claims [OF assms(8)] by blast
  have role: "rc_JWTRequiredRole (rs_config s) \<in> set (cl_Roles c)"
    using assms(9) c(1) by (auto simp: requireRole_def split: if_splits)
  obtain g w1 where g: "st_GetSandboxBySessionID st sid w = (g, w1)"
    by (metis surj_pair)
  have fr: "db w1 = db w"
    using session_store.get_frame [OF assms(1,2) g] by simp
  show ?thesis
  proof (cases g)
    case (Inl e)
    then show ?thesis
      using assms(4-7,11) g fr
      by (auto simp: handleInvoke_def GetSandboxBySession_def Let_def split: if_splits)
  next
    case (Inr i)
    have i: "db_sessions (db w) sid = Some i"
      using session_store.get_ok [OF assms(1-3)] g Inr by simp
    then have "\<not> authorized s v now (header ''Authorization'') i"
      using assms(10) by blast
    then have "''admin'' \<notin> set (cl_Roles c) \<and> si_OwnerID i \<noteq> cl_Subject c"
      using ValidateToken_shows [OF c(2)] c(3) role unfolding authorized_def by blast
    then have "\<exists>r. checkSandboxOwnership (Some v) claims i = Some r"
      using c(1) by (simp add: checkSandboxOwnership_def)
    then show ?thesis
      using assms(4-7,11) g fr Inr
      by (auto simp: handleInvoke_def GetSandboxBySession_def Let_def)
  qed
qed

text \<open>
  C3: A session can be used only by its owner.  When external authentication is configured and a request
  names a session, then either the bearer token in its authorisation header is one that the key set of the identity
  provider accepts, of the configured issuer and audience, not expired and with the required role, and the session is
  there and belongs to the subject of that token or the token has the role of an admin; or the request is answered by the Router itself, no sandbox is contacted, whatever one would
  answer, and the session store is left as it was.
\<close>

theorem session_owner_enforced:
  assumes "session_store st db clock ok" and "ok w" and "safe_sid sid" and "sid \<noteq> []"
    and "mg_storeClient (rs_sessionManager s) = st" and "rs_oidcValidator s = Some v"
    and "hdr_Get (rr_Header req) ''x-agentcube-session-id'' = sid"
    and "setupRoutes ae jl env s route req inflight w = (res, w')"
  shows "(\<exists>i. db_sessions (db w) sid = Some i \<and>
        authorized s v (re_now env w) (hdr_Get (rr_Header req) ''Authorization'') i) \<or>
     (db w' = db w \<and> (\<exists>r. res = Answered r) \<and>
      (\<forall>dial trip. setupRoutes ae jl (env\<lparr>re_dial := dial, re_roundTrip := trip\<rparr>) s route req inflight w =
         (res, w')))"
proof (cases "\<exists>i. db_sessions (db w) sid = Some i \<and>
    authorized s v (re_now env w) (hdr_Get (rr_Header req) ''Authorization'') i")
  case no: False
  show ?thesis
  proof (cases "oidcAuthMiddleware (Some v) (re_now env w) (hdr_Get (rr_Header req))")
    case (Inl r)
    then show ?thesis
      using assms(6,8) by (auto simp: setupRoutes_def)
  next
    case (Inr claims)
    note refused = handleInvoke_refused [OF assms(1-5,7,6) Inr _ no]
    show ?thesis
    proof (cases "requireRole (rc_JWTRequiredRole (rs_config s)) claims")
      case (Some r)
      then show ?thesis
        using assms(6,8) Inr by (auto simp: setupRoutes_def)
    next
      case role: None
      show ?thesis
      proof (cases "fst (concurrencyLimitMiddleware (rs_config s) inflight)")
        case (Some r)
        then show ?thesis
          using assms(6,8) Inr role by (auto simp: setupRoutes_def split: prod.splits)
      next
        case None
        then show ?thesis
          using assms(6,8) Inr role refused [OF role]
          by (cases route; cases "concurrencyLimitMiddleware (rs_config s) inflight")
            (simp_all add: setupRoutes_def handleAgentInvoke_def handleCodeInterpreterInvoke_def)
      qed
    qed
  qed
qed simp

subsection \<open>The target\<close>

lemma digits_of_decimal: "\<forall>c \<in> set (digits_of n). isDecimal c"
proof (induction n rule: digits_of.induct)
  case (1 n)
  have "isDecimal (char_of (48 + m :: nat))" if "m < 10" for m
    using that by (simp add: isDecimal_def)
  then show ?case
    using 1 by (subst digits_of.simps) auto
qed

lemma isLetter_lower: "isLetter c \<Longrightarrow> isLetter (lower_char c)"
  by (simp add: isLetter_def lower_char_def Let_def split: if_split)

lemma Contains_slash: "CHR ''/'' \<notin> set s \<Longrightarrow> \<not> Contains s ''://''"
proof (induction s)
  case (Cons c s)
  then show ?case
    by (auto simp: prefix_def dest: arg_cong [where f = set])
qed simp

lemma buildURL_entry:
  assumes "plainHost ip" "tp_Protocol p \<noteq> []" "\<forall>c \<in> set (tp_Protocol p). isLetter c"
  shows "buildURL (ep_Protocol (entryPointOf ip p)) (ep_Endpoint (entryPointOf ip p)) =
     Inr \<lparr>u_Scheme = ToLower (tp_Protocol p), u_Opaque = [],
       u_Host = JoinHostPort ip (Itoa (int (tp_Port p))), u_Path = [], u_RawQuery = []\<rparr>"
proof -
  let ?port = "Itoa (int (tp_Port p))" and ?s = "ToLower (tp_Protocol p)"
  have h: "CHR '':'' \<notin> set ip" "CHR ''%'' \<notin> set ip" "CHR ''/'' \<notin> set ip"
    using assms(1) plainChar_cases(1) by (fastforce simp: plainHost_def)+
  have port: "\<forall>c \<in> set ?port. isDecimal c"
    using digits_of_decimal by (simp add: Itoa_def)
  then have "CHR ''/'' \<notin> set ?port"
    using decimal_plain(1) plainChar_cases(1) by fastforce
  then have "\<not> Contains (ip @ '':'' @ ?port) ''://''"
    using h by (intro Contains_slash) simp
  moreover have "url_Parse (?s @ ''://'' @ ip @ '':'' @ ?port) =
      Inr \<lparr>u_Scheme = ?s, u_Opaque = [], u_Host = ip @ '':'' @ ?port, u_Path = [], u_RawQuery = []\<rparr>"
    using url_Parse_plain [OF _ _ assms(1) port, of ?s] assms(2,3) isLetter_lower by (auto simp: ToLower_def)
  ultimately show ?thesis
    using h assms(2) by (simp add: buildURL_def entryPointOf_def JoinHostPort_def Let_def)
qed

lemma cutLast_plain:
  assumes "x \<notin> set p"
  shows "cutLast x (h @ x # p) = Some (h, p)"
proof -
  have "takeWhile (\<lambda>c. c \<noteq> x) (rev p @ x # rev h) = rev p"
    using assms by (subst takeWhile_append2) auto
  moreover have "dropWhile (\<lambda>c. c \<noteq> x) (rev p @ x # rev h) = x # rev h"
    using assms by (subst dropWhile_append2) auto
  ultimately show ?thesis
    by (simp add: cutLast_def)
qed

lemma SplitHostPort_plain:
  assumes "plainHost h" "\<forall>c \<in> set p. isDecimal c"
  shows "SplitHostPort (h @ '':'' @ p) = Inr (h, p)"
proof -
  have "\<forall>c \<in> set (h @ p). plainChar c" "h \<noteq> []"
    using assms decimal_plain by (auto simp: plainHost_def)
  then have c: "CHR '':'' \<notin> set h" "CHR '':'' \<notin> set p" "CHR ''['' \<notin> set (h @ p)" "CHR '']'' \<notin> set (h @ p)"
    using plainChar_cases(1) by fastforce+
  then have "\<not> HasPrefix (h @ '':'' @ p) ''[''"
    using \<open>h \<noteq> []\<close> by (cases h) (auto simp: HasPrefix_def)
  then show ?thesis
    using cutLast_plain [OF c(2), of h] c by (simp add: SplitHostPort_def)
qed

text \<open>
  For a sandbox whose entry points the Workload Manager recorded for the ports of the workload, the target is the
  address of the first port whose path prefix the path has, or of the first port when none matches.
\<close>

lemma upstream_first_match:
  assumes "si_EntryPoints sandbox = map (entryPointOf ip) ports" and "ports \<noteq> []" and "plainHost ip"
    and "\<forall>p \<in> set ports. tp_Protocol p \<noteq> [] \<and> (\<forall>c \<in> set (tp_Protocol p). isLetter c)"
  shows "\<exists>p url. p = (case find (\<lambda>p. HasPrefix path (tp_PathPrefix p)) ports of Some p \<Rightarrow> p | None \<Rightarrow> hd ports) \<and>
     determineUpstreamURL sandbox path = Inr url \<and> u_Scheme url = ToLower (tp_Protocol p) \<and>
     u_Host url = ip @ '':'' @ Itoa (int (tp_Port p)) \<and> preflightTargetAddress url = u_Host url"
proof -
  let ?p = "case find (\<lambda>p. HasPrefix path (tp_PathPrefix p)) ports of Some p \<Rightarrow> p | None \<Rightarrow> hd ports"
  have "?p \<in> set ports"
    using assms(2) by (auto simp: find_Some_iff split: option.split)
  then have b: "buildURL (ep_Protocol (entryPointOf ip ?p)) (ep_Endpoint (entryPointOf ip ?p)) =
     Inr \<lparr>u_Scheme = ToLower (tp_Protocol ?p), u_Opaque = [],
       u_Host = JoinHostPort ip (Itoa (int (tp_Port ?p))), u_Path = [], u_RawQuery = []\<rparr>"
    using buildURL_entry [OF assms(3)] assms(4) by blast
  have f: "find (\<lambda>ep. HasPrefix path (ep_Path ep)) (map (entryPointOf ip) ps) =
      map_option (entryPointOf ip) (find (\<lambda>p. HasPrefix path (tp_PathPrefix p)) ps)" for ps
    by (induction ps) (simp_all add: entryPointOf_def)
  have d: "determineUpstreamURL sandbox path =
      buildURL (ep_Protocol (entryPointOf ip ?p)) (ep_Endpoint (entryPointOf ip ?p))"
    using assms(1,2) f [of ports]
    by (cases ports) (auto simp: determineUpstreamURL_def split: option.splits)
  have "JoinHostPort ip (Itoa (int n)) = ip @ '':'' @ Itoa (int n)" for n
    using assms(3) plainChar_cases(1) by (fastforce simp: JoinHostPort_def plainHost_def)
  then show ?thesis
    using d b SplitHostPort_plain [OF assms(3)] digits_of_decimal
    by (simp add: preflightTargetAddress_def Itoa_def)
qed

lemma find_only:
  assumes "x \<in> set xs" "P x" "\<And>y. y \<in> set xs \<Longrightarrow> P y \<Longrightarrow> y = x"
  shows "find P xs = Some x"
proof (cases "find P xs")
  case None
  then show ?thesis
    using assms(1,2) by (simp add: find_None_iff)
next
  case (Some y)
  then have "y \<in> set xs" "P y"
    by (auto simp: find_Some_iff)
  then show ?thesis
    using assms(3) Some by simp
qed

text \<open>
  C34: A request goes to the port of the workload its path belongs to.  When the path has the prefix of exactly one
  port of the workload, on a host with a plain address (a name or an IPv4 address) and with protocols of letters
  only, then the target is the address of that port, the scheme is its protocol, and the preflight dials that address.
  (When several prefixes match, the first port counts and not the longest prefix: \<open>upstream_first_match\<close>.)
\<close>

theorem upstream_is_entry_point:
  assumes "si_EntryPoints sandbox = map (entryPointOf ip) ports" and "plainHost ip"
    and "\<forall>q \<in> set ports. tp_Protocol q \<noteq> [] \<and> (\<forall>c \<in> set (tp_Protocol q). isLetter c)"
    and "p \<in> set ports" and "HasPrefix path (tp_PathPrefix p)"
    and "\<forall>q \<in> set ports. HasPrefix path (tp_PathPrefix q) \<longrightarrow> q = p"
  shows "\<exists>url. determineUpstreamURL sandbox path = Inr url \<and> u_Scheme url = ToLower (tp_Protocol p) \<and>
     u_Host url = ip @ '':'' @ Itoa (int (tp_Port p)) \<and> preflightTargetAddress url = u_Host url"
proof -
  have "find (\<lambda>q. HasPrefix path (tp_PathPrefix q)) ports = Some p"
    using find_only [OF assms(4), where P = "\<lambda>q. HasPrefix path (tp_PathPrefix q)"] assms(5,6) by blast
  moreover have "ports \<noteq> []"
    using assms(4) by auto
  ultimately show ?thesis
    using upstream_first_match [OF assms(1) _ assms(2,3), of path] by simp
qed

subsection \<open>Waiting for a sandbox\<close>

lemma preflightLoop_bounds:
  assumes "\<And>a d w. dials (snd (re_dial env a d w)) = Suc (dials w)"
    and "\<And>d w. dials (snd (re_pause env d w)) = dials w"
  shows "dials w < dials (snd (preflightLoop env a d n w)) \<and>
     dials (snd (preflightLoop env a d n w)) \<le> dials w + n + 1"
proof (induction n arbitrary: w)
  case 0
  then show ?case
    using assms(1) [of a d w] by (subst (1 2) preflightLoop.simps) (auto split: prod.split option.split)
next
  case (Suc n)
  obtain r w1 where r: "re_dial env a d w = (r, w1)"
    by (metis surj_pair)
  obtain q w2 where q: "re_pause env d w1 = (q, w2)"
    by (metis surj_pair)
  have "dials w1 = Suc (dials w)" "dials w2 = dials w1"
    using assms(1) [of a d w] assms(2) [of d w1] r q by simp_all
  then show ?case
    using r q Suc [of w2] by (subst (1 2) preflightLoop.simps) (auto split: option.split)
qed

lemma preflightLoop_reached:
  assumes "preflightLoop env a d n w = (None, w')"
  shows "\<exists>v. re_dial env a d v = (None, w')"
  using assms
proof (induction n arbitrary: w)
  case 0
  then show ?case
    by (auto simp: preflightLoop.simps [of env a d 0] split: prod.splits option.splits if_splits)
next
  case (Suc n)
  then show ?case
    by (auto simp: preflightLoop.simps [of env a d "Suc n"] split: prod.splits option.splits if_splits)
qed

text \<open>
  The preflight of a request is bounded and honest.  With a configuration as the server completes it,
  a target with a host is dialled at least once and at most one time more than the configured retries, and
  the request goes on only after a connection to it was accepted.
\<close>

theorem preflight_bounded:
  assumes "\<And>a d w. dials (snd (re_dial env a d w)) = Suc (dials w)"
    and "\<And>d w. dials (snd (re_pause env d w)) = dials w"
    and "preflightTargetAddress url \<noteq> []"
    and "waitForUpstreamReachable env (configDefaults config) url w = (r, w')"
  shows "dials w < dials w' \<and>
     int (dials w') \<le> int (dials w) + max 0 (rc_InitialConnectRetryCount config) + 1 \<and>
     (r = None \<longrightarrow> (\<exists>d v. 0 < d \<and> re_dial env (preflightTargetAddress url) d v = (None, w')))"
proof -
  let ?c = "configDefaults config"
  let ?d = "rc_InitialConnectRetryInterval ?c" and ?n = "nat (rc_InitialConnectRetryCount ?c)"
  have d: "0 < ?d" "0 \<le> rc_InitialConnectRetryCount ?c"
    by (simp_all add: configDefaults_def go_simps)
  then have run: "preflightLoop env (preflightTargetAddress url) ?d ?n w = (r, w')"
    using assms(3,4) by (simp add: waitForUpstreamReachable_def Let_def)
  have n: "int ?n = max 0 (rc_InitialConnectRetryCount config)"
    by (simp add: configDefaults_def)
  have "dials w < dials w' \<and> dials w' \<le> dials w + ?n + 1"
    using preflightLoop_bounds [of dials env, OF assms(1,2), where a = "preflightTargetAddress url" and d = ?d
        and n = ?n and w = w] run by simp
  moreover have "\<exists>d v. 0 < d \<and> re_dial env (preflightTargetAddress url) d v = (None, w')" if "r = None"
    using preflightLoop_reached [of env "preflightTargetAddress url" ?d ?n w w'] run d(1) that by blast
  moreover have "int (dials w') \<le> int (dials w) + max 0 (rc_InitialConnectRetryCount config) + 1"
    using calculation(1) n by linarith
  ultimately show ?thesis
    by blast
qed

subsection \<open>Concurrent requests\<close>

text \<open>
  The requests in flight: a request that arrives takes a slot of the channel or is turned away, and one
  that ends gives its slot back, also when its handler panics.
\<close>

inductive serves :: "routerConfig \<Rightarrow> nat set \<times> nat \<Rightarrow> nat set \<times> nat \<Rightarrow> bool" for config where
  arrive: "i \<notin> running \<Longrightarrow> concurrencyLimitMiddleware config n = (None, n') \<Longrightarrow>
     serves config (running, n) (insert i running, n')"
| turn_away: "concurrencyLimitMiddleware config n = (Some r, n') \<Longrightarrow> serves config (running, n) (running, n')"
| finish: "i \<in> running \<Longrightarrow> serves config (running, n) (running - {i}, releaseSlot n)"

inductive_cases serves_cases: "serves config x y"

lemma serves_invariant:
  assumes "(serves config)\<^sup>*\<^sup>* ({}, 0) (running, n)"
  shows "finite running \<and> n = card running \<and> int n \<le> max 0 (rc_MaxConcurrentRequests config)"
  using assms
proof (induction "(running, n)" arbitrary: running n rule: rtranclp_induct)
  case (step y)
  obtain r0 n0 where y: "y = (r0, n0)"
    by (metis surj_pair)
  note ih = step.hyps(3) [OF y]
  from step.hyps(2) show ?case
    unfolding y
    by (cases rule: serves.cases)
      (use ih in \<open>auto simp: concurrencyLimitMiddleware_def releaseSlot_def card_Diff_singleton split: if_splits\<close>)
qed simp

text \<open>
  C19: With a positive limit, however requests arrive and end, the Router never serves more of them at once than
  the limit, and it turns a request away exactly when that many are in flight.  (A limit of zero is replaced:
  \<open>no_unlimited\<close>.)
\<close>

theorem concurrency_bounded:
  assumes "rc_MaxConcurrentRequests config > 0"
    and "(serves (configDefaults config))\<^sup>*\<^sup>* ({}, 0) (running, n)"
  shows "finite running \<and> int (card running) \<le> rc_MaxConcurrentRequests config \<and>
     (fst (concurrencyLimitMiddleware (configDefaults config) n) \<noteq> None \<longleftrightarrow>
        int (card running) = rc_MaxConcurrentRequests config)"
  using serves_invariant [OF assms(2)] assms(1)
  by (auto simp: configDefaults_def concurrencyLimitMiddleware_def split: if_splits)

text \<open>A limit of zero, which the configuration documents as unlimited, is a limit of 1000.\<close>

lemma no_unlimited: "rc_MaxConcurrentRequests (configDefaults (config\<lparr>rc_MaxConcurrentRequests := 0\<rparr>)) = 1000"
  by (simp add: configDefaults_def)

subsection \<open>The forwarded request\<close>

lemma canonical_keys [simp]:
  "CanonicalHeaderKey ''Authorization'' = ''Authorization''"
  "CanonicalHeaderKey ''X-Forwarded-For'' = ''X-Forwarded-For''"
  "CanonicalHeaderKey ''X-Forwarded-Host'' = ''X-Forwarded-Host''"
  "CanonicalHeaderKey ''X-Forwarded-Proto'' = ''X-Forwarded-Proto''"
  "CanonicalHeaderKey ''Connection'' = ''Connection''" "CanonicalHeaderKey ''Upgrade'' = ''Upgrade''"
  "CanonicalHeaderKey ''Te'' = ''Te''" "CanonicalHeaderKey ''x-agentcube-session-id'' = ''X-Agentcube-Session-Id''"
  "map CanonicalHeaderKey hopHeaders = hopHeaders"
  by code_simp+

lemma fold_hdr_Del: "fold hdr_Del ks h k = (if k \<in> CanonicalHeaderKey ` set ks then [] else h k)"
  by (induction ks arbitrary: h) (auto simp: hdr_Del_def)

lemma removeHop_other:
  assumes "k \<notin> set hopHeaders" "k \<notin> CanonicalHeaderKey ` set (headerTokens (h ''Connection''))"
  shows "removeHopByHopHeaders h k = h k"
proof -
  have "CanonicalHeaderKey ` set hopHeaders = set hopHeaders"
    using canonical_keys(9) by (metis set_map)
  then show ?thesis
    using assms by (simp add: removeHopByHopHeaders_def fold_hdr_Del image_Un)
qed

text \<open>The headers the client asks to be dropped on the way.\<close>

definition dropped :: "routerRequest \<Rightarrow> string set" where
  "dropped req = CanonicalHeaderKey ` set (headerTokens (rr_Header req ''Connection''))"

lemma director_connection:
  "px_Header (configureProxyDirector req url path tok) ''Connection'' = rr_Header req ''Connection''"
  by (simp add: configureProxyDirector_def Let_def hdr_Set_def)

lemma outgoing_fields:
  "px_Host (outgoing req px) = px_Host px" "px_URLHost (outgoing req px) = px_URLHost px"
  "px_Scheme (outgoing req px) = px_Scheme px" "px_Body (outgoing req px) = px_Body px"
  "px_Path (outgoing req px) = px_Path px"
proof -
  have "\<exists>h. outgoing req px = px\<lparr>px_Header := h\<rparr>"
    unfolding outgoing_def Let_def by (rule exI) (rule refl)
  then show "px_Host (outgoing req px) = px_Host px" "px_URLHost (outgoing req px) = px_URLHost px"
    "px_Scheme (outgoing req px) = px_Scheme px" "px_Body (outgoing req px) = px_Body px"
    "px_Path (outgoing req px) = px_Path px"
    by auto
qed

lemma outgoing_header:
  assumes "k \<notin> set hopHeaders" "k \<notin> dropped req" "k \<noteq> ''X-Forwarded-For''" "k \<noteq> ''User-Agent''"
  shows "px_Header (outgoing req (configureProxyDirector req url path tok)) k =
     px_Header (configureProxyDirector req url path tok) k"
proof -
  have "k \<noteq> ''Te''" "k \<noteq> ''Upgrade''" "k \<noteq> ''Connection''"
    using assms(1) by (auto simp: hopHeaders_def)
  then show ?thesis
    using assms removeHop_other [of k "px_Header (configureProxyDirector req url path tok)"]
    by (simp add: outgoing_def Let_def hdr_Set_def director_connection dropped_def
        split: sum.split prod.split)
qed

lemma director_outgoing:
  assumes "tok \<noteq> []" and "''Authorization'' \<notin> dropped req"
    and "px = outgoing req (configureProxyDirector req url path tok)"
  shows "px_Header px ''Authorization'' = [''Bearer '' @ tok] \<and> px_Host px = u_Host url \<and>
     px_URLHost px = u_Host url \<and> px_Scheme px = u_Scheme url \<and> px_Body px = rr_Body req \<and>
     (px_Path px = path \<or> px_Path px = ''/'' @ path)"
proof -
  have h: "px_Header px ''Authorization'' = [''Bearer '' @ tok]"
    using outgoing_header [OF _ assms(2), of url path tok] assms(1,3)
    by (simp add: hopHeaders_def) (simp add: configureProxyDirector_def Let_def hdr_Set_def)
  have "px_Host px = u_Host url" "px_URLHost px = u_Host url" "px_Scheme px = u_Scheme url" "px_Body px = rr_Body req"
    "px_Path px = normalizedProxyPath path"
    using assms(3) by (simp_all add: outgoing_fields) (simp_all add: configureProxyDirector_def Let_def)
  then show ?thesis
    using h by (simp add: normalizedProxyPath_def)
qed

text \<open>What the Router makes of the answer of a sandbox.\<close>

definition proxied :: "string \<Rightarrow> upstreamResponse res \<times> 'w \<Rightarrow> routerResult \<times> 'w" where
  "proxied sessionID answer =
     (case answer of
        (Inl e, w) \<Rightarrow> (configureProxyErrorHandler e, w)
      | (Inr resp, w) \<Rightarrow>
          (Proxied (configureProxyResponse sessionID (resp\<lparr>ur_Header := removeHopByHopHeaders (ur_Header resp)\<rparr>)), w))"

lemma preflightLoop_trip: "preflightLoop (env\<lparr>re_roundTrip := trip\<rparr>) a d n w = preflightLoop env a d n w"
proof (induction n arbitrary: w)
  case 0
  then show ?case
    by (subst (1 2) preflightLoop.simps) (simp split: prod.split option.split)
next
  case (Suc n)
  then show ?case
    by (subst (1 2) preflightLoop.simps) (simp split: prod.split option.split)
qed

lemma wait_trip:
  "waitForUpstreamReachable (env\<lparr>re_roundTrip := trip\<rparr>) config url w = waitForUpstreamReachable env config url w"
  by (simp add: waitForUpstreamReachable_def Let_def preflightLoop_trip)

lemma resolve_trip:
  "resolveSandboxTarget (env\<lparr>re_roundTrip := trip\<rparr>) config sandbox path w = resolveSandboxTarget env config sandbox path w"
  by (simp add: resolveSandboxTarget_def wait_trip split: sum.split)

text \<open>
  C35: What reaches a sandbox is the request of the client with the credentials of the Router.  When a server with a
  JWT manager forwards a request to a session of one of the two kinds of sandboxes, then either the Router answers
  itself and sends nothing to the sandbox, or exactly one request is sent, with the path and body of the client, to the
  target of the path, and its authorisation header is the token the Router signs for the session and the user, never
  the one of the client.  (A client that names this header in \<open>Connection\<close> asks for it to be dropped on the way; then
  the sandbox gets none.)
\<close>

theorem forwarded_request_signed:
  assumes "jwt_library jl kl signed" and "rs_jwtManager s = Some jm"
    and "si_Kind sandbox \<in> {SandboxKind, SandboxClaimsKind}" and "''Authorization'' \<notin> dropped req"
  shows "(\<exists>r w'. \<forall>trip. forwardToSandbox jl (env\<lparr>re_roundTrip := trip\<rparr>) s req claims sandbox path w = (Answered r, w')) \<or>
     (\<exists>px tok url w1.
        GenerateToken jl jm (re_now env w1) (sandboxClaims sandbox claims) = Inr tok \<and>
        determineUpstreamURL sandbox path = Inr url \<and>
        px_Header px ''Authorization'' = [''Bearer '' @ tok] \<and> px_Host px = u_Host url \<and>
        px_URLHost px = u_Host url \<and> px_Scheme px = u_Scheme url \<and> px_Body px = rr_Body req \<and>
        (px_Path px = path \<or> px_Path px = ''/'' @ path) \<and>
        (\<forall>trip. forwardToSandbox jl (env\<lparr>re_roundTrip := trip\<rparr>) s req claims sandbox path w =
           proxied (si_SessionID sandbox) (trip px w1)))"
proof -
  note trip = resolve_trip [where env = env and config = "rs_config s" and sandbox = sandbox and path = path and w = w]
  show ?thesis
  proof (cases "resolveSandboxTarget env (rs_config s) sandbox path w")
    case (Pair res w1)
    show ?thesis
    proof (cases res)
      case (Inl r)
      then show ?thesis
        using Pair by (auto simp: forwardToSandbox_def trip)
    next
      case (Inr url)
      have u: "determineUpstreamURL sandbox path = Inr url"
        using Pair Inr by (auto simp: resolveSandboxTarget_def split: sum.splits prod.splits option.splits)
      show ?thesis
      proof (cases "generateSandboxJWT jl (Some jm) (re_now env w1) claims sandbox")
        case (Inl r)
        then show ?thesis
          using Pair Inr assms(2) by (auto simp: forwardToSandbox_def trip)
      next
        case tok: (Inr tok)
        have g: "GenerateToken jl jm (re_now env w1) (sandboxClaims sandbox claims) = Inr tok"
          using tok assms(3) by (auto simp: generateSandboxJWT_def split: sum.splits if_splits)
        have "tok \<noteq> []"
          using jwt_library.token_text [OF assms(1) GenerateToken_signs [OF g]] by blast
        note px = director_outgoing [OF this assms(4) refl, of url path]
        show ?thesis
        proof (cases "isPrint (upgradeType (px_Header (configureProxyDirector req url path tok)))")
          case True
          have "\<forall>trip. forwardToSandbox jl (env\<lparr>re_roundTrip := trip\<rparr>) s req claims sandbox path w =
              proxied (si_SessionID sandbox) (trip (outgoing req (configureProxyDirector req url path tok)) w1)"
            using Pair Inr tok assms(2) True by (simp add: forwardToSandbox_def trip serveProxy_def proxied_def)
          then show ?thesis
            using g u px by blast
        next
          case False
          then show ?thesis
            using Pair Inr tok assms(2) by (auto simp: forwardToSandbox_def trip serveProxy_def configureProxyErrorHandler_def)
        qed
      qed
    qed
  qed
qed

text \<open>
  The address of the client is passed on twice.  The Router appends it to \<open>X-Forwarded-For\<close> itself, and
  the reverse proxy appends it again: a sandbox sees a direct client as its own proxy.
\<close>

theorem forwarded_for_twice:
  assumes "rr_Header req ''X-Forwarded-For'' = []" and "''X-Forwarded-For'' \<notin> dropped req"
    and "SplitHostPort (rr_RemoteAddr req) = Inr (rr_ClientIP req, port)"
  shows "px_Header (outgoing req (configureProxyDirector req url path tok)) ''X-Forwarded-For'' =
     [rr_ClientIP req @ '', '' @ rr_ClientIP req]"
proof -
  let ?px = "configureProxyDirector req url path tok"
  have "px_Header ?px ''X-Forwarded-For'' = [rr_ClientIP req]"
    using assms(1) by (simp add: configureProxyDirector_def Let_def hdr_Set_def forwardedClientIP_def)
  then have "removeHopByHopHeaders (px_Header ?px) ''X-Forwarded-For'' = [rr_ClientIP req]"
    using removeHop_other [of "''X-Forwarded-For''" "px_Header ?px"] assms(2)
    by (simp add: hopHeaders_def director_connection dropped_def)
  then show ?thesis
    using assms(3) by (simp add: outgoing_def Let_def hdr_Set_def forwardedClientIP_def)
qed

subsection \<open>Witnesses\<close>

definition memRouterEnv :: "world routerEnv" where
  "memRouterEnv =
     \<lparr>re_now = w_now, re_dial = (\<lambda>_ _ w. (None, w)), re_pause = (\<lambda>d w. (None, w\<lparr>w_now := w_now w + d\<rparr>)),
      re_post = (\<lambda>_ w. (Inl (ErrMsg ''connection refused''), w)),
      re_roundTrip = (\<lambda>_ w. (Inr \<lparr>ur_Status = 200, ur_Header = (\<lambda>_. []), ur_Body = []\<rparr>, w)),
      re_saToken = (\<lambda>_. Inr ''token'')\<rparr>"

definition zeroConfig :: routerConfig where
  "zeroConfig =
     \<lparr>rc_Port = ''8080'', rc_Debug = False, rc_EnableTLS = False, rc_TLSCert = [], rc_TLSKey = [],
      rc_MaxConcurrentRequests = 0, rc_InitialConnectRetryCount = 0, rc_InitialConnectRetryInterval = 0,
      rc_MTLSConfig = \<lparr>mc_CertFile = [], mc_KeyFile = [], mc_CAFile = []\<rparr>, rc_JWTIssuerURL = ''https://idp'',
      rc_JWTAudience = [], rc_JWTRoleClaim = ''roles'', rc_JWTRequiredRole = ''user''\<rparr>"

text \<open>An identity provider that has issued one token, for mallory.\<close>

definition malloryToken :: string where
  "malloryToken = ''eyJhbGciOiJSUzI1NiJ9.mallory.sig''"

definition malloryPayload :: string where
  "malloryPayload =
     ''{'' @ strText ''iss'' @ '':'' @ strText ''https://idp'' @ '','' @ strText ''sub'' @ '':'' @ strText ''mallory'' @ '','' @
     strText ''exp'' @ '':4000000000,'' @ strText ''roles'' @ '':['' @ strText ''user'' @ '']}''"

definition idp :: OIDCValidator where
  "idp = \<lparr>ov_keySet = (\<lambda>tok. if tok = malloryToken then Inr malloryPayload else Inl (ErrMsg ''no key'')),
     ov_issuer = ''https://idp'', ov_audience = [], ov_rolesClaim = ''roles''\<rparr>"

lemma fuel_step:
  "0 < n \<Longrightarrow> readAny n s = readAny (Suc (n - 1)) s"
  "0 < n \<Longrightarrow> readItems n s = readItems (Suc (n - 1)) s"
  "0 < n \<Longrightarrow> readPairs n s = readPairs (Suc (n - 1)) s"
  by simp_all

lemmas readers = fuel_step [unfolded readAny.simps readItems.simps readPairs.simps]

lemma mallory_text:
  "malloryPayload = CHR ''{'' # CHR 0x22 # ''iss'' @ CHR 0x22 # '':'' @ CHR 0x22 # ''https://idp'' @ CHR 0x22 # '','' @
     CHR 0x22 # ''sub'' @ CHR 0x22 # '':'' @ CHR 0x22 # ''mallory'' @ CHR 0x22 # '','' @
     CHR 0x22 # ''exp'' @ CHR 0x22 # '':4000000000,'' @
     CHR 0x22 # ''roles'' @ CHR 0x22 # '':['' @ CHR 0x22 # ''user'' @ CHR 0x22 # '']}''"
  by code_simp

lemma mallory_all:
  "UnmarshalMap malloryPayload =
     Some [(''roles'', VArr [VStr ''user'']), (''exp'', VNum 4000000000), (''sub'', VStr ''mallory''),
       (''iss'', VStr ''https://idp'')]"
  unfolding mallory_text
  by (simp add: UnmarshalMap_def parseJson_def skipWS_def readers Let_def HasPrefix_def readLit.simps readNum_def
      readExp_def isDigit_def decimal_def maxFloat64_def)

lemma mallory_valid:
  "ValidateToken idp 0 malloryToken = Inr \<lparr>cl_Subject = ''mallory'', cl_Email = [], cl_Roles = [''user'']\<rparr>"
proof -
  have "checkTokenAlgorithm malloryToken = None"
    by code_simp
  then show ?thesis
    by (simp add: ValidateToken_def idp_def mallory_all Let_def strClaim_def numClaim_def unixTime_def clockSkewLeeway_def
        go_simps extractRolesFromClaims_def strings_def)
      (simp add: malloryToken_def)
qed

lemma mallory_claims:
  assumes "tokenShows idp now malloryToken c"
  shows "cl_Subject c = ''mallory''" "cl_Roles c = [''user'']"
  using assms by (auto simp: tokenShows_def idp_def mallory_all strClaim_def extractRolesFromClaims_def strings_def)

definition memRouter :: "world routerServer" where
  "memRouter =
     \<lparr>rs_config = configDefaults zeroConfig,
      rs_sessionManager = \<lparr>mg_storeClient = worldStore, mg_workloadMgrAddr = ''http://wm'',
        mg_jwtManager = Some sampleManager, mg_closeMTLS = False\<rparr>,
      rs_storeClient = worldStore, rs_jwtManager = Some sampleManager, rs_oidcValidator = Some idp\<rparr>"

definition sessionRequest :: routerRequest where
  "sessionRequest =
     \<lparr>rr_Header = (\<lambda>k. if k = ''X-Agentcube-Session-Id'' then [''s1'']
        else if k = ''Authorization'' then [''Bearer '' @ malloryToken] else []),
      rr_Host = ''router'', rr_TLS = False,
      rr_RemoteAddr = ''10.1.1.1:5000'', rr_ClientIP = ''10.1.1.1'', rr_RawQuery = [], rr_Body = []\<rparr>"

lemma mallory_bearer: "bearerToken (''Bearer '' @ malloryToken) tok \<Longrightarrow> tok = malloryToken"
proof -
  assume "bearerToken (''Bearer '' @ malloryToken) tok"
  then obtain scheme rest where e: "''Bearer'' @ CHR '' '' # malloryToken = scheme @ CHR '' '' # rest"
      "CHR '' '' \<notin> set scheme" "tok = TrimSpace rest"
    by (auto simp: bearerToken_def)
  have "CHR '' '' \<notin> set ''Bearer''" "CHR '' '' \<notin> set malloryToken"
    by (simp_all add: malloryToken_def)
  then have "rest = malloryToken"
    using e(1) append_Cons_eq_iff [of "CHR '' ''" "''Bearer''" malloryToken scheme rest] by blast
  moreover have "TrimSpace malloryToken = malloryToken"
    by code_simp
  ultimately show "tok = malloryToken"
    using e(3) by simp
qed

theorem session_owner_enforced_witness:
  "\<exists>r w'. setupRoutes std_apierrors boxJwt memRouterEnv memRouter (CodeInterpreterRoute ''default'' ''py'' ''/run'')
       sessionRequest 0 (sampleWorld 0) = (Answered r, w') \<and> abs_db ns_codec (w_ks w') = abs_db ns_codec sampleKs"
proof -
  obtain res w' where r: "setupRoutes std_apierrors boxJwt memRouterEnv memRouter
      (CodeInterpreterRoute ''default'' ''py'' ''/run'') sessionRequest 0 (sampleWorld 0) = (res, w')"
    by (metis surj_pair)
  have store: "session_store worldStore (\<lambda>w. abs_db ns_codec (w_ks w)) w_now (\<lambda>w. layout_ok ns_codec (w_ks w))"
    by (rule world_sc.session_store_axioms)
  have h: "hdr_Get (rr_Header sessionRequest) ''Authorization'' = ''Bearer '' @ malloryToken"
    by (simp add: sessionRequest_def hdr_Get_def)
  have i: "si_OwnerID i \<noteq> ''mallory''" if "db_sessions (abs_db ns_codec (w_ks (sampleWorld 0))) ''s1'' = Some i" for i
    using that sampleKs_facts(2)
    by (auto simp: sampleWorld_def abs_db_def persisted_def sampleSandbox_def zeroSandboxInfo_def)
  have "\<not> authorized memRouter idp t (''Bearer '' @ malloryToken) i" if "si_OwnerID i \<noteq> ''mallory''" for t i
    using that mallory_bearer mallory_claims unfolding authorized_def by force
  then show ?thesis
    using session_owner_enforced [OF store _ _ _ _ _ _ r, of "''s1''" idp] r sampleKs_facts(1) i
    by (auto simp: memRouter_def sessionRequest_def hdr_Get_def h sampleWorld_def)
qed

definition twoPorts :: "TargetPort list" where
  "twoPorts =
     [\<lparr>tp_PathPrefix = ''/api'', tp_Name = [], tp_Port = 8080, tp_Protocol = ''HTTP''\<rparr>,
      \<lparr>tp_PathPrefix = ''/ui'', tp_Name = [], tp_Port = 80, tp_Protocol = ''HTTPS''\<rparr>]"

theorem upstream_is_entry_point_witness:
  "\<exists>url. determineUpstreamURL (zeroSandboxInfo\<lparr>si_EntryPoints := map (entryPointOf ''10.0.0.9'') twoPorts\<rparr>) ''/ui/x'' =
       Inr url \<and> u_Scheme url = ''https'' \<and> u_Host url = ''10.0.0.9:80''"
proof -
  have "plainHost ''10.0.0.9''" "Itoa (int 80) = ''80''" "ToLower ''HTTPS'' = ''https''"
    by code_simp+
  then show ?thesis
    using upstream_is_entry_point [of "zeroSandboxInfo\<lparr>si_EntryPoints := map (entryPointOf ''10.0.0.9'') twoPorts\<rparr>"
        "''10.0.0.9''" twoPorts "twoPorts ! 1" "''/ui/x''"]
    by (auto simp: twoPorts_def HasPrefix_def isLetter_def Let_def)
qed

text \<open>Of two ports that match, the first counts, here that of the shorter prefix.\<close>

lemma shorter_prefix_first:
  "\<exists>url. determineUpstreamURL (zeroSandboxInfo\<lparr>si_EntryPoints := map (entryPointOf ''10.0.0.9'')
       [\<lparr>tp_PathPrefix = ''/'', tp_Name = [], tp_Port = 80, tp_Protocol = ''HTTP''\<rparr>,
        \<lparr>tp_PathPrefix = ''/api'', tp_Name = [], tp_Port = 90, tp_Protocol = ''HTTP''\<rparr>]\<rparr>) ''/api/x'' =
       Inr url \<and> u_Host url = ''10.0.0.9:80''"
proof -
  let ?ports = "[\<lparr>tp_PathPrefix = ''/'', tp_Name = [], tp_Port = 80, tp_Protocol = ''HTTP''\<rparr>,
        \<lparr>tp_PathPrefix = ''/api'', tp_Name = [], tp_Port = 90, tp_Protocol = ''HTTP''\<rparr>]"
  have "plainHost ''10.0.0.9''" "Itoa (int 80) = ''80''"
    by code_simp+
  then show ?thesis
    using upstream_first_match [of "zeroSandboxInfo\<lparr>si_EntryPoints := map (entryPointOf ''10.0.0.9'') ?ports\<rparr>"
        "''10.0.0.9''" ?ports "''/api/x''"]
    by (auto simp: HasPrefix_def isLetter_def Let_def)
qed

text \<open>A world that counts the connections, all of which are refused.\<close>

definition refusing :: "nat routerEnv" where
  "refusing =
     \<lparr>re_now = (\<lambda>_. 0), re_dial = (\<lambda>_ _ w. (Some (ErrMsg ''dial tcp: connection refused''), Suc w)),
      re_pause = (\<lambda>_ w. (None, w)), re_post = (\<lambda>_ w. (Inl (ErrMsg []), w)),
      re_roundTrip = (\<lambda>_ w. (Inl (ErrMsg []), w)), re_saToken = (\<lambda>_. Inr [])\<rparr>"

definition idleURL :: URL where
  "idleURL = \<lparr>u_Scheme = ''http'', u_Opaque = [], u_Host = ''10.0.0.9:80'', u_Path = [], u_RawQuery = []\<rparr>"

theorem preflight_bounded_witness:
  "\<exists>r n. waitForUpstreamReachable refusing (configDefaults (zeroConfig\<lparr>rc_InitialConnectRetryCount := 3\<rparr>)) idleURL 0 =
     (r, n) \<and> 0 < n \<and> n \<le> 4"
proof -
  obtain r n where r: "waitForUpstreamReachable refusing
      (configDefaults (zeroConfig\<lparr>rc_InitialConnectRetryCount := 3\<rparr>)) idleURL 0 = (r, n)"
    by (metis surj_pair)
  have "preflightTargetAddress idleURL \<noteq> []"
    by (simp add: preflightTargetAddress_def idleURL_def JoinHostPort_def split: sum.split)
  then have "0 < n \<and> int n \<le> 0 + max 0 3 + 1"
    using preflight_bounded [where dials = "\<lambda>n. n", OF _ _ _ r] by (simp add: refusing_def zeroConfig_def)
  then show ?thesis
    using r by simp
qed

theorem concurrency_bounded_witness:
  "(serves (configDefaults (zeroConfig\<lparr>rc_MaxConcurrentRequests := 1\<rparr>)))\<^sup>*\<^sup>* ({}, 0) ({7}, 1) \<and>
   fst (concurrencyLimitMiddleware (configDefaults (zeroConfig\<lparr>rc_MaxConcurrentRequests := 1\<rparr>)) 1) \<noteq> None"
proof -
  let ?c = "zeroConfig\<lparr>rc_MaxConcurrentRequests := 1\<rparr>"
  have run: "(serves (configDefaults ?c))\<^sup>*\<^sup>* ({}, 0) ({7}, 1)"
    by (rule r_into_rtranclp, rule serves.arrive) (simp_all add: concurrencyLimitMiddleware_def configDefaults_def)
  then show ?thesis
    using concurrency_bounded [OF _ run] by simp
qed

text \<open>A sandbox that answers with the authorisation header it gets.\<close>

definition echoEnv :: "world routerEnv" where
  "echoEnv = memRouterEnv\<lparr>re_roundTrip := \<lambda>px w.
     (Inr \<lparr>ur_Status = 200, ur_Header = (\<lambda>_. []), ur_Body = Join (px_Header px ''Authorization'') []\<rparr>, w)\<rparr>"

definition echoSandbox :: SandboxInfo where
  "echoSandbox = zeroSandboxInfo\<lparr>si_Kind := SandboxKind, si_SessionID := ''s1'',
     si_EntryPoints := map (entryPointOf ''10.0.0.9'') twoPorts\<rparr>"

theorem forwarded_request_signed_witness:
  "\<exists>resp t tok. fst (forwardToSandbox boxJwt echoEnv memRouter sessionRequest None echoSandbox ''/ui/x'' (sampleWorld 0)) =
       Proxied resp \<and>
     GenerateToken boxJwt sampleManager t [(''session_id'', VStr ''s1'')] = Inr tok \<and> ur_Body resp = ''Bearer '' @ tok"
proof -
  let ?f = "\<lambda>trip. forwardToSandbox boxJwt (memRouterEnv\<lparr>re_roundTrip := trip\<rparr>) memRouter sessionRequest None echoSandbox
    ''/ui/x'' (sampleWorld 0)"
  have e: "memRouterEnv\<lparr>re_roundTrip := re_roundTrip echoEnv\<rparr> = echoEnv"
    by (simp add: echoEnv_def)
  have "plainHost ''10.0.0.9''"
    by code_simp
  then obtain url where u: "determineUpstreamURL echoSandbox ''/ui/x'' = Inr url" "preflightTargetAddress url \<noteq> []"
    using upstream_first_match [of echoSandbox "''10.0.0.9''" twoPorts "''/ui/x''"]
    by (auto simp: echoSandbox_def twoPorts_def isLetter_def)
  have "waitForUpstreamReachable echoEnv (rs_config memRouter) url (sampleWorld 0) = (None, sampleWorld 0)"
    using u(2) by (subst waitForUpstreamReachable_def) (simp add: Let_def preflightLoop.simps echoEnv_def memRouterEnv_def)
  moreover obtain tok where tok: "GenerateToken boxJwt sampleManager (re_now echoEnv (sampleWorld 0)) cs = Inr (tok cs)" for cs
    by (simp add: GenerateToken_def boxJwt_def Let_def)
  moreover have "upgradeType (px_Header (configureProxyDirector sessionRequest url ''/ui/x'' tok)) = []" for tok
    by (simp add: upgradeType_def director_connection) (simp add: sessionRequest_def containsToken_def headerTokens_def)
  moreover have f: "rs_jwtManager memRouter = Some sampleManager" "si_Kind echoSandbox = SandboxKind"
      "''Authorization'' \<notin> dropped sessionRequest" "sandboxClaims echoSandbox None = [(''session_id'', VStr ''s1'')]"
    by (simp_all add: memRouter_def echoSandbox_def dropped_def sessionRequest_def headerTokens_def sandboxClaims_def)
  ultimately have p: "\<exists>resp. fst (?f (re_roundTrip echoEnv)) = Proxied resp"
    using u(1) by (simp add: e forwardToSandbox_def resolveSandboxTarget_def generateSandboxJWT_def serveProxy_def isPrint_def)
      (simp add: echoEnv_def)
  have c: "(\<exists>r w'. \<forall>trip. ?f trip = (Answered r, w')) \<or>
      (\<exists>px tok w1. GenerateToken boxJwt sampleManager (re_now memRouterEnv w1) [(''session_id'', VStr ''s1'')] = Inr tok \<and>
        px_Header px ''Authorization'' = [''Bearer '' @ tok] \<and>
        (\<forall>trip. ?f trip = proxied (si_SessionID echoSandbox) (trip px w1)))"
    using forwarded_request_signed [OF box.jwt_library_axioms f(1) _ f(3), of echoSandbox memRouterEnv None "''/ui/x''"
        "sampleWorld 0"] unfolding f(2,4) by blast
  then obtain px tok w1 where px: "GenerateToken boxJwt sampleManager (re_now memRouterEnv w1) [(''session_id'', VStr ''s1'')] = Inr tok"
      "px_Header px ''Authorization'' = [''Bearer '' @ tok]"
      "?f (re_roundTrip echoEnv) = proxied (si_SessionID echoSandbox) (re_roundTrip echoEnv px w1)"
    using p by fastforce
  have "\<exists>resp. fst (?f (re_roundTrip echoEnv)) = Proxied resp \<and> ur_Body resp = ''Bearer '' @ tok"
    unfolding px(3) using px(2) by (simp add: proxied_def echoEnv_def configureProxyResponse_def)
  then show ?thesis
    using px(1) by (auto simp: e)
qed

theorem forwarded_for_twice_witness:
  "px_Header (outgoing sessionRequest (configureProxyDirector sessionRequest idleURL ''/run'' ''T'')) ''X-Forwarded-For'' =
     [''10.1.1.1, 10.1.1.1'']"
proof -
  have "SplitHostPort ''10.1.1.1:5000'' = Inr (''10.1.1.1'', ''5000'')"
    by code_simp
  then show ?thesis
    using forwarded_for_twice [of sessionRequest "''5000''" idleURL "''/run''" "''T''"]
    by (simp add: dropped_def sessionRequest_def headerTokens_def)
qed

end
