(* ===== verification/GoFs.thy ===== *)
theory GoFs
  imports GoPath KvServer "HOL-Library.AList"
begin

text \<open>
  A Unix file system with symbolic links, and the calls of package \<open>os\<close> and \<open>path/filepath\<close> the sources
  make on it: \<open>EvalSymlinks\<close>, \<open>Stat\<close>, \<open>Lstat\<close>, \<open>MkdirAll\<close>, \<open>OpenFile\<close> for writing, \<open>WriteFile\<close> and
  \<open>ReadDir\<close>.

  A location is the list of names from the root.  All paths are absolute.  An operation may also fail for
  a reason outside the tree, such as permissions or space: \<open>fs_deny\<close> is the error of an operation at a
  location, and \<open>fs_write\<close> the error of a write with the number of bytes that were written before it.
  The size of a directory is up to the file system.
\<close>

unbundle bit_operations_syntax

datatype errno = ENOENT | ENOTDIR | EISDIR | EEXIST | ELOOP | EOTHER string

fun errText :: "errno \<Rightarrow> string" where
  "errText ENOENT = ''no such file or directory''"
| "errText ENOTDIR = ''not a directory''"
| "errText EISDIR = ''is a directory''"
| "errText EEXIST = ''file exists''"
| "errText ELOOP = ''too many levels of symbolic links''"
| "errText (EOTHER s) = s"

definition PathError :: "string \<Rightarrow> string \<Rightarrow> errno \<Rightarrow> gerr" where
  "PathError operation path e = ErrMsg (operation @ '' '' @ path @ '': '' @ errText e)"

datatype node = NDir nat | NFile string nat | NLink string

record fsys =
  fs_nodes :: "(string list \<times> node) list"
  fs_mtime :: "string list \<Rightarrow> Time"
  fs_umask :: nat
  fs_deny :: "string \<Rightarrow> string list \<Rightarrow> errno option"
  fs_write :: "string list \<Rightarrow> (errno \<times> nat) option"
  fs_dirSize :: "string list \<Rightarrow> nat"

text \<open>The root is a directory, of mode 0755.\<close>

definition nodeAt :: "fsys \<Rightarrow> string list \<Rightarrow> node option" where
  "nodeAt fs l = (if l = [] then Some (NDir 0x1ED) else map_of (fs_nodes fs) l)"

definition setNode :: "string list \<Rightarrow> node \<Rightarrow> fsys \<Rightarrow> fsys" where
  "setNode l nd fs = fs\<lparr>fs_nodes := AList.update l nd (fs_nodes fs)\<rparr>"

definition touched :: "Time \<Rightarrow> string list set \<Rightarrow> fsys \<Rightarrow> fsys" where
  "touched now ls fs = fs\<lparr>fs_mtime := (\<lambda>l. if l \<in> ls then now else fs_mtime fs l)\<rparr>"

definition createNode :: "Time \<Rightarrow> string list \<Rightarrow> node \<Rightarrow> fsys \<Rightarrow> fsys" where
  "createNode now l nd fs = touched now {l, butlast l} (setNode l nd fs)"

definition permOf :: "fsys \<Rightarrow> nat \<Rightarrow> nat" where
  "permOf fs perm = perm - (perm AND fs_umask fs)"

subsection \<open>Resolution\<close>

text \<open>
  The walk along the elements of a path from the directory \<open>cur\<close>.  A symbolic link is followed, also at
  the end, and at most \<open>n\<close> of them.  \<open>Found\<close> is the location of a node that exists and is not a link;
  \<open>Missing\<close> the one that does not exist in a directory that does, at the end of the path.  The element
  \<open>.\<close> at the end asks for a directory.
\<close>

datatype walked = Found "string list" | Missing "string list" | Fails errno

definition linkElements :: "string \<Rightarrow> string list" where
  "linkElements target =
     filter (\<lambda>e. e \<noteq> []) (Split target (CHR ''/'')) @
     (if target \<noteq> [] \<and> last target = CHR ''/'' then [''.''] else [])"

function walk :: "fsys \<Rightarrow> nat \<Rightarrow> string list \<Rightarrow> string list \<Rightarrow> walked" where
  "walk fs n cur [] = Found cur"
| "walk fs n cur (e # es) =
     (if e = ''.'' then walk fs n cur es
      else if e = ''..'' then walk fs n (butlast cur) es
      else
        (case fs_deny fs ''lookup'' (cur @ [e]) of
           Some err \<Rightarrow> Fails err
         | None \<Rightarrow>
             (case nodeAt fs (cur @ [e]) of
                None \<Rightarrow> if es = [] then Missing (cur @ [e]) else Fails ENOENT
              | Some (NDir m) \<Rightarrow> walk fs n (cur @ [e]) es
              | Some (NFile c m) \<Rightarrow> if es = [] then Found (cur @ [e]) else Fails ENOTDIR
              | Some (NLink target) \<Rightarrow>
                  if n = 0 then Fails ELOOP
                  else walk fs (n - 1) (if IsAbs target then [] else cur) (linkElements target @ es))))"
  by pat_completeness auto
termination
  by (relation "measures [\<lambda>(fs, n, cur, es). n, \<lambda>(fs, n, cur, es). length es]") auto

definition maxLinksKernel :: nat where "maxLinksKernel = 40"
definition maxLinksGo :: nat where "maxLinksGo = 255"

definition EvalSymlinks :: "fsys \<Rightarrow> string \<Rightarrow> errno + string" where
  "EvalSymlinks fs p =
     (case walk fs maxLinksGo [] (elements p) of
        Found l \<Rightarrow> Inr (pathOf True l) | Missing l \<Rightarrow> Inl ENOENT | Fails e \<Rightarrow> Inl e)"

definition kernelWalk :: "fsys \<Rightarrow> string list \<Rightarrow> walked" where
  "kernelWalk fs es = walk fs maxLinksKernel [] es"

subsection \<open>Reading\<close>

definition statAt :: "fsys \<Rightarrow> string list \<Rightarrow> errno + string list" where
  "statAt fs es = (case kernelWalk fs es of Found l \<Rightarrow> Inr l | Missing l \<Rightarrow> Inl ENOENT | Fails e \<Rightarrow> Inl e)"

definition Stat :: "fsys \<Rightarrow> string \<Rightarrow> errno + string list" where
  "Stat fs p = statAt fs (elements p)"

text \<open>The directory of a path and the lookup of its last element there, which is not followed.\<close>

definition lookupAt :: "fsys \<Rightarrow> string list \<Rightarrow> errno + string list \<times> node option" where
  "lookupAt fs es =
     (if es = [] then Inr ([], nodeAt fs [])
      else
        (case kernelWalk fs (butlast es @ [''.'']) of
           Missing l \<Rightarrow> Inl ENOENT
         | Fails e \<Rightarrow> Inl e
         | Found d \<Rightarrow>
             (case fs_deny fs ''lookup'' (d @ [last es]) of
                Some e \<Rightarrow> Inl e
              | None \<Rightarrow> Inr (d @ [last es], nodeAt fs (d @ [last es])))))"

definition lstatAt :: "fsys \<Rightarrow> string list \<Rightarrow> errno + node" where
  "lstatAt fs es =
     (case lookupAt fs es of Inl e \<Rightarrow> Inl e | Inr (l, None) \<Rightarrow> Inl ENOENT | Inr (l, Some nd) \<Rightarrow> Inr nd)"

definition Lstat :: "fsys \<Rightarrow> string \<Rightarrow> errno + node" where
  "Lstat fs p = lstatAt fs (elements p)"

definition isDir :: "fsys \<Rightarrow> string list \<Rightarrow> bool" where
  "isDir fs l = (case nodeAt fs l of Some (NDir m) \<Rightarrow> True | _ \<Rightarrow> False)"

definition ReadDir :: "fsys \<Rightarrow> string \<Rightarrow> errno + (string \<times> string list) list" where
  "ReadDir fs p =
     (case Stat fs p of
        Inl e \<Rightarrow> Inl e
      | Inr d \<Rightarrow>
          if \<not> isDir fs d then Inl ENOTDIR
          else
            (case fs_deny fs ''readdir'' d of
               Some e \<Rightarrow> Inl e
             | None \<Rightarrow>
                 Inr (map (\<lambda>e. (e, d @ [e]))
                   (sort (remdups (map last (filter (\<lambda>l. l \<noteq> [] \<and> butlast l = d) (map fst (fs_nodes fs)))))))))"

subsection \<open>Writing\<close>

definition mkdirAt :: "Time \<Rightarrow> nat \<Rightarrow> fsys \<Rightarrow> string list \<Rightarrow> errno option \<times> fsys" where
  "mkdirAt now perm fs es =
     (case lookupAt fs es of
        Inl e \<Rightarrow> (Some e, fs)
      | Inr (l, Some nd) \<Rightarrow> (Some EEXIST, fs)
      | Inr (l, None) \<Rightarrow>
          (case fs_deny fs ''mkdir'' l of
             Some e \<Rightarrow> (Some e, fs)
           | None \<Rightarrow> (None, createNode now l (NDir (permOf fs perm)) fs)))"

text \<open>\<open>os.MkdirAll\<close> on the elements of a path, the last one first.\<close>

fun mkdirs :: "Time \<Rightarrow> nat \<Rightarrow> string list \<Rightarrow> fsys \<Rightarrow> (string \<times> errno) option \<times> fsys" where
  "mkdirs now perm [] fs = (None, fs)"
| "mkdirs now perm (e # up) fs =
     (let es = rev (e # up) in
      case statAt fs es of
        Inr l \<Rightarrow> if isDir fs l then (None, fs) else (Some (pathOf True es, ENOTDIR), fs)
      | Inl _ \<Rightarrow>
          (case mkdirs now perm up fs of
             (Some err, fs1) \<Rightarrow> (Some err, fs1)
           | (None, fs1) \<Rightarrow>
               (case mkdirAt now perm fs1 es of
                  (None, fs2) \<Rightarrow> (None, fs2)
                | (Some err, fs2) \<Rightarrow>
                    (case lstatAt fs2 es of
                       Inr (NDir m) \<Rightarrow> (None, fs2)
                     | _ \<Rightarrow> (Some (pathOf True es, err), fs2)))))"

definition MkdirAll :: "Time \<Rightarrow> nat \<Rightarrow> string \<Rightarrow> fsys \<Rightarrow> gerr option \<times> fsys" where
  "MkdirAll now perm p fs =
     (case mkdirs now perm (rev (elements p)) fs of
        (err, fs') \<Rightarrow> (map_option (\<lambda>(path, e). PathError ''mkdir'' path e) err, fs'))"

text \<open>\<open>os.OpenFile\<close> with \<open>O_WRONLY|O_CREATE|O_TRUNC\<close>: the location of the open file.\<close>

definition OpenFile :: "Time \<Rightarrow> nat \<Rightarrow> string \<Rightarrow> fsys \<Rightarrow> (errno + string list) \<times> fsys" where
  "OpenFile now perm p fs =
     (case kernelWalk fs (elements p) of
        Fails e \<Rightarrow> (Inl e, fs)
      | Found l \<Rightarrow>
          (case nodeAt fs l of
             Some (NFile c mode) \<Rightarrow>
               (case fs_deny fs ''open'' l of
                  Some e \<Rightarrow> (Inl e, fs)
                | None \<Rightarrow> (Inr l, touched now {l} (setNode l (NFile [] mode) fs)))
           | _ \<Rightarrow> (Inl EISDIR, fs))
      | Missing l \<Rightarrow>
          (case fs_deny fs ''create'' l of
             Some e \<Rightarrow> (Inl e, fs)
           | None \<Rightarrow> (Inr l, createNode now l (NFile [] (permOf fs perm)) fs)))"

definition writeAt :: "Time \<Rightarrow> string list \<Rightarrow> string \<Rightarrow> fsys \<Rightarrow> errno option \<times> fsys" where
  "writeAt now l data fs =
     (case nodeAt fs l of
        Some (NFile c mode) \<Rightarrow>
          (case fs_write fs l of
             None \<Rightarrow> (None, touched now {l} (setNode l (NFile data mode) fs))
           | Some (e, k) \<Rightarrow> (Some e, touched now {l} (setNode l (NFile (take k data) mode) fs)))
      | _ \<Rightarrow> (Some EISDIR, fs))"

definition WriteFile :: "Time \<Rightarrow> nat \<Rightarrow> string \<Rightarrow> string \<Rightarrow> fsys \<Rightarrow> gerr option \<times> fsys" where
  "WriteFile now perm p data fs =
     (case OpenFile now perm p fs of
        (Inl e, fs1) \<Rightarrow> (Some (PathError ''open'' p e), fs1)
      | (Inr l, fs1) \<Rightarrow>
          (case writeAt now l data fs1 of
             (Some e, fs2) \<Rightarrow> (Some (PathError ''write'' p e), fs2)
           | (None, fs2) \<Rightarrow> (None, fs2)))"

subsection \<open>Resolution and change\<close>

text \<open>
  A change keeps what is there when directories stay directories, files stay files and links keep their
  target; only contents change, and only files and directories are added.
\<close>

datatype kind = KDir | KFile | KLink string

fun kindOf :: "node \<Rightarrow> kind" where
  "kindOf (NDir m) = KDir"
| "kindOf (NFile c m) = KFile"
| "kindOf (NLink t) = KLink t"

definition keeps :: "fsys \<Rightarrow> fsys \<Rightarrow> bool" where
  "keeps fs fs' \<longleftrightarrow> fs_deny fs' = fs_deny fs \<and>
     (\<forall>l nd. nodeAt fs l = Some nd \<longrightarrow> map_option kindOf (nodeAt fs' l) = Some (kindOf nd)) \<and>
     (\<forall>l t. nodeAt fs' l = Some (NLink t) \<longrightarrow> nodeAt fs l = Some (NLink t))"

lemma keeps_refl [simp]: "keeps fs fs"
  by (simp add: keeps_def)

lemma keeps_trans: "keeps a b \<Longrightarrow> keeps b c \<Longrightarrow> keeps a c"
  unfolding keeps_def by (metis map_option_eq_Some)

lemma keepsD:
  assumes "keeps fs fs'"
  shows "nodeAt fs l = Some (NDir m) \<Longrightarrow> \<exists>m'. nodeAt fs' l = Some (NDir m')"
    and "nodeAt fs l = Some (NFile c m) \<Longrightarrow> \<exists>c' m'. nodeAt fs' l = Some (NFile c' m')"
    and "nodeAt fs l = Some (NLink t) \<Longrightarrow> nodeAt fs' l = Some (NLink t)"
proof -
  have k: "\<exists>nd'. nodeAt fs' l = Some nd' \<and> kindOf nd' = kindOf nd" if "nodeAt fs l = Some nd" for nd
    using assms that unfolding keeps_def by (metis map_option_eq_Some)
  show "nodeAt fs l = Some (NDir m) \<Longrightarrow> \<exists>m'. nodeAt fs' l = Some (NDir m')"
    using k [of "NDir m"] by (metis kindOf.simps kind.distinct(1,3) node.exhaust)
  show "nodeAt fs l = Some (NFile c m) \<Longrightarrow> \<exists>c' m'. nodeAt fs' l = Some (NFile c' m')"
    using k [of "NFile c m"] by (metis kindOf.simps kind.distinct node.exhaust)
  show "nodeAt fs l = Some (NLink t) \<Longrightarrow> nodeAt fs' l = Some (NLink t)"
    using k [of "NLink t"] by (metis kindOf.simps kind.distinct kind.inject node.exhaust)
qed

lemma nodeAt_setNode [simp]: "l \<noteq> [] \<Longrightarrow> nodeAt (setNode l nd fs) k = (if k = l then Some nd else nodeAt fs k)"
  by (simp add: nodeAt_def setNode_def update_conv')

lemma nodeAt_touched [simp]: "nodeAt (touched now ls fs) k = nodeAt fs k"
  by (simp add: nodeAt_def touched_def)

lemma nodeAt_createNode [simp]:
  "l \<noteq> [] \<Longrightarrow> nodeAt (createNode now l nd fs) k = (if k = l then Some nd else nodeAt fs k)"
  by (simp add: createNode_def)

lemma fs_deny_change [simp]:
  "fs_deny (setNode l nd fs) = fs_deny fs" "fs_deny (touched now ls fs) = fs_deny fs"
  "fs_deny (createNode now l nd fs) = fs_deny fs"
  by (simp_all add: setNode_def touched_def createNode_def)

lemma nodeAt_root [simp]: "nodeAt fs [] = Some (NDir 0x1ED)"
  by (simp add: nodeAt_def)

subsection \<open>Walks that arrive\<close>

definition lookedUp :: "fsys \<Rightarrow> string list \<Rightarrow> string \<Rightarrow> node option \<Rightarrow> bool" where
  "lookedUp fs cur e nd \<longleftrightarrow>
     e \<noteq> ''.'' \<and> e \<noteq> ''..'' \<and> fs_deny fs ''lookup'' (cur @ [e]) = None \<and> nodeAt fs (cur @ [e]) = nd"

lemma walk_steps:
  "walk fs n cur (''.'' # es) = walk fs n cur es"
  "walk fs n cur (''..'' # es) = walk fs n (butlast cur) es"
  "lookedUp fs cur e (Some (NDir m)) \<Longrightarrow> walk fs n cur (e # es) = walk fs n (cur @ [e]) es"
  "lookedUp fs cur e (Some (NFile c m)) \<Longrightarrow>
     walk fs n cur (e # es) = (if es = [] then Found (cur @ [e]) else Fails ENOTDIR)"
  "lookedUp fs cur e (Some (NLink t)) \<Longrightarrow>
     walk fs n cur (e # es) =
       (if n = 0 then Fails ELOOP else walk fs (n - 1) (if IsAbs t then [] else cur) (linkElements t @ es))"
  "lookedUp fs cur e None \<Longrightarrow> walk fs n cur (e # es) = (if es = [] then Missing (cur @ [e]) else Fails ENOENT)"
  by (simp_all add: lookedUp_def)

lemma walk_denied:
  "e \<noteq> ''.'' \<Longrightarrow> e \<noteq> ''..'' \<Longrightarrow> fs_deny fs ''lookup'' (cur @ [e]) = Some err \<Longrightarrow>
   walk fs n cur (e # es) = Fails err"
  by simp

declare walk.simps(2) [simp del]

definition arrived :: "walked \<Rightarrow> bool" where
  "arrived r \<longleftrightarrow> (\<forall>err. r \<noteq> Fails err)"

lemma arrived_simps [simp]: "arrived (Found l)" "arrived (Missing l)" "\<not> arrived (Fails err)"
  by (simp_all add: arrived_def)

lemma walk_arrives [consumes 1, case_names here dot up dir plain link missing arrived]:
  assumes "walk fs n cur es = r"
    and here: "\<And>n cur. r = Found cur \<Longrightarrow> P n cur []"
    and dot: "\<And>n cur es. walk fs n cur es = r \<Longrightarrow> P n cur es \<Longrightarrow> P n cur (''.'' # es)"
    and up: "\<And>n cur es. walk fs n (butlast cur) es = r \<Longrightarrow> P n (butlast cur) es \<Longrightarrow> P n cur (''..'' # es)"
    and dir: "\<And>n cur e es m. lookedUp fs cur e (Some (NDir m)) \<Longrightarrow> walk fs n (cur @ [e]) es = r \<Longrightarrow>
      P n (cur @ [e]) es \<Longrightarrow> P n cur (e # es)"
    and plain: "\<And>n cur e c m. lookedUp fs cur e (Some (NFile c m)) \<Longrightarrow> r = Found (cur @ [e]) \<Longrightarrow> P n cur [e]"
    and link: "\<And>n cur e es t. lookedUp fs cur e (Some (NLink t)) \<Longrightarrow>
      walk fs n (if IsAbs t then [] else cur) (linkElements t @ es) = r \<Longrightarrow>
      P n (if IsAbs t then [] else cur) (linkElements t @ es) \<Longrightarrow> P (Suc n) cur (e # es)"
    and missing: "\<And>n cur e. lookedUp fs cur e None \<Longrightarrow> r = Missing (cur @ [e]) \<Longrightarrow> P n cur [e]"
    and arr: "arrived r"
  shows "P n cur es"
  using assms(1)
proof (induction fs\<equiv>fs n cur es rule: walk.induct)
  case (1 n cur)
  then show ?case
    using here by simp
next
  case (2 n cur e es)
  consider "e = ''.''" | "e = ''..''" | err where "e \<noteq> ''.''" "e \<noteq> ''..''" "fs_deny fs ''lookup'' (cur @ [e]) = Some err"
    | nd where "lookedUp fs cur e nd"
    unfolding lookedUp_def by (cases "fs_deny fs ''lookup'' (cur @ [e])") auto
  then show ?case
  proof cases
    case 1
    then show ?thesis
      using 2 dot by (simp add: walk_steps)
  next
    case c: 2
    then show ?thesis
      using 2 up by (simp add: walk_steps)
  next
    case 3
    then show ?thesis
      using 2(5) arr by (auto simp: walk_denied)
  next
    case nd: (4 nd)
    note l = nd [unfolded lookedUp_def]
    show ?thesis
    proof (cases nd)
      case None
      then show ?thesis
        using nd 2(5) arr missing by (auto simp: walk_steps(6) split: if_splits)
    next
      case (Some x)
      show ?thesis
      proof (cases x)
        case (NDir m)
        then show ?thesis
          using Some nd l 2(3) [of "NDir m" m] 2(5) dir by (simp add: walk_steps(3))
      next
        case (NFile c m)
        then show ?thesis
          using Some nd 2(5) arr plain by (auto simp: walk_steps(4) split: if_splits)
      next
        case (NLink t)
        then have "n \<noteq> 0"
          using Some nd 2(5) arr by (intro notI) (auto simp: walk_steps(5))
        moreover have w: "walk fs (n - 1) (if IsAbs t then [] else cur) (linkElements t @ es) = r"
          using calculation Some nd NLink 2(5) by (simp add: walk_steps(5))
        ultimately have "P (n - 1) (if IsAbs t then [] else cur) (linkElements t @ es)"
          using l Some NLink 2(4) [of "NLink t" t] by simp
        then show ?thesis
          using link [of cur e t "n - 1" es] w \<open>n \<noteq> 0\<close> nd Some NLink by simp
      qed
    qed
  qed
qed

text \<open>It arrives at the same place with more links allowed, and after a change.\<close>

lemma walk_more:
  assumes "walk fs n cur es = Found l" "n \<le> m"
  shows "walk fs m cur es = Found l"
proof -
  have "\<forall>m \<ge> n. walk fs m cur es = Found l"
    using assms(1)
  proof (induction rule: walk_arrives)
    case (link n cur e es t)
    then show ?case
      by (auto simp: walk_steps(5))
  qed (auto simp: walk_steps)
  then show ?thesis
    using assms(2) by blast
qed

lemma keeps_lookedUp:
  assumes "keeps fs fs'"
  shows "lookedUp fs cur e (Some (NDir m)) \<Longrightarrow> \<exists>m. lookedUp fs' cur e (Some (NDir m))"
    and "lookedUp fs cur e (Some (NFile c m)) \<Longrightarrow> \<exists>c m. lookedUp fs' cur e (Some (NFile c m))"
    and "lookedUp fs cur e (Some (NLink t)) \<Longrightarrow> lookedUp fs' cur e (Some (NLink t))"
  using keepsD [OF assms, of "cur @ [e]"] assms by (auto simp: lookedUp_def keeps_def)

lemma walk_keeps:
  assumes "walk fs n cur es = Found l" "keeps fs fs'"
  shows "walk fs' n cur es = Found l"
  using assms(1)
proof (induction rule: walk_arrives)
  case (dir n cur e es m)
  then show ?case
    using keeps_lookedUp(1) [OF assms(2) dir(1)] by (auto simp: walk_steps(3))
next
  case (plain n cur e c m)
  then show ?case
    using keeps_lookedUp(2) [OF assms(2) plain(1)] by (auto simp: walk_steps(4))
next
  case (link n cur e es t)
  then show ?case
    using keeps_lookedUp(3) [OF assms(2) link(1)] by (simp add: walk_steps(5))
qed (simp_all add: walk_steps)

text \<open>A walk to a missing place arrives there once there is a file or a directory.\<close>

lemma walk_filled:
  assumes "walk fs n cur es = Missing l" "keeps fs fs'" "nodeAt fs' l = Some nd" "\<And>t. nd \<noteq> NLink t"
  shows "walk fs' n cur es = Found l"
  using assms(1)
proof (induction rule: walk_arrives)
  case (dir n cur e es m)
  then show ?case
    using keeps_lookedUp(1) [OF assms(2) dir(1)] by (auto simp: walk_steps(3))
next
  case (link n cur e es t)
  then show ?case
    using keeps_lookedUp(3) [OF assms(2) link(1)] by (simp add: walk_steps(5))
next
  case (missing n cur e)
  then have "lookedUp fs' cur e (Some nd)"
    using assms(2,3) by (simp add: lookedUp_def keeps_def)
  then show ?case
    using missing(2) assms(4) by (cases nd) (auto simp: walk_steps)
qed (simp_all add: walk_steps)

subsection \<open>Real locations\<close>

text \<open>
  A location is real when a path without links leads to it: all names on the way are directories that can
  be searched, and it is not a link itself.
\<close>

definition realDir :: "fsys \<Rightarrow> string list \<Rightarrow> bool" where
  "realDir fs l \<longleftrightarrow> (\<forall>p e. prefix (p @ [e]) l \<longrightarrow> (\<exists>m. lookedUp fs p e (Some (NDir m))))"

definition realAt :: "fsys \<Rightarrow> string list \<Rightarrow> bool" where
  "realAt fs l \<longleftrightarrow> realDir fs l \<or>
     l \<noteq> [] \<and> realDir fs (butlast l) \<and> (\<exists>c m. lookedUp fs (butlast l) (last l) (Some (NFile c m)))"

lemma realDir_Nil [simp]: "realDir fs []"
  by (simp add: realDir_def)

lemma realDir_snoc:
  "realDir fs (l @ [e]) \<longleftrightarrow> realDir fs l \<and> (\<exists>m. lookedUp fs l e (Some (NDir m)))"
  by (auto simp: realDir_def prefix_snoc)

lemma realDir_prefix: "realDir fs l \<Longrightarrow> prefix k l \<Longrightarrow> realDir fs k"
  unfolding realDir_def by (meson prefix_order.trans)

lemma realDir_butlast: "realDir fs l \<Longrightarrow> realDir fs (butlast l)"
  by (rule realDir_prefix [OF _ prefixeq_butlast])

lemma realDir_isDir: "realDir fs l \<Longrightarrow> isDir fs l"
  by (cases l rule: rev_cases) (auto simp: realDir_snoc lookedUp_def isDir_def)

lemma walk_real:
  assumes "walk fs n cur es = r" "arrived r" "realDir fs cur"
  shows "(\<forall>l. r = Found l \<longrightarrow> realAt fs l) \<and>
     (\<forall>l. r = Missing l \<longrightarrow> l \<noteq> [] \<and> realDir fs (butlast l) \<and> lookedUp fs (butlast l) (last l) None)"
  using assms(1,3)
proof (induction rule: walk_arrives)
  case (up n cur es)
  then show ?case
    by (simp add: realDir_butlast)
next
  case (link n cur e es t)
  then show ?case
    by simp
qed (use assms(2) in \<open>auto simp: realAt_def realDir_snoc\<close>)

lemma walk_Found_real: "walk fs n [] es = Found l \<Longrightarrow> realAt fs l"
  using walk_real [of fs n "[]" es "Found l"] by simp

lemma walk_Missing_real:
  assumes "walk fs n [] es = Missing l"
  obtains d e where "l = d @ [e]" "realDir fs d" "lookedUp fs d e None"
  using walk_real [of fs n "[]" es "Missing l"] assms
  by simp (metis append_butlast_last_id that)

lemma walk_realDir: "realDir fs l \<Longrightarrow> walk fs n [] (l @ es) = walk fs n l es"
proof (induction l arbitrary: es rule: rev_induct)
  case (snoc e l)
  then show ?case
    by (auto simp: realDir_snoc walk_steps(3))
qed simp

lemma walk_realAt: "realAt fs l \<Longrightarrow> walk fs n [] l = Found l"
proof -
  assume "realAt fs l"
  then consider "realDir fs l"
    | c m where "l \<noteq> []" "realDir fs (butlast l)" "lookedUp fs (butlast l) (last l) (Some (NFile c m))"
    unfolding realAt_def by blast
  then show ?thesis
  proof cases
    case 1
    then show ?thesis
      using walk_realDir [of fs l n "[]"] by simp
  next
    case 2
    then show ?thesis
      using walk_realDir [OF 2(2), of n "[last l]"] by (simp add: walk_steps(4))
  qed
qed

lemma keeps_realDir: "realDir fs l \<Longrightarrow> keeps fs fs' \<Longrightarrow> realDir fs' l"
  unfolding realDir_def by (meson keeps_lookedUp(1))

text \<open>The names of a location are names.\<close>

definition element :: "string \<Rightarrow> bool" where
  "element e \<longleftrightarrow> e \<noteq> [] \<and> CHR ''/'' \<notin> set e"

abbreviation clean :: "string list \<Rightarrow> bool" where
  "clean es \<equiv> (\<forall>e \<in> set es. element e)"

lemma clean_elements: "clean (elements p)" "clean (linkElements t)"
  by (auto simp: element_def elements_def linkElements_def dest: Split_no_sep)

lemma names_clean: "names es \<Longrightarrow> clean es"
  by (auto simp: element_def isName_def)

lemma lookedUp_name: "lookedUp fs cur e nd \<Longrightarrow> element e \<Longrightarrow> isName e"
  by (simp add: lookedUp_def element_def isName_def)

lemma walk_names:
  assumes "walk fs n cur es = r" "arrived r" "clean es" "names cur"
  shows "(\<forall>l. r = Found l \<or> r = Missing l \<longrightarrow> names l)"
  using assms(1,3,4)
proof (induction rule: walk_arrives)
  case (up n cur es)
  have "names (butlast cur)"
    using up.prems(2) by (blast dest: in_set_butlastD)
  with up show ?case
    by simp
next
  case (link n cur e es t)
  then show ?case
    using clean_elements(2) [of t] by (auto split: if_splits)
qed (use assms(2) in \<open>simp_all add: lookedUp_name\<close>)

text \<open>A path that goes on after a directory, and a path that asks for one.\<close>

lemma walk_append:
  assumes "walk fs n cur es = Found d" "isDir fs d"
  shows "\<exists>m \<le> n. \<forall>es2. walk fs n cur (es @ es2) = walk fs m d es2"
  using assms(1)
proof (induction rule: walk_arrives)
  case (plain n cur e c m)
  then show ?case
    using assms(2) by (auto simp: lookedUp_def isDir_def)
next
  case (link n cur e es t)
  then show ?case
    by (auto simp: walk_steps(5) intro: le_SucI)
qed (auto simp: walk_steps)

lemma walk_asks:
  assumes "walk fs n cur (es @ [''.'']) = Found d" "realDir fs cur"
  shows "walk fs n cur es = Found d \<and> realDir fs d"
proof -
  have "\<forall>es. es' = es @ [''.''] \<longrightarrow> realDir fs cur \<longrightarrow> walk fs n cur es = Found d \<and> realDir fs d"
    if "walk fs n cur es' = Found d" for es'
    using that
  proof (induction rule: walk_arrives)
    case (dot n cur es)
    then show ?case
      by (auto simp: Cons_eq_append_conv walk_steps)
  next
    case (up n cur es)
    then show ?case
      by (auto simp: Cons_eq_append_conv walk_steps realDir_butlast)
  next
    case (dir n cur e es m)
    then show ?case
      by (auto simp: Cons_eq_append_conv walk_steps realDir_snoc lookedUp_def)
  next
    case (link n cur e es t)
    then show ?case
      by (auto simp: Cons_eq_append_conv walk_steps lookedUp_def)
  qed (auto simp: Cons_eq_append_conv lookedUp_def)
  then show ?thesis
    using assms by blast
qed

end
