(* ===== verification/GoText.thy ===== *)
theory GoText
  imports Jwt
begin

text \<open>
  Texts that PicoD reads: octal numbers (\<open>strconv.ParseUint\<close>), durations (\<open>time.ParseDuration\<close>),
  \<open>base64.StdEncoding\<close>, and the JSON bodies of its requests (\<open>json.Decoder\<close>).
\<close>

subsection \<open>Octal numbers\<close>

definition octDigit :: "char \<Rightarrow> nat option" where
  "octDigit c = (let n = (of_char c :: nat) in if 48 \<le> n \<and> n \<le> 55 then Some (n - 48) else None)"

fun octFrom :: "nat \<Rightarrow> string \<Rightarrow> nat option" where
  "octFrom n [] = Some n"
| "octFrom n (c # s) = (case octDigit c of None \<Rightarrow> None | Some d \<Rightarrow> octFrom (8 * n + d) s)"

text \<open>\<open>strconv.ParseUint(s, 8, 32)\<close>.\<close>

definition ParseOct32 :: "string \<Rightarrow> nat option" where
  "ParseOct32 s =
     (if s = [] then None
      else (case octFrom 0 s of None \<Rightarrow> None | Some n \<Rightarrow> if n < 2 ^ 32 then Some n else None))"

subsection \<open>Durations\<close>

definition unitMap :: "(string \<times> nat) list" where
  "unitMap =
     [(''ns'', 1), (''us'', 1000), ([CHR 0xC2, CHR 0xB5, CHR ''s''], 1000),
      ([CHR 0xCE, CHR 0xBC, CHR ''s''], 1000), (''ms'', 1000000), (''s'', 1000000000),
      (''m'', 60000000000), (''h'', 3600000000000)]"

definition numChar :: "char \<Rightarrow> bool" where
  "numChar c \<longleftrightarrow> c = CHR ''.'' \<or> isDigit c"

fun leadingInt :: "nat \<Rightarrow> string \<Rightarrow> (nat \<times> string) option" where
  "leadingInt x [] = Some (x, [])"
| "leadingInt x (c # s) =
     (if \<not> isDigit c then Some (x, c # s)
      else if x > 2 ^ 63 div 10 then None
      else (let y = x * 10 + (of_char c - 48) in if y > 2 ^ 63 then None else leadingInt y s))"

fun leadingFraction :: "nat \<Rightarrow> nat \<Rightarrow> bool \<Rightarrow> string \<Rightarrow> nat \<times> nat \<times> string" where
  "leadingFraction x scale over [] = (x, scale, [])"
| "leadingFraction x scale over (c # s) =
     (if \<not> isDigit c then (x, scale, c # s)
      else if over \<or> x > (2 ^ 63 - 1) div 10 then leadingFraction x scale True s
      else
        (let y = x * 10 + (of_char c - 48) in
         if y > 2 ^ 63 then leadingFraction x scale True s
         else leadingFraction y (scale * 10) False s))"

lemma leadingInt_length: "leadingInt x s = Some (v, r) \<Longrightarrow> length r \<le> length s"
  by (induction x s rule: leadingInt.induct) (auto simp: Let_def split: if_splits)

lemma leadingFraction_length: "leadingFraction x sc b s = (v, k, r) \<Longrightarrow> length r \<le> length s"
  by (induction s arbitrary: x sc b) (auto simp: Let_def intro: le_SucI split: if_splits)

text \<open>
  One number with its unit, and the text after it.  The fraction of a unit is computed exactly; Go uses
  \<open>float64\<close> for it, which may differ by a nanosecond.
\<close>

definition durationPart :: "string \<Rightarrow> (nat \<times> string) option" where
  "durationPart s =
     (if s = [] \<or> \<not> numChar (hd s) then None
      else
        (case leadingInt 0 s of
           None \<Rightarrow> None
         | Some (v, s1) \<Rightarrow>
             (let pre = (length s1 \<noteq> length s); dot = (s1 \<noteq> [] \<and> hd s1 = CHR ''.'') in
              case (if dot then leadingFraction 0 1 False (tl s1) else (0, 1, s1)) of
                (f, scale, s2) \<Rightarrow>
                  (let post = (dot \<and> length s2 \<noteq> length (tl s1));
                       u = takeWhile (\<lambda>c. \<not> numChar c) s2; rest = dropWhile (\<lambda>c. \<not> numChar c) s2 in
                   if \<not> pre \<and> \<not> post \<or> u = [] then None
                   else
                     (case map_of unitMap u of
                        None \<Rightarrow> None
                      | Some unit \<Rightarrow>
                          if v > 2 ^ 63 div unit then None
                          else
                            (let w = v * unit + (if f > 0 then f * unit div scale else 0) in
                             if w > 2 ^ 63 then None else Some (w, rest)))))))"

lemma durationPart_shorter: "durationPart s = Some (w, rest) \<Longrightarrow> length rest < length s"
proof -
  assume d: "durationPart s = Some (w, rest)"
  then obtain v s1 where i: "leadingInt 0 s = Some (v, s1)"
    by (auto simp: durationPart_def split: if_splits option.splits)
  obtain f k s2 where f: "(if s1 \<noteq> [] \<and> hd s1 = CHR ''.'' then leadingFraction 0 1 False (tl s1) else (0, 1, s1)) = (f, k, s2)"
    by (metis prod_cases3)
  have s2: "length s2 \<le> length s1"
    using f leadingFraction_length [of 0 1 False "tl s1" f k s2] by (cases s1) (auto split: if_splits)
  have r: "rest = dropWhile (\<lambda>c. \<not> numChar c) s2" "takeWhile (\<lambda>c. \<not> numChar c) s2 \<noteq> []"
    using d i f by (auto simp: durationPart_def Let_def split: if_splits option.splits)
  have "length s2 = length (takeWhile (\<lambda>c. \<not> numChar c) s2) + length rest"
    unfolding r(1) by (metis length_append takeWhile_dropWhile_id)
  then show ?thesis
    using r(2) s2 leadingInt_length [OF i] by (cases "takeWhile (\<lambda>c. \<not> numChar c) s2") auto
qed

function durationSum :: "nat \<Rightarrow> string \<Rightarrow> nat option" where
  "durationSum d s =
     (if s = [] then Some d
      else
        (case durationPart s of
           None \<Rightarrow> None
         | Some (w, rest) \<Rightarrow> if d + w > 2 ^ 63 then None else durationSum (d + w) rest))"
  by pat_completeness auto
termination
  by (relation "measure (\<lambda>(d, s). length s)") (auto dest: durationPart_shorter)

declare durationSum.simps [simp del]

definition ParseDuration :: "string \<Rightarrow> Duration option" where
  "ParseDuration orig =
     (let signed = (orig \<noteq> [] \<and> hd orig \<in> {CHR ''-'', CHR ''+''}); neg = (signed \<and> hd orig = CHR ''-'');
          s = (if signed then tl orig else orig) in
      if s = ''0'' then Some 0
      else if s = [] then None
      else
        (case durationSum 0 s of
           None \<Rightarrow> None
         | Some d \<Rightarrow> if neg then Some (- int d) else if d > 2 ^ 63 - 1 then None else Some (int d)))"

lemma durationSum_bound: "durationSum d s = Some v \<Longrightarrow> d \<le> 2 ^ 63 \<Longrightarrow> v \<le> 2 ^ 63"
proof (induction d s rule: durationSum.induct)
  case (1 d s)
  then show ?case
    by (auto simp: durationSum.simps [of d s] split: if_splits option.splits)
qed

text \<open>The result is an \<open>int64\<close>.\<close>

lemma ParseDuration_range: "ParseDuration s = Some d \<Longrightarrow> - (2 ^ 63) \<le> d \<and> d < 2 ^ 63"
  using durationSum_bound [of 0]
  by (fastforce simp: ParseDuration_def Let_def split: if_splits option.splits)

subsection \<open>\<open>base64.StdEncoding\<close>\<close>

definition stdVal :: "char \<Rightarrow> nat option" where
  "stdVal c =
     (let n = (of_char c :: nat) in
      if n = 43 then Some 62 else if n = 47 then Some 63 else if n = 45 \<or> n = 95 then None else b64Val c)"

text \<open>The groups of four; the last one may be padded.  Line breaks are skipped before.\<close>

fun stdGroups :: "string \<Rightarrow> string option" where
  "stdGroups [] = Some []"
| "stdGroups (a # b # c # d # s) =
     (case (stdVal a, stdVal b) of
        (Some w, Some x) \<Rightarrow>
          if c = CHR ''='' then
            (if d = CHR ''='' \<and> s = [] then Some [char_of (w * 4 + x div 16)] else None)
          else
            (case stdVal c of
               None \<Rightarrow> None
             | Some y \<Rightarrow>
                 if d = CHR ''='' then
                   (if s = [] then Some [char_of (w * 4 + x div 16), char_of (x mod 16 * 16 + y div 4)]
                    else None)
                 else
                   (case stdVal d of
                      None \<Rightarrow> None
                    | Some z \<Rightarrow>
                        map_option (\<lambda>t. char_of (w * 4 + x div 16) # char_of (x mod 16 * 16 + y div 4) #
                          char_of (y mod 4 * 64 + z) # t) (stdGroups s)))
      | _ \<Rightarrow> None)"
| "stdGroups s = None"

definition StdDecode :: "string \<Rightarrow> string option" where
  "StdDecode s = stdGroups (filter (\<lambda>c. c \<noteq> CHR 0x0A \<and> c \<noteq> CHR 0x0D) s)"

subsection \<open>JSON bodies\<close>

text \<open>\<open>json.NewDecoder(body).Decode\<close> into a struct reads the first value of the body; what follows is ignored.\<close>

definition DecodeStruct :: "string \<Rightarrow> (string \<times> jval) list res" where
  "DecodeStruct body =
     (case readAny (2 * length body) (skipWS body) of
        Some (VObj kvs, rest) \<Rightarrow> Inr kvs
      | Some (VNull, rest) \<Rightarrow> Inr []
      | _ \<Rightarrow> Inl jsonErr)"

fun stringsOf :: "jval list \<Rightarrow> string list res" where
  "stringsOf [] = Inr []"
| "stringsOf (v # vs) =
     (case (v, stringsOf vs) of
        (VStr s, Inr ss) \<Rightarrow> Inr (s # ss)
      | (VNull, Inr ss) \<Rightarrow> Inr ([] # ss)
      | _ \<Rightarrow> Inl typeErr)"

text \<open>A \<open>[]string\<close> field; \<open>None\<close> is the nil slice.\<close>

fun stringsField :: "string \<Rightarrow> (string \<times> jval) list \<Rightarrow> string list option \<Rightarrow> string list option res" where
  "stringsField name [] cur = Inr cur"
| "stringsField name ((k, v) # kvs) cur =
     (if \<not> EqualFold k name then stringsField name kvs cur
      else
        (case v of
           VArr vs \<Rightarrow> (case stringsOf vs of Inl e \<Rightarrow> Inl e | Inr ss \<Rightarrow> stringsField name kvs (Some ss))
         | VNull \<Rightarrow> stringsField name kvs None
         | _ \<Rightarrow> Inl typeErr))"

fun stringPairs :: "(string \<times> jval) list \<Rightarrow> (string \<times> string) list \<Rightarrow> (string \<times> string) list res" where
  "stringPairs [] m = Inr m"
| "stringPairs ((k, v) # kvs) m =
     (case v of
        VStr s \<Rightarrow> stringPairs kvs (AList.update k s m)
      | VNull \<Rightarrow> stringPairs kvs (AList.update k [] m)
      | _ \<Rightarrow> Inl typeErr)"

text \<open>A \<open>map[string]string\<close> field.\<close>

fun mapField ::
  "string \<Rightarrow> (string \<times> jval) list \<Rightarrow> (string \<times> string) list \<Rightarrow> (string \<times> string) list res" where
  "mapField name [] cur = Inr cur"
| "mapField name ((k, v) # kvs) cur =
     (if \<not> EqualFold k name then mapField name kvs cur
      else
        (case v of
           VObj ps \<Rightarrow> (case stringPairs ps cur of Inl e \<Rightarrow> Inl e | Inr m \<Rightarrow> mapField name kvs m)
         | VNull \<Rightarrow> mapField name kvs []
         | _ \<Rightarrow> Inl typeErr))"

end
