(* ===== verification/Picod.thy ===== *)
theory Picod
  imports GoFs GoText Tokens
begin

text \<open>
  PicoD, the daemon inside a sandbox, \<open>pkg/picod\<close>: files of the workspace (\<open>files.go\<close>), execution of
  commands (\<open>execute.go\<close>) and the server (\<open>server.go\<close>); its authentication is in \<open>Tokens\<close>.

  The state is the file system.  What a started command does, the environment, the MIME types and the
  texts of the validator of \<open>gin\<close> are parameters, the record \<open>picodEnv\<close>.  A handler runs on its own:
  no process moves links between its calls.  Texts quoted with \<open>%q\<close> are given without escapes.
\<close>

record cmdSpec =
  cs_args :: "string list"
  cs_Dir :: string
  cs_Env :: "string list option"
  cs_timeout :: Duration

text \<open>
  What \<open>cmd.Run\<close> leaves: whether the deadline of the context had passed, the exit code when there is a
  process state, its error, the two buffers, and the readings of the clock.
\<close>

record execOutcome =
  xo_deadline :: bool
  xo_exitCode :: "int option"
  xo_err :: "gerr option"
  xo_stdout :: string
  xo_stderr :: string
  xo_start :: Time
  xo_since :: Duration
  xo_end :: Time

record picodEnv =
  pe_now :: Time
  pe_getwd :: "string res"
  pe_mime :: "string \<Rightarrow> string"
  pe_required :: "string list \<Rightarrow> string"
  pe_environ :: "string list"
  pe_range :: "(string \<times> string) list \<Rightarrow> (string \<times> string) list"
  pe_run :: "cmdSpec \<Rightarrow> fsys \<Rightarrow> execOutcome \<times> fsys"

subsection \<open>Responses\<close>

record FileInfo =
  fi_Path :: string
  fi_Size :: nat
  fi_Mode :: string
  fi_Modified :: Time

record FileEntry =
  fe_Name :: string
  fe_Size :: nat
  fe_Modified :: Time
  fe_Mode :: string
  fe_IsDir :: bool

record ExecuteResponse =
  xr_Stdout :: string
  xr_Stderr :: string
  xr_ExitCode :: int
  xr_Duration :: Duration
  xr_StartTime :: Time
  xr_EndTime :: Time

datatype picodResponse =
    PicodError nat string
  | PicodTooLarge
  | PicodInfo FileInfo
  | PicodFiles "FileEntry list"
  | PicodFile "(string \<times> string) list" string
  | PicodRedirect string
  | PicodText nat string
  | PicodExec ExecuteResponse
  | PicodHealth Duration

definition quoted :: "string \<Rightarrow> string" where
  "quoted s = [CHR 0x27] @ s @ [CHR 0x27]"

definition quotedGo :: "string \<Rightarrow> string" where
  "quotedGo s = [CHR 0x22] @ s @ [CHR 0x22]"

subsection \<open>The workspace\<close>

text \<open>\<open>filepath.Abs\<close>.\<close>

definition Abs :: "picodEnv \<Rightarrow> string \<Rightarrow> string res" where
  "Abs env p =
     (if IsAbs p then Inr (Clean p)
      else (case pe_getwd env of Inl e \<Rightarrow> Inl e | Inr wd \<Rightarrow> Inr (Join_path wd p)))"

definition setWorkspace :: "picodEnv \<Rightarrow> string \<Rightarrow> fsys \<Rightarrow> string res \<times> fsys" where
  "setWorkspace env dir fs =
     (case Abs env dir of
        Inl e \<Rightarrow>
          (Inl (ErrWrap (''failed to resolve absolute path for workspace '' @ quotedGo dir) e), fs)
      | Inr absDir \<Rightarrow>
          (case MkdirAll (pe_now env) 0x1ED absDir fs of
             (Some e, fs') \<Rightarrow>
               (Inl (ErrWrap (''failed to create workspace directory '' @ quotedGo absDir) e), fs')
           | (None, fs') \<Rightarrow> (Inr absDir, fs')))"

definition sanitizePath :: "picodEnv \<Rightarrow> string \<Rightarrow> fsys \<Rightarrow> string \<Rightarrow> string res" where
  "sanitizePath env workspaceDir fs p =
     (if workspaceDir = [] then Inl (ErrMsg ''workspace directory not initialized'')
      else
        (let resolved = (case EvalSymlinks fs workspaceDir of
               Inr r \<Rightarrow> r
             | Inl _ \<Rightarrow> (case Abs env workspaceDir of Inr a \<Rightarrow> a | Inl _ \<Rightarrow> Clean workspaceDir));
             resolvedWorkspace = Clean resolved;
             cleaned = Clean p;
             cleanPath = (if IsAbs cleaned then TrimPrefix cleaned ''/'' else cleaned);
             fullPathCandidate = Clean (Join_path resolvedWorkspace cleanPath) in
         case Rel resolvedWorkspace fullPathCandidate of
           Inl relErr \<Rightarrow>
             Inl (ErrMsg (''access denied: path '' @ quoted p @ '' escapes workspace jail (rel error: '' @
               Error relErr @ '')''))
         | Inr relPath \<Rightarrow>
             if escapes relPath then
               Inl (ErrMsg (''access denied: path '' @ quoted p @
                 '' escapes workspace jail (relative path traversal: '' @ relPath @ '')''))
             else
               (case EvalSymlinks fs fullPathCandidate of
                  Inl _ \<Rightarrow> Inr fullPathCandidate
                | Inr resolvedFinalPath \<Rightarrow>
                    (let denied = ErrMsg (''access denied: resolved path '' @ quoted resolvedFinalPath @
                           '' (from '' @ quoted p @ '') escapes workspace jail via symlink'') in
                     case Rel resolvedWorkspace resolvedFinalPath of
                       Inl _ \<Rightarrow> Inl denied
                     | Inr finalRelPath \<Rightarrow>
                         if escapes finalRelPath then Inl denied else Inr resolvedFinalPath))))"

text \<open>
  The loop of \<open>mkdirSafe\<close> that walks up to the deepest ancestor that exists, on the elements of the path
  from the last one; the root exists.
\<close>

fun deepestExisting :: "fsys \<Rightarrow> string list \<Rightarrow> string list" where
  "deepestExisting fs [] = []"
| "deepestExisting fs (e # up) =
     (case lstatAt fs (rev (e # up)) of Inr nd \<Rightarrow> rev (e # up) | Inl _ \<Rightarrow> deepestExisting fs up)"

definition mkdirSafe :: "picodEnv \<Rightarrow> string \<Rightarrow> string \<Rightarrow> fsys \<Rightarrow> gerr option \<times> fsys" where
  "mkdirSafe env workspaceDir dir fs =
     (let resolvedWorkspace = (case EvalSymlinks fs workspaceDir of Inr r \<Rightarrow> r | Inl _ \<Rightarrow> Clean workspaceDir);
          existing = pathOf True (deepestExisting fs (rev (elements dir)));
          denied = ErrMsg (''access denied: path '' @ quotedGo dir @ '' escapes workspace jail via symlink'') in
      case EvalSymlinks fs existing of
        Inl e \<Rightarrow>
          (Some (ErrWrap (''failed to resolve path '' @ quotedGo existing) (PathError ''lstat'' existing e)), fs)
      | Inr resolved \<Rightarrow>
          (case Rel resolvedWorkspace resolved of
             Inl _ \<Rightarrow> (Some denied, fs)
           | Inr rel \<Rightarrow>
               if escapes rel then (Some denied, fs) else MkdirAll (pe_now env) 0x1ED dir fs))"

subsection \<open>Modes\<close>

definition maxFileMode :: nat where "maxFileMode = 0x1FF"

text \<open>The default mode is 0644.\<close>

definition parseFileMode :: "string \<Rightarrow> nat" where
  "parseFileMode modeStr =
     (if modeStr = [] then 0x1A4
      else
        (case ParseOct32 modeStr of
           None \<Rightarrow> 0x1A4
         | Some mode \<Rightarrow> if mode > maxFileMode then 0x1A4 else mode))"

text \<open>\<open>FileMode.String\<close> and \<open>FileInfo.Size\<close> of a node.\<close>

definition permText :: "nat \<Rightarrow> string" where
  "permText m = map (\<lambda>(i, c). if bit m i then c else CHR ''-'') (zip [8, 7, 6, 5, 4, 3, 2, 1, 0] ''rwxrwxrwx'')"

fun modeText :: "node \<Rightarrow> string" where
  "modeText (NDir m) = ''d'' @ permText m"
| "modeText (NFile c m) = ''-'' @ permText m"
| "modeText (NLink t) = ''Lrwxrwxrwx''"

fun nodeSize :: "fsys \<Rightarrow> string list \<Rightarrow> node \<Rightarrow> nat" where
  "nodeSize fs l (NDir m) = fs_dirSize fs l"
| "nodeSize fs l (NFile c m) = length c"
| "nodeSize fs l (NLink t) = length t"

subsection \<open>Files\<close>

text \<open>
  A request: the declared length and the body, the fields and the file of a multipart form as \<open>gin\<close> reads
  them (the file, once opened, is its content), and the parameters of the URL.
\<close>

record picodRequest =
  pq_ContentType :: string
  pq_ContentLength :: int
  pq_Body :: string
  pq_PostForm :: "string \<Rightarrow> string"
  pq_FormFile :: "string res res"
  pq_ParamPath :: string
  pq_QueryPath :: string
  pq_Header :: "string \<Rightarrow> string"

definition MaxBodySize :: nat where "MaxBodySize = 32 * 2 ^ 20"

record UploadFileRequest =
  uf_Path :: string
  uf_Content :: string
  uf_Mode :: string

text \<open>\<open>c.ShouldBindJSON\<close>: the body up to its limit is decoded, and the required fields must be there.\<close>

definition bindUpload :: "picodEnv \<Rightarrow> string \<Rightarrow> UploadFileRequest res" where
  "bindUpload env body =
     (case DecodeStruct (take MaxBodySize body) of
        Inl e \<Rightarrow> Inl e
      | Inr kvs \<Rightarrow>
          (case (strField ''path'' kvs [], strField ''content'' kvs [], strField ''mode'' kvs []) of
             (Inr path, Inr content, Inr mode) \<Rightarrow>
               (let missing = (if path = [] then [''Path''] else []) @ (if content = [] then [''Content''] else []) in
                if missing \<noteq> [] then Inl (ErrMsg (pe_required env missing))
                else Inr \<lparr>uf_Path = path, uf_Content = content, uf_Mode = mode\<rparr>)
           | _ \<Rightarrow> Inl typeErr))"

text \<open>The answer to an upload, from the file as it is now.\<close>

definition uploadInfo :: "string \<Rightarrow> string \<Rightarrow> fsys \<Rightarrow> picodResponse" where
  "uploadInfo workspaceDir safePath fs =
     (case Stat fs safePath of
        Inl e \<Rightarrow> PicodError 500 (''Failed to get file info: '' @ Error (PathError ''stat'' safePath e))
      | Inr l \<Rightarrow>
          (case (nodeAt fs l, Rel workspaceDir safePath) of
             (Some nd, Inr relPath) \<Rightarrow>
               PicodInfo \<lparr>fi_Path = relPath, fi_Size = nodeSize fs l nd, fi_Mode = modeText nd,
                 fi_Modified = fs_mtime fs l\<rparr>
           | (Some nd, Inl e) \<Rightarrow> PicodError 500 (''Failed to get relative path: '' @ Error e)
           | (None, _) \<Rightarrow> PicodError 500 (''Failed to get file info: '' @ Error (PathError ''stat'' safePath ENOENT))))"

definition handleMultipartUpload ::
  "picodEnv \<Rightarrow> string \<Rightarrow> picodRequest \<Rightarrow> fsys \<Rightarrow> picodResponse \<times> fsys" where
  "handleMultipartUpload env workspaceDir c fs =
     (let path = pq_PostForm c ''path'' in
      if path = [] then (PicodError 400 (''Missing '' @ quoted ''path'' @ '' field''), fs)
      else
        (case pq_FormFile c of
           Inl e \<Rightarrow> (PicodError 400 (''Failed to get file: '' @ Error e), fs)
         | Inr opened \<Rightarrow>
             (case sanitizePath env workspaceDir fs path of
                Inl e \<Rightarrow> (PicodError 400 (Error e), fs)
              | Inr safePath \<Rightarrow>
                  (case MkdirAll (pe_now env) 0x1ED (Dir safePath) fs of
                     (Some e, fs1) \<Rightarrow> (PicodError 500 (''Failed to create directory: '' @ Error e), fs1)
                   | (None, fs1) \<Rightarrow>
                       (let fileMode = parseFileMode (pq_PostForm c ''mode'') in
                        case opened of
                          Inl e \<Rightarrow> (PicodError 500 ''Failed to open uploaded file'', fs1)
                        | Inr src \<Rightarrow>
                            (case OpenFile (pe_now env) fileMode safePath fs1 of
                               (Inl e, fs2) \<Rightarrow> (PicodError 500 ''Failed to create destination file'', fs2)
                             | (Inr dst, fs2) \<Rightarrow>
                                 (case writeAt (pe_now env) dst src fs2 of
                                    (Some e, fs3) \<Rightarrow> (PicodError 500 ''Failed to save file content'', fs3)
                                  | (None, fs3) \<Rightarrow> (uploadInfo workspaceDir safePath fs3, fs3))))))))"

definition handleJSONBase64Upload ::
  "picodEnv \<Rightarrow> string \<Rightarrow> picodRequest \<Rightarrow> fsys \<Rightarrow> picodResponse \<times> fsys" where
  "handleJSONBase64Upload env workspaceDir c fs =
     (case bindUpload env (pq_Body c) of
        Inl e \<Rightarrow> (PicodError 400 (Error e), fs)
      | Inr req \<Rightarrow>
          (case sanitizePath env workspaceDir fs (uf_Path req) of
             Inl e \<Rightarrow> (PicodError 400 (Error e), fs)
           | Inr safePath \<Rightarrow>
               (case StdDecode (uf_Content req) of
                  None \<Rightarrow> (PicodError 400 ''Invalid base64 content: illegal base64 data'', fs)
                | Some decodedContent \<Rightarrow>
                    (case MkdirAll (pe_now env) 0x1ED (Dir safePath) fs of
                       (Some e, fs1) \<Rightarrow> (PicodError 500 (''Failed to create directory: '' @ Error e), fs1)
                     | (None, fs1) \<Rightarrow>
                         (let fileMode = parseFileMode (uf_Mode req) in
                          case WriteFile (pe_now env) fileMode safePath decodedContent fs1 of
                            (Some e, fs2) \<Rightarrow> (PicodError 500 (''Failed to write file: '' @ Error e), fs2)
                          | (None, fs2) \<Rightarrow> (uploadInfo workspaceDir safePath fs2, fs2))))))"

definition UploadFileHandler ::
  "picodEnv \<Rightarrow> string \<Rightarrow> picodRequest \<Rightarrow> fsys \<Rightarrow> picodResponse \<times> fsys" where
  "UploadFileHandler env workspaceDir c fs =
     (if HasPrefix (pq_ContentType c) ''multipart/form-data''
      then handleMultipartUpload env workspaceDir c fs
      else handleJSONBase64Upload env workspaceDir c fs)"

text \<open>
  \<open>c.File\<close> is \<open>http.ServeFile\<close>, for a request without conditions and ranges: it refuses a URL with an
  element \<open>..\<close>, sends a URL that ends in \<open>/index.html\<close> to its directory, and otherwise sends the file.
\<close>

definition Ext :: "string \<Rightarrow> string" where
  "Ext p =
     (let r = rev p; tail = takeWhile (\<lambda>c. c \<noteq> CHR ''/'' \<and> c \<noteq> CHR ''.'') r in
      if length tail < length r \<and> r ! length tail = CHR ''.'' then CHR ''.'' # rev tail else [])"

definition containsDotDot :: "string \<Rightarrow> bool" where
  "containsDotDot p \<longleftrightarrow> ''..'' \<in> set (concat (map (\<lambda>s. Split s (CHR 0x5C)) (Split p (CHR ''/''))))"

definition HasSuffix :: "string \<Rightarrow> string \<Rightarrow> bool" where
  "HasSuffix s t \<longleftrightarrow> suffix t s"

definition toHTTPError :: "errno \<Rightarrow> picodResponse" where
  "toHTTPError e =
     (if e = ENOENT then PicodText 404 ''404 page not found''
      else if e = EOTHER ''permission denied'' then PicodText 403 ''403 Forbidden''
      else PicodText 500 ''500 Internal Server Error'')"

definition ServeFile :: "string \<Rightarrow> (string \<times> string) list \<Rightarrow> string \<Rightarrow> fsys \<Rightarrow> picodResponse" where
  "ServeFile urlPath headers name fs =
     (if containsDotDot urlPath then PicodText 400 ''invalid URL path''
      else if HasSuffix urlPath ''/index.html'' then PicodRedirect ''./''
      else
        (case Stat fs name of
           Inl e \<Rightarrow> toHTTPError e
         | Inr l \<Rightarrow>
             (case nodeAt fs l of
                Some (NFile content mode) \<Rightarrow>
                  (case fs_deny fs ''open'' l of
                     None \<Rightarrow> PicodFile headers content
                   | Some e \<Rightarrow> toHTTPError e)
              | _ \<Rightarrow> PicodText 500 ''500 Internal Server Error'')))"

definition DownloadFileHandler :: "picodEnv \<Rightarrow> string \<Rightarrow> picodRequest \<Rightarrow> fsys \<Rightarrow> picodResponse" where
  "DownloadFileHandler env workspaceDir c fs =
     (if pq_ParamPath c = [] then PicodError 400 ''Missing file path''
      else
        (case sanitizePath env workspaceDir fs (TrimPrefix (pq_ParamPath c) ''/'') of
           Inl e \<Rightarrow> PicodError 400 (Error e)
         | Inr safePath \<Rightarrow>
             (case Stat fs safePath of
                Inl e \<Rightarrow>
                  if e = ENOENT then PicodError 404 ''File not found''
                  else PicodError 500 (''Failed to get file info: '' @ Error (PathError ''stat'' safePath e))
              | Inr l \<Rightarrow>
                  if isDir fs l then PicodError 400 ''Path is a directory, not a file''
                  else
                    (let mime = pe_mime env (Ext safePath);
                         contentType = (if mime = [] then ''application/octet-stream'' else mime) in
                     ServeFile (''/api/files'' @ pq_ParamPath c)
                       [(''Content-Description'', ''File Transfer''), (''Content-Transfer-Encoding'', ''binary''),
                        (''Content-Disposition'', ''attachment; filename='' @ quotedGo (Base safePath)),
                        (''Content-Type'', contentType)] safePath fs))))"

definition ListFilesHandler :: "picodEnv \<Rightarrow> string \<Rightarrow> picodRequest \<Rightarrow> fsys \<Rightarrow> picodResponse" where
  "ListFilesHandler env workspaceDir c fs =
     (if pq_QueryPath c = [] then PicodError 400 (''Missing '' @ quoted ''path'' @ '' query parameter'')
      else
        (case sanitizePath env workspaceDir fs (pq_QueryPath c) of
           Inl e \<Rightarrow> PicodError 400 (Error e)
         | Inr safePath \<Rightarrow>
             (case ReadDir fs safePath of
                Inl e \<Rightarrow>
                  if e = ENOENT then PicodError 404 ''Directory not found''
                  else PicodError 500 (''Failed to read directory: '' @ Error (PathError ''open'' safePath e))
              | Inr entries \<Rightarrow>
                  PicodFiles (List.map_filter (\<lambda>(name, l).
                    (case (fs_deny fs ''lookup'' l, nodeAt fs l) of
                       (None, Some nd) \<Rightarrow>
                         Some \<lparr>fe_Name = name, fe_Size = nodeSize fs l nd, fe_Modified = fs_mtime fs l,
                           fe_Mode = modeText nd, fe_IsDir = (kindOf nd = KDir)\<rparr>
                     | _ \<Rightarrow> None)) entries))))"

subsection \<open>Commands\<close>

record ExecuteRequest =
  xq_Command :: "string list"
  xq_Timeout :: string
  xq_WorkingDir :: string
  xq_Env :: "(string \<times> string) list"

definition bindExecute :: "picodEnv \<Rightarrow> string \<Rightarrow> ExecuteRequest res" where
  "bindExecute env body =
     (case DecodeStruct (take MaxBodySize body) of
        Inl e \<Rightarrow> Inl e
      | Inr kvs \<Rightarrow>
          (case (stringsField ''command'' kvs None, strField ''timeout'' kvs [],
              strField ''working_dir'' kvs [], mapField ''env'' kvs []) of
             (Inr command, Inr timeout, Inr workingDir, Inr vars) \<Rightarrow>
               (case command of
                  None \<Rightarrow> Inl (ErrMsg (pe_required env [''Command'']))
                | Some args \<Rightarrow>
                    Inr \<lparr>xq_Command = args, xq_Timeout = timeout, xq_WorkingDir = workingDir, xq_Env = vars\<rparr>)
           | _ \<Rightarrow> Inl typeErr))"

definition TimeoutExitCode :: int where "TimeoutExitCode = 124"

text \<open>\<open>fmt.Sprintf("%.0f", d.Seconds())\<close>: rounded to the nearest, ties to even.\<close>

definition secondsText :: "Duration \<Rightarrow> string" where
  "secondsText d =
     (let a = \<bar>d\<bar>; q = a div Second; r = a mod Second;
          n = (if 2 * r < Second \<or> 2 * r = Second \<and> even q then q else q + 1) in
      (if d < 0 then ''-'' else []) @ Itoa n)"

text \<open>The working directory of a command, made when it is not there.\<close>

definition workingDir :: "picodEnv \<Rightarrow> string \<Rightarrow> string \<Rightarrow> fsys \<Rightarrow> (picodResponse + string) \<times> fsys" where
  "workingDir env workspaceDir dir fs =
     (if dir = [] then (Inr workspaceDir, fs)
      else
        (case sanitizePath env workspaceDir fs dir of
           Inl e \<Rightarrow> (Inl (PicodError 400 (''Invalid working directory: '' @ Error e)), fs)
         | Inr safeWorkingDir \<Rightarrow>
             if Stat fs safeWorkingDir = Inl ENOENT then
               (case mkdirSafe env workspaceDir safeWorkingDir fs of
                  (Some e, fs') \<Rightarrow> (Inl (PicodError 500 (''Failed to create working directory: '' @ Error e)), fs')
                | (None, fs') \<Rightarrow> (Inr safeWorkingDir, fs'))
             else (Inr safeWorkingDir, fs)))"

text \<open>The answer, from what the run left.\<close>

definition executeResponse :: "Duration \<Rightarrow> execOutcome \<Rightarrow> ExecuteResponse" where
  "executeResponse timeout result =
     (case (if xo_deadline result
         then (TimeoutExitCode, xo_stderr result @ ''Command timed out after '' @ secondsText timeout @ '' seconds'')
         else
           (case xo_exitCode result of
              Some code \<Rightarrow> (code, xo_stderr result)
            | None \<Rightarrow>
                (1, (if xo_stderr result \<noteq> [] then xo_stderr result @ [CHR 0x0A] else []) @
                  (case xo_err result of Some e \<Rightarrow> Error e | None \<Rightarrow> [])))) of
        (exitCode, err) \<Rightarrow>
          \<lparr>xr_Stdout = xo_stdout result, xr_Stderr = err, xr_ExitCode = exitCode, xr_Duration = xo_since result,
           xr_StartTime = xo_start result, xr_EndTime = xo_end result\<rparr>)"

definition ExecuteHandler :: "picodEnv \<Rightarrow> string \<Rightarrow> picodRequest \<Rightarrow> fsys \<Rightarrow> picodResponse \<times> fsys" where
  "ExecuteHandler env workspaceDir c fs =
     (case bindExecute env (pq_Body c) of
        Inl e \<Rightarrow> (PicodError 400 (Error e), fs)
      | Inr req \<Rightarrow>
          if xq_Command req = [] then (PicodError 400 ''command cannot be empty'', fs)
          else
            (case (if xq_Timeout req = [] then Some (60 * Second) else ParseDuration (xq_Timeout req)) of
               None \<Rightarrow>
                 (PicodError 400 (''Invalid timeout format: time: invalid duration '' @ quotedGo (xq_Timeout req)), fs)
             | Some timeoutDuration \<Rightarrow>
                 (case workingDir env workspaceDir (xq_WorkingDir req) fs of
                    (Inl r, fs1) \<Rightarrow> (r, fs1)
                  | (Inr dir, fs1) \<Rightarrow>
                      (let currentEnv = (if xq_Env req = [] then None
                             else Some (pe_environ env @ map (\<lambda>(k, v). k @ ''='' @ v) (pe_range env (xq_Env req)))) in
                       case pe_run env \<lparr>cs_args = xq_Command req, cs_Dir = dir, cs_Env = currentEnv,
                           cs_timeout = timeoutDuration\<rparr> fs1 of
                         (result, fs2) \<Rightarrow> (PicodExec (executeResponse timeoutDuration result), fs2)))))"

subsection \<open>The server\<close>

record picodServer =
  ps_workspaceDir :: string
  ps_publicKey :: string
  ps_startTime :: Time

text \<open>\<open>klog.Fatalf\<close> ends the process: an error of \<open>NewServer\<close>.\<close>

definition NewServer_picod ::
  "keyLib \<Rightarrow> picodEnv \<Rightarrow> string \<Rightarrow> string \<Rightarrow> fsys \<Rightarrow> picodServer res \<times> fsys" where
  "NewServer_picod kl env workspace keyData fs =
     (case (if workspace = [] then pe_getwd env else Inr workspace) of
        Inl e \<Rightarrow> (Inl (ErrWrap ''Failed to get current working directory'' e), fs)
      | Inr dir \<Rightarrow>
          (case setWorkspace env dir fs of
             (Inl e, fs1) \<Rightarrow> (Inl (ErrWrap ''Failed to initialize workspace'' e), fs1)
           | (Inr workspaceDir, fs1) \<Rightarrow>
               (case LoadPublicKeyFromEnv kl keyData of
                  Inl e \<Rightarrow> (Inl (ErrWrap ''Failed to load public key from environment'' e), fs1)
                | Inr publicKey \<Rightarrow>
                    (Inr \<lparr>ps_workspaceDir = workspaceDir, ps_publicKey = publicKey, ps_startTime = pe_now env\<rparr>, fs1))))"

definition maxBodySizeMiddleware :: "picodRequest \<Rightarrow> picodResponse option" where
  "maxBodySizeMiddleware c = (if pq_ContentLength c > int MaxBodySize then Some PicodTooLarge else None)"

definition HealthCheckHandler :: "picodEnv \<Rightarrow> picodServer \<Rightarrow> picodResponse" where
  "HealthCheckHandler env s = PicodHealth (pe_now env - ps_startTime s)"

datatype picodRoute = ExecuteRoute | UploadRoute | ListRoute | DownloadRoute | HealthRoute

definition servePicod ::
  "jwtLib \<Rightarrow> picodEnv \<Rightarrow> picodServer \<Rightarrow> picodRoute \<Rightarrow> picodRequest \<Rightarrow> fsys \<Rightarrow> picodResponse \<times> fsys" where
  "servePicod jl env s route c fs =
     (case maxBodySizeMiddleware c of
        Some r \<Rightarrow> (r, fs)
      | None \<Rightarrow>
          if route = HealthRoute then (HealthCheckHandler env s, fs)
          else
            (case AuthMiddleware jl (ps_publicKey s) (pe_now env) (pq_Header c) of
               Some (code, message) \<Rightarrow> (PicodError code message, fs)
             | None \<Rightarrow>
                 (case route of
                    ExecuteRoute \<Rightarrow> ExecuteHandler env (ps_workspaceDir s) c fs
                  | UploadRoute \<Rightarrow> UploadFileHandler env (ps_workspaceDir s) c fs
                  | ListRoute \<Rightarrow> (ListFilesHandler env (ps_workspaceDir s) c fs, fs)
                  | _ \<Rightarrow> (DownloadFileHandler env (ps_workspaceDir s) c fs, fs))))"

end
