(* ===== verification/FsOps.thy ===== *)
theory FsOps
  imports GoFs
begin

text \<open>
  What the operations of \<open>GoFs\<close> do to a file system: they keep what is there, \<open>MkdirAll\<close> and \<open>OpenFile\<close>
  leave what was asked for at the place the path leads to, and the directories that are made below a
  location stay below it.
\<close>

subsection \<open>Single changes\<close>

lemma keeps_createNode:
  "nodeAt fs l = None \<Longrightarrow> (\<And>t. nd \<noteq> NLink t) \<Longrightarrow> keeps fs (createNode now l nd fs)"
  by (cases "l = []") (auto simp: keeps_def)

lemma keeps_rewrite:
  assumes "nodeAt fs l = Some (NFile c m)"
  shows "keeps fs (touched now ls (setNode l (NFile c' m') fs))"
proof -
  have "l \<noteq> []"
    using assms by auto
  then show ?thesis
    using assms by (auto simp: keeps_def)
qed

lemma walk_split:
  assumes "walk fs n cur (es @ e # es2) = r" "arrived r"
  shows "\<exists>d. walk fs n cur (es @ [''.'']) = Found d"
proof -
  have "\<forall>es. es' = es @ e # es2 \<longrightarrow> (\<exists>d. walk fs n cur (es @ [''.'']) = Found d)"
    if "walk fs n cur es' = r" for es'
    using that
  proof (induction rule: walk_arrives)
    case (link n cur a es t)
    then show ?case
      by (auto simp: Cons_eq_append_conv walk_steps)
  qed (use assms(2) in \<open>auto simp: Cons_eq_append_conv walk_steps\<close>)
  then show ?thesis
    using assms(1) by blast
qed

text \<open>The lookup of the last element of a path, in terms of the directory before it.\<close>

lemma lookupAt_snoc:
  assumes "lookupAt fs (es @ [x]) = Inr (l, nd)"
  obtains d where "kernelWalk fs es = Found d" "realDir fs d" "l = d @ [x]"
    "fs_deny fs ''lookup'' (d @ [x]) = None" "nodeAt fs (d @ [x]) = nd"
proof -
  obtain d where d: "kernelWalk fs (es @ [''.'']) = Found d" "l = d @ [x]"
    "fs_deny fs ''lookup'' (d @ [x]) = None" "nodeAt fs (d @ [x]) = nd"
    using assms by (auto simp: lookupAt_def split: walked.splits option.splits)
  moreover have "kernelWalk fs es = Found d \<and> realDir fs d"
    using walk_asks [of fs maxLinksKernel "[]" es d] d(1) by (simp add: kernelWalk_def)
  ultimately show ?thesis
    using that by blast
qed

lemma stat_lstat:
  assumes "statAt fs (es @ [x]) = Inr l" "isName x"
  shows "\<exists>nd. lstatAt fs (es @ [x]) = Inr nd"
proof -
  have w: "walk fs maxLinksKernel [] (es @ [x]) = Found l"
    using assms(1) by (auto simp: statAt_def kernelWalk_def split: walked.splits)
  then obtain d where a: "walk fs maxLinksKernel [] (es @ [''.'']) = Found d"
    using walk_split [of fs maxLinksKernel "[]" es x "[]"] by auto
  then have d: "walk fs maxLinksKernel [] es = Found d" "realDir fs d"
    using walk_asks [of fs maxLinksKernel "[]" es d] by auto
  obtain m where m: "walk fs maxLinksKernel [] (es @ [x]) = walk fs m d [x]"
    using walk_append [OF d(1) realDir_isDir [OF d(2)]] by blast
  have "fs_deny fs ''lookup'' (d @ [x]) = None \<and> nodeAt fs (d @ [x]) \<noteq> None"
  proof (cases "fs_deny fs ''lookup'' (d @ [x])")
    case None
    then show ?thesis
      using w m assms(2) walk_steps(6) [of fs d x m "[]"] by (auto simp: lookedUp_def isName_def)
  next
    case (Some err)
    then show ?thesis
      using w m assms(2) walk_denied [of x fs d err m "[]"] by (auto simp: isName_def)
  qed
  then show ?thesis
    using a by (auto simp: lstatAt_def lookupAt_def kernelWalk_def)
qed

subsection \<open>Directories\<close>

lemma mkdirAt_error: "mkdirAt now perm fs es = (Some e, fs') \<Longrightarrow> fs' = fs"
  by (auto simp: mkdirAt_def split: sum.splits option.splits)

lemma mkdirAt_made:
  assumes "mkdirAt now perm fs (es @ [x]) = (None, fs')"
  obtains d where "kernelWalk fs es = Found d" "realDir fs d" "fs_deny fs ''lookup'' (d @ [x]) = None"
    "nodeAt fs (d @ [x]) = None" "fs' = createNode now (d @ [x]) (NDir (permOf fs perm)) fs"
proof -
  obtain l where l: "lookupAt fs (es @ [x]) = Inr (l, None)" "fs' = createNode now l (NDir (permOf fs perm)) fs"
    using assms by (auto simp: mkdirAt_def split: sum.splits option.splits)
  show ?thesis
    using lookupAt_snoc [OF l(1)] l(2) that by metis
qed

text \<open>After a directory was made, or when it was there, the path leads to it.\<close>

lemma mkdir_step:
  assumes "kernelWalk fs es = Found d" "isName x"
    and "mkdirAt now perm fs (es @ [x]) = (None, fs') \<or> fs' = fs \<and> (\<exists>m. lstatAt fs (es @ [x]) = Inr (NDir m))"
  shows "kernelWalk fs' (es @ [x]) = Found (d @ [x]) \<and> realDir fs' (d @ [x]) \<and> keeps fs fs' \<and>
     (\<forall>l. l \<noteq> d @ [x] \<longrightarrow> nodeAt fs' l = nodeAt fs l)"
proof -
  have *: "realDir fs d \<and> keeps fs fs' \<and> (\<exists>m. lookedUp fs' d x (Some (NDir m))) \<and>
     (\<forall>l. l \<noteq> d @ [x] \<longrightarrow> nodeAt fs' l = nodeAt fs l)"
    using assms(3)
  proof
    assume "mkdirAt now perm fs (es @ [x]) = (None, fs')"
    then have m: "realDir fs d" "fs_deny fs ''lookup'' (d @ [x]) = None" "nodeAt fs (d @ [x]) = None"
      "fs' = createNode now (d @ [x]) (NDir (permOf fs perm)) fs"
      using assms(1) by (metis mkdirAt_made walked.inject(1))+
    then show ?thesis
      using assms(2) keeps_createNode [OF m(3), of "NDir (permOf fs perm)"] by (simp add: lookedUp_def isName_def)
  next
    assume l: "fs' = fs \<and> (\<exists>m. lstatAt fs (es @ [x]) = Inr (NDir m))"
    then obtain k m where k: "lookupAt fs (es @ [x]) = Inr (k, Some (NDir m))"
      by (auto simp: lstatAt_def split: sum.splits option.splits)
    have "realDir fs d" "fs_deny fs ''lookup'' (d @ [x]) = None" "nodeAt fs (d @ [x]) = Some (NDir m)"
      using assms(1) by (metis lookupAt_snoc [OF k] walked.inject(1))+
    then show ?thesis
      using assms(2) l by (simp add: lookedUp_def isName_def)
  qed
  then have d': "walk fs' maxLinksKernel [] es = Found d" "realDir fs' d"
    using walk_keeps [of fs maxLinksKernel "[]" es d fs'] assms(1) keeps_realDir by (auto simp: kernelWalk_def)
  obtain m where "walk fs' maxLinksKernel [] (es @ [x]) = walk fs' m d [x]"
    using walk_append [OF d'(1) realDir_isDir [OF d'(2)]] by blast
  then show ?thesis
    using * d'(2) by (auto simp: kernelWalk_def walk_steps(3) realDir_snoc)
qed

text \<open>The last step of \<open>mkdirs\<close>.\<close>

lemma mkdirs_last:
  assumes "mkdirs now perm (e # up) fs = (r, fs')" "statAt fs (rev up @ [e]) = Inl err"
    and "mkdirs now perm up fs = (None, fs1)"
  shows "r = None \<and> (mkdirAt now perm fs1 (rev up @ [e]) = (None, fs') \<or>
       fs' = fs1 \<and> (\<exists>m. lstatAt fs1 (rev up @ [e]) = Inr (NDir m))) \<or> r \<noteq> None \<and> fs' = fs1"
  using assms
  by (auto simp: Let_def dest: mkdirAt_error split: prod.splits option.splits sum.splits node.splits)

lemma mkdirs_ok:
  assumes "mkdirs now perm up fs = (r, fs')" "names up"
  shows "keeps fs fs' \<and> (r = None \<longrightarrow> (\<exists>d. kernelWalk fs' (rev up) = Found d \<and> realDir fs' d))"
  using assms
proof (induction up arbitrary: r fs')
  case Nil
  then show ?case
    by (auto simp: kernelWalk_def)
next
  case (Cons e up)
  show ?case
  proof (cases "statAt fs (rev up @ [e])")
    case (Inr l)
    then have "kernelWalk fs (rev up @ [e]) = Found l"
      by (auto simp: statAt_def split: walked.splits)
    moreover have "realDir fs l" if "isDir fs l"
      using walk_Found_real [of fs maxLinksKernel "rev up @ [e]" l] calculation that
      by (auto simp: kernelWalk_def realAt_def isDir_def lookedUp_def)
    ultimately show ?thesis
      using Cons.prems Inr by (auto split: if_splits)
  next
    case (Inl err)
    obtain r1 fs1 where m: "mkdirs now perm up fs = (r1, fs1)"
      by (metis surj_pair)
    note ih = Cons.IH [OF m]
    show ?thesis
    proof (cases r1)
      case None
      then obtain d where d: "kernelWalk fs1 (rev up) = Found d" "keeps fs fs1"
        using ih Cons.prems(2) by auto
      have e: "isName e"
        using Cons.prems(2) by simp
      have "keeps fs1 fs' \<and> (r = None \<longrightarrow> (\<exists>d. kernelWalk fs' (rev up @ [e]) = Found d \<and> realDir fs' d))"
        using mkdirs_last [OF Cons.prems(1) Inl] m None mkdir_step [OF d(1) e, of now perm fs'] by auto
      then show ?thesis
        using keeps_trans [OF d(2)] by auto
    next
      case (Some err1)
      then show ?thesis
        using ih Cons.prems Inl m by auto
    qed
  qed
qed

lemma mkdirs_there:
  assumes "lstatAt fs (rev up) = Inr nd"
  shows "snd (mkdirs now perm up fs) = fs"
proof (cases up)
  case (Cons e up')
  obtain l nd' where l: "lookupAt fs (rev up' @ [e]) = Inr (l, Some nd')"
    using assms Cons by (auto simp: lstatAt_def split: sum.splits option.splits)
  obtain d where d: "kernelWalk fs (rev up') = Found d" "realDir fs d"
    using lookupAt_snoc [OF l] by metis
  then have "mkdirs now perm up' fs = (None, fs)"
    by (cases up') (auto simp: statAt_def realDir_isDir)
  moreover have "mkdirAt now perm fs (rev up' @ [e]) = (Some EEXIST, fs)"
    using l by (simp add: mkdirAt_def)
  ultimately show ?thesis
    using Cons by (auto simp: Let_def split: sum.splits node.splits)
qed simp

text \<open>
  When the deepest part of a path that exists leads to \<open>base\<close>, the directories made for the rest of the
  path are below \<open>base\<close>.
\<close>

lemma mkdirs_below:
  assumes "mkdirs now perm (rev (bs @ rest)) fs = (r, fs')" "names (bs @ rest)"
    and "walk fs maxLinksGo [] bs = Found base" "lstatAt fs bs = Inr nd"
    and "\<And>k. 0 < k \<Longrightarrow> k \<le> length rest \<Longrightarrow> \<exists>e. lstatAt fs (bs @ take k rest) = Inl e"
  shows "(\<forall>l. nodeAt fs' l \<noteq> nodeAt fs l \<longrightarrow> prefix base l) \<and>
     (r = None \<longrightarrow> (\<exists>d. kernelWalk fs' (bs @ rest) = Found d \<and> prefix base d))"
  using assms(1,2,5)
proof (induction rest arbitrary: r fs' rule: rev_induct)
  case Nil
  then have "fs' = fs"
    using mkdirs_there [of fs "rev bs" nd now perm] assms(4) by simp
  moreover have "d = base" if "kernelWalk fs bs = Found d" for d
    using walk_more [of fs maxLinksKernel "[]" bs d maxLinksGo] that assms(3)
    by (simp add: kernelWalk_def maxLinksKernel_def maxLinksGo_def)
  ultimately show ?case
    using mkdirs_ok [of now perm "rev bs" fs r fs'] Nil by auto
next
  case (snoc x rest)
  have name: "isName x" "names (bs @ rest)"
    using snoc.prems(2) by auto
  have "\<exists>e. lstatAt fs ((bs @ rest) @ [x]) = Inl e"
    using snoc.prems(3) [of "length (rest @ [x])"] by simp
  then obtain err where st: "statAt fs ((bs @ rest) @ [x]) = Inl err"
    using stat_lstat [of fs "bs @ rest" x] name(1) by (cases "statAt fs ((bs @ rest) @ [x])") auto
  obtain r1 fs1 where m: "mkdirs now perm (rev (bs @ rest)) fs = (r1, fs1)"
    by (metis surj_pair)
  have ih: "(\<forall>l. nodeAt fs1 l \<noteq> nodeAt fs l \<longrightarrow> prefix base l) \<and>
     (r1 = None \<longrightarrow> (\<exists>d. kernelWalk fs1 (bs @ rest) = Found d \<and> prefix base d))"
  proof (rule snoc.IH [OF m name(2)])
    fix k assume "0 < k" "k \<le> length rest"
    then show "\<exists>e. lstatAt fs (bs @ take k rest) = Inl e"
      using snoc.prems(3) [of k] by simp
  qed
  show ?case
  proof (cases r1)
    case None
    then obtain d where d: "kernelWalk fs1 (bs @ rest) = Found d" "prefix base d"
      using ih by blast
    have *: "(\<forall>l. nodeAt fs' l \<noteq> nodeAt fs1 l \<longrightarrow> l = d @ [x]) \<and>
        (r = None \<longrightarrow> kernelWalk fs' ((bs @ rest) @ [x]) = Found (d @ [x]))"
      using mkdirs_last [of now perm x "rev (bs @ rest)" fs r fs' err fs1] snoc.prems(1) st m None
        mkdir_step [OF d(1) name(1), of now perm fs'] by auto
    have base: "prefix base (d @ [x])"
      using d(2) by (simp add: prefix_snoc)
    have "prefix base l" if "nodeAt fs' l \<noteq> nodeAt fs l" for l
      using * base ih that by (cases "nodeAt fs' l = nodeAt fs1 l") auto
    then show ?thesis
      using * base by auto
  next
    case (Some e)
    then show ?thesis
      using snoc.prems(1) st m ih by auto
  qed
qed

subsection \<open>Files\<close>

lemma OpenFile_error: "OpenFile now perm p fs = (Inl e, fs') \<Longrightarrow> fs' = fs"
  by (auto simp: OpenFile_def split: walked.splits option.splits node.splits)

lemma OpenFile_ok:
  assumes "OpenFile now perm p fs = (Inr l, fs')"
  shows "keeps fs fs' \<and> kernelWalk fs' (elements p) = Found l \<and> (\<exists>m. nodeAt fs' l = Some (NFile [] m)) \<and>
     (\<forall>k. k \<noteq> l \<longrightarrow> nodeAt fs' k = nodeAt fs k)"
proof -
  consider c m where "kernelWalk fs (elements p) = Found l" "nodeAt fs l = Some (NFile c m)"
      "fs' = touched now {l} (setNode l (NFile [] m) fs)"
    | "kernelWalk fs (elements p) = Missing l" "fs' = createNode now l (NFile [] (permOf fs perm)) fs"
    using assms by (auto simp: OpenFile_def split: walked.splits option.splits node.splits)
  then show ?thesis
  proof cases
    case 1
    have ne: "l \<noteq> []"
      using 1(2) by auto
    have k: "keeps fs fs'"
      using keeps_rewrite [OF 1(2)] 1(3) by simp
    then show ?thesis
      using 1 ne walk_keeps [OF _ k] by (simp add: kernelWalk_def)
  next
    case 2
    obtain d e where l: "l = d @ [e]" "lookedUp fs d e None"
      using walk_Missing_real 2(1) unfolding kernelWalk_def by metis
    have k: "keeps fs fs'"
      using keeps_createNode [of fs l "NFile [] (permOf fs perm)"] l 2(2) by (simp add: lookedUp_def)
    have nd: "nodeAt fs' l = Some (NFile [] (permOf fs perm))"
      using l(1) 2(2) by simp
    show ?thesis
      using k nd l(1) 2 walk_filled [OF _ k nd, of maxLinksKernel "[]" "elements p"]
      by (simp add: kernelWalk_def)
  qed
qed

lemma writeAt_keeps: "writeAt now l data fs = (r, fs') \<Longrightarrow> keeps fs fs'"
  by (auto simp: writeAt_def keeps_rewrite split: option.splits node.splits)

lemma writeAt_ok:
  assumes "writeAt now l data fs = (None, fs')"
  shows "(\<exists>m. nodeAt fs' l = Some (NFile data m)) \<and> (\<forall>k. k \<noteq> l \<longrightarrow> nodeAt fs' k = nodeAt fs k)"
proof -
  obtain c m where m: "nodeAt fs l = Some (NFile c m)" "fs' = touched now {l} (setNode l (NFile data m) fs)"
    using assms by (auto simp: writeAt_def split: option.splits node.splits)
  then have "l \<noteq> []"
    by auto
  then show ?thesis
    using m by simp
qed

text \<open>
  What an upload does to a file system that has the directory: it opens the file and writes it.  The two
  handlers do the same, one through \<open>WriteFile\<close>.
\<close>

lemma open_write_ok:
  assumes "OpenFile now perm p fs = (Inr l, fs1)" "writeAt now l data fs1 = (None, fs')"
  shows "keeps fs fs' \<and> kernelWalk fs' (elements p) = Found l \<and> (\<exists>m. nodeAt fs' l = Some (NFile data m)) \<and>
     (\<forall>k. k \<noteq> l \<longrightarrow> nodeAt fs' k = nodeAt fs k)"
proof -
  note o = OpenFile_ok [OF assms(1)] and w = writeAt_ok [OF assms(2)] writeAt_keeps [OF assms(2)]
  have "kernelWalk fs' (elements p) = Found l"
    using o walk_keeps [OF _ w(2)] by (simp add: kernelWalk_def)
  moreover have "keeps fs fs'"
    using keeps_trans o w(2) by blast
  ultimately show ?thesis
    using o w(1) by metis
qed

lemma WriteFile_ok:
  assumes "WriteFile now perm p data fs = (None, fs')"
  obtains l fs1 where "OpenFile now perm p fs = (Inr l, fs1)" "writeAt now l data fs1 = (None, fs')"
  using assms by (auto simp: WriteFile_def split: prod.splits sum.splits option.splits)

subsection \<open>Trees\<close>

text \<open>A file system is a tree: every node has a name of its own in a directory.\<close>

definition fsTree :: "fsys \<Rightarrow> bool" where
  "fsTree fs \<longleftrightarrow> distinct (map fst (fs_nodes fs)) \<and>
     (\<forall>l \<in> fst ` set (fs_nodes fs). l \<noteq> [] \<and> names l \<and> isDir fs (butlast l))"

lemma keeps_isDir: "keeps fs fs' \<Longrightarrow> isDir fs l \<Longrightarrow> isDir fs' l"
  using keepsD(1) [of fs fs' l] by (fastforce simp: isDir_def split: option.splits node.splits)

lemma fsTree_set:
  assumes "fsTree fs" "keeps fs (setNode l nd fs)" "l \<noteq> []" "names l" "isDir fs (butlast l)"
  shows "fsTree (setNode l nd fs)"
proof -
  have "distinct (map fst (fs_nodes (setNode l nd fs)))"
    using assms(1) by (simp add: fsTree_def setNode_def distinct_update)
  moreover have "k \<noteq> [] \<and> names k \<and> isDir (setNode l nd fs) (butlast k)"
    if "k \<in> fst ` set (fs_nodes (setNode l nd fs))" for k
  proof -
    have "k = l \<or> k \<in> fst ` set (fs_nodes fs)"
      using that by (auto simp: setNode_def dom_update)
    then show ?thesis
      using assms keeps_isDir [OF assms(2)] by (auto simp: fsTree_def)
  qed
  ultimately show ?thesis
    by (simp add: fsTree_def)
qed

lemma fsTree_touched [simp]: "fsTree (touched now ls fs) \<longleftrightarrow> fsTree fs" "keeps fs (touched now ls fs') \<longleftrightarrow> keeps fs fs'"
  by (simp_all add: fsTree_def keeps_def isDir_def) (simp_all add: touched_def)

lemma real_tree:
  assumes "realDir fs d" "names d" "isName e" "nodeAt fs (d @ [e]) = None" "\<And>t. nd \<noteq> NLink t" "fsTree fs"
  shows "fsTree (createNode now (d @ [e]) nd fs)"
  unfolding createNode_def fsTree_touched
proof (rule fsTree_set [OF assms(6)])
  show "keeps fs (setNode (d @ [e]) nd fs)"
    using keeps_createNode [OF assms(4,5)] by (simp add: createNode_def)
qed (use assms realDir_isDir in auto)

lemma mkdirs_tree:
  assumes "mkdirs now perm up fs = (r, fs')" "names up" "fsTree fs"
  shows "fsTree fs'"
  using assms
proof (induction up arbitrary: r fs')
  case (Cons e up)
  obtain r1 fs1 where m: "mkdirs now perm up fs = (r1, fs1)"
    by (metis surj_pair)
  have t1: "fsTree fs1"
    using Cons.IH [OF m] Cons.prems by simp
  show ?case
  proof (cases "statAt fs (rev up @ [e])")
    case (Inr l)
    then show ?thesis
      using Cons.prems by (auto simp: Let_def split: if_splits)
  next
    case (Inl err)
    show ?thesis
    proof (cases r1)
      case None
      have "fsTree fs'" if mk: "mkdirAt now perm fs1 (rev up @ [e]) = (None, fs')"
      proof -
        obtain d where d: "kernelWalk fs1 (rev up) = Found d" "realDir fs1 d" "nodeAt fs1 (d @ [e]) = None"
            "fs' = createNode now (d @ [e]) (NDir (permOf fs1 perm)) fs1"
          using mkdirAt_made [OF mk] by metis
        have "names d"
          using walk_names [of fs1 maxLinksKernel "[]" "rev up" "Found d"] d(1) Cons.prems(2)
          by (simp add: kernelWalk_def names_clean)
        then show ?thesis
          using real_tree [OF d(2) _ _ d(3) _ t1] d(4) Cons.prems(2) by simp
      qed
      then show ?thesis
        using mkdirs_last [OF Cons.prems(1) Inl] m None t1 by auto
    next
      case (Some e1)
      then show ?thesis
        using Cons.prems(1) Inl m t1 by (auto simp: Let_def)
    qed
  qed
qed simp

lemma file_tree:
  assumes "nodeAt fs l = Some (NFile c m)" "fsTree fs"
  shows "fsTree (setNode l (NFile c' m') fs)"
proof (rule fsTree_set [OF assms(2)])
  have "l \<noteq> []" "l \<in> fst ` set (fs_nodes fs)"
    using assms(1) by (auto simp: nodeAt_def dest: map_of_SomeD split: if_splits intro: rev_image_eqI)
  then show "l \<noteq> []" "names l" "isDir fs (butlast l)"
    using assms(2) unfolding fsTree_def by blast+
  show "keeps fs (setNode l (NFile c' m') fs)"
    using keeps_rewrite [OF assms(1)] by simp
qed

lemma OpenFile_tree:
  assumes "OpenFile now perm p fs = (r, fs')" "fsTree fs"
  shows "fsTree fs'"
proof (cases r)
  case (Inl e)
  then show ?thesis
    using OpenFile_error assms by blast
next
  case (Inr l)
  consider c m where "nodeAt fs l = Some (NFile c m)" "fs' = touched now {l} (setNode l (NFile [] m) fs)"
    | "kernelWalk fs (elements p) = Missing l" "fs' = createNode now l (NFile [] (permOf fs perm)) fs"
    using assms(1) Inr by (auto simp: OpenFile_def split: walked.splits option.splits node.splits)
  then show ?thesis
  proof cases
    case 2
    then obtain d e where l: "l = d @ [e]" "realDir fs d" "lookedUp fs d e None"
      using walk_Missing_real unfolding kernelWalk_def by metis
    have "names l"
      using walk_names [of fs maxLinksKernel "[]" "elements p" "Missing l"] 2(1) clean_elements(1) [of p]
      by (simp add: kernelWalk_def)
    then show ?thesis
      using real_tree [OF l(2) _ _ _ _ assms(2)] l 2(2) by (simp add: lookedUp_def)
  qed (use file_tree assms(2) in auto)
qed

lemma writeAt_tree: "writeAt now l data fs = (r, fs') \<Longrightarrow> fsTree fs \<Longrightarrow> fsTree fs'"
  by (auto simp: writeAt_def file_tree split: option.splits node.splits)

end
