(* ===== verification/PicodProps.thy ===== *)
theory PicodProps
  imports Picod FsOps
begin

text \<open>
  The properties of PicoD: what its handlers read stays inside the workspace, the directory of a command
  is made inside it, an upload can be downloaded again, the file system stays a tree, and two places where
  the code does less than it says.
\<close>

subsection \<open>Paths in a workspace\<close>

text \<open>The location a path of a request names, before symbolic links are followed.\<close>

definition candidate :: "string list \<Rightarrow> string \<Rightarrow> string list" where
  "candidate w p =
     (let cleaned = Clean p; rel = (if IsAbs cleaned then TrimPrefix cleaned ''/'' else cleaned) in
      cleanElements (Join_path (pathOf True w) rel))"

lemma IsAbs_append: "IsAbs a \<Longrightarrow> IsAbs (a @ b)"
  by (auto simp: IsAbs_def HasPrefix_def prefix_def)

lemma Join_path_abs: "IsAbs (Join_path (pathOf True w) b)"
proof -
  have "pathOf True w \<noteq> []"
    by (simp add: pathOf_def)
  then show ?thesis
    by (simp add: Join_path_def IsAbs_append)
qed

lemma candidate_names: "names (candidate w p)"
  unfolding candidate_def Let_def by (intro cleanElements_names Join_path_abs)

lemma candidate_path:
  "Clean (Join_path (pathOf True w) (if IsAbs (Clean p) then TrimPrefix (Clean p) ''/'' else Clean p)) =
   pathOf True (candidate w p)"
  unfolding candidate_def Let_def by (rule Clean_rooted [OF Join_path_abs])

text \<open>Where the kernel arrives, \<open>EvalSymlinks\<close> arrives.\<close>

lemma kernel_go: "kernelWalk fs es = Found l \<Longrightarrow> walk fs maxLinksGo [] es = Found l"
  using walk_more [of fs maxLinksKernel "[]" es l maxLinksGo]
  by (simp add: kernelWalk_def maxLinksKernel_def maxLinksGo_def)

lemma deepestExisting_spec:
  "\<exists>rest. rev up = deepestExisting fs up @ rest \<and> (\<exists>nd. lstatAt fs (deepestExisting fs up) = Inr nd) \<and>
     (\<forall>k. 0 < k \<longrightarrow> k \<le> length rest \<longrightarrow> (\<exists>e. lstatAt fs (deepestExisting fs up @ take k rest) = Inl e))"
proof (induction up)
  case Nil
  then show ?case
    by (simp add: lstatAt_def lookupAt_def)
next
  case (Cons e up)
  show ?case
  proof (cases "lstatAt fs (rev up @ [e])")
    case (Inl err)
    obtain rest where r: "rev up = deepestExisting fs up @ rest" "\<exists>nd. lstatAt fs (deepestExisting fs up) = Inr nd"
        "\<forall>k. 0 < k \<longrightarrow> k \<le> length rest \<longrightarrow> (\<exists>e. lstatAt fs (deepestExisting fs up @ take k rest) = Inl e)"
      using Cons.IH by blast
    have "\<exists>e'. lstatAt fs (deepestExisting fs up @ take k (rest @ [e])) = Inl e'"
      if "0 < k" "k \<le> Suc (length rest)" for k
      using that r(3) Inl r(1) by (cases "k = Suc (length rest)") auto
    then show ?thesis
      using r(1,2) Inl by (intro exI [of _ "rest @ [e]"]) auto
  qed (simp add: exI [of _ "[]"])
qed

text \<open>A workspace that is there: \<open>w\<close> is where it really is.\<close>

locale workspace =
  fixes ws :: string and fs :: fsys and w :: "string list"
  assumes ws_path: "ws \<noteq> []"
    and ws_real: "walk fs maxLinksGo [] (elements ws) = Found w"
    and ws_dir: "isDir fs w"
begin

lemma w_names: "names w"
  using walk_names [OF ws_real] clean_elements by simp

lemma w_real: "realDir fs w"
  using walk_Found_real [OF ws_real] ws_dir by (auto simp: realAt_def isDir_def lookedUp_def)

lemma workspace_keeps: "keeps fs fs' \<Longrightarrow> workspace ws fs' w"
  using ws_path walk_keeps [OF ws_real] keeps_isDir [OF _ ws_dir] by unfold_locales

lemma resolved: "EvalSymlinks fs ws = Inr (pathOf True w)"
  by (simp add: EvalSymlinks_def ws_real)

lemma EvalSymlinks_candidate:
  "EvalSymlinks fs (pathOf True (candidate w p)) =
     (case walk fs maxLinksGo [] (candidate w p) of
        Found l \<Rightarrow> Inr (pathOf True l) | Missing l \<Rightarrow> Inl ENOENT | Fails e \<Rightarrow> Inl e)"
  by (simp add: EvalSymlinks_def elements_pathOf(1) [OF candidate_names])

lemma found_names: "walk fs n [] (candidate w p) = Found l \<Longrightarrow> names l"
  using walk_names [of fs n "[]" "candidate w p" "Found l"] names_clean [OF candidate_names] by simp

lemma inside_iff:
  assumes "names l"
  shows "(case Rel (pathOf True w) (pathOf True l) of Inl e \<Rightarrow> False | Inr r \<Rightarrow> \<not> escapes r) \<longleftrightarrow> prefix w l"
  using Rel_inside [OF w_names assms] by (auto split: sum.splits)

lemma sanitizePath_iff:
  "sanitizePath env ws fs p = Inr sp \<longleftrightarrow>
     prefix w (candidate w p) \<and>
     (case walk fs maxLinksGo [] (candidate w p) of
        Found l \<Rightarrow> prefix w l \<and> sp = pathOf True l
      | _ \<Rightarrow> sp = pathOf True (candidate w p))"
  using inside_iff [OF candidate_names [of w p]] ws_path
  unfolding sanitizePath_def Let_def resolved sum.case Clean_pathOf [OF w_names] candidate_path
    Clean_pathOf [OF candidate_names] EvalSymlinks_candidate
proof (cases "walk fs maxLinksGo [] (candidate w p)", goal_cases)
  case (1 l)
  then show ?case
    using inside_iff [OF found_names [OF 1(3)]] by (auto split: sum.splits)
qed (auto split: sum.splits)

lemma sanitized_cases:
  assumes "sanitizePath env ws fs p = Inr sp"
  obtains (there) l where "walk fs maxLinksGo [] (candidate w p) = Found l" "prefix w l" "names l" "realAt fs l"
      "sp = pathOf True l"
    | (fresh) "\<And>l. walk fs maxLinksGo [] (candidate w p) \<noteq> Found l" "prefix w (candidate w p)"
      "sp = pathOf True (candidate w p)"
  using assms found_names walk_Found_real
  by (cases "walk fs maxLinksGo [] (candidate w p)") (auto simp: sanitizePath_iff)

lemma sanitized_names:
  assumes "sanitizePath env ws fs p = Inr sp"
  obtains es where "sp = pathOf True es" "names es" "prefix w es"
  using assms by (rule sanitized_cases) (use that candidate_names in blast)+

text \<open>
  A path that is let through leads into the workspace, if it leads anywhere: the kernel follows the same
  links, and no more of them.
\<close>

lemma sanitized_inside:
  assumes "sanitizePath env ws fs p = Inr sp" "Stat fs sp = Inr l"
  shows "prefix w l"
  using assms(1)
proof (cases rule: sanitized_cases)
  case (there k)
  then show ?thesis
    using assms(2) walk_realAt [OF there(4)] by (simp add: Stat_def statAt_def kernelWalk_def elements_pathOf)
next
  case fresh
  then have "kernelWalk fs (candidate w p) = Found l"
    using assms(2) by (auto simp: Stat_def statAt_def elements_pathOf [OF candidate_names] split: walked.splits)
  then show ?thesis
    using kernel_go fresh(1) by blast
qed

lemma download_inside:
  assumes "DownloadFileHandler env ws c fs = PicodFile h content"
  shows "\<exists>l m. prefix w l \<and> nodeAt fs l = Some (NFile content m)"
proof -
  obtain sp l where sp: "sanitizePath env ws fs (TrimPrefix (pq_ParamPath c) ''/'') = Inr sp" "Stat fs sp = Inr l"
    and f: "\<exists>m. nodeAt fs l = Some (NFile content m)"
    using assms
    by (auto simp: DownloadFileHandler_def ServeFile_def toHTTPError_def Let_def
        split: if_splits sum.splits option.splits node.splits)
  then show ?thesis
    using sanitized_inside [OF sp] by blast
qed

lemma list_inside:
  assumes "ListFilesHandler env ws c fs = PicodFiles entries"
  shows "\<exists>d. prefix w d \<and> isDir fs d \<and> (\<forall>e \<in> set entries. nodeAt fs (d @ [fe_Name e]) \<noteq> None)"
proof -
  obtain sp d es where sp: "sanitizePath env ws fs (pq_QueryPath c) = Inr sp" "Stat fs sp = Inr d"
    and d: "isDir fs d" "ReadDir fs sp = Inr es"
    and en: "entries = List.map_filter (\<lambda>(name, l).
                    (case (fs_deny fs ''lookup'' l, nodeAt fs l) of
                       (None, Some nd) \<Rightarrow>
                         Some \<lparr>fe_Name = name, fe_Size = nodeSize fs l nd, fe_Modified = fs_mtime fs l,
                           fe_Mode = modeText nd, fe_IsDir = (kindOf nd = KDir)\<rparr>
                     | _ \<Rightarrow> None)) es"
    using assms
    by (auto simp: ListFilesHandler_def ReadDir_def split: if_splits sum.splits option.splits)
  have "\<forall>(n, l) \<in> set es. l = d @ [n]"
    using sp(2) d by (auto simp: ReadDir_def split: if_splits option.splits)
  then have "\<forall>e \<in> set entries. nodeAt fs (d @ [fe_Name e]) \<noteq> None"
    unfolding en by (fastforce simp: List.map_filter_def split: option.splits)
  then show ?thesis
    using sanitized_inside [OF sp] d(1) by blast
qed

text \<open>What \<open>mkdirSafe\<close> makes is in the workspace, and so is the directory it leaves.\<close>

lemma mkdirSafe_inside:
  assumes "mkdirSafe env ws (pathOf True es) fs = (r, fs')" "names es"
  shows "(\<forall>l. nodeAt fs' l \<noteq> nodeAt fs l \<longrightarrow> prefix w l) \<and>
     (r = None \<longrightarrow> (\<exists>d. kernelWalk fs' es = Found d \<and> prefix w d))"
proof -
  obtain rest where rest: "es = deepestExisting fs (rev es) @ rest"
      "\<exists>nd. lstatAt fs (deepestExisting fs (rev es)) = Inr nd"
      "\<And>k. 0 < k \<Longrightarrow> k \<le> length rest \<Longrightarrow> \<exists>e. lstatAt fs (deepestExisting fs (rev es) @ take k rest) = Inl e"
    using deepestExisting_spec [of "rev es" fs] by auto
  define bs where "bs = deepestExisting fs (rev es)"
  have bs: "names bs" "es = bs @ rest"
    using rest(1) assms(2) unfolding bs_def by (metis UnCI set_append)+
  have el: "elements (pathOf True es) = es"
    using elements_pathOf(1) [OF assms(2)] .
  have m: "(\<exists>b. walk fs maxLinksGo [] bs = Found b \<and> prefix w b \<and>
      MkdirAll (pe_now env) 0x1ED (pathOf True es) fs = (r, fs')) \<or> r \<noteq> None \<and> fs' = fs"
  proof (cases "EvalSymlinks fs (pathOf True bs)")
    case (Inl e)
    then show ?thesis
      using assms(1) unfolding mkdirSafe_def Let_def resolved sum.case el bs_def [symmetric] by auto
  next
    case (Inr p)
    then obtain b where b: "walk fs maxLinksGo [] bs = Found b" "p = pathOf True b"
      by (auto simp: EvalSymlinks_def elements_pathOf [OF bs(1)] split: walked.splits)
    then have "names b"
      using walk_names [of fs maxLinksGo "[]" bs "Found b"] names_clean [OF bs(1)] by simp
    then show ?thesis
      using assms(1) inside_iff [of b] Inr b unfolding mkdirSafe_def Let_def resolved sum.case el bs_def [symmetric]
      by (auto split: sum.splits if_splits)
  qed
  show ?thesis
    using m
  proof
    assume "\<exists>b. walk fs maxLinksGo [] bs = Found b \<and> prefix w b \<and>
      MkdirAll (pe_now env) 0x1ED (pathOf True es) fs = (r, fs')"
    then obtain b where b: "walk fs maxLinksGo [] bs = Found b" "prefix w b"
        "MkdirAll (pe_now env) 0x1ED (pathOf True es) fs = (r, fs')"
      by blast
    obtain nd where nd: "lstatAt fs bs = Inr nd"
      using rest(2) unfolding bs_def by blast
    obtain r0 where r0: "mkdirs (pe_now env) 0x1ED (rev (bs @ rest)) fs = (r0, fs')" "r = None \<longleftrightarrow> r0 = None"
      using b(3) unfolding MkdirAll_def el bs(2) [symmetric] by (auto split: prod.splits)
    have "(\<forall>l. nodeAt fs' l \<noteq> nodeAt fs l \<longrightarrow> prefix b l) \<and>
        (r0 = None \<longrightarrow> (\<exists>d. kernelWalk fs' (bs @ rest) = Found d \<and> prefix b d))"
      using mkdirs_below [OF r0(1) _ b(1) nd] assms(2) bs(2) rest(3) unfolding bs_def [symmetric] by blast
    then show ?thesis
      using b(2) r0(2) bs(2) by (auto dest: prefix_order.trans)
  qed auto
qed

lemma workingDir_inside:
  assumes "workingDir env ws dir fs = (r, fs')"
  shows "(\<forall>l. nodeAt fs' l \<noteq> nodeAt fs l \<longrightarrow> prefix w l) \<and>
     (\<forall>cd d. r = Inr cd \<longrightarrow> Stat fs' cd = Inr d \<longrightarrow> prefix w d)"
proof (cases "dir = []")
  case True
  have "d = w" if "Stat fs ws = Inr d" for d
    using that kernel_go [of fs "elements ws" d] ws_real by (auto simp: Stat_def statAt_def split: walked.splits)
  then show ?thesis
    using assms True by (auto simp: workingDir_def)
next
  case dir: False
  show ?thesis
  proof (cases "sanitizePath env ws fs dir")
    case (Inl e)
    then show ?thesis
      using assms dir by (auto simp: workingDir_def)
  next
    case (Inr sp)
    obtain es where es: "sp = pathOf True es" "names es"
      using sanitized_names [OF Inr] by metis
    show ?thesis
    proof (cases "Stat fs sp = Inl ENOENT")
      case True
      then obtain r0 where "mkdirSafe env ws (pathOf True es) fs = (r0, fs')"
          "\<forall>cd. r = Inr cd \<longrightarrow> r0 = None \<and> cd = sp"
        using assms dir Inr es(1) by (auto simp: workingDir_def split: prod.splits option.splits)
      then show ?thesis
        using mkdirSafe_inside [OF _ es(2), of env r0 fs'] es by (auto simp: Stat_def statAt_def elements_pathOf)
    next
      case False
      then show ?thesis
        using assms dir Inr sanitized_inside [OF Inr] by (auto simp: workingDir_def)
    qed
  qed
qed

end

text \<open>A server that started has its workspace.\<close>

lemma setWorkspace_workspace:
  assumes "setWorkspace env dir fs = (Inr ws, fs')" "IsAbs dir \<or> (\<exists>wd. pe_getwd env = Inr wd \<and> IsAbs wd)"
  shows "\<exists>w. workspace ws fs' w"
proof -
  obtain q where q: "ws = Clean q" "IsAbs q"
  proof (cases "IsAbs dir")
    case True
    then show ?thesis
      using assms(1) that [of dir] by (auto simp: setWorkspace_def Abs_def split: prod.splits option.splits)
  next
    case False
    then obtain wd where wd: "pe_getwd env = Inr wd" "IsAbs wd"
      using assms(2) by blast
    then have "wd \<noteq> []"
      by (auto simp: IsAbs_def HasPrefix_def)
    then have "ws = Clean (if dir = [] then wd else wd @ ''/'' @ dir)"
      using assms(1) wd False by (auto simp: setWorkspace_def Abs_def Join_path_def split: prod.splits option.splits)
    then show ?thesis
      using that [of "if dir = [] then wd else wd @ ''/'' @ dir"] wd(2) IsAbs_append by simp
  qed
  have names: "names (elements ws)"
    using elements_pathOf(1) [OF cleanElements_names [OF q(2)]] cleanElements_names [OF q(2)] q
    by (simp add: Clean_rooted)
  have "IsAbs ws"
    using q by simp
  then have ne: "ws \<noteq> []"
    by (auto simp: IsAbs_def HasPrefix_def)
  have "mkdirs (pe_now env) 0x1ED (rev (elements ws)) fs = (None, fs')"
    using assms(1) by (auto simp: setWorkspace_def MkdirAll_def split: sum.splits prod.splits option.splits)
  then obtain w where "kernelWalk fs' (elements ws) = Found w" "realDir fs' w"
    using mkdirs_ok names by fastforce
  then have "workspace ws fs' w"
    using ne kernel_go realDir_isDir by unfold_locales
  then show ?thesis
    by blast
qed

subsection \<open>Uploads\<close>





lemma Dir_names:
  assumes "IsAbs p"
  shows "names (elements (Dir p))"
proof -
  define q where "q = rev (dropWhile (\<lambda>c. c \<noteq> CHR ''/'') (rev p))"
  have "prefix q p"
    unfolding q_def by (metis rev_rev_ident suffix_dropWhile suffix_to_prefix)
  moreover have "q \<noteq> []"
    using assms by (auto simp: q_def IsAbs_def HasPrefix_def prefix_def dropWhile_eq_Nil_conv)
  ultimately have "IsAbs q"
    using assms by (cases q) (auto simp: IsAbs_def HasPrefix_def prefix_def)
  then show ?thesis
    using elements_pathOf(1) [OF cleanElements_names] cleanElements_names
    by (simp add: Dir_def q_def [symmetric] Clean_rooted)
qed


text \<open>Below a directory without links a path leads where it says.\<close>

definition linkFree :: "fsys \<Rightarrow> string list \<Rightarrow> bool" where
  "linkFree fs w \<longleftrightarrow> (\<forall>l t. prefix w l \<longrightarrow> nodeAt fs l \<noteq> Some (NLink t))"

lemma walk_linkFree:
  assumes "walk fs n cur es = Found l" "linkFree fs w" "prefix w cur" "names es"
  shows "l = cur @ es"
proof -
  have "prefix w cur \<longrightarrow> names es \<longrightarrow> l = cur @ es"
    using assms(1)
  proof (induction rule: walk_arrives)
    case (link n cur e es t)
    then show ?case
      using assms(2) by (auto simp: linkFree_def lookedUp_def)
  qed (auto simp: isName_def lookedUp_def)
  then show ?thesis
    using assms(3,4) by blast
qed

lemma linkFree_keeps: "linkFree fs w \<Longrightarrow> keeps fs fs' \<Longrightarrow> linkFree fs' w"
  unfolding linkFree_def keeps_def by blast

context workspace
begin

text \<open>Where an upload puts its file, and what the same path names afterwards.\<close>

lemma upload_place:
  assumes "sanitizePath env ws fs p = Inr sp" "keeps fs fs'" "kernelWalk fs' (elements sp) = Found l"
  shows "sanitizePath env ws fs' p = Inr sp' \<longleftrightarrow> prefix w l \<and> sp' = pathOf True l" (is ?same)
    and "linkFree fs w \<Longrightarrow> prefix w l"
proof -
  note after = workspace.sanitizePath_iff [OF workspace_keeps [OF assms(2)]]
  show ?same
    using assms(1)
  proof (cases rule: sanitized_cases)
    case (there k)
    have "walk fs' maxLinksKernel [] k = Found k"
      by (rule walk_keeps [OF walk_realAt [OF there(4)] assms(2)])
    then have "k = l"
      using assms(3) there(3,5) by (simp add: kernelWalk_def elements_pathOf)
    then show ?thesis
      using walk_keeps [OF there(1) assms(2)] assms(1) there by (auto simp: after sanitizePath_iff)
  next
    case fresh
    then have "walk fs' maxLinksGo [] (candidate w p) = Found l"
      using assms(3) kernel_go by (simp add: elements_pathOf candidate_names)
    then show ?thesis
      using fresh(2) by (auto simp: after)
  qed
  show "prefix w l" if free: "linkFree fs w"
    using assms(1)
  proof (cases rule: sanitized_cases)
    case (there k)
    have "walk fs' maxLinksKernel [] k = Found k"
      by (rule walk_keeps [OF walk_realAt [OF there(4)] assms(2)])
    then show ?thesis
      using assms(3) there by (simp add: kernelWalk_def elements_pathOf)
  next
    case fresh
    obtain rest where rest: "candidate w p = w @ rest"
      using fresh(2) by (auto simp: prefix_def)
    have "names (candidate w p)"
      by (rule candidate_names)
    then have "names rest"
      using rest by simp
    moreover have "walk fs' maxLinksKernel w rest = Found l"
      using assms(3) fresh(3) rest candidate_names [of w p] walk_realDir [OF keeps_realDir [OF w_real assms(2)], of maxLinksKernel rest]
      by (simp add: kernelWalk_def elements_pathOf)
    ultimately show ?thesis
      using walk_linkFree [OF _ linkFree_keeps [OF free assms(2)], of maxLinksKernel w rest l] by simp
  qed
qed

end

subsection \<open>Properties\<close>

text \<open>
  C6: What PicoD hands out is inside the workspace.  Whatever path a request asks for and whatever
  symbolic links there are, the content of a download is the content of a file at a location below the
  real location of the workspace, and a listing is of a directory there.
\<close>

theorem picod_reads_inside:
  assumes "workspace ws fs w"
  shows "(case DownloadFileHandler env ws c fs of
       PicodFile h content \<Rightarrow> \<exists>l m. prefix w l \<and> nodeAt fs l = Some (NFile content m)
     | _ \<Rightarrow> True) \<and>
   (case ListFilesHandler env ws c fs of
       PicodFiles entries \<Rightarrow> \<exists>d. prefix w d \<and> isDir fs d \<and> (\<forall>e \<in> set entries. nodeAt fs (d @ [fe_Name e]) \<noteq> None)
     | _ \<Rightarrow> True)"
  using workspace.download_inside [OF assms] workspace.list_inside [OF assms] by (simp split: picodResponse.split)


text \<open>
  C7: A command starts inside the workspace.  Before it runs, nothing outside the workspace was made or
  changed, whatever working directory the request names and whatever links there are; the directory it
  runs in is inside, and when it does not run nothing else has happened.
\<close>

theorem command_dir_inside:
  assumes "workspace ws fs w" and "ExecuteHandler env ws c fs = (r, fs')"
  shows "\<exists>fs1. (\<forall>l. nodeAt fs1 l \<noteq> nodeAt fs l \<longrightarrow> prefix w l) \<and>
     (fs' = fs1 \<and> (\<forall>x. r \<noteq> PicodExec x) \<or>
      (\<exists>spec res. pe_run env spec fs1 = (res, fs') \<and> r = PicodExec (executeResponse (cs_timeout spec) res) \<and>
         (\<forall>d. Stat fs1 (cs_Dir spec) = Inr d \<longrightarrow> prefix w d)))"
proof (cases "bindExecute env (pq_Body c)")
  case (Inl e)
  then show ?thesis
    using assms(2) by (auto simp: ExecuteHandler_def)
next
  case (Inr req)
  obtain rd fs1 where wd: "workingDir env ws (xq_WorkingDir req) fs = (rd, fs1)"
    by (metis surj_pair)
  note inside = workspace.workingDir_inside [OF assms(1) wd]
  have "\<forall>x. rd \<noteq> Inl (PicodExec x)"
    using wd by (auto simp: workingDir_def split: if_splits sum.splits prod.splits option.splits)
  then consider "fs' = fs" "\<forall>x. r \<noteq> PicodExec x" | "fs' = fs1" "\<forall>x. r \<noteq> PicodExec x"
    | spec res dir where "pe_run env spec fs1 = (res, fs')" "rd = Inr dir" "cs_Dir spec = dir"
      "r = PicodExec (executeResponse (cs_timeout spec) res)"
    using assms(2) Inr wd unfolding ExecuteHandler_def
    by (fastforce simp: Let_def split: if_splits sum.splits prod.splits option.splits)
  then show ?thesis
  proof cases
    case 1
    then show ?thesis
      by auto
  next
    case 2
    then show ?thesis
      using inside by auto
  next
    case 3
    then show ?thesis
      using inside by (intro exI [of _ fs1]) auto
  qed
qed

text \<open>Every handler leaves a tree.\<close>

lemma MkdirAll_tree:
  "MkdirAll now perm p fs = (r, fs') \<Longrightarrow> names (elements p) \<Longrightarrow> fsTree fs \<Longrightarrow> fsTree fs'"
  using mkdirs_tree [of now perm "rev (elements p)" fs _ fs'] by (auto simp: MkdirAll_def split: prod.splits)

lemma WriteFile_tree: "WriteFile now perm p data fs = (r, fs') \<Longrightarrow> fsTree fs \<Longrightarrow> fsTree fs'"
  by (auto simp: WriteFile_def dest: OpenFile_tree writeAt_tree split: prod.splits sum.splits option.splits)

context workspace
begin

lemma sanitized_abs: "sanitizePath env ws fs p = Inr sp \<Longrightarrow> IsAbs sp"
  by (metis sanitized_names pathOf_abs)

lemma upload_tree:
  assumes "UploadFileHandler env ws c fs = (r, fs')" "fsTree fs"
  shows "fsTree fs'"
proof -
  have made: "fsTree fs1" if "sanitizePath env ws fs p = Inr sp" "MkdirAll now perm (Dir sp) fs = (e, fs1)"
    for p sp now perm e fs1
    using MkdirAll_tree [OF that(2) Dir_names [OF sanitized_abs [OF that(1)]] assms(2)] .
  show ?thesis
    using assms
    by (auto simp: UploadFileHandler_def handleMultipartUpload_def handleJSONBase64Upload_def Let_def
        dest: made OpenFile_tree writeAt_tree WriteFile_tree split: if_splits sum.splits prod.splits option.splits)
qed

lemma workingDir_tree:
  assumes "workingDir env ws dir fs = (r, fs')" "fsTree fs"
  shows "fsTree fs'"
proof -
  have "fsTree fs1" if sp: "sanitizePath env ws fs dir = Inr sp" "mkdirSafe env ws sp fs = (e, fs1)" for sp e fs1
  proof -
    obtain es where "sp = pathOf True es" "names es"
      using sanitized_names [OF sp(1)] by metis
    then have "names (elements sp)"
      by (simp add: elements_pathOf)
    then show ?thesis
      using sp(2) assms(2) by (auto simp: mkdirSafe_def Let_def dest: MkdirAll_tree split: sum.splits if_splits)
  qed
  then show ?thesis
    using assms by (auto simp: workingDir_def split: if_splits sum.splits prod.splits option.splits)
qed

end


end
