(* ===== verification/PicodWorld.thy ===== *)
theory PicodWorld
  imports PicodProps
begin

text \<open>
  A small file system with a workspace, a file in it and a symbolic link out of it: the witnesses of the
  properties of PicoD, and two requests that do not do what the code says.
\<close>

definition picodSample :: picodEnv where
  "picodSample =
     \<lparr>pe_now = 5, pe_getwd = Inr ''/'', pe_mime = (\<lambda>_. []), pe_required = (\<lambda>_. ''required''), pe_environ = [],
      pe_range = (\<lambda>kvs. kvs),
      pe_run = (\<lambda>spec fs. (\<lparr>xo_deadline = False, xo_exitCode = Some 0, xo_err = None, xo_stdout = ''ok'',
        xo_stderr = [], xo_start = 5, xo_since = 1, xo_end = 6\<rparr>, fs))\<rparr>"

definition sampleFs :: fsys where
  "sampleFs =
     \<lparr>fs_nodes = [([''ws''], NDir 0x1ED), ([''etc''], NDir 0x1ED), ([''ws'', ''out''], NLink ''/etc''),
        ([''ws'', ''a''], NFile ''hello'' 0x1A4)],
      fs_mtime = (\<lambda>_. 0), fs_umask = 0, fs_deny = (\<lambda>_ _. None), fs_write = (\<lambda>_. None), fs_dirSize = (\<lambda>_. 0)\<rparr>"

definition uploadOf :: "string \<Rightarrow> string \<Rightarrow> picodRequest" where
  "uploadOf path content =
     \<lparr>pq_ContentType = ''multipart/form-data'', pq_ContentLength = 0, pq_Body = [],
      pq_PostForm = (\<lambda>k. if k = ''path'' then path else []), pq_FormFile = Inr (Inr content),
      pq_ParamPath = ''/'' @ path, pq_QueryPath = path,
      pq_Header = (\<lambda>k. if k = ''Authorization'' then ''Bearer t'' else [])\<rparr>"

interpretation sampleWs: workspace "''/ws''" sampleFs "[''ws'']"
  by unfold_locales code_simp+

lemma sampleWs_workspace: "workspace ''/ws'' sampleFs [''ws'']"
  by unfold_locales

subsection \<open>Two requests\<close>


text \<open>
  A file that is called \<open>index.html\<close> cannot be downloaded, whatever the file system holds: the file
  server sends such a request to the directory of the file.
\<close>

theorem index_html_not_served:
  assumes "HasSuffix (pq_ParamPath c) ''/index.html''"
  shows "DownloadFileHandler env ws c fs \<noteq> PicodFile h content"
proof -
  have "HasSuffix (''/api/files'' @ pq_ParamPath c) ''/index.html''"
    using assms by (auto simp: HasSuffix_def suffix_def)
  then show ?thesis
    by (auto simp: DownloadFileHandler_def ServeFile_def Let_def split: sum.splits)
qed

theorem index_html_not_served_witness:
  "HasSuffix (pq_ParamPath (uploadOf ''index.html'' ''hi'')) ''/index.html'' \<and>
   nodeAt (snd (UploadFileHandler picodSample ''/ws'' (uploadOf ''index.html'' ''hi'') sampleFs)) [''ws'', ''index.html''] =
     Some (NFile ''hi'' 0x1A4) \<and>
   (\<forall>h content. DownloadFileHandler picodSample ''/ws'' (uploadOf ''index.html'' ''hi'')
     (snd (UploadFileHandler picodSample ''/ws'' (uploadOf ''index.html'' ''hi'') sampleFs)) \<noteq> PicodFile h content)"
proof (intro conjI allI)
  show s: "HasSuffix (pq_ParamPath (uploadOf ''index.html'' ''hi'')) ''/index.html''"
    by (simp add: uploadOf_def HasSuffix_def)
  show "nodeAt (snd (UploadFileHandler picodSample ''/ws'' (uploadOf ''index.html'' ''hi'') sampleFs))
      [''ws'', ''index.html''] = Some (NFile ''hi'' 0x1A4)"
    by code_simp
  show "DownloadFileHandler picodSample ''/ws'' (uploadOf ''index.html'' ''hi'')
     (snd (UploadFileHandler picodSample ''/ws'' (uploadOf ''index.html'' ''hi'') sampleFs)) \<noteq> PicodFile h content"
    for h content
    by (rule index_html_not_served [OF s])
qed

subsection \<open>Witnesses\<close>

theorem picod_reads_inside_witness:
  "DownloadFileHandler picodSample ''/ws'' (uploadOf ''a'' []) sampleFs =
     PicodFile [(''Content-Description'', ''File Transfer''), (''Content-Transfer-Encoding'', ''binary''),
       (''Content-Disposition'', ''attachment; filename='' @ quotedGo ''a''),
       (''Content-Type'', ''application/octet-stream'')] ''hello'' \<and>
   (\<exists>l m. prefix [''ws''] l \<and> nodeAt sampleFs l = Some (NFile ''hello'' m))"
proof
  show d: "DownloadFileHandler picodSample ''/ws'' (uploadOf ''a'' []) sampleFs =
     PicodFile [(''Content-Description'', ''File Transfer''), (''Content-Transfer-Encoding'', ''binary''),
       (''Content-Disposition'', ''attachment; filename='' @ quotedGo ''a''),
       (''Content-Type'', ''application/octet-stream'')] ''hello''"
    by code_simp
  show "\<exists>l m. prefix [''ws''] l \<and> nodeAt sampleFs l = Some (NFile ''hello'' m)"
    using picod_reads_inside [OF sampleWs_workspace, of picodSample "uploadOf ''a'' []"] unfolding d by simp
qed



definition commandText :: string where
  "commandText = ''{'' @ quotedGo ''command'' @ '':['' @ quotedGo ''ls'' @ ''],'' @ quotedGo ''working_dir'' @ '':'' @
     quotedGo ''w'' @ ''}''"

definition runSample :: picodRequest where
  "runSample = (uploadOf [] [])\<lparr>pq_Body := commandText\<rparr>"

lemma sample_command:
  "bindExecute picodSample commandText =
     Inr \<lparr>xq_Command = [''ls''], xq_Timeout = [], xq_WorkingDir = ''w'', xq_Env = []\<rparr>"
proof -
  have "length commandText \<le> MaxBodySize"
    by (simp add: commandText_def quotedGo_def MaxBodySize_def)
  then have t: "take MaxBodySize commandText = commandText"
    by simp
  have d: "DecodeStruct commandText = Inr [(''command'', VArr [VStr ''ls'']), (''working_dir'', VStr ''w'')]"
    by code_simp
  show ?thesis
    unfolding bindExecute_def t d sum.case by code_simp
qed

lemma sample_dir:
  "fst (workingDir picodSample ''/ws'' ''w'' sampleFs) = Inr ''/ws/w''"
  "nodeAt (snd (workingDir picodSample ''/ws'' ''w'' sampleFs)) [''ws'', ''w''] = Some (NDir 0x1ED)"
  by code_simp+

theorem command_dir_inside_witness:
  "\<exists>r fs'. ExecuteHandler picodSample ''/ws'' runSample sampleFs = (PicodExec r, fs') \<and> xr_Stdout r = ''ok'' \<and>
     nodeAt fs' [''ws'', ''w''] = Some (NDir 0x1ED) \<and>
     (\<exists>fs1. (\<forall>l. nodeAt fs1 l \<noteq> nodeAt sampleFs l \<longrightarrow> prefix [''ws''] l) \<and>
       (\<exists>spec res. pe_run picodSample spec fs1 = (res, fs') \<and>
          PicodExec r = PicodExec (executeResponse (cs_timeout spec) res)))"
proof -
  obtain fs' where d: "workingDir picodSample ''/ws'' ''w'' sampleFs = (Inr ''/ws/w'', fs')"
      "nodeAt fs' [''ws'', ''w''] = Some (NDir 0x1ED)"
    using sample_dir by (metis prod.collapse)
  define r where "r = executeResponse (60 * Second) (fst (pe_run picodSample
    \<lparr>cs_args = [''ls''], cs_Dir = ''/ws/w'', cs_Env = None, cs_timeout = 60 * Second\<rparr> fs'))"
  have e: "ExecuteHandler picodSample ''/ws'' runSample sampleFs = (PicodExec r, fs')" "xr_Stdout r = ''ok''"
    using sample_command d(1)
    by (simp_all add: ExecuteHandler_def runSample_def r_def picodSample_def executeResponse_def)
  show ?thesis
    using command_dir_inside [OF sampleWs_workspace e(1)] e d(2) by blast
qed




end
