(* ===== verification/Reconciler.thy ===== *)
theory Reconciler
  imports Builder
begin

text \<open>
  \<open>pkg/workloadmanager/codeinterpreter_controller.go\<close>: the controller that keeps a \<open>SandboxTemplate\<close>
  and a \<open>SandboxWarmPool\<close> beside every \<open>CodeInterpreter\<close> with a warm pool.

  The client of controller-runtime, \<open>SetControllerReference\<close> and the condition helpers of
  \<open>apimachinery\<close> are parameters.  The client is the same for both kinds of objects: its operations
  on one kind are a record \<open>objApi\<close>, with the contract \<open>object_api\<close>.

  The client reads from a cache that follows the cluster with a delay and writes to the cluster.

  \<open>podTemplateEqual\<close> is \<open>reflect.DeepEqual\<close>, which tells a nil slice from an empty one, and JSON with
  \<open>omitempty\<close> does not: slices are optional lists here, and what a read returns after a write is the
  object as it went over the wire (\<open>wirePodSpec\<close>).  The wire also brings quantities, in
  \<open>corev1.ResourceRequirements\<close> and in the sources of environment variables, into their canonical form, which is the
  parameter \<open>canon\<close>.  The lists of a
  \<open>CodeInterpreter\<close> come from such a read, where an empty list is absent.
\<close>

subsection \<open>Objects\<close>

type_synonym 'a slice = "'a list option"

definition decoded :: "'a list \<Rightarrow> 'a slice" where
  "decoded xs = (if xs = [] then None else Some xs)"

record containerObj =
  ko_Name :: string
  ko_Image :: string
  ko_ImagePullPolicy :: string
  ko_Command :: "string slice"
  ko_Args :: "string slice"
  ko_Env :: "EnvVar slice"
  ko_Resources :: string
  ko_Other :: string

record podSpecObj =
  po_ImagePullSecrets :: "string slice"
  po_Containers :: "containerObj list"
  po_RuntimeClassName :: "string option"
  po_Other :: string

record PodTemplate =
  pt_Labels :: strmap
  pt_Annotations :: strmap
  pt_Spec :: podSpecObj

record templateObj =
  to_Namespace :: string
  to_Name :: string
  to_OwnerReferences :: "OwnerReference list"
  to_DeletionTimestamp :: "Time option"
  to_PodTemplate :: PodTemplate
  to_NetworkPolicyManagement :: string

record warmPoolObj =
  wo_Namespace :: string
  wo_Name :: string
  wo_OwnerReferences :: "OwnerReference list"
  wo_DeletionTimestamp :: "Time option"
  wo_Replicas :: int
  wo_TemplateRef :: string

record Condition =
  co_Type :: string
  co_Status :: string
  co_Reason :: string
  co_Message :: string
  co_ObservedGeneration :: int
  co_LastTransitionTime :: Time

text \<open>A \<open>CodeInterpreter\<close> with the rest of its metadata and its \<open>CodeInterpreterStatus\<close>.\<close>

record interpreterObj = CodeInterpreter +
  ci_Generation :: int
  ci_StatusReady :: bool
  ci_Conditions :: "Condition list"

definition codeInterpreterNetworkPolicyManagement :: string where
  "codeInterpreterNetworkPolicyManagement = ''Unmanaged''"

subsection \<open>What the controller calls\<close>

record ('w, 'o) objApi =
  oa_Get :: "string \<Rightarrow> string \<Rightarrow> 'w \<Rightarrow> 'o res \<times> 'w"
  oa_Create :: "'o \<Rightarrow> 'w \<Rightarrow> gerr option \<times> 'w"
  oa_Update :: "'o \<Rightarrow> 'w \<Rightarrow> gerr option \<times> 'w"
  oa_Delete :: "'o \<Rightarrow> 'w \<Rightarrow> gerr option \<times> 'w"

text \<open>\<open>cc_SetControllerReference\<close> gives the owner references of an object when it gets a controller.\<close>

record 'w ctrlClient =
  cc_Get :: "string \<Rightarrow> string \<Rightarrow> 'w \<Rightarrow> interpreterObj res \<times> 'w"
  cc_StatusUpdate :: "interpreterObj \<Rightarrow> 'w \<Rightarrow> gerr option \<times> 'w"
  cc_Templates :: "('w, templateObj) objApi"
  cc_Pools :: "('w, warmPoolObj) objApi"
  cc_SetControllerReference :: "interpreterObj \<Rightarrow> OwnerReference list \<Rightarrow> OwnerReference list res"

record apimeta =
  am_FindStatusCondition :: "Condition list \<Rightarrow> string \<Rightarrow> Condition option"
  am_SetStatusCondition :: "Condition list \<Rightarrow> Condition \<Rightarrow> Condition list"

subsection \<open>The controller\<close>

definition convertToPodTemplate ::
  "string \<Rightarrow> CodeInterpreterSandboxTemplate \<Rightarrow> 'a CodeInterpreter_scheme \<Rightarrow> PodTemplate" where
  "convertToPodTemplate cachedPublicKey template ci =
     (let runtimeClassName = normalizeRuntimeClass (ct_RuntimeClassName template);
          envVars = ct_Environment template;
          envVars' = (if ci_AuthMode ci \<noteq> AuthModeNone
            then envVars @ [\<lparr>env_Name = ''PICOD_AUTH_PUBLIC_KEY'', env_Value = cachedPublicKey, env_ValueFrom = None\<rparr>]
            else envVars);
          podSpec =
            \<lparr>po_ImagePullSecrets = decoded (ct_ImagePullSecrets template),
             po_Containers =
               [\<lparr>ko_Name = ''codeinterpreter'', ko_Image = ct_Image template,
                 ko_ImagePullPolicy = ct_ImagePullPolicy template,
                 ko_Command = decoded (ct_Command template), ko_Args = decoded (ct_Args template),
                 ko_Env = Some envVars', ko_Resources = ct_Resources template, ko_Other = []\<rparr>],
             po_RuntimeClassName = runtimeClassName, po_Other = []\<rparr>
      in \<lparr>pt_Labels = Map.empty, pt_Annotations = Map.empty, pt_Spec = podSpec\<rparr>)"

definition podTemplateEqual :: "PodTemplate \<Rightarrow> PodTemplate \<Rightarrow> bool" where
  "podTemplateEqual a b \<longleftrightarrow> pt_Spec a = pt_Spec b"

definition requeueDelay :: Duration where "requeueDelay = 5 * Second"

text \<open>The result is \<open>RequeueAfter\<close>, zero for an empty \<open>ctrl.Result\<close>, or the error.\<close>

definition ensureSandboxTemplate ::
  "apierrors \<Rightarrow> 'w ctrlClient \<Rightarrow> string \<Rightarrow> interpreterObj \<Rightarrow> 'w \<Rightarrow> Duration res \<times> 'w" where
  "ensureSandboxTemplate ae r cachedPublicKey ci w =
     (if ci_AuthMode ci \<noteq> AuthModeNone \<and> \<not> IsPublicKeyCached cachedPublicKey then (Inr requeueDelay, w)
      else
        (case ci_Template ci of
           None \<Rightarrow> (Inl (ErrMsg ''template is required''), w)
         | Some template \<Rightarrow>
             (case oa_Get (cc_Templates r) (ci_Namespace ci) (ci_Name ci) w of
                (got, w1) \<Rightarrow>
                  (let podTemplate = convertToPodTemplate cachedPublicKey template ci in
                   case got of
                     Inl e \<Rightarrow>
                       if ae_IsNotFound ae e then
                         (case cc_SetControllerReference r ci [] of
                            Inl e2 \<Rightarrow> (Inl (ErrWrap ''failed to set controller reference'' e2), w1)
                          | Inr owners \<Rightarrow>
                              (case oa_Create (cc_Templates r)
                                  \<lparr>to_Namespace = ci_Namespace ci, to_Name = ci_Name ci,
                                   to_OwnerReferences = owners, to_DeletionTimestamp = None,
                                   to_PodTemplate = podTemplate,
                                   to_NetworkPolicyManagement = codeInterpreterNetworkPolicyManagement\<rparr> w1 of
                                 (Some e3, w2) \<Rightarrow>
                                   (if \<not> ae_IsAlreadyExists ae e3
                                    then (Inl (ErrWrap ''failed to create SandboxTemplate'' e3), w2)
                                    else (Inr 0, w2))
                               | (None, w2) \<Rightarrow> (Inr 0, w2)))
                       else (Inl (ErrWrap ''failed to get SandboxTemplate'' e), w1)
                   | Inr sandboxTemplate \<Rightarrow>
                       (let differs = \<not> podTemplateEqual (to_PodTemplate sandboxTemplate) podTemplate;
                            t1 = (if differs then sandboxTemplate\<lparr>to_PodTemplate := podTemplate\<rparr>
                                  else sandboxTemplate);
                            unmanaged = to_NetworkPolicyManagement t1 = codeInterpreterNetworkPolicyManagement;
                            t2 = (if \<not> unmanaged
                                  then t1\<lparr>to_NetworkPolicyManagement := codeInterpreterNetworkPolicyManagement\<rparr>
                                  else t1) in
                        if differs \<or> \<not> unmanaged then
                          (case oa_Update (cc_Templates r) t2 w1 of
                             (Some e, w2) \<Rightarrow> (Inl (ErrWrap ''failed to update SandboxTemplate'' e), w2)
                           | (None, w2) \<Rightarrow> (Inr 0, w2))
                        else (Inr 0, w1))))))"

definition ensureSandboxWarmPool ::
  "apierrors \<Rightarrow> 'w ctrlClient \<Rightarrow> interpreterObj \<Rightarrow> 'w \<Rightarrow> gerr option \<times> 'w" where
  "ensureSandboxWarmPool ae r ci w =
     (case ci_WarmPoolSize ci of
        None \<Rightarrow> (None, w)
      | Some poolSize \<Rightarrow>
          if poolSize = 0 then (None, w)
          else
            (case oa_Get (cc_Pools r) (ci_Namespace ci) (ci_Name ci) w of
               (Inl e, w1) \<Rightarrow>
                 if ae_IsNotFound ae e then
                   (case cc_SetControllerReference r ci [] of
                      Inl e2 \<Rightarrow> (Some (ErrWrap ''failed to set controller reference'' e2), w1)
                    | Inr owners \<Rightarrow>
                        (case oa_Create (cc_Pools r)
                            \<lparr>wo_Namespace = ci_Namespace ci, wo_Name = ci_Name ci, wo_OwnerReferences = owners,
                             wo_DeletionTimestamp = None, wo_Replicas = poolSize, wo_TemplateRef = ci_Name ci\<rparr> w1 of
                           (Some e3, w2) \<Rightarrow>
                             (if \<not> ae_IsAlreadyExists ae e3
                              then (Some (ErrWrap ''failed to create SandboxWarmPool'' e3), w2) else (None, w2))
                         | (None, w2) \<Rightarrow> (None, w2)))
                 else (Some (ErrWrap ''failed to get SandboxWarmPool'' e), w1)
             | (Inr warmPool, w1) \<Rightarrow>
                 (let replicas = wo_Replicas warmPool \<noteq> poolSize;
                      p1 = (if replicas then warmPool\<lparr>wo_Replicas := poolSize\<rparr> else warmPool);
                      ref = wo_TemplateRef p1 \<noteq> ci_Name ci;
                      p2 = (if ref then p1\<lparr>wo_TemplateRef := ci_Name ci\<rparr> else p1) in
                  if replicas \<or> ref then
                    (case oa_Update (cc_Pools r) p2 w1 of
                       (Some e, w2) \<Rightarrow> (Some (ErrWrap ''failed to update SandboxWarmPool'' e), w2)
                     | (None, w2) \<Rightarrow> (None, w2))
                  else (None, w1))))"

definition deleteSandboxWarmPool ::
  "apierrors \<Rightarrow> 'w ctrlClient \<Rightarrow> interpreterObj \<Rightarrow> 'w \<Rightarrow> gerr option \<times> 'w" where
  "deleteSandboxWarmPool ae r ci w =
     (case oa_Get (cc_Pools r) (ci_Namespace ci) (ci_Name ci) w of
        (Inl e, w1) \<Rightarrow>
          (if ae_IsNotFound ae e then (None, w1) else (Some (ErrWrap ''failed to get SandboxWarmPool'' e), w1))
      | (Inr warmPool, w1) \<Rightarrow>
          (case oa_Delete (cc_Pools r) warmPool w1 of
             (Some e, w2) \<Rightarrow>
               (if \<not> ae_IsNotFound ae e then (Some (ErrWrap ''failed to delete SandboxWarmPool'' e), w2)
                else (None, w2))
           | (None, w2) \<Rightarrow> (None, w2)))"

definition deleteSandboxTemplate ::
  "apierrors \<Rightarrow> 'w ctrlClient \<Rightarrow> interpreterObj \<Rightarrow> 'w \<Rightarrow> gerr option \<times> 'w" where
  "deleteSandboxTemplate ae r ci w =
     (case oa_Get (cc_Templates r) (ci_Namespace ci) (ci_Name ci) w of
        (Inl e, w1) \<Rightarrow>
          (if ae_IsNotFound ae e then (None, w1) else (Some (ErrWrap ''failed to get SandboxTemplate'' e), w1))
      | (Inr sandboxTemplate, w1) \<Rightarrow>
          (case oa_Delete (cc_Templates r) sandboxTemplate w1 of
             (Some e, w2) \<Rightarrow>
               (if \<not> ae_IsNotFound ae e then (Some (ErrWrap ''failed to delete SandboxTemplate'' e), w2)
                else (None, w2))
           | (None, w2) \<Rightarrow> (None, w2)))"

text \<open>
  The condition to set has no transition time of its own.  \<open>statusCurrent\<close> is the test that skips the write.
\<close>

definition statusCurrent :: "apimeta \<Rightarrow> interpreterObj \<Rightarrow> bool" where
  "statusCurrent am ci \<longleftrightarrow>
     ci_StatusReady ci \<and>
     (case am_FindStatusCondition am (ci_Conditions ci) ''Ready'' of
        None \<Rightarrow> False
      | Some existing \<Rightarrow> co_Status existing = ''True'' \<and> co_ObservedGeneration existing = ci_Generation ci)"

definition readyCondition :: "int \<Rightarrow> Condition" where
  "readyCondition generation =
     \<lparr>co_Type = ''Ready'', co_Status = ''True'', co_Reason = ''Reconciled'',
      co_Message = ''CodeInterpreter is ready'', co_ObservedGeneration = generation,
      co_LastTransitionTime = zeroTime\<rparr>"

definition updateStatus ::
  "apimeta \<Rightarrow> 'w ctrlClient \<Rightarrow> interpreterObj \<Rightarrow> 'w \<Rightarrow> gerr option \<times> 'w" where
  "updateStatus am r ci w =
     (if statusCurrent am ci then (None, w)
      else cc_StatusUpdate r
        (ci\<lparr>ci_StatusReady := True,
            ci_Conditions := am_SetStatusCondition am (ci_Conditions ci) (readyCondition (ci_Generation ci))\<rparr>) w)"

definition wantsPool :: "'a CodeInterpreter_scheme \<Rightarrow> bool" where
  "wantsPool ci \<longleftrightarrow> (case ci_WarmPoolSize ci of None \<Rightarrow> False | Some n \<Rightarrow> n > 0)"

definition finishReconcile ::
  "apimeta \<Rightarrow> 'w ctrlClient \<Rightarrow> interpreterObj \<Rightarrow> 'w \<Rightarrow> Duration res \<times> 'w" where
  "finishReconcile am r ci w =
     (case updateStatus am r ci w of
        (Some e, w') \<Rightarrow> (Inl e, w')
      | (None, w') \<Rightarrow> (Inr 0, w'))"

definition Reconcile_ci ::
  "apierrors \<Rightarrow> apimeta \<Rightarrow> 'w ctrlClient \<Rightarrow> string \<Rightarrow> string \<Rightarrow> string \<Rightarrow> 'w \<Rightarrow> Duration res \<times> 'w" where
  "Reconcile_ci ae am r cachedPublicKey namespace name w =
     (case cc_Get r namespace name w of
        (Inl e, w1) \<Rightarrow> (if ae_IsNotFound ae e then (Inr 0, w1) else (Inl e, w1))
      | (Inr codeInterpreter, w1) \<Rightarrow>
          if wantsPool codeInterpreter then
            (case ensureSandboxTemplate ae r cachedPublicKey codeInterpreter w1 of
               (Inl e, w2) \<Rightarrow> (Inl e, w2)
             | (Inr requeueAfter, w2) \<Rightarrow>
                 if requeueAfter > 0 then (Inr requeueAfter, w2)
                 else
                   (case ensureSandboxWarmPool ae r codeInterpreter w2 of
                      (Some e, w3) \<Rightarrow> (Inl e, w3)
                    | (None, w3) \<Rightarrow> finishReconcile am r codeInterpreter w3))
          else
            (case deleteSandboxWarmPool ae r codeInterpreter w1 of
               (Some e, w2) \<Rightarrow> (Inl e, w2)
             | (None, w2) \<Rightarrow>
                 (case deleteSandboxTemplate ae r codeInterpreter w2 of
                    (Some e, w3) \<Rightarrow> (Inl e, w3)
                  | (None, w3) \<Rightarrow> finishReconcile am r codeInterpreter w3)))"

subsection \<open>What the controller relies on\<close>

definition wireSlice :: "'a slice \<Rightarrow> 'a slice" where
  "wireSlice s = (if s = Some [] then None else s)"

definition wireContainer :: "(string \<Rightarrow> string) \<Rightarrow> containerObj \<Rightarrow> containerObj" where
  "wireContainer canon k = k\<lparr>ko_Command := wireSlice (ko_Command k), ko_Args := wireSlice (ko_Args k),
     ko_Env := wireSlice (map_option (map (\<lambda>e. e\<lparr>env_ValueFrom := map_option canon (env_ValueFrom e)\<rparr>)) (ko_Env k)),
     ko_Resources := canon (ko_Resources k)\<rparr>"

definition wirePodSpec :: "(string \<Rightarrow> string) \<Rightarrow> podSpecObj \<Rightarrow> podSpecObj" where
  "wirePodSpec canon p = p\<lparr>po_ImagePullSecrets := wireSlice (po_ImagePullSecrets p),
     po_Containers := map (wireContainer canon) (po_Containers p)\<rparr>"

definition wirePodTemplate :: "(string \<Rightarrow> string) \<Rightarrow> PodTemplate \<Rightarrow> PodTemplate" where
  "wirePodTemplate canon p = p\<lparr>pt_Spec := wirePodSpec canon (pt_Spec p)\<rparr>"

definition wireTemplate :: "(string \<Rightarrow> string) \<Rightarrow> templateObj \<Rightarrow> templateObj" where
  "wireTemplate canon t = t\<lparr>to_PodTemplate := wirePodTemplate canon (to_PodTemplate t)\<rparr>"

definition templateKey :: "templateObj \<Rightarrow> string \<times> string" where
  "templateKey t = (to_Namespace t, to_Name t)"

definition poolKey :: "warmPoolObj \<Rightarrow> string \<times> string" where
  "poolKey p = (wo_Namespace p, wo_Name p)"

text \<open>
  The objects of one kind: \<open>objs\<close> in the cluster and \<open>seen\<close> in the cache, which may lag behind.  A read answers
  from the cache and a write goes to the cluster.  A write that reports an error may have taken effect, but not
  one that reports that the object already exists.  A deletion removes the object, or marks it when
  finalizers hold it (\<open>terminating\<close>), so that it goes later.  The operations on one kind leave the \<open>rest\<close> alone, and
  the caches only move forward (\<open>fwd\<close>).  Nobody else writes these objects meanwhile.
\<close>

locale object_api = apierrors_api ae
  for ae :: apierrors +
  fixes api :: "('w, 'o) objApi" and key :: "'o \<Rightarrow> string \<times> string" and wire :: "'o \<Rightarrow> 'o"
    and terminating :: "'o \<Rightarrow> bool"
    and objs :: "'w \<Rightarrow> string \<times> string \<Rightarrow> 'o option" and seen :: "'w \<Rightarrow> string \<times> string \<Rightarrow> 'o option"
    and rest :: "'w \<Rightarrow> 'r" and fwd :: "'w \<Rightarrow> 'w \<Rightarrow> bool"
  assumes get_obj:
      "oa_Get api ns n w = (g, w') \<Longrightarrow>
       objs w' = objs w \<and> rest w' = rest w \<and> fwd w w' \<and>
       (\<forall>x. g = Inr x \<longrightarrow> seen w (ns, n) = Some x \<and> key x = (ns, n)) \<and>
       (\<forall>e. g = Inl e \<and> ae_IsNotFound ae e \<longrightarrow> seen w (ns, n) = None)"
    and create_obj:
      "oa_Create api x w = (r, w') \<Longrightarrow>
       rest w' = rest w \<and> fwd w w' \<and> (objs w' = objs w \<or> objs w' = (objs w)(key x \<mapsto> wire x)) \<and>
       (r = None \<longrightarrow> objs w (key x) = None \<and> objs w' = (objs w)(key x \<mapsto> wire x)) \<and>
       (\<forall>e. r = Some e \<and> ae_IsAlreadyExists ae e \<longrightarrow> objs w (key x) \<noteq> None \<and> objs w' = objs w)"
    and update_obj:
      "oa_Update api x w = (r, w') \<Longrightarrow>
       rest w' = rest w \<and> fwd w w' \<and> (objs w' = objs w \<or> objs w' = (objs w)(key x \<mapsto> wire x)) \<and>
       (r = None \<longrightarrow> objs w' = (objs w)(key x \<mapsto> wire x))"
    and delete_obj:
      "oa_Delete api x w = (r, w') \<Longrightarrow>
       rest w' = rest w \<and> fwd w w' \<and> (\<forall>k. k \<noteq> key x \<longrightarrow> objs w' k = objs w k) \<and>
       (r = None \<longrightarrow> (\<forall>y. objs w' (key x) = Some y \<longrightarrow> terminating y)) \<and>
       (\<forall>e. r = Some e \<and> ae_IsNotFound ae e \<longrightarrow> objs w (key x) = None \<and> objs w' = objs w)"

locale apimeta_api =
  fixes am :: apimeta
  assumes find_set:
      "\<exists>k. am_FindStatusCondition am (am_SetStatusCondition am cs k0) (co_Type k0) = Some k \<and>
         co_Status k = co_Status k0 \<and> co_ObservedGeneration k = co_ObservedGeneration k0"

text \<open>A cache that shows the current object goes on showing it until the object changes.\<close>

definition cacheForward ::
  "('w \<Rightarrow> 'k \<Rightarrow> 'o option) \<Rightarrow> ('w \<Rightarrow> 'k \<Rightarrow> 'o option) \<Rightarrow> 'w \<Rightarrow> 'w \<Rightarrow> bool" where
  "cacheForward objs seen w w' \<longleftrightarrow> (\<forall>k. seen w k = objs w k \<and> objs w' k = objs w k \<longrightarrow> seen w' k = objs w' k)"

abbreviation cachesForward where
  "cachesForward ts seenT ps seenP w w' \<equiv> cacheForward ts seenT w w' \<and> cacheForward ps seenP w w'"

locale interpreter_cluster =
  templates: object_api ae "cc_Templates c" templateKey "wireTemplate canon" "\<lambda>t. to_DeletionTimestamp t \<noteq> None"
    ts seenT "\<lambda>w. (ps w, cis w)" "cachesForward ts seenT ps seenP" +
  pools: object_api ae "cc_Pools c" poolKey id "\<lambda>p. wo_DeletionTimestamp p \<noteq> None"
    ps seenP "\<lambda>w. (ts w, cis w)" "cachesForward ts seenT ps seenP" +
  apimeta_api am
  for ae :: apierrors and c :: "'w ctrlClient" and am :: apimeta and canon :: "string \<Rightarrow> string"
    and ts :: "'w \<Rightarrow> string \<times> string \<Rightarrow> templateObj option" and seenT :: "'w \<Rightarrow> string \<times> string \<Rightarrow> templateObj option"
    and ps :: "'w \<Rightarrow> string \<times> string \<Rightarrow> warmPoolObj option" and seenP :: "'w \<Rightarrow> string \<times> string \<Rightarrow> warmPoolObj option"
    and cis :: "'w \<Rightarrow> string \<times> string \<Rightarrow> interpreterObj option"
    and seenC :: "'w \<Rightarrow> string \<times> string \<Rightarrow> interpreterObj option" +
  assumes get_interpreter:
      "cc_Get c ns n w = (g, w') \<Longrightarrow>
       ts w' = ts w \<and> ps w' = ps w \<and> cis w' = cis w \<and> cachesForward ts seenT ps seenP w w' \<and>
       (\<forall>ci. g = Inr ci \<longrightarrow> seenC w (ns, n) = Some ci \<and> ci_Namespace ci = ns \<and> ci_Name ci = n) \<and>
       (\<forall>e. g = Inl e \<and> ae_IsNotFound ae e \<longrightarrow> seenC w (ns, n) = None)"
    and status_update:
      "cc_StatusUpdate c ci w = (r, w') \<Longrightarrow>
       ts w' = ts w \<and> ps w' = ps w \<and>
       (r = None \<longrightarrow> (\<exists>cur. cis w (ci_Namespace ci, ci_Name ci) = Some cur \<and>
          cis w' = (cis w)((ci_Namespace ci, ci_Name ci) \<mapsto>
            cur\<lparr>ci_StatusReady := ci_StatusReady ci, ci_Conditions := ci_Conditions ci\<rparr>)))"

subsection \<open>What a reconciliation reaches\<close>

text \<open>
  The template holds the wanted pod, as it was written or as it comes back from a read; its labels, annotations and
  owner references are not compared.
\<close>

definition templateFits :: "(string \<Rightarrow> string) \<Rightarrow> string \<Rightarrow> 'a CodeInterpreter_scheme \<Rightarrow> templateObj \<Rightarrow> bool" where
  "templateFits canon cachedPublicKey ci t \<longleftrightarrow>
     to_NetworkPolicyManagement t = codeInterpreterNetworkPolicyManagement \<and>
     (case ci_Template ci of
        None \<Rightarrow> False
      | Some template \<Rightarrow>
          pt_Spec (to_PodTemplate t) \<in>
            {pt_Spec (convertToPodTemplate cachedPublicKey template ci),
             wirePodSpec canon (pt_Spec (convertToPodTemplate cachedPublicKey template ci))})"

definition poolFits :: "'a CodeInterpreter_scheme \<Rightarrow> warmPoolObj \<Rightarrow> bool" where
  "poolFits ci p \<longleftrightarrow> Some (wo_Replicas p) = ci_WarmPoolSize ci \<and> wo_TemplateRef p = ci_Name ci"

text \<open>
  One object of a kind after the reconciliation: others are as they were, and this one is as it was or \<open>good\<close>; if
  the cache was up to date, it is good.
\<close>

definition settles ::
  "('k \<Rightarrow> 'o option) \<Rightarrow> ('k \<Rightarrow> 'o option) \<Rightarrow> 'k \<Rightarrow> ('o option \<Rightarrow> bool) \<Rightarrow> ('k \<Rightarrow> 'o option) \<Rightarrow> bool" where
  "settles objs seen k good objs' \<longleftrightarrow>
     (\<forall>j. j \<noteq> k \<longrightarrow> objs' j = objs j) \<and> (objs' k = objs k \<or> good (objs' k)) \<and>
     (seen k = objs k \<longrightarrow> good (objs' k))"

lemma settles_put: "good (Some x) \<Longrightarrow> settles objs seen k good (objs(k \<mapsto> x))"
  by (simp add: settles_def)

lemma settles_same: "(seen k = objs k \<Longrightarrow> good (objs k)) \<Longrightarrow> settles objs seen k good objs"
  by (simp add: settles_def)

definition fitting :: "('o \<Rightarrow> bool) \<Rightarrow> 'o option \<Rightarrow> bool" where
  "fitting P x \<longleftrightarrow> (\<exists>y. x = Some y \<and> P y)"

definition gone :: "('o \<Rightarrow> bool) \<Rightarrow> 'o option \<Rightarrow> bool" where
  "gone terminating x \<longleftrightarrow> (\<forall>y. x = Some y \<longrightarrow> terminating y)"


text \<open>
  The object is marked ready for the generation that was read: it was already, or its status was written, which
  changes nothing else of the object in the cluster.
\<close>

definition readyMarked :: "apimeta \<Rightarrow> interpreterObj \<Rightarrow> 'k \<Rightarrow> ('k \<Rightarrow> interpreterObj option) \<Rightarrow>
    ('k \<Rightarrow> interpreterObj option) \<Rightarrow> bool" where
  "readyMarked am ci k objs objs' \<longleftrightarrow>
     statusCurrent am ci \<and> objs' = objs \<or>
     (\<exists>cur cs. objs k = Some cur \<and> objs' = objs(k \<mapsto> cur\<lparr>ci_StatusReady := True, ci_Conditions := cs\<rparr>) \<and>
        statusCurrent am (ci\<lparr>ci_StatusReady := True, ci_Conditions := cs\<rparr>))"

lemma readyMarked_object:
  assumes "readyMarked am ci k objs objs'" and "objs k = Some ci"
  shows "\<exists>r cs. objs' k = Some (ci\<lparr>ci_StatusReady := r, ci_Conditions := cs\<rparr>) \<and>
     statusCurrent am (ci\<lparr>ci_StatusReady := r, ci_Conditions := cs\<rparr>)"
proof -
  have "ci\<lparr>ci_StatusReady := ci_StatusReady ci, ci_Conditions := ci_Conditions ci\<rparr> = ci"
    by simp
  then show ?thesis
    using assms unfolding readyMarked_def by (metis fun_upd_same option.inject)
qed

context interpreter_cluster
begin

lemma template_created:
  assumes "ensureSandboxTemplate ae c key ci w = (Inr d, w')"
    and k: "\<not> (ci_AuthMode ci \<noteq> AuthModeNone \<and> \<not> IsPublicKeyCached key)"
    and g: "oa_Get (cc_Templates c) (ci_Namespace ci) (ci_Name ci) w = (Inl e, w1)"
  shows "d = 0 \<and> ps w' = ps w \<and> cis w' = cis w \<and> (\<forall>k. seenP w k = ps w k \<longrightarrow> seenP w' k = ps w' k) \<and>
     settles (ts w) (seenT w) (ci_Namespace ci, ci_Name ci) (fitting (templateFits canon key ci)) (ts w')"
proof -
  note get = templates.get_obj [OF g]
  obtain tm ow r where tm: "ci_Template ci = Some tm" and e: "ae_IsNotFound ae e" and
    cr: "oa_Create (cc_Templates c)
      \<lparr>to_Namespace = ci_Namespace ci, to_Name = ci_Name ci, to_OwnerReferences = ow, to_DeletionTimestamp = None,
       to_PodTemplate = convertToPodTemplate key tm ci,
       to_NetworkPolicyManagement = codeInterpreterNetworkPolicyManagement\<rparr> w1 = (r, w')"
    and r: "d = 0" "\<forall>e. r = Some e \<longrightarrow> ae_IsAlreadyExists ae e"
    using assms
    by (auto simp: ensureSandboxTemplate_def split: if_splits sum.splits option.splits prod.splits)
  note made = templates.create_obj [OF cr]
  have "settles (ts w) (seenT w) (ci_Namespace ci, ci_Name ci) (fitting (templateFits canon key ci)) (ts w')"
  proof (cases r)
    case None
    then show ?thesis
      using made get tm
      by (auto intro!: settles_put simp: templateKey_def fitting_def templateFits_def wireTemplate_def wirePodTemplate_def)
  next
    case (Some e3)
    then show ?thesis
      using made get e r(2) by (auto intro!: settles_same simp: templateKey_def)
  qed
  then show ?thesis
    using made get r(1) by (auto simp: cacheForward_def)
qed

lemma template_revised:
  assumes "ensureSandboxTemplate ae c key ci w = (Inr d, w')"
    and k: "\<not> (ci_AuthMode ci \<noteq> AuthModeNone \<and> \<not> IsPublicKeyCached key)"
    and g: "oa_Get (cc_Templates c) (ci_Namespace ci) (ci_Name ci) w = (Inr t, w1)"
  shows "d = 0 \<and> ps w' = ps w \<and> cis w' = cis w \<and> (\<forall>k. seenP w k = ps w k \<longrightarrow> seenP w' k = ps w' k) \<and>
     settles (ts w) (seenT w) (ci_Namespace ci, ci_Name ci) (fitting (templateFits canon key ci)) (ts w')"
proof -
  note get = templates.get_obj [OF g]
  have t: "seenT w (ci_Namespace ci, ci_Name ci) = Some t" "templateKey t = (ci_Namespace ci, ci_Name ci)"
    using get by simp_all
  obtain tm where tm: "ci_Template ci = Some tm"
    using assms by (auto simp: ensureSandboxTemplate_def split: option.splits)
  define pod where "pod = convertToPodTemplate key tm ci"
  define t1 where "t1 = (if pt_Spec (to_PodTemplate t) \<noteq> pt_Spec pod then t\<lparr>to_PodTemplate := pod\<rparr> else t)"
  define t2 where "t2 = (if to_NetworkPolicyManagement t1 \<noteq> codeInterpreterNetworkPolicyManagement
    then t1\<lparr>to_NetworkPolicyManagement := codeInterpreterNetworkPolicyManagement\<rparr> else t1)"
  have k2: "templateKey t2 = (ci_Namespace ci, ci_Name ci)"
    using t(2) by (simp add: t1_def t2_def templateKey_def)
  have fits: "templateFits canon key ci t2" "templateFits canon key ci (wireTemplate canon t2)"
    using tm by (simp_all add: t1_def t2_def templateFits_def pod_def wireTemplate_def wirePodTemplate_def)
  have run: "d = 0 \<and> (oa_Update (cc_Templates c) t2 w1 = (None, w') \<or> t2 = t \<and> w' = w1)"
    using assms tm
    by (auto simp: ensureSandboxTemplate_def Let_def podTemplateEqual_def t1_def t2_def pod_def
        split: if_splits option.splits prod.splits)
  then show ?thesis
  proof (elim conjE disjE)
    assume "oa_Update (cc_Templates c) t2 w1 = (None, w')"
    then show ?thesis
      using templates.update_obj [of t2 w1 None w'] get k2 fits(2) run
      by (auto intro!: settles_put simp: fitting_def cacheForward_def)
  next
    assume "t2 = t" "w' = w1"
    then show ?thesis
      using get t fits(1) run by (auto intro!: settles_same simp: fitting_def cacheForward_def)
  qed
qed

lemma ensureSandboxTemplate_reaches:
  assumes "ensureSandboxTemplate ae c key ci w = (Inr d, w')"
  shows "ps w' = ps w \<and> cis w' = cis w \<and> (\<forall>k. seenP w k = ps w k \<longrightarrow> seenP w' k = ps w' k) \<and>
     (d = 0 \<and> (ci_AuthMode ci \<noteq> AuthModeNone \<longrightarrow> key \<noteq> []) \<and>
        settles (ts w) (seenT w) (ci_Namespace ci, ci_Name ci) (fitting (templateFits canon key ci)) (ts w') \<or>
      d = requeueDelay \<and> ci_AuthMode ci \<noteq> AuthModeNone \<and> key = [] \<and> w' = w)"
proof (cases "ci_AuthMode ci \<noteq> AuthModeNone \<and> \<not> IsPublicKeyCached key")
  case True
  then show ?thesis
    using assms by (simp add: ensureSandboxTemplate_def IsPublicKeyCached_def)
next
  case False
  obtain g w1 where g: "oa_Get (cc_Templates c) (ci_Namespace ci) (ci_Name ci) w = (g, w1)"
    by fastforce
  then have "d = 0 \<and> ps w' = ps w \<and> cis w' = cis w \<and> (\<forall>k. seenP w k = ps w k \<longrightarrow> seenP w' k = ps w' k) \<and>
     settles (ts w) (seenT w) (ci_Namespace ci, ci_Name ci) (fitting (templateFits canon key ci)) (ts w')"
    using template_created [OF assms False] template_revised [OF assms False] by (cases g) blast+
  then show ?thesis
    using False by (auto simp: IsPublicKeyCached_def)
qed

lemma ensureSandboxWarmPool_reaches:
  assumes "ensureSandboxWarmPool ae c ci w = (None, w')" and "wantsPool ci"
  shows "ts w' = ts w \<and> cis w' = cis w \<and>
     settles (ps w) (seenP w) (ci_Namespace ci, ci_Name ci) (fitting (poolFits ci)) (ps w')"
proof -
  obtain n where n: "ci_WarmPoolSize ci = Some n" "n \<noteq> 0"
    using assms(2) by (auto simp: wantsPool_def split: option.splits)
  obtain g w1 where g: "oa_Get (cc_Pools c) (ci_Namespace ci) (ci_Name ci) w = (g, w1)"
    by fastforce
  note get = pools.get_obj [OF g]
  show ?thesis
  proof (cases g)
    case (Inl e)
    then obtain ow r where e: "ae_IsNotFound ae e" and
      cr: "oa_Create (cc_Pools c)
        \<lparr>wo_Namespace = ci_Namespace ci, wo_Name = ci_Name ci, wo_OwnerReferences = ow, wo_DeletionTimestamp = None,
         wo_Replicas = n, wo_TemplateRef = ci_Name ci\<rparr> w1 = (r, w')"
      and r: "\<forall>e. r = Some e \<longrightarrow> ae_IsAlreadyExists ae e"
      using assms(1) n g
      by (auto simp: ensureSandboxWarmPool_def split: if_splits sum.splits option.splits prod.splits)
    show ?thesis
      using pools.create_obj [OF cr] get Inl e r n
      by (cases r) (auto intro!: settles_put settles_same simp: poolKey_def poolFits_def fitting_def)
  next
    case (Inr p)
    define p1 where "p1 = (if wo_Replicas p \<noteq> n then p\<lparr>wo_Replicas := n\<rparr> else p)"
    define p2 where "p2 = (if wo_TemplateRef p1 \<noteq> ci_Name ci then p1\<lparr>wo_TemplateRef := ci_Name ci\<rparr> else p1)"
    have p: "seenP w (ci_Namespace ci, ci_Name ci) = Some p" "poolKey p = (ci_Namespace ci, ci_Name ci)"
      using get Inr by simp_all
    have p2: "poolKey p2 = (ci_Namespace ci, ci_Name ci)" "poolFits ci p2"
      using p(2) n by (simp_all add: p1_def p2_def poolKey_def poolFits_def)
    have "oa_Update (cc_Pools c) p2 w1 = (None, w') \<or> p2 = p \<and> w' = w1"
      using assms(1) n g Inr
      by (auto simp: ensureSandboxWarmPool_def Let_def p1_def p2_def split: if_splits option.splits prod.splits)
    then show ?thesis
      using pools.update_obj [of p2 w1 None w'] get p p2
      by (auto intro!: settles_put settles_same simp: fitting_def)
  qed
qed

lemma deleteSandboxWarmPool_reaches:
  assumes "deleteSandboxWarmPool ae c ci w = (None, w')"
  shows "ts w' = ts w \<and> cis w' = cis w \<and> (\<forall>k. seenT w k = ts w k \<longrightarrow> seenT w' k = ts w' k) \<and>
     settles (ps w) (seenP w) (ci_Namespace ci, ci_Name ci) (gone (\<lambda>p. wo_DeletionTimestamp p \<noteq> None)) (ps w')"
proof -
  obtain g w1 where g: "oa_Get (cc_Pools c) (ci_Namespace ci) (ci_Name ci) w = (g, w1)"
    by fastforce
  note get = pools.get_obj [OF g]
  show ?thesis
  proof (cases g)
    case (Inl e)
    then show ?thesis
      using assms g get
      by (auto simp: deleteSandboxWarmPool_def gone_def cacheForward_def intro!: settles_same split: if_splits)
  next
    case (Inr p)
    then obtain r where d: "oa_Delete (cc_Pools c) p w1 = (r, w')" "\<forall>e. r = Some e \<longrightarrow> ae_IsNotFound ae e"
      using assms g by (auto simp: deleteSandboxWarmPool_def split: if_splits prod.splits option.splits)
    show ?thesis
      using get pools.delete_obj [OF d(1)] d(2) Inr
      by (cases r) (auto simp: settles_def gone_def cacheForward_def)
  qed
qed

lemma deleteSandboxTemplate_reaches:
  assumes "deleteSandboxTemplate ae c ci w = (None, w')"
  shows "ps w' = ps w \<and> cis w' = cis w \<and>
     settles (ts w) (seenT w) (ci_Namespace ci, ci_Name ci) (gone (\<lambda>t. to_DeletionTimestamp t \<noteq> None)) (ts w')"
proof -
  obtain g w1 where g: "oa_Get (cc_Templates c) (ci_Namespace ci) (ci_Name ci) w = (g, w1)"
    by fastforce
  note get = templates.get_obj [OF g]
  show ?thesis
  proof (cases g)
    case (Inl e)
    then show ?thesis
      using assms g get
      by (auto simp: deleteSandboxTemplate_def gone_def intro!: settles_same split: if_splits)
  next
    case (Inr t)
    then obtain r where d: "oa_Delete (cc_Templates c) t w1 = (r, w')" "\<forall>e. r = Some e \<longrightarrow> ae_IsNotFound ae e"
      using assms g by (auto simp: deleteSandboxTemplate_def split: if_splits prod.splits option.splits)
    show ?thesis
      using get templates.delete_obj [OF d(1)] d(2) Inr
      by (cases r) (auto simp: settles_def gone_def)
  qed
qed

lemma finishReconcile_reaches:
  assumes "finishReconcile am c ci w = (Inr d, w')"
  shows "d = 0 \<and> ts w' = ts w \<and> ps w' = ps w \<and> readyMarked am ci (ci_Namespace ci, ci_Name ci) (cis w) (cis w')"
proof (cases "statusCurrent am ci")
  case True
  then show ?thesis
    using assms by (simp add: finishReconcile_def updateStatus_def readyMarked_def)
next
  case False
  define cs where "cs = am_SetStatusCondition am (ci_Conditions ci) (readyCondition (ci_Generation ci))"
  have u: "cc_StatusUpdate c (ci\<lparr>ci_StatusReady := True, ci_Conditions := cs\<rparr>) w = (None, w')" "d = 0"
    using assms False
    by (auto simp: finishReconcile_def updateStatus_def cs_def split: prod.splits option.splits)
  have "statusCurrent am (ci\<lparr>ci_StatusReady := True, ci_Conditions := cs\<rparr>)"
    using find_set [of "ci_Conditions ci" "readyCondition (ci_Generation ci)"]
    by (auto simp: statusCurrent_def cs_def readyCondition_def)
  then show ?thesis
    using status_update [OF u(1)] u(2) unfolding readyMarked_def by fastforce
qed

lemma reconcile_outcome:
  assumes "Reconcile_ci ae am c key ns n w = (Inr d, w')" and i: "seenC w (ns, n) = Some ci"
  shows "d = 0 \<and> readyMarked am ci (ns, n) (cis w) (cis w') \<and>
     (if wantsPool ci
      then (ci_AuthMode ci \<noteq> AuthModeNone \<longrightarrow> key \<noteq> []) \<and>
        settles (ts w) (seenT w) (ns, n) (fitting (templateFits canon key ci)) (ts w') \<and>
        settles (ps w) (seenP w) (ns, n) (fitting (poolFits ci)) (ps w')
      else settles (ts w) (seenT w) (ns, n) (gone (\<lambda>t. to_DeletionTimestamp t \<noteq> None)) (ts w') \<and>
        settles (ps w) (seenP w) (ns, n) (gone (\<lambda>p. wo_DeletionTimestamp p \<noteq> None)) (ps w')) \<or>
     d = requeueDelay \<and> wantsPool ci \<and> ci_AuthMode ci \<noteq> AuthModeNone \<and> key = [] \<and>
       ts w' = ts w \<and> ps w' = ps w \<and> cis w' = cis w"
proof -
  obtain g w1 where g: "cc_Get c ns n w = (g, w1)"
    by fastforce
  have "g = Inr ci"
    using get_interpreter [OF g] assms by (cases g) (auto simp: Reconcile_ci_def g split: if_splits)
  note get = get_interpreter [OF g]
  note run = assms(1) [unfolded Reconcile_ci_def g \<open>g = Inr ci\<close>, simplified]
  have id: "ci_Namespace ci = ns" "ci_Name ci = n"
    using get \<open>g = Inr ci\<close> by auto
  have seen: "seenT w k = ts w k \<Longrightarrow> seenT w1 k = ts w k" "seenP w k = ps w k \<Longrightarrow> seenP w1 k = ps w k" for k
    using get by (cases k; simp add: cacheForward_def)+
  show ?thesis
  proof (cases "wantsPool ci")
    case True
    then obtain d1 w2 where e: "ensureSandboxTemplate ae c key ci w1 = (Inr d1, w2)"
      using run by (auto split: prod.splits sum.splits)
    note t = ensureSandboxTemplate_reaches [OF e]
    show ?thesis
    proof (cases "d1 > 0")
      case True
      then show ?thesis
        using run t get \<open>wantsPool ci\<close> by (simp add: e)
    next
      case False
      then obtain w3 where p: "ensureSandboxWarmPool ae c ci w2 = (None, w3)"
          and f: "finishReconcile am c ci w3 = (Inr d, w')"
        using run \<open>wantsPool ci\<close> by (auto simp: e split: prod.splits option.splits)
      note wp = ensureSandboxWarmPool_reaches [OF p \<open>wantsPool ci\<close>]
      have "settles (ts w) (seenT w) (ns, n) (fitting (templateFits canon key ci)) (ts w')"
        "settles (ps w) (seenP w) (ns, n) (fitting (poolFits ci)) (ps w')"
        using t wp finishReconcile_reaches [OF f] get False id seen
        by (auto simp: requeueDelay_def Second_def settles_def)
      then show ?thesis
        using finishReconcile_reaches [OF f] wp t get False \<open>wantsPool ci\<close> id
        by (auto simp: requeueDelay_def Second_def)
    qed
  next
    case False
    then obtain w2 w3 where p: "deleteSandboxWarmPool ae c ci w1 = (None, w2)"
        and t: "deleteSandboxTemplate ae c ci w2 = (None, w3)"
        and f: "finishReconcile am c ci w3 = (Inr d, w')"
      using run by (auto split: prod.splits option.splits)
    note dl = deleteSandboxWarmPool_reaches [OF p] deleteSandboxTemplate_reaches [OF t]
    have "settles (ts w) (seenT w) (ns, n) (gone (\<lambda>t. to_DeletionTimestamp t \<noteq> None)) (ts w')"
      "settles (ps w) (seenP w) (ns, n) (gone (\<lambda>p. wo_DeletionTimestamp p \<noteq> None)) (ps w')"
      using dl finishReconcile_reaches [OF f] get id seen by (auto simp: settles_def)
    then show ?thesis
      using finishReconcile_reaches [OF f] dl get False id by simp
  qed
qed

end

subsection \<open>When a second reconciliation does nothing\<close>

text \<open>The reads of a reconciliation answer, with an object or that there is none, and change nothing.\<close>

definition readsQuietly :: "apierrors \<Rightarrow> 'w ctrlClient \<Rightarrow> string \<Rightarrow> string \<Rightarrow> 'w \<Rightarrow> bool" where
  "readsQuietly ae c ns n w \<longleftrightarrow>
     (\<exists>g. cc_Get c ns n w = (g, w) \<and> (\<forall>e. g = Inl e \<longrightarrow> ae_IsNotFound ae e)) \<and>
     (\<exists>g. oa_Get (cc_Templates c) ns n w = (g, w) \<and> (\<forall>e. g = Inl e \<longrightarrow> ae_IsNotFound ae e)) \<and>
     (\<exists>g. oa_Get (cc_Pools c) ns n w = (g, w) \<and> (\<forall>e. g = Inl e \<longrightarrow> ae_IsNotFound ae e))"

text \<open>The container gets an environment that is not empty.\<close>

definition hasEnvironment :: "'a CodeInterpreter_scheme \<Rightarrow> bool" where
  "hasEnvironment ci \<longleftrightarrow> ci_AuthMode ci \<noteq> AuthModeNone \<or>
     (case ci_Template ci of None \<Rightarrow> False | Some template \<Rightarrow> ct_Environment template \<noteq> [])"

lemma wireSlice_decoded [simp]: "wireSlice (decoded xs) = decoded xs"
  by (simp add: wireSlice_def decoded_def)

text \<open>The quantities of its template are in the form in which they are serialized.\<close>

definition canonicalResources :: "(string \<Rightarrow> string) \<Rightarrow> 'a CodeInterpreter_scheme \<Rightarrow> bool" where
  "canonicalResources canon ci \<longleftrightarrow>
     (case ci_Template ci of
        None \<Rightarrow> True
      | Some template \<Rightarrow> canon (ct_Resources template) = ct_Resources template \<and>
          (\<forall>e \<in> set (ct_Environment template). map_option canon (env_ValueFrom e) = env_ValueFrom e))"

lemma convert_wire:
  assumes "hasEnvironment ci" and "canonicalResources canon ci" and "ci_Template ci = Some tm"
  shows "wirePodSpec canon (pt_Spec (convertToPodTemplate key tm ci)) = pt_Spec (convertToPodTemplate key tm ci)"
  using assms
  by (auto simp: hasEnvironment_def canonicalResources_def convertToPodTemplate_def wirePodSpec_def wireContainer_def wireSlice_def
      decoded_def Let_def intro!: map_idI)

context interpreter_cluster
begin

lemma settled_template:
  assumes t: "seenT w (ci_Namespace ci, ci_Name ci) = Some t" and f: "templateFits canon key ci t"
    and e: "hasEnvironment ci" "canonicalResources canon ci" and k: "ci_AuthMode ci \<noteq> AuthModeNone \<longrightarrow> key \<noteq> []"
    and q: "readsQuietly ae c (ci_Namespace ci) (ci_Name ci) w"
  shows "ensureSandboxTemplate ae c key ci w = (Inr 0, w)"
proof -
  obtain g where g: "oa_Get (cc_Templates c) (ci_Namespace ci) (ci_Name ci) w = (g, w)"
      "\<forall>e. g = Inl e \<longrightarrow> ae_IsNotFound ae e"
    using q by (auto simp: readsQuietly_def)
  have "g = Inr t"
    using templates.get_obj [OF g(1)] g(2) t by (cases g) auto
  moreover obtain tm where "ci_Template ci = Some tm"
    using f by (auto simp: templateFits_def split: option.splits)
  ultimately show ?thesis
    using g f k convert_wire [OF e]
    by (auto simp: ensureSandboxTemplate_def templateFits_def podTemplateEqual_def IsPublicKeyCached_def)
qed

lemma settled_pool:
  assumes p: "seenP w (ci_Namespace ci, ci_Name ci) = Some p" and f: "poolFits ci p" and "wantsPool ci"
    and q: "readsQuietly ae c (ci_Namespace ci) (ci_Name ci) w"
  shows "ensureSandboxWarmPool ae c ci w = (None, w)"
proof -
  obtain g where g: "oa_Get (cc_Pools c) (ci_Namespace ci) (ci_Name ci) w = (g, w)"
      "\<forall>e. g = Inl e \<longrightarrow> ae_IsNotFound ae e"
    using q by (auto simp: readsQuietly_def)
  have "g = Inr p"
    using pools.get_obj [OF g(1)] g(2) p by (cases g) auto
  then show ?thesis
    using g f \<open>wantsPool ci\<close>
    by (auto simp: ensureSandboxWarmPool_def poolFits_def wantsPool_def split: option.splits)
qed

lemma settled_absent:
  assumes "seenT w (ci_Namespace ci, ci_Name ci) = None" and "seenP w (ci_Namespace ci, ci_Name ci) = None"
    and q: "readsQuietly ae c (ci_Namespace ci) (ci_Name ci) w"
  shows "deleteSandboxWarmPool ae c ci w = (None, w)" "deleteSandboxTemplate ae c ci w = (None, w)"
proof -
  obtain g h where g: "oa_Get (cc_Pools c) (ci_Namespace ci) (ci_Name ci) w = (g, w)"
      "\<forall>e. g = Inl e \<longrightarrow> ae_IsNotFound ae e"
    and h: "oa_Get (cc_Templates c) (ci_Namespace ci) (ci_Name ci) w = (h, w)"
      "\<forall>e. h = Inl e \<longrightarrow> ae_IsNotFound ae e"
    using q by (auto simp: readsQuietly_def)
  show "deleteSandboxWarmPool ae c ci w = (None, w)"
    using pools.get_obj [OF g(1)] g assms(2) by (cases g) (auto simp: deleteSandboxWarmPool_def)
  show "deleteSandboxTemplate ae c ci w = (None, w)"
    using templates.get_obj [OF h(1)] h assms(1) by (cases h) (auto simp: deleteSandboxTemplate_def)
qed

lemma settled_again:
  assumes i: "seenC w (ns, n) = Some ci" and s: "statusCurrent am ci" and q: "readsQuietly ae c ns n w"
    and pool: "if wantsPool ci
      then hasEnvironment ci \<and> canonicalResources canon ci \<and> (ci_AuthMode ci \<noteq> AuthModeNone \<longrightarrow> key \<noteq> []) \<and>
        (\<exists>t p. seenT w (ns, n) = Some t \<and> templateFits canon key ci t \<and> seenP w (ns, n) = Some p \<and> poolFits ci p)
      else seenT w (ns, n) = None \<and> seenP w (ns, n) = None"
  shows "Reconcile_ci ae am c key ns n w = (Inr 0, w)"
proof -
  obtain g where g: "cc_Get c ns n w = (g, w)" "\<forall>e. g = Inl e \<longrightarrow> ae_IsNotFound ae e"
    using q by (auto simp: readsQuietly_def)
  have "g = Inr ci" and id: "ci_Namespace ci = ns" "ci_Name ci = n"
    using get_interpreter [OF g(1)] g(2) i by (cases g; auto)+
  moreover have "finishReconcile am c ci w = (Inr 0, w)"
    using s by (simp add: finishReconcile_def updateStatus_def)
  ultimately show ?thesis
    using g(1) q pool settled_template [of w ci _ key] settled_pool [of w ci] settled_absent [of w ci]
    by (auto simp: Reconcile_ci_def split: if_splits)
qed

end

end
