(* ===== verification/ReconcilerWorld.thy ===== *)
theory ReconcilerWorld
  imports Reconciler
begin

text \<open>
  The properties of the controller, and a cluster in memory on which its contracts hold.
\<close>

subsection \<open>A cluster in memory\<close>

definition keyed :: "('o \<Rightarrow> 'k) \<Rightarrow> ('k \<Rightarrow> 'o option) \<Rightarrow> 'k \<Rightarrow> 'o option" where
  "keyed key m k = (case m k of None \<Rightarrow> None | Some x \<Rightarrow> if key x = k then Some x else None)"

lemma keyed_put [simp]: "key x = k \<Longrightarrow> keyed key (m(k \<mapsto> x)) = (keyed key m)(k \<mapsto> x)"
  by (auto simp: keyed_def)

lemma keyed_del [simp]: "keyed key (m(k := None)) = (keyed key m)(k := None)"
  by (auto simp: keyed_def)

lemma keyed_put_at: "keyed key (m(k \<mapsto> x)) k = Some y \<Longrightarrow> y = x"
  by (auto simp: keyed_def split: if_splits)

lemma keyed_key: "keyed key m k = Some x \<Longrightarrow> key x = k"
  by (auto simp: keyed_def split: option.splits if_splits)

text \<open>
  One kind of objects with its cache; \<open>held\<close> says whether finalizers hold an object, so that a deletion only marks it
  (\<open>mark\<close>).
\<close>

definition memObjApi ::
  "('w \<Rightarrow> string \<times> string \<Rightarrow> 'o option) \<Rightarrow> ('w \<Rightarrow> string \<times> string \<Rightarrow> 'o option) \<Rightarrow>
   ((string \<times> string \<Rightarrow> 'o option) \<Rightarrow> 'w \<Rightarrow> 'w) \<Rightarrow> ('o \<Rightarrow> string \<times> string) \<Rightarrow> ('o \<Rightarrow> 'o) \<Rightarrow> ('o \<Rightarrow> bool) \<Rightarrow> ('o \<Rightarrow> 'o) \<Rightarrow>
   ('w, 'o) objApi" where
  "memObjApi objs seen put key wire held mark =
     \<lparr>oa_Get = (\<lambda>ns n w.
        (case keyed key (seen w) (ns, n) of None \<Rightarrow> Inl (ErrStatus 404 ''NotFound'' []) | Some x \<Rightarrow> Inr x, w)),
      oa_Create = (\<lambda>x w.
        if keyed key (objs w) (key x) \<noteq> None then (Some (ErrStatus 409 ''AlreadyExists'' []), w)
        else (None, put ((objs w)(key x \<mapsto> wire x)) w)),
      oa_Update = (\<lambda>x w.
        if keyed key (objs w) (key x) = None then (Some (ErrStatus 404 ''NotFound'' []), w)
        else (None, put ((objs w)(key x \<mapsto> wire x)) w)),
      oa_Delete = (\<lambda>x w.
        case keyed key (objs w) (key x) of
          None \<Rightarrow> (Some (ErrStatus 404 ''NotFound'' []), w)
        | Some y \<Rightarrow> (None, put ((objs w)(key x := if held y then Some (mark y) else None)) w))\<rparr>"

lemma memObjApi_laws:
  assumes "\<And>m w. objs (put m w) = m" and "\<And>m w. rest (put m w) = rest w"
    and "\<And>x. key (wire x) = key x" and "\<And>x. key (mark x) = key x" and "\<And>x. terminating (mark x)"
    and "\<And>m w. fwd w (put m w)" and "\<And>w. fwd w w"
  shows "object_api std_apierrors (memObjApi objs seen put key wire held mark) key wire terminating
     (\<lambda>w. keyed key (objs w)) (\<lambda>w. keyed key (seen w)) rest fwd"
  by unfold_locales
    (auto simp: memObjApi_def assms std_apierrors_def dest: keyed_key keyed_put_at split: option.splits if_splits)

record ctlWorld =
  kw_interpreters :: "string \<times> string \<Rightarrow> interpreterObj option"
  kw_templates :: "string \<times> string \<Rightarrow> templateObj option"
  kw_pools :: "string \<times> string \<Rightarrow> warmPoolObj option"
  kw_seenInterpreters :: "string \<times> string \<Rightarrow> interpreterObj option"
  kw_seenTemplates :: "string \<times> string \<Rightarrow> templateObj option"
  kw_seenPools :: "string \<times> string \<Rightarrow> warmPoolObj option"
  kw_writes :: nat

text \<open>The caches catch up only here.\<close>

definition syncCaches :: "ctlWorld \<Rightarrow> ctlWorld" where
  "syncCaches w = w\<lparr>kw_seenInterpreters := kw_interpreters w, kw_seenTemplates := kw_templates w,
     kw_seenPools := kw_pools w\<rparr>"

definition interpreterKey :: "interpreterObj \<Rightarrow> string \<times> string" where
  "interpreterKey ci = (ci_Namespace ci, ci_Name ci)"

definition sampleCanon :: "string \<Rightarrow> string" where
  "sampleCanon r = (if r = ''cpu: 1000m'' then ''cpu: 1'' else r)"

definition memCtl :: "ctlWorld ctrlClient" where
  "memCtl =
     \<lparr>cc_Get = (\<lambda>ns n w. (case keyed interpreterKey (kw_seenInterpreters w) (ns, n) of
          None \<Rightarrow> Inl (ErrStatus 404 ''NotFound'' []) | Some x \<Rightarrow> Inr x, w)),
      cc_StatusUpdate = (\<lambda>ci w. case keyed interpreterKey (kw_interpreters w) (interpreterKey ci) of
          None \<Rightarrow> (Some (ErrStatus 404 ''NotFound'' []), w)
        | Some cur \<Rightarrow> (None, w\<lparr>kw_interpreters := (kw_interpreters w)(interpreterKey ci \<mapsto>
              cur\<lparr>ci_StatusReady := ci_StatusReady ci, ci_Conditions := ci_Conditions ci\<rparr>),
            kw_writes := kw_writes w + 1\<rparr>)),
      cc_Templates = memObjApi kw_templates kw_seenTemplates
        (\<lambda>m w. w\<lparr>kw_templates := m, kw_writes := kw_writes w + 1\<rparr>) templateKey (wireTemplate sampleCanon)
        (\<lambda>_. False) (\<lambda>t. t\<lparr>to_DeletionTimestamp := Some 1\<rparr>),
      cc_Pools = memObjApi kw_pools kw_seenPools (\<lambda>m w. w\<lparr>kw_pools := m, kw_writes := kw_writes w + 1\<rparr>) poolKey id
        (\<lambda>p. wo_OwnerReferences p \<noteq> []) (\<lambda>p. p\<lparr>wo_DeletionTimestamp := Some 1\<rparr>),
      cc_SetControllerReference = (\<lambda>ci owners. Inr (owners @
        [\<lparr>or_APIVersion = ''runtime.agentcube.volcano.sh/v1alpha1'', or_Kind = CodeInterpreterKind,
          or_Name = ci_Name ci, or_UID = ci_UID ci, or_Controller = Some True\<rparr>]))\<rparr>"

definition std_apimeta :: apimeta where
  "std_apimeta =
     \<lparr>am_FindStatusCondition = (\<lambda>cs t. find (\<lambda>k. co_Type k = t) cs),
      am_SetStatusCondition = (\<lambda>cs k0.
        if find (\<lambda>k. co_Type k = co_Type k0) cs = None then cs @ [k0]
        else map (\<lambda>k. if co_Type k = co_Type k0 then k0 else k) cs)\<rparr>"

lemma find_snoc_new: "find P xs = None \<Longrightarrow> find P (xs @ [x]) = find P [x]"
  by (induction xs) (auto split: if_splits)

lemma find_replaced:
  "find (\<lambda>k. f k = f x) xs \<noteq> None \<Longrightarrow> find (\<lambda>k. f k = f x) (map (\<lambda>k. if f k = f x then x else k) xs) = Some x"
  by (induction xs) (auto split: if_splits)

interpretation stdMeta: apimeta_api std_apimeta
  by unfold_locales (auto simp: std_apimeta_def find_snoc_new find_replaced)

abbreviation memT where "memT \<equiv> \<lambda>w. keyed templateKey (kw_templates w)"
abbreviation memSeenT where "memSeenT \<equiv> \<lambda>w. keyed templateKey (kw_seenTemplates w)"
abbreviation memP where "memP \<equiv> \<lambda>w. keyed poolKey (kw_pools w)"
abbreviation memSeenP where "memSeenP \<equiv> \<lambda>w. keyed poolKey (kw_seenPools w)"
abbreviation memC where "memC \<equiv> \<lambda>w. keyed interpreterKey (kw_interpreters w)"
abbreviation memSeenC where "memSeenC \<equiv> \<lambda>w. keyed interpreterKey (kw_seenInterpreters w)"

lemma memCtl_object_apis:
  "object_api std_apierrors (cc_Templates memCtl) templateKey (wireTemplate sampleCanon)
     (\<lambda>t. to_DeletionTimestamp t \<noteq> None) memT memSeenT (\<lambda>w. (memP w, memC w)) (cachesForward memT memSeenT memP memSeenP)"
  "object_api std_apierrors (cc_Pools memCtl) poolKey id
     (\<lambda>p. wo_DeletionTimestamp p \<noteq> None) memP memSeenP (\<lambda>w. (memT w, memC w)) (cachesForward memT memSeenT memP memSeenP)"
  unfolding memCtl_def ctrlClient.simps
  by (rule memObjApi_laws; simp add: templateKey_def poolKey_def wireTemplate_def cacheForward_def)+

interpretation memCtl: interpreter_cluster std_apierrors memCtl std_apimeta sampleCanon
  memT memSeenT memP memSeenP memC memSeenC
proof (intro interpreter_cluster.intro memCtl_object_apis stdMeta.apimeta_api_axioms, unfold_locales)
qed (auto simp: memCtl_def std_apierrors_def interpreterKey_def cacheForward_def dest!: keyed_key split: option.splits)



subsection \<open>Properties\<close>




definition directPodSpec :: "string \<Rightarrow> CodeInterpreterSandboxTemplate \<Rightarrow> string \<Rightarrow> PodSpec" where
  "directPodSpec key tm authMode =
     zeroPodSpec\<lparr>ps_ImagePullSecrets := ct_ImagePullSecrets tm,
       ps_RuntimeClassName := normalizeRuntimeClass (ct_RuntimeClassName tm),
       ps_Containers := [\<lparr>c_Name = ''code-interpreter'', c_Image = ct_Image tm,
         c_ImagePullPolicy = ct_ImagePullPolicy tm, c_Env = buildCodeInterpreterEnvVars key (ct_Environment tm) authMode,
         c_Command = ct_Command tm, c_Args = ct_Args tm, c_Resources = ct_Resources tm\<rparr>]\<rparr>"

lemma direct_build:
  assumes "buildSandboxByCodeInterpreter ae (\<lambda>_ _. Inr ci) env ns n owner = Inr (sb, cl, en)"
    and "ci_WarmPoolSize ci = None" and "ci_Template ci = Some tm"
  shows "\<exists>p. sb = buildSandboxObject (be_sha256 env) (be_now env) p \<and>
     bp_podSpec p = directPodSpec (be_publicKey env) tm (ci_AuthMode ci) \<and>
     bp_podLabels p = ct_Labels tm \<and> bp_podAnnotations p = ct_Annotations tm"
  using assms by (force simp: build_ci_simps directPodSpec_def split: if_splits)

lemma buildSandboxObject_pod:
  "sb_PodSpec (buildSandboxObject h now p) = bp_podSpec p"
  "l \<notin> {SessionIdLabelKey, SandboxNameLabelKey} \<Longrightarrow>
     sb_PodLabels (buildSandboxObject h now p) l = mapOrEmpty (bp_podLabels p) l"
  "sb_PodAnnotations (buildSandboxObject h now p) = mapOrEmpty (bp_podAnnotations p)"
  by (simp_all add: buildSandboxObject_def Let_def zeroSandbox_def)

lemma convert_metadata:
  "pt_Labels (convertToPodTemplate key tm ci) = Map.empty" "pt_Annotations (convertToPodTemplate key tm ci) = Map.empty"
  by (simp_all add: convertToPodTemplate_def Let_def)



text \<open>The labels and annotations of the template, which a pod built directly has, are not in the template of the pool.\<close>

lemma warm_pod_without_labels:
  assumes "buildSandboxByCodeInterpreter ae (\<lambda>_ _. Inr ci) env ns n owner = Inr (sb, cl, en)"
    and "ci_WarmPoolSize ci = None" and "ci_Template ci = Some tm"
    and "l \<notin> {SessionIdLabelKey, SandboxNameLabelKey}" and "mapOrEmpty (ct_Labels tm) l = Some v"
  shows "sb_PodLabels sb l = Some v \<and> pt_Labels (convertToPodTemplate (be_publicKey env) tm ci) l = None"
  using direct_build [OF assms(1-3)] assms(4,5) by (auto simp: buildSandboxObject_pod convert_metadata)

subsection \<open>Concrete runs\<close>

definition poolInterpreter :: "string \<Rightarrow> EnvVar list \<Rightarrow> string \<Rightarrow> interpreterObj" where
  "poolInterpreter authMode environment resources =
     \<lparr>ci_Namespace = ''default'', ci_Name = ''py'', ci_UID = ''u1'', ci_Ports = [],
      ci_Template = Some \<lparr>ct_Labels = None, ct_Annotations = None, ct_RuntimeClassName = Some [],
        ct_Image = ''picod:1'', ct_ImagePullPolicy = [], ct_ImagePullSecrets = [],
        ct_Environment = environment, ct_Command = [], ct_Args = [], ct_Resources = resources\<rparr>,
      ci_SessionTimeout = None, ci_MaxSessionDuration = None, ci_WarmPoolSize = Some 2,
      ci_AuthMode = authMode, ci_Generation = 3, ci_StatusReady = False, ci_Conditions = []\<rparr>"

definition ctlSample :: "string \<Rightarrow> string \<Rightarrow> ctlWorld" where
  "ctlSample authMode resources = syncCaches
     \<lparr>kw_interpreters = [(''default'', ''py'') \<mapsto> poolInterpreter authMode [] resources], kw_templates = Map.empty,
      kw_pools = Map.empty, kw_seenInterpreters = Map.empty, kw_seenTemplates = Map.empty, kw_seenPools = Map.empty,
      kw_writes = 0\<rparr>"

definition reconcileSample :: "string \<Rightarrow> ctlWorld \<Rightarrow> Duration res \<times> ctlWorld" where
  "reconcileSample key = Reconcile_ci std_apierrors std_apimeta memCtl key ''default'' ''py''"

text \<open>A reconciliation after which the caches catch up.\<close>

definition reconcileSync :: "string \<Rightarrow> ctlWorld \<Rightarrow> ctlWorld" where
  "reconcileSync key w = syncCaches (snd (reconcileSample key w))"



text \<open>
  An interpreter without authentication and without an environment: the slice the controller makes is empty, the
  one it reads is nil, and every reconciliation writes the template again.  So it does when the resources are not
  written in canonical form.
\<close>

lemma reconcile_rewrites:
  "kw_writes (reconcileSync [] (reconcileSync [] (ctlSample AuthModeNone ''cpu: 1''))) = 4"
  "kw_writes (reconcileSync [] (reconcileSync [] (reconcileSync [] (ctlSample AuthModeNone ''cpu: 1'')))) = 5"
  "kw_writes (reconcileSync ''PEM'' (reconcileSync ''PEM'' (ctlSample AuthModePicoD ''cpu: 1000m''))) = 4"
  "kw_writes (reconcileSync ''PEM'' (reconcileSync ''PEM'' (reconcileSync ''PEM'' (ctlSample AuthModePicoD ''cpu: 1000m'')))) = 5"
  by code_simp+

text \<open>
  The image of the object changes before the cache has seen the template of the first reconciliation: the second one
  finds no template, is told that it exists, and reports success with the old image in place.
\<close>

definition changedImage :: "ctlWorld \<Rightarrow> ctlWorld" where
  "changedImage w =
     (let new = (poolInterpreter AuthModePicoD [] ''cpu: 1'')\<lparr>ci_Generation := 4,
        ci_Template := map_option (\<lambda>t. t\<lparr>ct_Image := ''picod:2''\<rparr>) (ci_Template (poolInterpreter AuthModePicoD [] ''cpu: 1''))\<rparr>
      in w\<lparr>kw_interpreters := [(''default'', ''py'') \<mapsto> new], kw_seenInterpreters := [(''default'', ''py'') \<mapsto> new]\<rparr>)"

lemma stale_read_keeps_template:
  "case reconcileSample ''PEM'' (changedImage (snd (reconcileSample ''PEM'' (ctlSample AuthModePicoD ''cpu: 1'')))) of
     (r, w) \<Rightarrow> r = Inr 0 \<and>
       map_option (\<lambda>t. map ko_Image (po_Containers (pt_Spec (to_PodTemplate t)))) (kw_templates w (''default'', ''py'')) =
         Some [''picod:1'']"
  by code_simp





end
