(* ===== verification/Clientset.thy ===== *)
theory Clientset
  imports Prelude Complex_Main
begin

text \<open>
  The generated typed clientset (\<open>client-go/clientset/versioned\<close>): the client of the group
  \<open>runtime.agentcube.volcano.sh/v1alpha1\<close> and the clientset that combines it with a discovery client.
  The functions of \<open>k8s.io/client-go/rest\<close>, \<open>flowcontrol\<close> and \<open>discovery\<close> are the parameters \<open>restLib\<close>;
  of \<open>rest.Config\<close> the fields the sources touch are fields of the model and \<open>rc_Other\<close> holds the
  rest (host, TLS material, user name, exec plugins).  A config is passed by value where the code
  copies it first.  A \<open>panic\<close> is an \<open>Inl\<close>.
\<close>

subsection \<open>Group and version\<close>

record GroupVersion =
  gn_Group :: string
  gn_Version :: string

record GroupVersionResource =
  gv_Group :: string
  gv_Version :: string
  gv_Resource :: string

definition v1alpha1_GroupVersion :: GroupVersion where
  "v1alpha1_GroupVersion = \<lparr>gn_Group = ''runtime.agentcube.volcano.sh'', gn_Version = ''v1alpha1''\<rparr>"

definition SchemeGroupVersion :: GroupVersion where
  "SchemeGroupVersion = v1alpha1_GroupVersion"

definition WithResource :: "GroupVersion \<Rightarrow> string \<Rightarrow> GroupVersionResource" where
  "WithResource gv resource =
     \<lparr>gv_Group = gn_Group gv, gv_Version = gn_Version gv, gv_Resource = resource\<rparr>"

definition Resource :: "string \<Rightarrow> GroupVersionResource" where
  "Resource resource = WithResource v1alpha1_GroupVersion resource"

subsection \<open>Configuration and library\<close>

record ('o, 'l) restConfig =
  rc_UserAgent :: string
  rc_QPS :: rat
  rc_Burst :: int
  rc_RateLimiter :: "'l option"
  rc_BearerToken :: string
  rc_BearerTokenFile :: string
  rc_GroupVersion :: "GroupVersion option"
  rc_APIPath :: string
  rc_NegotiatedSerializer :: string
  rc_Other :: 'o

record ('o, 'l, 'h, 'r, 'd) restLib =
  rl_DefaultKubernetesUserAgent :: string
  rl_CodecsWithoutConversion :: string
  rl_HTTPClientFor :: "('o, 'l) restConfig \<Rightarrow> 'h res"
  rl_RESTClientForConfigAndClient :: "('o, 'l) restConfig \<Rightarrow> 'h \<Rightarrow> 'r res"
  rl_NewTokenBucketRateLimiter :: "rat \<Rightarrow> int \<Rightarrow> 'l"
  rl_NewDiscoveryClientForConfigAndClient :: "('o, 'l) restConfig \<Rightarrow> 'h \<Rightarrow> 'd res"
  rl_NewDiscoveryClient :: "'r \<Rightarrow> 'd"

subsection \<open>The client of the group (\<open>runtime_client.go\<close>)\<close>

record 'r RuntimeV1alpha1Client =
  rv_restClient :: 'r

definition setConfigDefaults :: "('o, 'l, 'h, 'r, 'd) restLib \<Rightarrow> ('o, 'l) restConfig \<Rightarrow>
    ('o, 'l) restConfig" where
  "setConfigDefaults lib config =
     (let gv = SchemeGroupVersion;
          config = config\<lparr>rc_GroupVersion := Some gv\<rparr>;
          config = config\<lparr>rc_APIPath := ''/apis''\<rparr>;
          config = config\<lparr>rc_NegotiatedSerializer := rl_CodecsWithoutConversion lib\<rparr>
      in if rc_UserAgent config = [] then config\<lparr>rc_UserAgent := rl_DefaultKubernetesUserAgent lib\<rparr>
         else config)"

definition runtimeNewForConfigAndClient :: "('o, 'l, 'h, 'r, 'd) restLib \<Rightarrow> ('o, 'l) restConfig \<Rightarrow> 'h \<Rightarrow>
    'r RuntimeV1alpha1Client res" where
  "runtimeNewForConfigAndClient lib c h =
     (let config = setConfigDefaults lib c in
      case rl_RESTClientForConfigAndClient lib config h of
        Inl e \<Rightarrow> Inl e
      | Inr client \<Rightarrow> Inr \<lparr>rv_restClient = client\<rparr>)"

definition runtimeNewForConfig :: "('o, 'l, 'h, 'r, 'd) restLib \<Rightarrow> ('o, 'l) restConfig \<Rightarrow>
    'r RuntimeV1alpha1Client res" where
  "runtimeNewForConfig lib c =
     (let config = setConfigDefaults lib c in
      case rl_HTTPClientFor lib config of
        Inl e \<Rightarrow> Inl e
      | Inr httpClient \<Rightarrow> runtimeNewForConfigAndClient lib config httpClient)"

definition runtimeNewForConfigOrDie :: "('o, 'l, 'h, 'r, 'd) restLib \<Rightarrow> ('o, 'l) restConfig \<Rightarrow>
    'r RuntimeV1alpha1Client res" where
  "runtimeNewForConfigOrDie lib c =
     (case runtimeNewForConfig lib c of Inl e \<Rightarrow> Inl (ErrWrap ''panic'' e) | Inr client \<Rightarrow> Inr client)"

definition runtimeNew :: "'r \<Rightarrow> 'r RuntimeV1alpha1Client" where
  "runtimeNew c = \<lparr>rv_restClient = c\<rparr>"

definition RESTClient :: "'r RuntimeV1alpha1Client option \<Rightarrow> 'r option" where
  "RESTClient c = (case c of None \<Rightarrow> None | Some c \<Rightarrow> Some (rv_restClient c))"

text \<open>What \<open>gentype.NewClientWithList\<close> is built from.\<close>

record 'r typedClient =
  tc_resource :: string
  tc_client :: "'r option"
  tc_namespace :: string

definition newAgentRuntimes :: "'r RuntimeV1alpha1Client option \<Rightarrow> string \<Rightarrow> 'r typedClient" where
  "newAgentRuntimes c namespace =
     \<lparr>tc_resource = ''agentruntimes'', tc_client = RESTClient c, tc_namespace = namespace\<rparr>"

definition newCodeInterpreters :: "'r RuntimeV1alpha1Client option \<Rightarrow> string \<Rightarrow> 'r typedClient" where
  "newCodeInterpreters c namespace =
     \<lparr>tc_resource = ''codeinterpreters'', tc_client = RESTClient c, tc_namespace = namespace\<rparr>"

definition AgentRuntimes :: "'r RuntimeV1alpha1Client option \<Rightarrow> string \<Rightarrow> 'r typedClient" where
  "AgentRuntimes c namespace = newAgentRuntimes c namespace"

definition CodeInterpreters :: "'r RuntimeV1alpha1Client option \<Rightarrow> string \<Rightarrow> 'r typedClient" where
  "CodeInterpreters c namespace = newCodeInterpreters c namespace"

subsection \<open>The clientset (\<open>clientset.go\<close>)\<close>

record ('r, 'd) Clientset =
  cs_DiscoveryClient :: 'd
  cs_runtimeV1alpha1 :: "'r RuntimeV1alpha1Client"

definition RuntimeV1alpha1 :: "('r, 'd) Clientset \<Rightarrow> 'r RuntimeV1alpha1Client" where
  "RuntimeV1alpha1 c = cs_runtimeV1alpha1 c"

definition Discovery :: "('r, 'd) Clientset option \<Rightarrow> 'd option" where
  "Discovery c = (case c of None \<Rightarrow> None | Some c \<Rightarrow> Some (cs_DiscoveryClient c))"

definition burstRequired :: gerr where
  "burstRequired = ErrMsg
     ''burst is required to be greater than 0 when RateLimiter is not set and QPS is set to greater than 0''"

definition withRateLimiter :: "('o, 'l, 'h, 'r, 'd) restLib \<Rightarrow> ('o, 'l) restConfig \<Rightarrow>
    ('o, 'l) restConfig res" where
  "withRateLimiter lib c =
     (if rc_RateLimiter c = None \<and> rc_QPS c > 0 then
        if rc_Burst c \<le> 0 then Inl burstRequired
        else Inr (c\<lparr>rc_RateLimiter := Some (rl_NewTokenBucketRateLimiter lib (rc_QPS c) (rc_Burst c))\<rparr>)
      else Inr c)"

definition csNewForConfigAndClient :: "('o, 'l, 'h, 'r, 'd) restLib \<Rightarrow> ('o, 'l) restConfig \<Rightarrow> 'h \<Rightarrow>
    ('r, 'd) Clientset res" where
  "csNewForConfigAndClient lib c httpClient =
     (case withRateLimiter lib c of
        Inl e \<Rightarrow> Inl e
      | Inr configShallowCopy \<Rightarrow>
          (case runtimeNewForConfigAndClient lib configShallowCopy httpClient of
             Inl e \<Rightarrow> Inl e
           | Inr client \<Rightarrow>
               (case rl_NewDiscoveryClientForConfigAndClient lib configShallowCopy httpClient of
                  Inl e \<Rightarrow> Inl e
                | Inr discovery \<Rightarrow>
                    Inr \<lparr>cs_DiscoveryClient = discovery, cs_runtimeV1alpha1 = client\<rparr>)))"

definition csNewForConfig :: "('o, 'l, 'h, 'r, 'd) restLib \<Rightarrow> ('o, 'l) restConfig \<Rightarrow>
    ('r, 'd) Clientset res" where
  "csNewForConfig lib c =
     (let configShallowCopy =
        (if rc_UserAgent c = [] then c\<lparr>rc_UserAgent := rl_DefaultKubernetesUserAgent lib\<rparr> else c)
      in case rl_HTTPClientFor lib configShallowCopy of
           Inl e \<Rightarrow> Inl e
         | Inr httpClient \<Rightarrow> csNewForConfigAndClient lib configShallowCopy httpClient)"

definition csNewForConfigOrDie :: "('o, 'l, 'h, 'r, 'd) restLib \<Rightarrow> ('o, 'l) restConfig \<Rightarrow>
    ('r, 'd) Clientset res" where
  "csNewForConfigOrDie lib c =
     (case csNewForConfig lib c of Inl e \<Rightarrow> Inl (ErrWrap ''panic'' e) | Inr cs \<Rightarrow> Inr cs)"

definition csNew :: "('o, 'l, 'h, 'r, 'd) restLib \<Rightarrow> 'r \<Rightarrow> ('r, 'd) Clientset" where
  "csNew lib c =
     \<lparr>cs_DiscoveryClient = rl_NewDiscoveryClient lib c, cs_runtimeV1alpha1 = runtimeNew c\<rparr>"

subsection \<open>What a clientset is built from\<close>

text \<open>The config the group's REST client is made with, when a clientset is made from \<open>c\<close>.\<close>

definition effectiveConfig :: "('o, 'l, 'h, 'r, 'd) restLib \<Rightarrow> ('o, 'l) restConfig \<Rightarrow>
    ('o, 'l) restConfig" where
  "effectiveConfig lib c = c\<lparr>
     rc_UserAgent := (if rc_UserAgent c = [] then rl_DefaultKubernetesUserAgent lib else rc_UserAgent c),
     rc_RateLimiter := (if rc_RateLimiter c = None \<and> rc_QPS c > 0
       then Some (rl_NewTokenBucketRateLimiter lib (rc_QPS c) (rc_Burst c)) else rc_RateLimiter c),
     rc_GroupVersion := Some SchemeGroupVersion, rc_APIPath := ''/apis'',
     rc_NegotiatedSerializer := rl_CodecsWithoutConversion lib\<rparr>"

lemma csNewForConfig_client:
  assumes "csNewForConfig lib c = Inr cs" "rl_DefaultKubernetesUserAgent lib \<noteq> []"
  shows "\<exists>h. rl_RESTClientForConfigAndClient lib (effectiveConfig lib c) h =
    Inr (rv_restClient (RuntimeV1alpha1 cs))"
  using assms
  by (auto simp: csNewForConfig_def csNewForConfigAndClient_def runtimeNewForConfigAndClient_def
      withRateLimiter_def setConfigDefaults_def effectiveConfig_def RuntimeV1alpha1_def Let_def
      split: sum.splits if_splits)

text \<open>A clientset is refused for its rate limits exactly when a positive QPS comes without a
  limiter and without a positive burst.\<close>

lemma withRateLimiter_refused:
  "withRateLimiter lib c = Inl e \<longleftrightarrow>
     e = burstRequired \<and> rc_RateLimiter c = None \<and> 0 < rc_QPS c \<and> rc_Burst c \<le> 0"
  by (auto simp: withRateLimiter_def)

end
