(* ===== verification/Informers.thy ===== *)
theory Informers
  imports Clientset
begin

text \<open>
  The generated shared informers (\<open>client-go/informers/externalversions\<close>) and listers, and the part of
  \<open>pkg/workloadmanager/informers.go\<close> that builds and starts them.

  \<open>sharedInformerFactory\<close> has the fields of the struct; its last three fields are the world around it:
  the next address an informer gets, the goroutines still in \<open>informer.Run\<close>, and all calls of \<open>Run\<close> so
  far.  Every method holds the factory's lock while it touches the fields, so a method is one step;
  \<open>Shutdown\<close> sets its flag in one step and returns once the wait group is empty.  A loop over a Go map
  runs in an unspecified order, which is the argument \<open>ord\<close>.  The typed clients' \<open>List\<close> and \<open>Watch\<close>
  (package \<open>gentype\<close>) and \<open>cache.ToListWatcherWithWatchListSemantics\<close> are parameters; a
  \<open>cache.SharedIndexInformer\<close> is what it was constructed from.
\<close>

subsection \<open>Informers and what they list\<close>

datatype objType = TAgentRuntime | TCodeInterpreter | TOther string

type_synonym 'q tweak = "('q \<Rightarrow> 'q) option"

record ('q, 'x, 'w, 'ob, 'wi) ListWatch =
  lw_ListFunc :: "'q \<Rightarrow> 'w \<Rightarrow> 'ob res \<times> 'w"
  lw_WatchFunc :: "'q \<Rightarrow> 'w \<Rightarrow> 'wi res \<times> 'w"
  lw_ListWithContextFunc :: "'x \<Rightarrow> 'q \<Rightarrow> 'w \<Rightarrow> 'ob res \<times> 'w"
  lw_WatchFuncWithContext :: "'x \<Rightarrow> 'q \<Rightarrow> 'w \<Rightarrow> 'wi res \<times> 'w"

record ('r, 'd, 'q, 'x, 'w, 'ob, 'wi, 'lw) gentype =
  gt_List :: "'r typedClient \<Rightarrow> 'x \<Rightarrow> 'q \<Rightarrow> 'w \<Rightarrow> 'ob res \<times> 'w"
  gt_Watch :: "'r typedClient \<Rightarrow> 'x \<Rightarrow> 'q \<Rightarrow> 'w \<Rightarrow> 'wi res \<times> 'w"
  gt_Background :: 'x
  gt_ToListWatcher :: "('q, 'x, 'w, 'ob, 'wi) ListWatch \<Rightarrow> ('r, 'd) Clientset \<Rightarrow> 'lw"

record ('lw, 'tr) SharedIndexInformer =
  si_id :: nat
  si_lw :: 'lw
  si_type :: objType
  si_resync :: Duration
  si_indexers :: "string list"
  si_transform :: "'tr option"

record ('c, 'q, 'lw, 'tr, 'ch) sharedInformerFactory =
  f_client :: 'c
  f_namespace :: string
  f_tweakListOptions :: "'q tweak"
  f_defaultResync :: Duration
  f_customResync :: "objType \<rightharpoonup> Duration"
  f_transform :: "'tr option"
  f_informers :: "objType \<rightharpoonup> ('lw, 'tr) SharedIndexInformer"
  f_startedInformers :: "objType \<rightharpoonup> bool"
  f_wg :: nat
  f_shuttingDown :: bool
  fw_next :: nat
  fw_live :: "(nat \<times> 'ch) list"
  fw_log :: "(nat \<times> 'ch) list"

text \<open>\<open>cache.NewSharedIndexInformer\<close>: a new object.\<close>

definition NewSharedIndexInformer where
  "NewSharedIndexInformer lw t resync indexers f =
     (\<lparr>si_id = fw_next f, si_lw = lw, si_type = t, si_resync = resync, si_indexers = indexers,
       si_transform = None\<rparr>, f\<lparr>fw_next := Suc (fw_next f)\<rparr>)"

definition applyTweak :: "'q tweak \<Rightarrow> 'q \<Rightarrow> 'q" where
  "applyTweak tweak options = (case tweak of None \<Rightarrow> options | Some t \<Rightarrow> t options)"

subsection \<open>Factory options and constructors (\<open>factory.go\<close>)\<close>

type_synonym ('c, 'q, 'lw, 'tr, 'ch) factoryOption =
  "('c, 'q, 'lw, 'tr, 'ch) sharedInformerFactory \<Rightarrow> ('c, 'q, 'lw, 'tr, 'ch) sharedInformerFactory"

fun WithCustomResyncConfig :: "(objType \<times> Duration) list \<Rightarrow> ('c, 'q, 'lw, 'tr, 'ch) factoryOption" where
  "WithCustomResyncConfig [] factory = factory"
| "WithCustomResyncConfig ((k, v) # resyncConfig) factory =
     WithCustomResyncConfig resyncConfig
       (factory\<lparr>f_customResync := (f_customResync factory)(k \<mapsto> v)\<rparr>)"

definition WithTweakListOptions :: "'q tweak \<Rightarrow> ('c, 'q, 'lw, 'tr, 'ch) factoryOption" where
  "WithTweakListOptions tweak factory = factory\<lparr>f_tweakListOptions := tweak\<rparr>"

definition WithNamespace :: "string \<Rightarrow> ('c, 'q, 'lw, 'tr, 'ch) factoryOption" where
  "WithNamespace namespace factory = factory\<lparr>f_namespace := namespace\<rparr>"

definition WithTransform :: "'tr option \<Rightarrow> ('c, 'q, 'lw, 'tr, 'ch) factoryOption" where
  "WithTransform transform factory = factory\<lparr>f_transform := transform\<rparr>"

definition NamespaceAll :: string where "NamespaceAll = []"

definition NewSharedInformerFactoryWithOptions :: "'c \<Rightarrow> Duration \<Rightarrow>
    ('c, 'q, 'lw, 'tr, 'ch) factoryOption list \<Rightarrow> ('c, 'q, 'lw, 'tr, 'ch) sharedInformerFactory" where
  "NewSharedInformerFactoryWithOptions client defaultResync options =
     fold (\<lambda>opt factory. opt factory) options
       \<lparr>f_client = client, f_namespace = NamespaceAll, f_tweakListOptions = None,
        f_defaultResync = defaultResync, f_customResync = Map.empty, f_transform = None,
        f_informers = Map.empty, f_startedInformers = Map.empty, f_wg = 0, f_shuttingDown = False,
        fw_next = 0, fw_live = [], fw_log = []\<rparr>"

definition NewSharedInformerFactory where
  "NewSharedInformerFactory client defaultResync =
     NewSharedInformerFactoryWithOptions client defaultResync []"

definition NewFilteredSharedInformerFactory where
  "NewFilteredSharedInformerFactory client defaultResync namespace tweak =
     NewSharedInformerFactoryWithOptions client defaultResync
       [WithNamespace namespace, WithTweakListOptions tweak]"

subsection \<open>The methods of the factory\<close>

fun startLoop :: "'ch \<Rightarrow> objType list \<Rightarrow> ('c, 'q, 'lw, 'tr, 'ch) factoryOption" where
  "startLoop stopCh [] f = f"
| "startLoop stopCh (informerType # ord) f =
     startLoop stopCh ord
       (case f_informers f informerType of
          None \<Rightarrow> f
        | Some informer \<Rightarrow>
            if f_startedInformers f informerType \<noteq> Some True then
              f\<lparr>f_wg := f_wg f + 1,
                fw_live := (si_id informer, stopCh) # fw_live f,
                fw_log := (si_id informer, stopCh) # fw_log f,
                f_startedInformers := (f_startedInformers f)(informerType \<mapsto> True)\<rparr>
            else f)"

definition Start :: "objType list \<Rightarrow> 'ch \<Rightarrow> ('c, 'q, 'lw, 'tr, 'ch) factoryOption" where
  "Start ord stopCh f = (if f_shuttingDown f then f else startLoop stopCh ord f)"

text \<open>The goroutine of an informer after \<open>Run\<close> has returned: \<open>defer f.wg.Done()\<close>.\<close>

definition runReturns :: "nat \<times> 'ch \<Rightarrow> ('c, 'q, 'lw, 'tr, 'ch) factoryOption" where
  "runReturns g f = f\<lparr>fw_live := remove1 g (fw_live f), f_wg := f_wg f - 1\<rparr>"

definition Shutdown :: "('c, 'q, 'lw, 'tr, 'ch) factoryOption" where
  "Shutdown f = f\<lparr>f_shuttingDown := True\<rparr>"

definition ShutdownReturns :: "('c, 'q, 'lw, 'tr, 'ch) sharedInformerFactory \<Rightarrow> bool" where
  "ShutdownReturns f \<longleftrightarrow> f_shuttingDown f \<and> f_wg f = 0"

text \<open>\<open>hasSynced\<close> is the outcome of \<open>cache.WaitForCacheSync\<close> for an informer.\<close>

definition factoryWaitForCacheSync :: "(('lw, 'tr) SharedIndexInformer \<Rightarrow> bool) \<Rightarrow>
    ('c, 'q, 'lw, 'tr, 'ch) sharedInformerFactory \<Rightarrow> objType \<rightharpoonup> bool" where
  "factoryWaitForCacheSync hasSynced f =
     (let informers = (\<lambda>informerType. case f_informers f informerType of
            Some informer \<Rightarrow>
              if f_startedInformers f informerType = Some True then Some informer else None
          | None \<Rightarrow> None)
      in (\<lambda>informType. map_option hasSynced (informers informType)))"

definition InformerFor where
  "InformerFor informerType newFunc f =
     (case f_informers f informerType of
        Some informer \<Rightarrow> (informer, f)
      | None \<Rightarrow>
          let resyncPeriod = (case f_customResync f informerType of
                Some d \<Rightarrow> d | None \<Rightarrow> f_defaultResync f);
              (informer, f) = newFunc (f_client f) resyncPeriod f;
              informer = informer\<lparr>si_transform := f_transform f\<rparr>
          in (informer, f\<lparr>f_informers := (f_informers f)(informerType \<mapsto> informer)\<rparr>))"

subsection \<open>Informers and listers per resource\<close>

text \<open>What \<open>agentRuntimeInformer\<close> and \<open>codeInterpreterInformer\<close> hold beside the factory.  An indexer is
  known by the informer it belongs to; a lister reads one.\<close>

record 'q informerAccess =
  ia_tweakListOptions :: "'q tweak"
  ia_namespace :: string

record lister =
  ls_indexer :: nat
  ls_resource :: "string \<times> string"
  ls_namespace :: "string option"

definition NamespaceIndex :: string where "NamespaceIndex = ''namespace''"

definition GetIndexer :: "('lw, 'tr) SharedIndexInformer \<Rightarrow> nat" where
  "GetIndexer informer = si_id informer"

definition GroupResource :: "GroupVersionResource \<Rightarrow> string \<times> string" where
  "GroupResource r = (gv_Group r, gv_Resource r)"

text \<open>\<open>agentruntime.go\<close>.\<close>

definition NewFilteredAgentRuntimeInformer where
  "NewFilteredAgentRuntimeInformer gt client namespace resyncPeriod indexers tweakListOptions f =
     (let typed = AgentRuntimes (Some (RuntimeV1alpha1 client)) namespace in
      NewSharedIndexInformer
        (gt_ToListWatcher gt
        \<lparr>lw_ListFunc = (\<lambda>options. gt_List gt typed (gt_Background gt) (applyTweak tweakListOptions options)),
         lw_WatchFunc = (\<lambda>options. gt_Watch gt typed (gt_Background gt) (applyTweak tweakListOptions options)),
         lw_ListWithContextFunc = (\<lambda>ctx options. gt_List gt typed ctx (applyTweak tweakListOptions options)),
         lw_WatchFuncWithContext =
           (\<lambda>ctx options. gt_Watch gt typed ctx (applyTweak tweakListOptions options))\<rparr> client)
        TAgentRuntime resyncPeriod indexers f)"

definition NewAgentRuntimeInformer where
  "NewAgentRuntimeInformer gt client namespace resyncPeriod indexers f =
     NewFilteredAgentRuntimeInformer gt client namespace resyncPeriod indexers None f"

definition agentRuntime_defaultInformer where
  "agentRuntime_defaultInformer gt acc client resyncPeriod f =
     NewFilteredAgentRuntimeInformer gt client (ia_namespace acc) resyncPeriod [NamespaceIndex]
       (ia_tweakListOptions acc) f"

definition agentRuntime_Informer where
  "agentRuntime_Informer gt acc f = InformerFor TAgentRuntime (agentRuntime_defaultInformer gt acc) f"

definition NewAgentRuntimeLister :: "nat \<Rightarrow> lister" where
  "NewAgentRuntimeLister indexer =
     \<lparr>ls_indexer = indexer, ls_resource = GroupResource (Resource ''agentruntime''), ls_namespace = None\<rparr>"

definition agentRuntime_Lister where
  "agentRuntime_Lister gt acc f =
     (case agentRuntime_Informer gt acc f of (informer, f') \<Rightarrow> (NewAgentRuntimeLister (GetIndexer informer), f'))"

definition agentRuntimeNamespaceLister :: "lister \<Rightarrow> string \<Rightarrow> lister" where
  "agentRuntimeNamespaceLister s namespace = s\<lparr>ls_namespace := Some namespace\<rparr>"

text \<open>\<open>codeinterpreter.go\<close>.\<close>

definition NewFilteredCodeInterpreterInformer where
  "NewFilteredCodeInterpreterInformer gt client namespace resyncPeriod indexers tweakListOptions f =
     (let typed = CodeInterpreters (Some (RuntimeV1alpha1 client)) namespace in
      NewSharedIndexInformer
        (gt_ToListWatcher gt
        \<lparr>lw_ListFunc = (\<lambda>options. gt_List gt typed (gt_Background gt) (applyTweak tweakListOptions options)),
         lw_WatchFunc = (\<lambda>options. gt_Watch gt typed (gt_Background gt) (applyTweak tweakListOptions options)),
         lw_ListWithContextFunc = (\<lambda>ctx options. gt_List gt typed ctx (applyTweak tweakListOptions options)),
         lw_WatchFuncWithContext =
           (\<lambda>ctx options. gt_Watch gt typed ctx (applyTweak tweakListOptions options))\<rparr> client)
        TCodeInterpreter resyncPeriod indexers f)"

definition NewCodeInterpreterInformer where
  "NewCodeInterpreterInformer gt client namespace resyncPeriod indexers f =
     NewFilteredCodeInterpreterInformer gt client namespace resyncPeriod indexers None f"

definition codeInterpreter_defaultInformer where
  "codeInterpreter_defaultInformer gt acc client resyncPeriod f =
     NewFilteredCodeInterpreterInformer gt client (ia_namespace acc) resyncPeriod [NamespaceIndex]
       (ia_tweakListOptions acc) f"

definition codeInterpreter_Informer where
  "codeInterpreter_Informer gt acc f = InformerFor TCodeInterpreter (codeInterpreter_defaultInformer gt acc) f"

definition NewCodeInterpreterLister :: "nat \<Rightarrow> lister" where
  "NewCodeInterpreterLister indexer =
     \<lparr>ls_indexer = indexer, ls_resource = GroupResource (Resource ''codeinterpreter''), ls_namespace = None\<rparr>"

definition codeInterpreter_Lister where
  "codeInterpreter_Lister gt acc f =
     (case codeInterpreter_Informer gt acc f of (informer, f') \<Rightarrow> (NewCodeInterpreterLister (GetIndexer informer), f'))"

definition codeInterpreterNamespaceLister :: "lister \<Rightarrow> string \<Rightarrow> lister" where
  "codeInterpreterNamespaceLister s namespace = s\<lparr>ls_namespace := Some namespace\<rparr>"

text \<open>\<open>Runtime()\<close>, \<open>V1alpha1()\<close> and the accessors behind them hand on the namespace and the filter of
  the factory.\<close>

definition Runtime :: "('c, 'q, 'lw, 'tr, 'ch) sharedInformerFactory \<Rightarrow> 'q informerAccess" where
  "Runtime f = \<lparr>ia_tweakListOptions = f_tweakListOptions f, ia_namespace = f_namespace f\<rparr>"

definition V1alpha1 :: "'q informerAccess \<Rightarrow> 'q informerAccess" where
  "V1alpha1 g = \<lparr>ia_tweakListOptions = ia_tweakListOptions g, ia_namespace = ia_namespace g\<rparr>"

definition version_AgentRuntimes :: "'q informerAccess \<Rightarrow> 'q informerAccess" where
  "version_AgentRuntimes v = \<lparr>ia_tweakListOptions = ia_tweakListOptions v, ia_namespace = ia_namespace v\<rparr>"

definition version_CodeInterpreters :: "'q informerAccess \<Rightarrow> 'q informerAccess" where
  "version_CodeInterpreters v = \<lparr>ia_tweakListOptions = ia_tweakListOptions v, ia_namespace = ia_namespace v\<rparr>"

text \<open>\<open>generic.go\<close>; \<open>gvrText\<close> is the text of a resource in an error.\<close>

record ('lw, 'tr) genericInformer =
  gi_informer :: "('lw, 'tr) SharedIndexInformer"
  gi_resource :: "string \<times> string"

definition genericInformer_Informer :: "('lw, 'tr) genericInformer \<Rightarrow> ('lw, 'tr) SharedIndexInformer" where
  "genericInformer_Informer g = gi_informer g"

definition genericInformer_Lister :: "('lw, 'tr) genericInformer \<Rightarrow> lister" where
  "genericInformer_Lister g =
     \<lparr>ls_indexer = GetIndexer (genericInformer_Informer g), ls_resource = gi_resource g, ls_namespace = None\<rparr>"

definition ForResource where
  "ForResource gt gvrText resource f =
     (if resource = WithResource SchemeGroupVersion ''agentruntimes'' then
        (case agentRuntime_Informer gt (version_AgentRuntimes (V1alpha1 (Runtime f))) f of (informer, f') \<Rightarrow>
           (Inr \<lparr>gi_informer = informer, gi_resource = GroupResource resource\<rparr>, f'))
      else if resource = WithResource SchemeGroupVersion ''codeinterpreters'' then
        (case codeInterpreter_Informer gt (version_CodeInterpreters (V1alpha1 (Runtime f))) f of (informer, f') \<Rightarrow>
           (Inr \<lparr>gi_informer = informer, gi_resource = GroupResource resource\<rparr>, f'))
      else (Inl (ErrMsg (''no informer found for '' @ gvrText resource)), f))"

subsection \<open>The informers of the Workload Manager (\<open>informers.go\<close>)\<close>

definition AgentRuntimeGVR :: GroupVersionResource where
  "AgentRuntimeGVR = \<lparr>gv_Group = ''runtime.agentcube.volcano.sh'', gv_Version = ''v1alpha1'',
     gv_Resource = ''agentruntimes''\<rparr>"

definition CodeInterpreterGVR :: GroupVersionResource where
  "CodeInterpreterGVR = \<lparr>gv_Group = ''runtime.agentcube.volcano.sh'', gv_Version = ''v1alpha1'',
     gv_Resource = ''codeinterpreters''\<rparr>"

definition SandboxGVR :: GroupVersionResource where
  "SandboxGVR = \<lparr>gv_Group = ''agents.x-k8s.io'', gv_Version = ''v1alpha1'', gv_Resource = ''sandboxes''\<rparr>"

definition SandboxClaimGVR :: GroupVersionResource where
  "SandboxClaimGVR = \<lparr>gv_Group = ''extensions.agents.x-k8s.io'', gv_Version = ''v1alpha1'',
     gv_Resource = ''sandboxclaims''\<rparr>"

text \<open>The factory of the core resources and its pod informer belong to \<open>k8s.io/client-go\<close>: \<open>'cf\<close> and \<open>'pi\<close>
  are their types.  The factory of the typed resources is the state.\<close>

record ('lw, 'tr, 'pi, 'cf) Informers =
  if_AgentRuntimeLister :: lister
  if_CodeInterpreterLister :: lister
  if_AgentRuntimeInformer :: "('lw, 'tr) SharedIndexInformer"
  if_CodeInterpreterInformer :: "('lw, 'tr) SharedIndexInformer"
  if_PodInformer :: 'pi
  if_informerFactory :: 'cf

definition NewInformers where
  "NewInformers gt podInformer informerFactory f =
     (let agentRuntimeInformer = version_AgentRuntimes (V1alpha1 (Runtime f));
          codeInterpreterInformer = version_CodeInterpreters (V1alpha1 (Runtime f));
          (arl, f) = agentRuntime_Lister gt agentRuntimeInformer f;
          (cil, f) = codeInterpreter_Lister gt codeInterpreterInformer f;
          (ar, f) = agentRuntime_Informer gt agentRuntimeInformer f;
          (ci, f) = codeInterpreter_Informer gt codeInterpreterInformer f
      in (\<lparr>if_AgentRuntimeLister = arl, if_CodeInterpreterLister = cil, if_AgentRuntimeInformer = ar,
           if_CodeInterpreterInformer = ci, if_PodInformer = podInformer,
           if_informerFactory = informerFactory\<rparr>, f))"

definition Informers_run where
  "Informers_run startCore ord stopCh ifm f =
     (startCore stopCh (if_informerFactory ifm), Start ord stopCh f)"

end
