(* ===== verification/WmServer.thy ===== *)
theory WmServer
  imports HandlersWorld Mtls Informers
begin

text \<open>
  The Workload Manager as a process: \<open>pkg/workloadmanager/server.go\<close> and \<open>informers.go\<close>, with the checks of
  the command line in \<open>cmd/workload-manager/main.go\<close> and \<open>cmd/router/main.go\<close>.  Configuration, routes with
  their authentication, and what \<open>Start\<close> does up to the listener it serves on.

  The client of the API server, the synchronisation of the informers, \<open>net.Listen\<close> and the \<open>Serve\<close>
  functions of \<open>net/http\<close> are arguments, given by what they return.
\<close>

subsection \<open>Configuration\<close>

record wmConfig =
  wc_Port :: string
  wc_RuntimeClassName :: string
  wc_EnableTLS :: bool
  wc_TLSCert :: string
  wc_TLSKey :: string
  wc_EnableAuth :: bool
  wc_SandboxReadyProbeTimeout :: Duration
  wc_SandboxReadyProbeInterval :: Duration
  wc_MTLSConfig :: mtlsConfig

definition probeDefaults :: "wmConfig \<Rightarrow> wmConfig" where
  "probeDefaults config =
     (let c1 = (if wc_SandboxReadyProbeTimeout config \<le> 0
            then config\<lparr>wc_SandboxReadyProbeTimeout := defaultSandboxReadyProbeTimeout\<rparr> else config) in
      if wc_SandboxReadyProbeInterval c1 \<le> 0
      then c1\<lparr>wc_SandboxReadyProbeInterval := defaultSandboxReadyProbeInterval\<rparr> else c1)"

text \<open>
  \<open>NewServer\<close> on the outcome of \<open>NewK8sClient\<close>.  The result is the server, its configuration and its
  token cache; the key cache is filled in the background (\<open>InitPublicKeyCache\<close>).
\<close>

definition NewServer_wm ::
  "wmConfig option \<Rightarrow> ('w cluster \<times> 'w podApi) res \<Rightarrow> 'w Store \<Rightarrow> string \<Rightarrow>
   ('w Server \<times> wmConfig \<times> TokenCache) res" where
  "NewServer_wm config newK8sClient storage podNameAnnotation =
     (case config of
        None \<Rightarrow> Inl (ErrMsg ''config cannot be nil'')
      | Some c0 \<Rightarrow>
          (let c = probeDefaults c0 in
           case newK8sClient of
             Inl e \<Rightarrow> Inl (ErrWrap ''failed to create Kubernetes client'' e)
           | Inr (cluster, pods) \<Rightarrow>
               Inr (\<lparr>sv_store = storage, sv_cluster = cluster, sv_pods = pods,
                      sv_EnableAuth = wc_EnableAuth c, sv_ProbeTimeout = wc_SandboxReadyProbeTimeout c,
                      sv_ProbeInterval = wc_SandboxReadyProbeInterval c,
                      sv_PodNameAnnotation = podNameAnnotation\<rparr>,
                    c, NewTokenCache 1000 (5 * Minute))))"

subsection \<open>Routes\<close>

datatype wmRoute =
    RouteHealth
  | RouteAgentCreate
  | RouteAgentDelete string
  | RouteInterpreterCreate
  | RouteInterpreterDelete string

definition v1Handler ::
  "'w handlerDeps \<Rightarrow> 'w Server \<Rightarrow> 'w reqEnv \<Rightarrow> (SandboxReconciler \<Rightarrow> SandboxReconciler) \<Rightarrow>
   userInfo option \<Rightarrow> wmRoute \<Rightarrow> httpRequest \<Rightarrow> 'w handlerState \<Rightarrow> (httpResponse \<times> 'w handlerState) option" where
  "v1Handler d s env others user route c hs =
     (case route of
        RouteHealth \<Rightarrow> Some (handleHealth, hs)
      | RouteAgentCreate \<Rightarrow> handleAgentRuntimeCreate d s env others (c\<lparr>ht_user := user\<rparr>) hs
      | RouteAgentDelete sessionID \<Rightarrow> Some (handleDeleteSandbox d s (rq_now env) user sessionID hs)
      | RouteInterpreterCreate \<Rightarrow> handleCodeInterpreterCreate d s env others (c\<lparr>ht_user := user\<rparr>) hs
      | RouteInterpreterDelete sessionID \<Rightarrow> Some (handleDeleteSandbox d s (rq_now env) user sessionID hs))"

text \<open>A request through the routes: the group \<open>/v1\<close> is behind the authentication, \<open>/health\<close> is not.\<close>

definition setupRoutes_wm ::
  "'w handlerDeps \<Rightarrow> 'w Server \<Rightarrow> (string \<Rightarrow> (bool \<times> string) res) \<Rightarrow> 'w reqEnv \<Rightarrow>
   (SandboxReconciler \<Rightarrow> SandboxReconciler) \<Rightarrow> wmRoute \<Rightarrow> httpRequest \<Rightarrow> TokenCache \<Rightarrow> 'w handlerState \<Rightarrow>
   (httpResponse \<times> TokenCache \<times> 'w handlerState) option" where
  "setupRoutes_wm d s review env others route c tokens hs =
     (if route = RouteHealth then Some (handleHealth, tokens, hs)
      else
        (case authMiddleware (sv_EnableAuth s) review (rq_now env (hs_world hs)) (ht_header c) tokens of
           (AuthAbort code msg, tokens') \<Rightarrow> Some (ErrorJSON code msg, tokens', hs)
         | (AuthNext user, tokens') \<Rightarrow>
             (case v1Handler d s env others user route c hs of
                None \<Rightarrow> None
              | Some (r, hs') \<Rightarrow> Some (r, tokens', hs'))))"

subsection \<open>Informers\<close>

text \<open>
  What \<open>cache.WaitForCacheSync\<close> returned for the informers of runtimes, interpreters and pods, the error of
  the context after it, and the text of a resource.
\<close>

record informerSync =
  is_runtimes :: bool
  is_interpreters :: bool
  is_pods :: bool
  is_ctxErr :: "gerr option"
  is_text :: "GroupVersionResource \<Rightarrow> string"

definition syncFailed :: "string \<Rightarrow> gerr option \<Rightarrow> gerr" where
  "syncFailed msg err = (case err of Some e \<Rightarrow> ErrWrap msg e | None \<Rightarrow> ErrMsg msg)"

definition waitForCacheSync :: "informerSync \<Rightarrow> gerr option" where
  "waitForCacheSync y =
     (if \<not> is_runtimes y then
        Some (syncFailed (''timed out waiting for '' @ is_text y AgentRuntimeGVR @ '' caches to sync'') (is_ctxErr y))
      else if \<not> is_interpreters y then
        Some (syncFailed (''timed out waiting for '' @ is_text y CodeInterpreterGVR @ '' caches to sync'') (is_ctxErr y))
      else if \<not> is_pods y then
        Some (syncFailed ''timed out waiting for pod informer cache to sync'' (is_ctxErr y))
      else None)"

definition RunAndWaitForCacheSync :: "informerSync \<Rightarrow> gerr option" where
  "RunAndWaitForCacheSync y =
     map_option (ErrWrap ''failed to wait for caches to sync'') (waitForCacheSync y)"

subsection \<open>Start\<close>

datatype listenMode = PlainH2C | ServerTLS string string | MutualTLS

text \<open>
  What a start meets: \<open>se_http2\<close> is the result of \<open>http2.ConfigureServer\<close>, \<open>se_serve\<close> the error a listener
  of a mode ends with, \<open>None\<close> for \<open>http.ErrServerClosed\<close>.
\<close>

record ('cert, 'pool) startEnv =
  se_sync :: informerSync
  se_ping :: "gerr option"
  se_loadServerConfig :: "mtlsConfig \<Rightarrow> (('cert, 'pool) tlsConfig \<times> ('cert, 'pool) CertWatcher) res"
  se_http2 :: "gerr option"
  se_listen :: "string \<Rightarrow> gerr option"
  se_serve :: "listenMode \<Rightarrow> gerr option"

text \<open>
  The error, the mode a listener was served in, if one was, and the state of the collector and of the
  certificate watcher.
\<close>

record ('cert, 'pool) startOutcome =
  so_err :: "gerr option"
  so_mode :: "listenMode option"
  so_collector :: bool
  so_certWatcher :: "('cert, 'pool) CertWatcher option"

definition startMTLSServer ::
  "('cert, 'pool) startEnv \<Rightarrow> wmConfig \<Rightarrow> string \<Rightarrow>
   gerr option \<times> listenMode option \<times> ('cert, 'pool) CertWatcher option" where
  "startMTLSServer env config addr =
     (let cfg = wc_MTLSConfig config in
      if mc_CertFile cfg = [] \<or> mc_KeyFile cfg = [] \<or> mc_CAFile cfg = []
      then (Some (ErrMsg ''mTLS requires --tls-cert, --tls-key, and --tls-ca to be set''), None, None)
      else
        (case se_loadServerConfig env cfg of
           Inl e \<Rightarrow> (Some (ErrWrap ''failed to load mTLS server config'' e), None, None)
         | Inr (serverTLS, watcher) \<Rightarrow>
             (case se_http2 env of
                Some e \<Rightarrow>
                  (Some (ErrWrap ''failed to configure HTTP/2 for mTLS server'' e), None, Some (Stop watcher))
              | None \<Rightarrow>
                  (case se_listen env addr of
                     Some e \<Rightarrow> (Some (ErrWrap (''failed to listen on '' @ addr) e), None, Some (Stop watcher))
                   | None \<Rightarrow> (se_serve env MutualTLS, Some MutualTLS, Some watcher)))))"

definition Start_wm :: "('cert, 'pool) startEnv \<Rightarrow> wmConfig \<Rightarrow> ('cert, 'pool) startOutcome" where
  "Start_wm env config =
     (case RunAndWaitForCacheSync (se_sync env) of
        Some e \<Rightarrow>
          \<lparr>so_err = Some (ErrWrap ''failed to wait for caches to sync'' e), so_mode = None, so_collector = False,
           so_certWatcher = None\<rparr>
      | None \<Rightarrow>
          (case se_ping env of
             Some e \<Rightarrow>
               \<lparr>so_err = Some (ErrWrap ''failed to ping store'' e), so_mode = None, so_collector = False,
                so_certWatcher = None\<rparr>
           | None \<Rightarrow>
               (let addr = CHR '':'' # wc_Port config in
                if mtlsConfigured (wc_MTLSConfig config) then
                  (case startMTLSServer env config addr of
                     (err, mode, watcher) \<Rightarrow>
                       \<lparr>so_err = err, so_mode = mode, so_collector = True, so_certWatcher = watcher\<rparr>)
                else if wc_EnableTLS config then
                  (if wc_TLSCert config = [] \<or> wc_TLSKey config = [] then
                     \<lparr>so_err = Some (ErrMsg ''TLS enabled but cert/key not provided''), so_mode = None,
                      so_collector = True, so_certWatcher = None\<rparr>
                   else
                     (let mode = ServerTLS (wc_TLSCert config) (wc_TLSKey config) in
                      \<lparr>so_err = se_serve env mode, so_mode = Some mode, so_collector = True,
                       so_certWatcher = None\<rparr>))
                else
                  \<lparr>so_err = se_serve env PlainH2C, so_mode = Some PlainH2C, so_collector = True,
                   so_certWatcher = None\<rparr>)))"

subsection \<open>The command line\<close>

definition validateTLSFlags :: "bool \<Rightarrow> mtlsConfig \<Rightarrow> gerr option" where
  "validateTLSFlags enableTLS cfg =
     (if mc_CAFile cfg \<noteq> [] then
        (if mc_CertFile cfg = [] \<or> mc_KeyFile cfg = []
         then Some (ErrMsg ''tls-cert, tls-key, and tls-ca must all be specified together for mTLS'') else None)
      else if enableTLS \<and> (mc_CertFile cfg = [] \<or> mc_KeyFile cfg = [])
      then Some (ErrMsg ''both --tls-cert and --tls-key must be provided when --enable-tls is set'')
      else None)"

definition validateMTLSFlags :: "mtlsConfig \<Rightarrow> gerr option" where
  "validateMTLSFlags cfg =
     (if mc_CertFile cfg = [] \<and> mc_KeyFile cfg = [] \<and> mc_CAFile cfg = [] then None
      else if mc_CertFile cfg = [] \<or> mc_KeyFile cfg = [] \<or> mc_CAFile cfg = []
      then Some (ErrMsg ''mtls-cert, mtls-key, and mtls-ca must all be specified together'')
      else None)"

record wmFlags =
  wf_port :: string
  wf_runtimeClassName :: string
  wf_enableTLS :: bool
  wf_tlsCert :: string
  wf_tlsKey :: string
  wf_tlsCA :: string
  wf_enableAuth :: bool

definition tlsConfigOf :: "wmFlags \<Rightarrow> mtlsConfig" where
  "tlsConfigOf f = \<lparr>mc_CertFile = wf_tlsCert f, mc_KeyFile = wf_tlsKey f, mc_CAFile = wf_tlsCA f\<rparr>"

definition configOf :: "wmFlags \<Rightarrow> wmConfig" where
  "configOf f =
     \<lparr>wc_Port = wf_port f, wc_RuntimeClassName = wf_runtimeClassName f, wc_EnableTLS = wf_enableTLS f,
      wc_TLSCert = wf_tlsCert f, wc_TLSKey = wf_tlsKey f, wc_EnableAuth = wf_enableAuth f,
      wc_SandboxReadyProbeTimeout = 0, wc_SandboxReadyProbeInterval = 0, wc_MTLSConfig = tlsConfigOf f\<rparr>"

text \<open>
  What a controller is built from: the type it watches, whether \<open>GenerationChangedPredicate\<close> drops the
  updates that only change the status, and the reconciler.
\<close>

datatype reconciler = OfSandboxes | OfCodeInterpreters

record controllerBuilder =
  cb_For :: string
  cb_generationChanged :: bool
  cb_reconciler :: reconciler

text \<open>controller-runtime: \<open>ctrl.NewManager\<close>, and \<open>Complete\<close>, which registers a controller with the manager.\<close>

record 'm ctrlEnv =
  cm_NewManager :: "'m res"
  cm_Complete :: "controllerBuilder \<Rightarrow> 'm \<Rightarrow> gerr option \<times> 'm"

definition SetupWithManager :: "'m ctrlEnv \<Rightarrow> 'm \<Rightarrow> gerr option \<times> 'm" where
  "SetupWithManager ctrl mgr = cm_Complete ctrl
     \<lparr>cb_For = ''CodeInterpreter'', cb_generationChanged = True, cb_reconciler = OfCodeInterpreters\<rparr> mgr"

definition setupControllers :: "'m ctrlEnv \<Rightarrow> 'm \<Rightarrow> gerr option \<times> 'm" where
  "setupControllers ctrl mgr =
     (case cm_Complete ctrl \<lparr>cb_For = ''Sandbox'', cb_generationChanged = False, cb_reconciler = OfSandboxes\<rparr> mgr of
        (Some e, mgr) \<Rightarrow> (Some (ErrWrap ''unable to create sandbox controller'' e), mgr)
      | (None, mgr) \<Rightarrow>
          (case SetupWithManager ctrl mgr of
             (Some e, mgr) \<Rightarrow> (Some (ErrWrap ''unable to create codeinterpreter controller'' e), mgr)
           | (None, mgr) \<Rightarrow> (None, mgr)))"

text \<open>
  \<open>main\<close> up to the end of \<open>Start\<close>; \<open>waited\<close> is the result of the wait for the certificate files.
  \<open>klog.Fatalf\<close> and \<open>os.Exit(1)\<close> end the process: \<open>Inl\<close>.
\<close>

definition main_wm ::
  "wmFlags \<Rightarrow> gerr option \<Rightarrow> 'm ctrlEnv \<Rightarrow> ('w cluster \<times> 'w podApi) res \<Rightarrow> 'w Store \<Rightarrow> string \<Rightarrow>
   ('cert, 'pool) startEnv \<Rightarrow> gerr + ('cert, 'pool) startOutcome" where
  "main_wm f waited ctrl newK8sClient storage podNameAnnotation env =
     (case validateTLSFlags (wf_enableTLS f) (tlsConfigOf f) of
        Some e \<Rightarrow> Inl (ErrWrap ''Invalid TLS configuration'' e)
      | None \<Rightarrow>
          (case (if mtlsConfigured (tlsConfigOf f) then waited else None) of
             Some e \<Rightarrow> Inl (ErrWrap ''Invalid mTLS configuration'' e)
           | None \<Rightarrow>
               (case cm_NewManager ctrl of
                  Inl e \<Rightarrow> Inl (ErrWrap ''unable to start manager'' e)
                | Inr mgr \<Rightarrow>
                    (case fst (setupControllers ctrl mgr) of
                       Some e \<Rightarrow> Inl (ErrWrap ''unable to setup controllers'' e)
                     | None \<Rightarrow>
                         (case NewServer_wm (Some (configOf f)) newK8sClient storage podNameAnnotation of
                            Inl e \<Rightarrow> Inl (ErrWrap ''Failed to create API server'' e)
                          | Inr (server, config, tokens) \<Rightarrow> Inr (Start_wm env config))))))"

subsection \<open>Properties\<close>

text \<open>
  C18: With authentication enabled nobody but a service account gets past \<open>/v1\<close>.  When the accepted entries of
  the token cache are answers of the API server, a request to create or delete either gets a 401 and has
  changed nothing but that cache, or it is handled for the service account that the server named for its bearer token.
\<close>

theorem v1_needs_service_account:
  assumes "sv_EnableAuth s" and "route \<noteq> RouteHealth" and "reviews_true review tokens"
    and "setupRoutes_wm d s review env others route c tokens hs = Some (r, tokens', hs')"
  shows "reviews_true review tokens' \<and>
     ((\<exists>msg. r = ErrorJSON 401 msg) \<and> hs' = hs \<or>
      (\<exists>u. v1Handler d s env others (Some u) route c hs = Some (r, hs') \<and>
         Fields (ht_header c ''Authorization'') = [''Bearer'', ui_userToken u] \<and>
         review (ui_userToken u) = Inr (True, ''system:serviceaccount:'' @ ui_namespace u @ '':'' @ ui_serviceAccountName u)))"
proof -
  obtain out tk where a: "authMiddleware True review (rq_now env (hs_world hs)) (ht_header c) tokens = (out, tk)"
    by fastforce
  show ?thesis
    using auth_middleware_sound [OF assms(3) a] assms(1,2,4)
    by (auto simp: setupRoutes_wm_def a split: option.splits)
qed

lemma main_wm_started:
  assumes "main_wm f waited mgr k storage annotation env = Inr st"
  shows "validateTLSFlags (wf_enableTLS f) (tlsConfigOf f) = None"
    "mtlsConfigured (tlsConfigOf f) \<Longrightarrow> waited = None" "st = Start_wm env (probeDefaults (configOf f))"
  using assms by (auto simp: main_wm_def NewServer_wm_def Let_def split: option.splits sum.splits if_splits)

lemma probeDefaults_tls [simp]:
  "wc_MTLSConfig (probeDefaults (configOf f)) = tlsConfigOf f"
  "wc_EnableTLS (probeDefaults (configOf f)) = wf_enableTLS f"
  "wc_TLSCert (probeDefaults (configOf f)) = wf_tlsCert f" "wc_TLSKey (probeDefaults (configOf f)) = wf_tlsKey f"
  "wc_Port (probeDefaults (configOf f)) = wf_port f"
  by (simp_all add: probeDefaults_def configOf_def Let_def)

lemma Start_wm_ready:
  assumes "so_mode (Start_wm env config) = Some mode"
  shows "RunAndWaitForCacheSync (se_sync env) = None" "se_ping env = None"
  using assms by (auto simp: Start_wm_def split: option.splits)

lemma startMTLSServer_served:
  assumes "startMTLSServer env config addr = (err, Some mode, watcher)"
  shows "mode = MutualTLS \<and> err = se_serve env MutualTLS \<and>
     (\<exists>tls cw. se_loadServerConfig env (wc_MTLSConfig config) = Inr (tls, cw) \<and> watcher = Some cw)"
  using assms by (auto simp: startMTLSServer_def Let_def split: if_splits sum.splits option.splits)

text \<open>
  C36: The Workload Manager listens as its command line says.  With a CA file it serves mutual TLS and nothing
  else, with TLS enabled it serves TLS with the given files, and only without both it serves plain HTTP; a command
  line that names some of the files and not the others is refused.  Its certificate watcher runs exactly while
  mutual TLS is served.
\<close>

theorem listener_as_configured:
  assumes "main_wm f waited mgr k storage annotation env = Inr st" and "so_mode st = Some mode"
  shows "mode = (if wf_tlsCA f \<noteq> [] then MutualTLS
       else if wf_enableTLS f then ServerTLS (wf_tlsCert f) (wf_tlsKey f) else PlainH2C) \<and>
     (mode \<noteq> PlainH2C \<longrightarrow> wf_tlsCert f \<noteq> [] \<and> wf_tlsKey f \<noteq> []) \<and>
     so_err st = se_serve env mode \<and> so_collector st \<and>
     (mode = MutualTLS \<longrightarrow> waited = None \<and>
        (\<exists>tls watcher. se_loadServerConfig env (tlsConfigOf f) = Inr (tls, watcher) \<and> so_certWatcher st = Some watcher)) \<and>
     (mode \<noteq> MutualTLS \<longrightarrow> so_certWatcher st = None)"
proof (cases "wf_tlsCA f = []")
  case True
  note v = main_wm_started [OF assms(1)]
  have "\<not> mtlsConfigured (tlsConfigOf f)"
    using True by (simp add: mtlsConfigured_def tlsConfigOf_def)
  moreover note Start_wm_ready [OF assms(2) [unfolded v(3)]]
  moreover have "wf_enableTLS f \<Longrightarrow> wf_tlsCert f \<noteq> [] \<and> wf_tlsKey f \<noteq> []"
    using v(1) True by (auto simp: validateTLSFlags_def tlsConfigOf_def)
  ultimately have "st = (let m = (if wf_enableTLS f then ServerTLS (wf_tlsCert f) (wf_tlsKey f) else PlainH2C) in
      \<lparr>so_err = se_serve env m, so_mode = Some m, so_collector = True, so_certWatcher = None\<rparr>)"
    by (simp add: v(3) Start_wm_def Let_def)
  then show ?thesis
    using True assms(2) \<open>wf_enableTLS f \<Longrightarrow> wf_tlsCert f \<noteq> [] \<and> wf_tlsKey f \<noteq> []\<close>
    by (cases "wf_enableTLS f") (auto simp: Let_def)
next
  case False
  note v = main_wm_started [OF assms(1)]
  have m: "mtlsConfigured (tlsConfigOf f)" "wf_tlsCert f \<noteq> []" "wf_tlsKey f \<noteq> []"
    using False v(1) by (auto simp: mtlsConfigured_def tlsConfigOf_def validateTLSFlags_def split: if_splits)
  obtain err md cw where s: "startMTLSServer env (probeDefaults (configOf f)) (CHR '':'' # wf_port f) = (err, md, cw)"
    by (metis prod.collapse)
  have st: "st = \<lparr>so_err = err, so_mode = md, so_collector = True, so_certWatcher = cw\<rparr>"
    using Start_wm_ready [OF assms(2) [unfolded v(3)]] m(1) s by (simp add: v(3) Start_wm_def Let_def)
  show ?thesis
    using startMTLSServer_served [of env "probeDefaults (configOf f)" "CHR '':'' # wf_port f" err mode cw] s st assms(2)
      False m v(2) by auto
qed

subsection \<open>Concrete runs\<close>

definition authServer :: "world Server" where
  "authServer = memServer\<lparr>sv_EnableAuth := True\<rparr>"

definition bearerRequest :: httpRequest where
  "bearerRequest = createRequest\<lparr>ht_header := (\<lambda>_. ''Bearer tok'')\<rparr>"

lemma auth_delete_ok:
  assumes "ui_userToken u = ''tok''" "ui_namespace u = ''ns''" "ui_serviceAccountName u = ''sa''"
  shows "\<exists>hs'. handleDeleteSandbox memDeps authServer w_now (Some u) ''s1'' (memState (sampleWorld 0)) =
     (MessageJSON 200 ''Sandbox deleted successfully'', hs')"
proof -
  obtain cache where "chooseClient memDeps authServer t (Some u) (NewClientCache 10) = (Inr memCluster, cache t)" for t
    using assms
    by (simp add: chooseClient_def authServer_def extractUserK8sClient_def extractUserInfo_def GetOrCreateUserK8sClient_def
        memDeps_def ClientCache_Get_def NewClientCache_def lru_find_def)
  then show ?thesis
    using json_codec.get_reliable(1) [OF ns.goJson.json_codec_axioms sampleKs_facts(1), of "''s1''"]
      json_codec.delete_reliable(1) [OF ns.goJson.json_codec_axioms sampleKs_facts(1), of "''s1''"]
      sampleKs_facts(2)
    by (simp add: handleDeleteSandbox_def authServer_def memServer_def memDeps_def memState_def world_get
        world_delete in_world_def sampleWorld_def deleteSandbox_def memCluster_def persisted_def
        sampleSandbox_def kind_defs zeroSandboxInfo_def)
qed

theorem v1_needs_service_account_witness:
  "\<exists>tokens hs' (u :: userInfo). setupRoutes_wm memDeps authServer sampleReview (memEnv [] []) id (RouteInterpreterDelete ''s1'')
       bearerRequest (NewTokenCache 10 0) (memState (sampleWorld 0)) =
       Some (MessageJSON 200 ''Sandbox deleted successfully'', tokens, hs') \<and>
     reviews_true sampleReview tokens \<and>
     sampleReview (ui_userToken u) =
        Inr (True, ''system:serviceaccount:'' @ ui_namespace u @ '':'' @ ui_serviceAccountName u)"
proof -
  have new: "reviews_true sampleReview (NewTokenCache 10 0)"
    by (simp add: reviews_true_def NewTokenCache_def lru_find_def)
  have auth: "sv_EnableAuth authServer" "RouteInterpreterDelete ''s1'' \<noteq> RouteHealth"
    by (simp_all add: authServer_def)
  obtain u tk where a: "authMiddleware True sampleReview (rq_now (memEnv [] []) (hs_world (memState (sampleWorld 0))))
      (\<lambda>_. ''Bearer tok'') (NewTokenCache 10 0) = (AuthNext (Some u), tk)"
    and u: "ui_userToken u = ''tok''" "ui_namespace u = ''ns''" "ui_serviceAccountName u = ''sa''"
    by (simp add: authMiddleware_def validateServiceAccountToken_def TokenCache_Get_def sampleReview_def
        NewTokenCache_def lru_find_def Fields.simps is_space_def Let_def)
  obtain hs' where "setupRoutes_wm memDeps authServer sampleReview (memEnv [] []) id (RouteInterpreterDelete ''s1'')
      bearerRequest (NewTokenCache 10 0) (memState (sampleWorld 0)) =
      Some (MessageJSON 200 ''Sandbox deleted successfully'', tk, hs')"
    using a auth_delete_ok [OF u]
    by (auto simp: setupRoutes_wm_def authServer_def bearerRequest_def v1Handler_def memEnv_def)
  moreover have "\<nexists>msg. MessageJSON 200 ''Sandbox deleted successfully'' = ErrorJSON 401 msg"
    by simp
  ultimately show ?thesis
    using v1_needs_service_account [OF auth new] by blast
qed

definition sampleFlags :: wmFlags where
  "sampleFlags = \<lparr>wf_port = ''8080'', wf_runtimeClassName = ''kuasar-vmm'', wf_enableTLS = True, wf_tlsCert = ''c'',
     wf_tlsKey = ''k'', wf_tlsCA = ''ca'', wf_enableAuth = True\<rparr>"

definition sampleCtrl :: "controllerBuilder list ctrlEnv" where
  "sampleCtrl = \<lparr>cm_NewManager = Inr [], cm_Complete = (\<lambda>b mgr. (None, mgr @ [b]))\<rparr>"

definition sampleStart :: "(nat, nat) startEnv" where
  "sampleStart =
     \<lparr>se_sync = \<lparr>is_runtimes = True, is_interpreters = True, is_pods = True, is_ctxErr = None, is_text = gv_Resource\<rparr>,
      se_ping = None,
      se_loadServerConfig = (\<lambda>cfg. Inr (\<lparr>tc_ClientAuth = ''RequireAnyClientCert'', tc_MinVersion = 0x0304,
          tc_InsecureSkipVerify = False, tc_VerifyPeerCertificate = (\<lambda>_ _. None)\<rparr>,
        \<lparr>cw_certFile = mc_CertFile cfg, cw_keyFile = mc_KeyFile cfg, cw_caFile = mc_CAFile cfg, cw_cert = Some 0,
         cw_caPool = Some 0, cw_stopped = False\<rparr>)),
      se_http2 = None, se_listen = (\<lambda>_. None), se_serve = (\<lambda>_. None)\<rparr>"

theorem listener_as_configured_witness:
  "\<exists>st. main_wm sampleFlags None sampleCtrl (Inr (memCluster, memPods)) worldStore [] sampleStart = Inr st \<and>
     so_mode st = Some MutualTLS \<and> so_err st = None \<and> (\<exists>cw. so_certWatcher st = Some cw)"
proof -
  obtain st mode where m: "main_wm sampleFlags None sampleCtrl (Inr (memCluster, memPods)) worldStore [] sampleStart = Inr st"
      "so_mode st = Some mode"
    by (simp add: main_wm_def sampleCtrl_def setupControllers_def SetupWithManager_def sampleFlags_def sampleStart_def validateTLSFlags_def tlsConfigOf_def mtlsConfigured_def
        NewServer_wm_def configOf_def probeDefaults_def Start_wm_def RunAndWaitForCacheSync_def waitForCacheSync_def
        startMTLSServer_def Let_def)
  from listener_as_configured [OF m] show ?thesis
    using m by (auto simp: sampleFlags_def sampleStart_def)
qed

end
