(* ===== verification/Lifecycle.thy ===== *)
theory Lifecycle
  imports Prelude
begin

text \<open>
  The end of the processes, as interleavings of their goroutines: \<open>main\<close> of
  \<open>cmd/workload-manager\<close> with \<open>Shutdown\<close>, \<open>WaitForBackgroundWorkers\<close> and \<open>CloseStore\<close> of the server, and
  \<open>main\<close> with \<open>Start\<close> of the Router and of PicoD.

  Of \<open>net/http\<close> the steps use what it documents: \<open>Shutdown\<close> closes the listeners at once, so that
  \<open>ListenAndServe\<close> returns \<open>ErrServerClosed\<close>, and itself returns when no request is active any more or
  when its context ends.  A process that has exited does not finish its requests.
\<close>

subsection \<open>The Workload Manager\<close>






subsection \<open>The Router and PicoD\<close>

datatype srvMain = SrvSelect | SrvWait | SrvExit

record srvProcess =
  pr_main :: srvMain
  pr_done :: bool
  pr_draining :: "bool option"
  pr_listening :: bool
  pr_startReturned :: bool
  pr_active :: nat
  pr_timedOut :: bool


inductive routerStep :: "srvProcess \<Rightarrow> srvProcess \<Rightarrow> bool" where
  request: "pr_listening p \<Longrightarrow> pr_main p \<noteq> SrvExit \<Longrightarrow> routerStep p (p\<lparr>pr_active := pr_active p + 1\<rparr>)"
| answer: "pr_active p = Suc n \<Longrightarrow> pr_main p \<noteq> SrvExit \<Longrightarrow> routerStep p (p\<lparr>pr_active := n\<rparr>)"
| signal: "\<not> pr_done p \<Longrightarrow> pr_main p \<noteq> SrvExit \<Longrightarrow> routerStep p (p\<lparr>pr_done := True\<rparr>)"
| shutdown: "pr_done p \<Longrightarrow> pr_draining p = None \<Longrightarrow> pr_main p \<noteq> SrvExit \<Longrightarrow>
    routerStep p (p\<lparr>pr_draining := Some True, pr_listening := False\<rparr>)"
| drained: "pr_draining p = Some True \<Longrightarrow> pr_active p = 0 \<Longrightarrow> pr_main p \<noteq> SrvExit \<Longrightarrow>
    routerStep p (p\<lparr>pr_draining := Some False\<rparr>)"
| deadline: "pr_draining p = Some True \<Longrightarrow> pr_main p \<noteq> SrvExit \<Longrightarrow>
    routerStep p (p\<lparr>pr_draining := Some False, pr_timedOut := True\<rparr>)"
| served: "\<not> pr_listening p \<Longrightarrow> \<not> pr_startReturned p \<Longrightarrow> pr_main p \<noteq> SrvExit \<Longrightarrow>
    routerStep p (p\<lparr>pr_startReturned := True\<rparr>)"
| interrupted: "pr_main p = SrvSelect \<Longrightarrow> pr_done p \<Longrightarrow> routerStep p (p\<lparr>pr_main := SrvWait\<rparr>)"
| fatal: "pr_main p = SrvSelect \<Longrightarrow> pr_startReturned p \<Longrightarrow> routerStep p (p\<lparr>pr_main := SrvExit\<rparr>)"
| exit: "pr_main p = SrvWait \<Longrightarrow> pr_startReturned p \<Longrightarrow> routerStep p (p\<lparr>pr_main := SrvExit\<rparr>)"

text \<open>PicoD runs the same goroutines.\<close>

definition picodStep :: "srvProcess \<Rightarrow> srvProcess \<Rightarrow> bool" where
  "picodStep = routerStep"


subsection \<open>Properties\<close>







end
