(* ===== verification/Ownership.thy ===== *)
theory Ownership
  imports RouterProps HandlersWorld
begin

text \<open>
  From the user of a request at the Router to the owner of the session the Workload Manager creates for it:
  the facts about the identity header, the handler of a creation and the check of the owner that the
  property in the root theory puts together, and a creation through the whole handler in memory.
\<close>

subsection \<open>The header\<close>

lemma identity_header:
  assumes "GenerateToken jl jm t (identityClaims claims) = Inr tok"
  shows "hdr_Get (setIdentityHeader jl (Some jm) t (Some claims) h0) identityJWTHeader = tok"
  using assms by (simp add: setIdentityHeader_def hdr_Get_def hdr_Set_def identityJWTHeader_def)

lemma identity_resolves:
  assumes "jwt_library jl kl signed" "keyPair kl jm" "GetPublicKeyPEM kl jm = Inr pem"
    and "GenerateToken jl jm t (identityClaims claims) = Inr tok" "cl_Subject claims \<noteq> []"
    and "now < Unix (t + jwtExpiration) * 1000000000"
    and "header = hdr_Get (setIdentityHeader jl (Some jm) t (Some claims) h0)"
  shows "resolveSandboxOwnerID jl kl now pem header = (cl_Subject claims, 0, [])"
  by (rule identity_round_trip [OF assms(1-3), where t = t and tok = tok
        and email = "if cl_Email claims \<noteq> [] then [(''email'', VStr (cl_Email claims))] else []" and m = "cl_Email claims"])
    (use assms identity_header [OF assms(4)] in \<open>auto simp: identityClaims_def\<close>)

lemma owner_check:
  assumes "si_OwnerID info = sub" "sub \<noteq> []"
  shows "checkSandboxOwnership (Some v) (Some claims) info = None \<longleftrightarrow>
     ''admin'' \<in> set (cl_Roles claims) \<or> cl_Subject claims = sub"
  using assms by (auto simp: checkSandboxOwnership_def)

subsection \<open>The handler\<close>

lemma handleSandboxCreate_created:
  assumes "handleSandboxCreate d s env others c kind hs = Some (CreatedJSON resp, hs')"
    and "resolveSandboxOwnerID (hd_jl d) (hd_kl d) (rq_now env (hs_world hs)) (be_publicKey (hd_build d)) (ht_header c) =
      (owner, 0, msg)" and "owner \<noteq> []" and "ht_body c = Inr body"
  shows "\<exists>sandbox claim entry client cache.
     buildForKind d (body\<lparr>req_Kind := kind\<rparr>) owner = Inr (sandbox, claim, entry) \<and>
     chooseClient d s (rq_now env (hs_world hs)) (ht_user c) (hs_clients hs) = (Inr client, cache) \<and>
     createSandbox_srv (hd_ae d) (hd_rt d) s env client sandbox claim (entry\<lparr>en_OwnerID := owner\<rparr>) (claim = None)
       (hs_world hs) = Some (Inr resp, hs_world hs')"
  using assms
  by (auto simp: handleSandboxCreate_def Let_def respondError_def respondSandboxCreateError_def
      split: sum.splits prod.splits option.splits if_splits)

lemma buildForKind_facts:
  assumes "buildForKind d req owner = Inr (sandbox, claim, entry)"
  shows "entryFits claim entry \<and> en_SessionID entry = be_uuid (hd_build d) \<and> sb_Namespace sandbox = req_Namespace req \<and>
     sb_Name sandbox = req_Name req @ ''-'' @ RandString 8 (be_draws (hd_build d))"
proof (cases "req_Kind req = AgentRuntimeKind")
  case True
  then show ?thesis
    using assms
    by (auto simp: buildForKind_def buildSandboxByAgentRuntime_def Let_def build_facts entryFits_def
        split: sum.splits option.splits if_splits)
next
  case False
  then have "buildSandboxByCodeInterpreter (hd_ae d) (hd_interpreters d) (hd_build d) (req_Namespace req) (req_Name req)
      owner = Inr (sandbox, claim, entry)"
    using assms by (simp add: buildForKind_def)
  then show ?thesis
    using build_ci_direct [of "hd_ae d" "hd_interpreters d" "hd_build d" "req_Namespace req" "req_Name req" owner sandbox entry]
      build_ci_claim [of "hd_ae d" "hd_interpreters d" "hd_build d" "req_Namespace req" "req_Name req" owner sandbox _ entry]
    by (cases claim) (auto simp: build_facts entryFits_def)
qed

lemma created_record:
  assumes "create_env st db clock ok ae cl objs env pods"
    and "ok w" "safe_sid (en_SessionID entry)" "db_sessions (db w) (en_SessionID entry) = None"
    and "entryFits claim entry" "sv_store s = st" "sv_pods s = pods"
    and "watches env (sb_Namespace sandbox) (sb_Name sandbox)"
    and "createSandbox_srv ae rt s env cl sandbox claim entry registered w = Some (Inr resp, w')"
  shows "\<exists>info. db_sessions (db w') (resp_SessionID resp) = Some info \<and> si_OwnerID info = en_OwnerID entry"
proof -
  have "\<forall>w x w'. rq_ready env w = (ReadyUpdate (Some x), w') \<longrightarrow>
      sb_Namespace x = sb_Namespace sandbox \<and> sb_Name x = sb_Name sandbox"
    using assms(8) by (simp add: watches_def)
  then show ?thesis
    using create_env.create_succeeds [OF assms(1-7) _ assms(9)] by (metis (no_types, lifting))
qed

subsection \<open>A creation in memory\<close>

definition aliceClaims :: Claims where
  "aliceClaims = \<lparr>cl_Subject = ''alice'', cl_Email = [], cl_Roles = []\<rparr>"

definition aliceHeader :: "string \<Rightarrow> string" where
  "aliceHeader = hdr_Get (setIdentityHeader boxJwt (Some sampleManager) (1000 * Second) (Some aliceClaims) (\<lambda>_. []))"

definition aliceRequest :: httpRequest where
  "aliceRequest = createRequest\<lparr>ht_header := aliceHeader\<rparr>"

definition aliceDeps :: "world handlerDeps" where
  "aliceDeps = memDeps
     \<lparr>hd_interpreters := (\<lambda>_ _. Inr ((sampleInterpreter None)\<lparr>ci_MaxSessionDuration := Some (1000 * Second)\<rparr>)),
      hd_build := sampleEnv\<lparr>be_now := 1000 * Second, be_publicKey := samplePem\<rparr>\<rparr>"

abbreviation aliceSandbox :: string where
  "aliceSandbox \<equiv> ''py-'' @ RandString 8 (be_draws sampleEnv)"

lemma alice_token: "\<exists>tok. GenerateToken boxJwt sampleManager (1000 * Second) (identityClaims aliceClaims) = Inr tok"
  by (simp add: GenerateToken_def boxJwt_def sampleManager_def Let_def)

lemma alice_resolves:
  "resolveSandboxOwnerID boxJwt boxKeys (1000 * Second) samplePem aliceHeader = (''alice'', 0, [])"
proof -
  obtain tok where "GenerateToken boxJwt sampleManager (1000 * Second) (identityClaims aliceClaims) = Inr tok"
    using alice_token by blast
  then show ?thesis
    using identity_resolves [OF box.jwt_library_axioms sample_tokens(1,2), of "1000 * Second" aliceClaims tok
        "1000 * Second" aliceHeader "\<lambda>_. []"]
    by (simp add: aliceHeader_def aliceClaims_def jwtExpiration_def Unix_def go_simps)
qed

lemma alice_build:
  "\<exists>sb en. buildForKind aliceDeps \<lparr>req_Kind = CodeInterpreterKind, req_Name = ''py'', req_Namespace = ''default''\<rparr> ''alice'' =
     Inr (sb, None, en) \<and> sample_creation sb (en\<lparr>en_OwnerID := ''alice''\<rparr>)"
proof -
  have pem: "samplePem \<noteq> []"
    using box.public_pem(1) [OF sample_tokens(2)] by simp
  let ?req = "\<lparr>req_Kind = CodeInterpreterKind, req_Name = ''py'', req_Namespace = ''default''\<rparr>"
  obtain sb en where b: "buildForKind aliceDeps ?req ''alice'' = Inr (sb, None, en)"
      and sb: "\<exists>p. sb = buildSandboxObject (\<lambda>s. s) (1000 * Second) p \<and> bp_ttl p = 1000 * Second"
    using pem
    by (force simp: buildForKind_def aliceDeps_def memDeps_def sampleEnv_def build_ci_simps sampleInterpreter_def kind_defs)
  have "sb_ShutdownTime sb = Some (2000 * Second)" "IsZero (sb_CreationTimestamp sb)"
      "sb_Annotations sb ''agents.x-k8s.io/pod-name'' = None"
    using sb by (auto simp: buildSandboxObject_def Let_def zeroSandbox_def IsZero_def label_keys Second_def)
  then have "sample_creation sb (en\<lparr>en_OwnerID := ''alice''\<rparr>)"
    using buildForKind_facts [OF b]
    by unfold_locales (auto simp: entryFits_def aliceDeps_def sampleEnv_def safe_sid_def)
  then show ?thesis
    using b by blast
qed

lemma alice_creates:
  "\<exists>resp hs'. handleSandboxCreate aliceDeps memServer (memEnv ''default'' aliceSandbox) (\<lambda>r. r) aliceRequest
     CodeInterpreterKind (memState (startWorld (Some newPod))) = Some (CreatedJSON resp, hs')"
proof -
  obtain sb en where b: "buildForKind aliceDeps \<lparr>req_Kind = CodeInterpreterKind, req_Name = ''py'', req_Namespace = ''default''\<rparr>
        ''alice'' = Inr (sb, None, en)" and sc: "sample_creation sb (en\<lparr>en_OwnerID := ''alice''\<rparr>)"
    using alice_build by blast
  have "sb_Name sb = aliceSandbox"
    using buildForKind_facts [OF b] by (simp add: aliceDeps_def)
  then obtain r w' where "createSandbox_srv std_apierrors noRetry memServer (memEnv ''default'' aliceSandbox) memCluster
      sb None (en\<lparr>en_OwnerID := ''alice''\<rparr>) True (startWorld (Some newPod)) = Some (Inr r, w')"
    using sample_creation.create_new_ok [OF sc] by auto
  then show ?thesis
    using b alice_resolves
    by (auto simp: handleSandboxCreate_def aliceRequest_def createRequest_def Validate_def memState_def startWorld_facts
        memEnv_def [THEN arg_cong [where f = rq_now]] aliceDeps_def memDeps_def chooseClient_def memServer_def kind_defs
        Let_def)
qed

end
