(* ===== verification/InformersProps.thy ===== *)
theory InformersProps
  imports Informers
begin

text \<open>
  Correctness of the shared informer factory: one informer per type, at most one run of an informer,
  the wait group counts the goroutines that run, nothing starts after \<open>Shutdown\<close>; and what the Workload
  Manager gets from it.
\<close>

subsection \<open>Steps of a factory\<close>

text \<open>A constructor of informers makes one new object.\<close>

definition allocates :: "('c \<Rightarrow> Duration \<Rightarrow> ('c, 'q, 'lw, 'tr, 'ch) sharedInformerFactory \<Rightarrow>
    ('lw, 'tr) SharedIndexInformer \<times> ('c, 'q, 'lw, 'tr, 'ch) sharedInformerFactory) \<Rightarrow> bool" where
  "allocates newFunc \<longleftrightarrow> (\<forall>c d f. \<exists>i. newFunc c d f = (i, f\<lparr>fw_next := Suc (fw_next f)\<rparr>) \<and> si_id i = fw_next f)"

inductive factoryStep :: "('c, 'q, 'lw, 'tr, 'ch) sharedInformerFactory \<Rightarrow>
    ('c, 'q, 'lw, 'tr, 'ch) sharedInformerFactory \<Rightarrow> bool" where
  fs_informerFor: "allocates newFunc \<Longrightarrow> factoryStep f (snd (InformerFor t newFunc f))"
| fs_start: "set ord = dom (f_informers f) \<Longrightarrow> factoryStep f (Start ord stopCh f)"
| fs_returns: "g \<in> set (fw_live f) \<Longrightarrow> factoryStep f (runReturns g f)"
| fs_shutdown: "factoryStep f (Shutdown f)"

lemma agentRuntime_allocates: "allocates (agentRuntime_defaultInformer gt acc)"
  by (simp add: allocates_def agentRuntime_defaultInformer_def NewFilteredAgentRuntimeInformer_def
      NewSharedIndexInformer_def Let_def)

lemma codeInterpreter_allocates: "allocates (codeInterpreter_defaultInformer gt acc)"
  by (simp add: allocates_def codeInterpreter_defaultInformer_def NewFilteredCodeInterpreterInformer_def
      NewSharedIndexInformer_def Let_def)

text \<open>\<open>ForResource\<close> takes such steps only.\<close>

lemma ForResource_steps:
  assumes "ForResource gt gvrText r f = (g, f')"
  shows "factoryStep\<^sup>*\<^sup>* f f'"
proof -
  have s: "factoryStep f (snd (agentRuntime_Informer gt acc f))"
    "factoryStep f (snd (codeInterpreter_Informer gt acc f))" for acc
    by (simp_all add: agentRuntime_Informer_def codeInterpreter_Informer_def agentRuntime_allocates
        codeInterpreter_allocates fs_informerFor)
  have "f' = f \<or> f' = snd (agentRuntime_Informer gt (version_AgentRuntimes (V1alpha1 (Runtime f))) f) \<or>
      f' = snd (codeInterpreter_Informer gt (version_CodeInterpreters (V1alpha1 (Runtime f))) f)"
    using assms by (auto simp: ForResource_def case_prod_beta split: if_splits)
  then show ?thesis using s by (auto intro: r_into_rtranclp)
qed

subsection \<open>The invariant\<close>

definition started :: "('c, 'q, 'lw, 'tr, 'ch) sharedInformerFactory \<Rightarrow> nat set" where
  "started f = {si_id i | t i. f_informers f t = Some i \<and> f_startedInformers f t = Some True}"

definition idsDistinct :: "('c, 'q, 'lw, 'tr, 'ch) sharedInformerFactory \<Rightarrow> bool" where
  "idsDistinct f \<longleftrightarrow> (\<forall>t i. f_informers f t = Some i \<longrightarrow> si_id i < fw_next f) \<and>
     (\<forall>t u i j. f_informers f t = Some i \<longrightarrow> f_informers f u = Some j \<longrightarrow> si_id i = si_id j \<longrightarrow> t = u)"

definition runsOnce :: "('c, 'q, 'lw, 'tr, 'ch) sharedInformerFactory \<Rightarrow> bool" where
  "runsOnce f \<longleftrightarrow> fst ` set (fw_log f) = started f \<and> distinct (map fst (fw_log f))"

definition wgCounts :: "('c, 'q, 'lw, 'tr, 'ch) sharedInformerFactory \<Rightarrow> bool" where
  "wgCounts f \<longleftrightarrow> set (fw_live f) \<subseteq> set (fw_log f) \<and> f_wg f = length (fw_live f)"

definition startedKnown :: "('c, 'q, 'lw, 'tr, 'ch) sharedInformerFactory \<Rightarrow> bool" where
  "startedKnown f \<longleftrightarrow> (\<forall>t. f_startedInformers f t = Some True \<longrightarrow> t \<in> dom (f_informers f))"

definition factoryInv :: "('c, 'q, 'lw, 'tr, 'ch) sharedInformerFactory \<Rightarrow> bool" where
  "factoryInv f \<longleftrightarrow> idsDistinct f \<and> startedKnown f \<and> runsOnce f \<and> wgCounts f"

lemmas inv_defs = factoryInv_def idsDistinct_def startedKnown_def runsOnce_def wgCounts_def

lemma InformerFor_cases:
  assumes "allocates newFunc"
  obtains (known) i where "f_informers f t = Some i" "InformerFor t newFunc f = (i, f)"
  | (made) i where "f_informers f t = None" "si_id i = fw_next f"
      "InformerFor t newFunc f = (i, f\<lparr>fw_next := Suc (fw_next f), f_informers := (f_informers f)(t \<mapsto> i)\<rparr>)"
proof (cases "f_informers f t")
  case (Some i)
  then show ?thesis using known by (simp add: InformerFor_def)
next
  case None
  obtain i where "newFunc (f_client f)
      (case f_customResync f t of Some d \<Rightarrow> d | None \<Rightarrow> f_defaultResync f) f =
      (i, f\<lparr>fw_next := Suc (fw_next f)\<rparr>)" "si_id i = fw_next f"
    using assms unfolding allocates_def by blast
  then show ?thesis
    using made [of "i\<lparr>si_transform := f_transform f\<rparr>"] None by (simp add: InformerFor_def Let_def)
qed

lemma inv_InformerFor:
  assumes a: "allocates newFunc" and inv: "factoryInv f"
  shows "factoryInv (snd (InformerFor t newFunc f))"
using a
proof (cases rule: InformerFor_cases [where f = f and t = t])
  case (known i)
  then show ?thesis using inv by simp
next
  case (made i)
  let ?f = "f\<lparr>fw_next := Suc (fw_next f), f_informers := (f_informers f)(t \<mapsto> i)\<rparr>"
  have lt: "f_informers f u = Some j \<Longrightarrow> si_id j < fw_next f" for u j
    using inv by (auto simp: inv_defs)
  have "f_startedInformers f t \<noteq> Some True" using inv made(1) by (auto simp: inv_defs)
  then have "started ?f = started f" by (auto simp: started_def made(1))
  moreover have "idsDistinct ?f"
    unfolding idsDistinct_def
  proof (intro conjI allI impI)
    fix u j assume "f_informers ?f u = Some j"
    then show "si_id j < fw_next ?f" using lt [of u j] made(2) by (auto split: if_splits)
  next
    fix u v j k assume "f_informers ?f u = Some j" "f_informers ?f v = Some k" "si_id j = si_id k"
    moreover have "f_informers f u = Some j \<Longrightarrow> f_informers f v = Some k \<Longrightarrow> si_id j = si_id k \<Longrightarrow> u = v"
      using inv unfolding factoryInv_def idsDistinct_def by blast
    ultimately show "u = v" using lt [of u j] lt [of v k] made(2) by (auto split: if_splits)
  qed
  ultimately show ?thesis using inv made
    by (auto simp: factoryInv_def startedKnown_def runsOnce_def wgCounts_def)
qed

text \<open>One turn of the loop of \<open>Start\<close>.\<close>

definition startOne :: "'ch \<Rightarrow> objType \<Rightarrow> ('c, 'q, 'lw, 'tr, 'ch) factoryOption" where
  "startOne stopCh t f = (case f_informers f t of None \<Rightarrow> f
     | Some i \<Rightarrow> if f_startedInformers f t \<noteq> Some True then
         f\<lparr>f_wg := f_wg f + 1, fw_live := (si_id i, stopCh) # fw_live f,
           fw_log := (si_id i, stopCh) # fw_log f,
           f_startedInformers := (f_startedInformers f)(t \<mapsto> True)\<rparr>
       else f)"

lemma startLoop_fold: "startLoop stopCh ord f = fold (startOne stopCh) ord f"
  by (induction ord arbitrary: f) (simp_all add: startOne_def)

lemma startOne_informers [simp]: "f_informers (startOne stopCh t f) = f_informers f"
  by (simp add: startOne_def split: option.split)

lemma inv_startOne:
  assumes inv: "factoryInv f"
  shows "factoryInv (startOne stopCh t f)"
proof (cases "f_informers f t")
  case None
  then show ?thesis using inv by (simp add: startOne_def)
next
  case (Some i)
  show ?thesis
  proof (cases "f_startedInformers f t = Some True")
    case True
    then show ?thesis using inv Some by (simp add: startOne_def)
  next
    case False
    let ?f = "startOne stopCh t f"
    have "started ?f = insert (si_id i) (started f)"
      using Some False by (auto simp: started_def startOne_def)
    moreover have "si_id i \<notin> started f"
    proof
      assume "si_id i \<in> started f"
      then obtain u j where u: "f_informers f u = Some j" "si_id j = si_id i" "f_startedInformers f u = Some True"
        by (auto simp: started_def)
      have "u = t" using inv u(1,2) Some unfolding factoryInv_def idsDistinct_def by blast
      then show False using u(3) False by simp
    qed
    ultimately show ?thesis
      using inv Some False by (auto simp: inv_defs startOne_def)
  qed
qed

lemma inv_Start: "factoryInv f \<Longrightarrow> factoryInv (Start ord stopCh f)"
proof -
  have "factoryInv f \<Longrightarrow> factoryInv (fold (startOne stopCh) ord f)"
    by (induction ord arbitrary: f) (simp_all add: inv_startOne)
  then show "factoryInv f \<Longrightarrow> factoryInv (Start ord stopCh f)" by (simp add: Start_def startLoop_fold)
qed

lemma inv_runReturns: "g \<in> set (fw_live f) \<Longrightarrow> factoryInv f \<Longrightarrow> factoryInv (runReturns g f)"
  using set_remove1_subset [of g "fw_live f"]
  by (auto simp: inv_defs runReturns_def started_def length_remove1)

lemma inv_Shutdown: "factoryInv f \<Longrightarrow> factoryInv (Shutdown f)"
  by (simp add: inv_defs Shutdown_def started_def)

lemma factoryStep_inv: "factoryStep f f' \<Longrightarrow> factoryInv f \<Longrightarrow> factoryInv f'"
  by (induction rule: factoryStep.induct)
    (simp_all add: inv_InformerFor inv_Start inv_runReturns inv_Shutdown)

lemma factorySteps_inv: "factoryStep\<^sup>*\<^sup>* f f' \<Longrightarrow> factoryInv f \<Longrightarrow> factoryInv f'"
  by (induction rule: rtranclp_induct) (simp_all add: factoryStep_inv)

subsection \<open>What only grows and what stops\<close>

lemma startOne_log: "f_shuttingDown (startOne stopCh t f) = f_shuttingDown f"
  by (simp add: startOne_def split: option.split)

lemma fold_startOne_informers [simp]: "f_informers (fold (startOne stopCh) ord f) = f_informers f"
  by (induction ord arbitrary: f) simp_all

lemma Start_informers [simp]: "f_informers (Start ord stopCh f) = f_informers f"
  by (simp add: Start_def startLoop_fold)

lemma InformerFor_grows:
  assumes "allocates newFunc"
  shows "f_informers f \<subseteq>\<^sub>m f_informers (snd (InformerFor t newFunc f))"
    "f_shuttingDown (snd (InformerFor t newFunc f)) = f_shuttingDown f"
    "fw_log (snd (InformerFor t newFunc f)) = fw_log f" "f_wg (snd (InformerFor t newFunc f)) = f_wg f"
proof -
  have "f_informers f \<subseteq>\<^sub>m f_informers (snd (InformerFor t newFunc f)) \<and>
    f_shuttingDown (snd (InformerFor t newFunc f)) = f_shuttingDown f \<and>
    fw_log (snd (InformerFor t newFunc f)) = fw_log f \<and> f_wg (snd (InformerFor t newFunc f)) = f_wg f"
    using assms
    by (cases rule: InformerFor_cases [where f = f and t = t]) (auto simp: map_le_def)
  then show "f_informers f \<subseteq>\<^sub>m f_informers (snd (InformerFor t newFunc f))"
    "f_shuttingDown (snd (InformerFor t newFunc f)) = f_shuttingDown f"
    "fw_log (snd (InformerFor t newFunc f)) = fw_log f" "f_wg (snd (InformerFor t newFunc f)) = f_wg f"
    by auto
qed

definition later :: "('c, 'q, 'lw, 'tr, 'ch) sharedInformerFactory \<Rightarrow>
    ('c, 'q, 'lw, 'tr, 'ch) sharedInformerFactory \<Rightarrow> bool" where
  "later f f' \<longleftrightarrow> f_informers f \<subseteq>\<^sub>m f_informers f' \<and>
     (f_shuttingDown f \<longrightarrow> f_shuttingDown f' \<and> fw_log f' = fw_log f \<and> f_wg f' \<le> f_wg f)"

lemma factoryStep_later: "factoryStep f f' \<Longrightarrow> later f f'"
  by (induction rule: factoryStep.induct)
    (simp_all add: later_def InformerFor_grows, simp_all add: Start_def runReturns_def Shutdown_def)

lemma factorySteps_later: "factoryStep\<^sup>*\<^sup>* f f' \<Longrightarrow> later f f'"
proof (induction rule: rtranclp_induct)
  case base
  show ?case by (simp add: later_def)
next
  case (step g h)
  then show ?case using factoryStep_later [of g h] by (auto simp: later_def intro: map_le_trans)
qed

lemma new_inv: "factoryInv (NewFilteredSharedInformerFactory client resync ns tweak)"
  by (simp add: NewFilteredSharedInformerFactory_def NewSharedInformerFactoryWithOptions_def
      WithNamespace_def WithTweakListOptions_def inv_defs started_def)

subsection \<open>Starting\<close>

lemma startOne_started:
  "f_informers f t = Some i \<Longrightarrow> f_startedInformers (startOne stopCh t f) t = Some True"
  by (simp add: startOne_def)

lemma startOne_keeps:
  "f_startedInformers f t = Some True \<Longrightarrow> f_startedInformers (startOne stopCh u f) t = Some True"
  by (simp add: startOne_def split: option.split)

lemma fold_startOne_keeps:
  "f_startedInformers f t = Some True \<Longrightarrow> f_startedInformers (fold (startOne stopCh) ord f) t = Some True"
  by (induction ord arbitrary: f) (simp_all add: startOne_keeps)

lemma fold_startOne_started:
  "t \<in> set ord \<Longrightarrow> f_informers f t = Some i \<Longrightarrow>
     f_startedInformers (fold (startOne stopCh) ord f) t = Some True"
  by (induction ord arbitrary: f) (auto simp: startOne_started fold_startOne_keeps)

text \<open>After \<open>Start\<close> every informer requested so far runs or has run.\<close>

lemma Start_all:
  assumes "factoryInv f" "\<not> f_shuttingDown f" "set ord = dom (f_informers f)"
  shows "fst ` set (fw_log (Start ord stopCh f)) = si_id ` ran (f_informers f)"
proof -
  let ?f = "Start ord stopCh f"
  have "f_startedInformers ?f t = Some True" if "f_informers f t = Some i" for t i
    using that assms(2,3) fold_startOne_started [of t ord f i]
    by (auto simp: Start_def startLoop_fold)
  then have "started ?f = si_id ` ran (f_informers f)"
    by (auto simp: started_def ran_def)
  then show ?thesis using inv_Start [OF assms(1), of ord stopCh] by (simp add: factoryInv_def runsOnce_def)
qed

lemma startOne_channel: "set (fw_log (startOne stopCh t f)) \<subseteq> set (fw_log f) \<union> UNIV \<times> {stopCh}"
  by (auto simp: startOne_def split: option.splits)

lemma fold_startOne_channel:
  "set (fw_log (fold (startOne stopCh) ord f)) \<subseteq> set (fw_log f) \<union> UNIV \<times> {stopCh}"
proof (induction ord arbitrary: f)
  case (Cons t ord)
  show ?case using Cons.IH [of "startOne stopCh t f"] startOne_channel [of stopCh t f] by auto
qed simp

lemma Start_first:
  assumes "factoryInv f" "\<not> f_shuttingDown f" "set ord = dom (f_informers f)" "fw_log f = []"
  shows "set (fw_log (Start ord stopCh f)) = (\<lambda>i. (si_id i, stopCh)) ` ran (f_informers f)"
proof -
  let ?log = "set (fw_log (Start ord stopCh f))"
  have "?log \<subseteq> UNIV \<times> {stopCh}"
    using fold_startOne_channel [of stopCh ord f] assms(2,4) by (simp add: Start_def startLoop_fold)
  then have "?log = (\<lambda>n. (n, stopCh)) ` fst ` ?log" by force
  then show ?thesis unfolding Start_all [OF assms(1-3)] by (simp add: image_image)
qed

lemma Start_waits:
  assumes "\<not> f_shuttingDown f" "set ord = dom (f_informers f)"
  shows "dom (factoryWaitForCacheSync hasSynced (Start ord stopCh f)) = dom (f_informers f)"
proof -
  have "f_startedInformers (Start ord stopCh f) t = Some True" if "f_informers f t = Some i" for t i
    using that assms fold_startOne_started [of t ord f i] by (auto simp: Start_def startLoop_fold)
  then show ?thesis
    by (auto simp: factoryWaitForCacheSync_def split: option.splits if_splits)
qed

text \<open>The factory of the Workload Manager after \<open>NewInformers\<close>.\<close>

definition plainListWatch where
  "plainListWatch gt typed = \<lparr>lw_ListFunc = gt_List gt typed (gt_Background gt),
     lw_WatchFunc = gt_Watch gt typed (gt_Background gt), lw_ListWithContextFunc = gt_List gt typed,
     lw_WatchFuncWithContext = gt_Watch gt typed\<rparr>"

definition sharedInformer where
  "sharedInformer gt client typed n t =
     \<lparr>si_id = n, si_lw = gt_ToListWatcher gt (plainListWatch gt typed) client,
      si_type = t, si_resync = 0, si_indexers = [NamespaceIndex], si_transform = None\<rparr>"

lemma agentRuntime_Informer_known:
  "f_informers f TAgentRuntime = Some i \<Longrightarrow> agentRuntime_Informer gt acc f = (i, f)"
  by (simp add: agentRuntime_Informer_def InformerFor_def)

lemma codeInterpreter_Informer_known:
  "f_informers f TCodeInterpreter = Some i \<Longrightarrow> codeInterpreter_Informer gt acc f = (i, f)"
  by (simp add: codeInterpreter_Informer_def InformerFor_def)

lemma agentRuntime_Informer_new:
  assumes "f_informers f TAgentRuntime = None" "f_customResync f = Map.empty" "f_transform f = None"
    "f_defaultResync f = 0" "ia_tweakListOptions acc = None"
  shows "agentRuntime_Informer gt acc f =
    (let i = sharedInformer gt (f_client f) (AgentRuntimes (Some (RuntimeV1alpha1 (f_client f))) (ia_namespace acc))
           (fw_next f) TAgentRuntime
     in (i, f\<lparr>fw_next := Suc (fw_next f), f_informers := (f_informers f)(TAgentRuntime \<mapsto> i)\<rparr>))"
  using assms
  by (simp add: agentRuntime_Informer_def InformerFor_def agentRuntime_defaultInformer_def
      NewFilteredAgentRuntimeInformer_def NewSharedIndexInformer_def applyTweak_def sharedInformer_def
      plainListWatch_def Let_def)

lemma codeInterpreter_Informer_new:
  assumes "f_informers f TCodeInterpreter = None" "f_customResync f = Map.empty" "f_transform f = None"
    "f_defaultResync f = 0" "ia_tweakListOptions acc = None"
  shows "codeInterpreter_Informer gt acc f =
    (let i = sharedInformer gt (f_client f) (CodeInterpreters (Some (RuntimeV1alpha1 (f_client f))) (ia_namespace acc))
           (fw_next f) TCodeInterpreter
     in (i, f\<lparr>fw_next := Suc (fw_next f), f_informers := (f_informers f)(TCodeInterpreter \<mapsto> i)\<rparr>))"
  using assms
  by (simp add: codeInterpreter_Informer_def InformerFor_def codeInterpreter_defaultInformer_def
      NewFilteredCodeInterpreterInformer_def NewSharedIndexInformer_def applyTweak_def sharedInformer_def
      plainListWatch_def Let_def)

lemma new_fields [simp]:
  "f_informers (NewSharedInformerFactory client 0) = Map.empty"
  "f_customResync (NewSharedInformerFactory client 0) = Map.empty"
  "f_transform (NewSharedInformerFactory client 0) = None"
  "f_defaultResync (NewSharedInformerFactory client 0) = 0"
  "f_tweakListOptions (NewSharedInformerFactory client 0) = None"
  "f_namespace (NewSharedInformerFactory client 0) = NamespaceAll"
  "f_client (NewSharedInformerFactory client 0) = client"
  "fw_next (NewSharedInformerFactory client 0) = 0"
  "fw_log (NewSharedInformerFactory client 0) = []"
  "fw_live (NewSharedInformerFactory client 0) = []"
  "f_wg (NewSharedInformerFactory client 0) = 0"
  "f_startedInformers (NewSharedInformerFactory client 0) = Map.empty"
  "\<not> f_shuttingDown (NewSharedInformerFactory client 0)"
  by (simp_all add: NewSharedInformerFactory_def NewSharedInformerFactoryWithOptions_def)

lemma NewInformers_value:
  assumes "NewInformers gt podInformer coreFactory (NewSharedInformerFactory client 0) = (ifm, f)"
  shows "if_AgentRuntimeInformer ifm =
      sharedInformer gt client (AgentRuntimes (Some (RuntimeV1alpha1 client)) NamespaceAll) 0 TAgentRuntime"
    and "if_CodeInterpreterInformer ifm =
      sharedInformer gt client (CodeInterpreters (Some (RuntimeV1alpha1 client)) NamespaceAll) 1 TCodeInterpreter"
    and "if_AgentRuntimeLister ifm = NewAgentRuntimeLister 0"
    and "if_CodeInterpreterLister ifm = NewCodeInterpreterLister 1"
    and "f = (NewSharedInformerFactory client 0)\<lparr>fw_next := 2,
      f_informers := [TAgentRuntime \<mapsto> if_AgentRuntimeInformer ifm,
        TCodeInterpreter \<mapsto> if_CodeInterpreterInformer ifm]\<rparr>"
  using assms
  by (auto simp: NewInformers_def agentRuntime_Lister_def codeInterpreter_Lister_def
      agentRuntime_Informer_new codeInterpreter_Informer_new agentRuntime_Informer_known
      codeInterpreter_Informer_known Let_def GetIndexer_def version_AgentRuntimes_def
      version_CodeInterpreters_def V1alpha1_def Runtime_def sharedInformer_def numeral_2_eq_2)

lemma NewInformers_factory:
  assumes "NewInformers gt podInformer coreFactory (NewSharedInformerFactory client 0) = (ifm, f)"
  shows "f_informers f = [TAgentRuntime \<mapsto> if_AgentRuntimeInformer ifm,
        TCodeInterpreter \<mapsto> if_CodeInterpreterInformer ifm]"
    and "\<not> f_shuttingDown f" "fw_log f = []" "factoryInv f"
    and "si_id (if_AgentRuntimeInformer ifm) = 0" "si_id (if_CodeInterpreterInformer ifm) = 1"
    and "ls_indexer (if_AgentRuntimeLister ifm) = 0" "ls_indexer (if_CodeInterpreterLister ifm) = 1"
    and "si_resync (if_AgentRuntimeInformer ifm) = 0" "si_resync (if_CodeInterpreterInformer ifm) = 0"
    and "si_lw (if_AgentRuntimeInformer ifm) = gt_ToListWatcher gt
      (plainListWatch gt (AgentRuntimes (Some (RuntimeV1alpha1 client)) NamespaceAll)) client"
    and "si_lw (if_CodeInterpreterInformer ifm) = gt_ToListWatcher gt
      (plainListWatch gt (CodeInterpreters (Some (RuntimeV1alpha1 client)) NamespaceAll)) client"
proof -
  note v = NewInformers_value [OF assms]
  show "f_informers f = [TAgentRuntime \<mapsto> if_AgentRuntimeInformer ifm,
      TCodeInterpreter \<mapsto> if_CodeInterpreterInformer ifm]" "\<not> f_shuttingDown f" "fw_log f = []"
    by (simp_all add: v(5))
  show "factoryInv f"
    by (auto simp: v inv_defs started_def sharedInformer_def split: if_splits)
qed (simp_all add: NewInformers_value(1-4) [OF assms] sharedInformer_def NewAgentRuntimeLister_def
    NewCodeInterpreterLister_def)

text \<open>What \<open>NewInformers\<close> makes and \<open>run\<close> starts, on a new factory.\<close>

lemma informers_started:
  assumes new: "NewInformers gt podInformer coreFactory (NewSharedInformerFactory client 0) = (ifm, f)"
    and ord: "set ord = {TAgentRuntime, TCodeInterpreter}"
    and run: "Informers_run startCore ord stopCh ifm f = (core, f')"
  shows "set (fw_log f') = {(si_id (if_AgentRuntimeInformer ifm), stopCh),
        (si_id (if_CodeInterpreterInformer ifm), stopCh)} \<and>
    distinct (map fst (fw_log f')) \<and>
    ls_indexer (if_AgentRuntimeLister ifm) = si_id (if_AgentRuntimeInformer ifm) \<and>
    ls_indexer (if_CodeInterpreterLister ifm) = si_id (if_CodeInterpreterInformer ifm) \<and>
    si_id (if_AgentRuntimeInformer ifm) \<noteq> si_id (if_CodeInterpreterInformer ifm) \<and>
    si_resync (if_AgentRuntimeInformer ifm) = 0 \<and> si_resync (if_CodeInterpreterInformer ifm) = 0 \<and>
    si_lw (if_AgentRuntimeInformer ifm) = gt_ToListWatcher gt
      (plainListWatch gt (AgentRuntimes (Some (RuntimeV1alpha1 client)) NamespaceAll)) client \<and>
    si_lw (if_CodeInterpreterInformer ifm) = gt_ToListWatcher gt
      (plainListWatch gt (CodeInterpreters (Some (RuntimeV1alpha1 client)) NamespaceAll)) client \<and>
    dom (factoryWaitForCacheSync hasSynced f') = {TAgentRuntime, TCodeInterpreter}"
proof -
  note n = NewInformers_factory [OF new]
  have d: "dom (f_informers f) = {TAgentRuntime, TCodeInterpreter}" by (auto simp: n(1))
  have f': "f' = Start ord stopCh f" using run by (simp add: Informers_run_def)
  have "ran (f_informers f) = {if_AgentRuntimeInformer ifm, if_CodeInterpreterInformer ifm}"
    by (auto simp: n(1) ran_def)
  then have "set (fw_log f') = {(si_id (if_AgentRuntimeInformer ifm), stopCh),
        (si_id (if_CodeInterpreterInformer ifm), stopCh)}"
    using Start_first [OF n(4,2) _ n(3), of ord stopCh] ord d f' by auto
  moreover have "distinct (map fst (fw_log f'))"
    using inv_Start [OF n(4), of ord stopCh] by (simp add: f' factoryInv_def runsOnce_def)
  moreover have "dom (factoryWaitForCacheSync hasSynced f') = {TAgentRuntime, TCodeInterpreter}"
    using Start_waits [OF n(2), of ord hasSynced stopCh] ord d by (simp add: f')
  ultimately show ?thesis using n by simp
qed

subsection \<open>Properties\<close>

text \<open>C26: whatever sequence of \<open>InformerFor\<close>, \<open>Start\<close>, \<open>Shutdown\<close> and returns of \<open>Run\<close> a factory goes
  through, in any order of its map loops: each informer's \<open>Run\<close> is called at most once, different
  types have different informers, the wait group counts exactly the goroutines still running, so a
  \<open>Shutdown\<close> that returned leaves none behind.  An informer handed out once is the one handed out
  ever after, and once \<open>Shutdown\<close> was called nothing is started any more.\<close>

theorem factory_runs_once:
  assumes "factoryStep\<^sup>*\<^sup>* (NewFilteredSharedInformerFactory client resync ns tweak) f"
    and "factoryStep\<^sup>*\<^sup>* f f'"
  shows "distinct (map fst (fw_log f)) \<and> f_wg f = length (fw_live f) \<and>
    (ShutdownReturns f \<longrightarrow> fw_live f = []) \<and>
    (\<forall>t u i j. f_informers f t = Some i \<and> f_informers f u = Some j \<and> si_id i = si_id j \<longrightarrow> t = u) \<and>
    f_informers f \<subseteq>\<^sub>m f_informers f' \<and>
    (f_shuttingDown f \<longrightarrow> f_shuttingDown f' \<and> fw_log f' = fw_log f \<and> f_wg f' \<le> f_wg f)"
  using factorySteps_inv [OF assms(1) new_inv] factorySteps_later [OF assms(2)]
  by (simp add: inv_defs later_def ShutdownReturns_def)

text \<open>Concrete clients: the answer of a list call tells which resource, namespace and options it got.\<close>

definition echoGentype :: "(string, unit, string, unit, nat, string \<times> string \<times> string, unit,
    (string, unit, nat, string \<times> string \<times> string, unit) ListWatch) gentype" where
  "echoGentype = \<lparr>gt_List = (\<lambda>tc ctx q w. (Inr (tc_resource tc, tc_namespace tc, q), w + 1)),
     gt_Watch = (\<lambda>tc ctx q w. (Inr (), w)), gt_Background = (),
     gt_ToListWatcher = (\<lambda>lw client. lw)\<rparr>"

definition echoClientset :: "(string, unit) Clientset" where
  "echoClientset = \<lparr>cs_DiscoveryClient = (), cs_runtimeV1alpha1 = \<lparr>rv_restClient = ''rest''\<rparr>\<rparr>"

type_synonym echoFactory =
  "((string, unit) Clientset, string, (string, unit, nat, string \<times> string \<times> string, unit) ListWatch,
    unit, string) sharedInformerFactory"

theorem factory_runs_once_witness:
  "let f0 = NewFilteredSharedInformerFactory echoClientset 0 ''ns'' None;
       f1 = snd (agentRuntime_Informer echoGentype \<lparr>ia_tweakListOptions = None, ia_namespace = ''ns''\<rparr> f0) in
     distinct (map fst (fw_log (Start [TAgentRuntime] ''stop'' f1 :: echoFactory)))"
proof -
  let ?acc = "\<lparr>ia_tweakListOptions = None, ia_namespace = ''ns''\<rparr>"
  let ?f0 = "NewFilteredSharedInformerFactory echoClientset 0 ''ns'' None :: echoFactory"
  let ?f1 = "snd (agentRuntime_Informer echoGentype ?acc ?f0)"
  have s1: "factoryStep ?f0 ?f1"
    unfolding agentRuntime_Informer_def by (rule fs_informerFor [OF agentRuntime_allocates])
  have "set [TAgentRuntime] = dom (f_informers ?f1)"
    by (simp add: agentRuntime_Informer_new NewFilteredSharedInformerFactory_def Let_def
        NewSharedInformerFactoryWithOptions_def WithNamespace_def WithTweakListOptions_def)
  then have s2: "factoryStep ?f1 (Start [TAgentRuntime] ''stop'' ?f1)" by (rule fs_start)
  have "factoryStep\<^sup>*\<^sup>* ?f0 (Start [TAgentRuntime] ''stop'' ?f1)" using s1 s2 by auto
  from factory_runs_once [OF this rtranclp.rtrancl_refl] show ?thesis by (simp add: Let_def)
qed

end
