(* ===== verification/K8sClient.thy ===== *)
theory K8sClient
  imports Caches Waiting InformersProps
begin

text \<open>
  The rest of \<open>pkg/workloadmanager/k8s_client.go\<close>: \<open>NewK8sClient\<close>, which loads a configuration and builds
  every client and informer factory from it, the clients that act with a user's token, and
  \<open>WaitForSandboxReady\<close>.  The loaders of a configuration, the constructors of \<open>k8s.io/client-go\<close> and the
  registration of the agent-sandbox types are the parameters \<open>clientEnv\<close>.
\<close>

subsection \<open>\<open>NewK8sClient\<close>\<close>

record ('o, 'l, 'kc, 'dc, 'cf, 'pi, 'pl, 'df) clientEnv =
  ne_InClusterConfig :: "('o, 'l) restConfig res"
  ne_KubeConfig :: "('o, 'l) restConfig res"
  ne_kubernetesNewForConfig :: "('o, 'l) restConfig \<Rightarrow> 'kc res"
  ne_dynamicNewForConfig :: "('o, 'l) restConfig \<Rightarrow> 'dc res"
  ne_addSandboxTypes :: "gerr option"
  ne_NewSharedInformerFactory :: "'kc \<Rightarrow> Duration \<Rightarrow> 'cf"
  ne_Pods :: "'cf \<Rightarrow> 'pi \<times> 'pl"
  ne_NewDynamicSharedInformerFactory :: "'dc \<Rightarrow> Duration \<Rightarrow> 'df"

record 'dc UserK8sClient =
  uk_dynamicClient :: 'dc
  uk_namespace :: string

record ('o, 'l, 'kc, 'r, 'd, 'dc, 'cf, 'pi, 'pl, 'df, 'q, 'lw, 'tr, 'ch) K8sClient =
  k8_clientset :: 'kc
  k8_cubeClientset :: "('r, 'd) Clientset"
  k8_dynamicClient :: 'dc
  k8_baseConfig :: "('o, 'l) restConfig"
  k8_clientCache :: "'dc UserK8sClient ClientCache"
  k8_dynamicInformer :: 'df
  k8_informerFactory :: 'cf
  k8_cubeInformerFactory :: "(('r, 'd) Clientset, 'q, 'lw, 'tr, 'ch) sharedInformerFactory"
  k8_podInformer :: 'pi
  k8_podLister :: 'pl

definition loadConfig :: "('o, 'l, 'kc, 'dc, 'cf, 'pi, 'pl, 'df) clientEnv \<Rightarrow> ('o, 'l) restConfig res" where
  "loadConfig env =
     (case ne_InClusterConfig env of
        Inr config \<Rightarrow> Inr config
      | Inl e \<Rightarrow>
          (case ne_KubeConfig env of
             Inl e \<Rightarrow> Inl (ErrWrap ''failed to load kubeconfig'' e)
           | Inr config \<Rightarrow> Inr config))"

definition NewK8sClient where
  "NewK8sClient lib env =
     (case loadConfig env of
        Inl e \<Rightarrow> Inl e
      | Inr config \<Rightarrow>
          let config = config\<lparr>rc_QPS := 50\<rparr>;
              config = config\<lparr>rc_Burst := 100\<rparr>
          in (case ne_kubernetesNewForConfig env config of
                Inl e \<Rightarrow> Inl (ErrWrap ''failed to create clientset'' e)
              | Inr clientset \<Rightarrow>
                  (case csNewForConfig lib config of
                     Inl e \<Rightarrow> Inl (ErrWrap ''failed to create typed versioned clientset'' e)
                   | Inr cubeClientset \<Rightarrow>
                       (case ne_dynamicNewForConfig env config of
                          Inl e \<Rightarrow> Inl (ErrWrap ''failed to create dynamic client'' e)
                        | Inr dynamicClient \<Rightarrow>
                            (case ne_addSandboxTypes env of
                               Some e \<Rightarrow> Inl (ErrWrap ''failed to add agent-sandbox scheme'' e)
                             | None \<Rightarrow>
                                 let informerFactory = ne_NewSharedInformerFactory env clientset 0;
                                     cubeInformerFactory = NewSharedInformerFactory cubeClientset 0;
                                     (podInformer, podLister) = ne_Pods env informerFactory
                                 in Inr \<lparr>k8_clientset = clientset, k8_cubeClientset = cubeClientset,
                                      k8_dynamicClient = dynamicClient, k8_baseConfig = config,
                                      k8_clientCache = NewClientCache 100,
                                      k8_dynamicInformer =
                                        ne_NewDynamicSharedInformerFactory env dynamicClient 0,
                                      k8_informerFactory = informerFactory,
                                      k8_cubeInformerFactory = cubeInformerFactory,
                                      k8_podInformer = podInformer, k8_podLister = podLister\<rparr>)))))"

text \<open>\<open>forResource\<close> is the method of the dynamic informer factory followed by \<open>Informer()\<close>.\<close>

definition GetSandboxInformer where
  "GetSandboxInformer forResource c = forResource (k8_dynamicInformer c) SandboxGVR"

subsection \<open>Clients with a user's token\<close>

definition userConfig :: "('o, 'l) restConfig \<Rightarrow> string \<Rightarrow> ('o, 'l) restConfig" where
  "userConfig baseConfig userToken =
     (let config = baseConfig;
          config = config\<lparr>rc_BearerToken := userToken\<rparr>
      in config\<lparr>rc_BearerTokenFile := []\<rparr>)"

definition NewUserK8sClient where
  "NewUserK8sClient env c userToken namespace =
     (let config = userConfig (k8_baseConfig c) userToken in
      case ne_dynamicNewForConfig env config of
        Inl e \<Rightarrow> Inl (ErrWrap ''failed to create dynamic client with user token'' e)
      | Inr dynamicClient \<Rightarrow> Inr \<lparr>uk_dynamicClient = dynamicClient, uk_namespace = namespace\<rparr>)"

definition user_CreateSandboxClaim :: "'w cluster UserK8sClient \<Rightarrow> SandboxClaim \<Rightarrow> 'w \<Rightarrow> gerr option \<times> 'w" where
  "user_CreateSandboxClaim u sandboxClaim w = createSandboxClaim (uk_dynamicClient u) sandboxClaim w"

definition user_CreateSandbox :: "'w cluster UserK8sClient \<Rightarrow> Sandbox \<Rightarrow> 'w \<Rightarrow> createdInfo res \<times> 'w" where
  "user_CreateSandbox u sandbox w = createSandbox (uk_dynamicClient u) sandbox w"

definition user_DeleteSandbox :: "apierrors \<Rightarrow> 'w cluster UserK8sClient \<Rightarrow> string \<Rightarrow> string \<Rightarrow> 'w \<Rightarrow>
    gerr option \<times> 'w" where
  "user_DeleteSandbox ae u namespace sandboxName w =
     deleteSandbox ae (uk_dynamicClient u) namespace sandboxName w"

definition user_DeleteSandboxClaim :: "apierrors \<Rightarrow> 'w cluster UserK8sClient \<Rightarrow> string \<Rightarrow> string \<Rightarrow> 'w \<Rightarrow>
    gerr option \<times> 'w" where
  "user_DeleteSandboxClaim ae u namespace sandboxClaimName w =
     deleteSandboxClaim ae (uk_dynamicClient u) namespace sandboxClaimName w"

subsection \<open>\<open>WaitForSandboxReady\<close>\<close>

text \<open>\<open>wr_select\<close> is the \<open>select\<close> over the context of the given deadline and the \<open>k\<close>-th tick of the ticker
  made at a time (\<open>True\<close>: the context is done); \<open>wr_nestedMap\<close> and \<open>wr_nestedString\<close> are the lookups of
  package \<open>unstructured\<close>, whose second result tells whether the field was found.\<close>

record ('w, 'ob) readyEnv =
  wr_now :: "'w \<Rightarrow> Time"
  wr_select :: "Time \<Rightarrow> Time \<Rightarrow> nat \<Rightarrow> 'w \<Rightarrow> bool \<times> 'w"
  wr_get :: "GroupVersionResource \<Rightarrow> string \<Rightarrow> string \<Rightarrow> 'w \<Rightarrow> 'ob res \<times> 'w"
  wr_nestedMap :: "'ob \<Rightarrow> string \<Rightarrow> ('ob \<times> bool) res"
  wr_nestedString :: "'ob \<Rightarrow> string \<Rightarrow> (string \<times> bool) res"

definition readyPhase :: "('w, 'ob) readyEnv \<Rightarrow> 'ob \<Rightarrow> bool" where
  "readyPhase env sandbox =
     (case wr_nestedMap env sandbox ''status'' of
        Inl e \<Rightarrow> False
      | Inr (status, found) \<Rightarrow>
          if \<not> found then False
          else
            (case wr_nestedString env status ''phase'' of
               Inl e \<Rightarrow> False
             | Inr (phase, found) \<Rightarrow>
                 if \<not> found then False else phase = ''Running'' \<or> phase = ''Ready''))"

partial_function (option) readyLoop :: "('w, 'ob) readyEnv \<Rightarrow> string \<Rightarrow> string \<Rightarrow> Time \<Rightarrow> Time \<Rightarrow> nat \<Rightarrow>
    'w \<Rightarrow> (gerr option \<times> 'w) option" where
  "readyLoop env namespace sandboxName deadline tickerMade k w =
     (case wr_select env deadline tickerMade k w of
        (ended, w1) \<Rightarrow>
          if ended then Some (Some (ErrMsg ''timeout waiting for sandbox to be ready''), w1)
          else (case wr_get env SandboxGVR namespace sandboxName w1 of
             (Inl e, w2) \<Rightarrow> readyLoop env namespace sandboxName deadline tickerMade (Suc k) w2
           | (Inr sandbox, w2) \<Rightarrow>
               if readyPhase env sandbox then Some (None, w2)
               else readyLoop env namespace sandboxName deadline tickerMade (Suc k) w2))"

definition WaitForSandboxReady :: "('w, 'ob) readyEnv \<Rightarrow> string \<Rightarrow> string \<Rightarrow> Duration \<Rightarrow> 'w \<Rightarrow>
    (gerr option \<times> 'w) option" where
  "WaitForSandboxReady env namespace sandboxName timeout w =
     readyLoop env namespace sandboxName (wr_now env w + timeout) (wr_now env w) 0 w"

text \<open>It returns nil only after a read that found the phase \<open>Running\<close> or \<open>Ready\<close>, and every error is the
  timeout.\<close>

lemma readyLoop_result:
  assumes "readyLoop env ns n deadline made k w = Some (r, w')"
  shows "case r of
      None \<Rightarrow> \<exists>w1 ob. wr_get env SandboxGVR ns n w1 = (Inr ob, w') \<and> readyPhase env ob
    | Some e \<Rightarrow> e = ErrMsg ''timeout waiting for sandbox to be ready''"
proof -
  have "case fst y of
      None \<Rightarrow> \<exists>w1 ob. wr_get env SandboxGVR ns n w1 = (Inr ob, snd y) \<and> readyPhase env ob
    | Some e \<Rightarrow> e = ErrMsg ''timeout waiting for sandbox to be ready''"
    if "readyLoop env ns n deadline made k w = Some y" for y
  proof (rule readyLoop.raw_induct [where P = "\<lambda>env ns n deadline made k w y. case fst y of
        None \<Rightarrow> \<exists>w1 ob. wr_get env SandboxGVR ns n w1 = (Inr ob, snd y) \<and> readyPhase env ob
      | Some e \<Rightarrow> e = ErrMsg ''timeout waiting for sandbox to be ready''", OF _ that], goal_cases)
    case (1 loop env ns n deadline made k w y)
    obtain b w1 where s: "wr_select env deadline made k w = (b, w1)" by fastforce
    obtain r w2 where g: "wr_get env SandboxGVR ns n w1 = (r, w2)" by fastforce
    show ?case
    proof (cases "b \<or> (\<exists>ob. r = Inr ob \<and> readyPhase env ob)")
      case True
      then show ?thesis using 1(2) s g by (auto split: if_splits intro!: exI [of _ w1])
    next
      case False
      then have "loop env ns n deadline made (Suc k) w2 = Some y"
        using 1(2) s g by (auto split: sum.splits if_splits)
      then show ?thesis by (rule 1(1))
    qed
  qed
  from this [OF assms] show ?thesis by (auto split: option.splits)
qed

text \<open>It returns if the random choice of \<open>select\<close> does not prefer the ticker for ever once the context is
  done: from some time \<open>late\<close> on, the context is taken.\<close>

lemma readyLoop_returns:
  assumes tick: "\<And>k w w'. wr_select env deadline made k w = (False, w') \<Longrightarrow>
      made + int (Suc k) * (2 * Second) \<le> wr_now env w'"
    and get: "\<And>w r w'. wr_get env SandboxGVR ns n w = (r, w') \<Longrightarrow> wr_now env w \<le> wr_now env w'"
    and fair: "\<And>k w. late \<le> wr_now env w \<Longrightarrow> fst (wr_select env deadline made k w)"
    and start: "made + int k * (2 * Second) \<le> wr_now env w"
  shows "\<exists>y. readyLoop env ns n deadline made k w = Some y"
  using start
proof (induction "nat (late - (made + int k * (2 * Second)))" arbitrary: k w rule: less_induct)
  case less
  obtain b w1 where s: "wr_select env deadline made k w = (b, w1)" by fastforce
  obtain r w2 where g: "wr_get env SandboxGVR ns n w1 = (r, w2)" by fastforce
  show ?case
  proof (cases b)
    case True
    then show ?thesis using s by (subst readyLoop.simps) simp
  next
    case False
    then have "wr_now env w < late" using fair [of w k] s by force
    then have "nat (late - (made + int (Suc k) * (2 * Second))) < nat (late - (made + int k * (2 * Second)))"
      using less.prems by (simp add: Second_def)
    moreover have "made + int (Suc k) * (2 * Second) \<le> wr_now env w2"
      using tick [of k w w1] get [OF g] s False by simp
    ultimately show ?thesis
      using less.hyps [of "Suc k" w2] s g False by (subst readyLoop.simps) (auto split: sum.split)
  qed
qed

subsection \<open>What the clients are built from\<close>

text \<open>The configuration every client of the Workload Manager gets.\<close>

definition limitedConfig :: "('o, 'l) restConfig \<Rightarrow> ('o, 'l) restConfig" where
  "limitedConfig c = c\<lparr>rc_QPS := 50, rc_Burst := 100\<rparr>"

lemma NewK8sClient_parts:
  assumes "NewK8sClient lib env = Inr c"
  obtains c0 cs where "loadConfig env = Inr c0" "csNewForConfig lib (limitedConfig c0) = Inr cs"
    "k8_cubeClientset c = cs" "k8_baseConfig c = limitedConfig c0"
    "ne_kubernetesNewForConfig env (limitedConfig c0) = Inr (k8_clientset c)"
    "ne_dynamicNewForConfig env (limitedConfig c0) = Inr (k8_dynamicClient c)"
    "k8_cubeInformerFactory c = NewSharedInformerFactory cs 0" "k8_clientCache c = NewClientCache 100"
proof -
  obtain c0 where c0: "loadConfig env = Inr c0"
    using assms by (auto simp: NewK8sClient_def split: sum.splits)
  have l: "c0\<lparr>rc_QPS := 50, rc_Burst := 100\<rparr> = limitedConfig c0" by (simp add: limitedConfig_def)
  have "\<exists>cs. csNewForConfig lib (limitedConfig c0) = Inr cs \<and> k8_cubeClientset c = cs \<and>
    k8_baseConfig c = limitedConfig c0 \<and>
    ne_kubernetesNewForConfig env (limitedConfig c0) = Inr (k8_clientset c) \<and>
    ne_dynamicNewForConfig env (limitedConfig c0) = Inr (k8_dynamicClient c) \<and>
    k8_cubeInformerFactory c = NewSharedInformerFactory cs 0 \<and> k8_clientCache c = NewClientCache 100"
    using assms
    by (auto simp: NewK8sClient_def c0 Let_def l split: sum.splits option.splits prod.splits)
  then show ?thesis using that c0 by blast
qed

text \<open>The rate limits \<open>NewK8sClient\<close> sets are never the ones the clientset refuses.\<close>

lemma limited_accepted: "withRateLimiter lib (limitedConfig c) \<noteq> Inl e"
  by (simp add: withRateLimiter_refused limitedConfig_def)

text \<open>Clients that show what they were made from: outside a cluster, with a kubeconfig.\<close>

definition plainConfig :: "(string, rat \<times> int) restConfig" where
  "plainConfig = \<lparr>rc_UserAgent = [], rc_QPS = 0, rc_Burst = 0, rc_RateLimiter = None, rc_BearerToken = ''sa'',
     rc_BearerTokenFile = ''/var/run/token'', rc_GroupVersion = None, rc_APIPath = [],
     rc_NegotiatedSerializer = [], rc_Other = ''https://host''\<rparr>"

definition plainLib :: "(string, rat \<times> int, unit, string, string) restLib" where
  "plainLib = \<lparr>rl_DefaultKubernetesUserAgent = ''agent'', rl_CodecsWithoutConversion = ''json'',
     rl_HTTPClientFor = (\<lambda>c. Inr ()), rl_RESTClientForConfigAndClient = (\<lambda>c h. Inr (rc_UserAgent c)),
     rl_NewTokenBucketRateLimiter = Pair, rl_NewDiscoveryClientForConfigAndClient = (\<lambda>c h. Inr (rc_Other c)),
     rl_NewDiscoveryClient = (\<lambda>r. r)\<rparr>"

definition plainClientEnv ::
  "(string, rat \<times> int, string, string, string, string, string, string) clientEnv" where
  "plainClientEnv = \<lparr>ne_InClusterConfig = Inl (ErrMsg ''not in cluster''), ne_KubeConfig = Inr plainConfig,
     ne_kubernetesNewForConfig = (\<lambda>c. Inr (rc_Other c)), ne_dynamicNewForConfig = (\<lambda>c. Inr (rc_BearerToken c)),
     ne_addSandboxTypes = None, ne_NewSharedInformerFactory = (\<lambda>k d. k), ne_Pods = (\<lambda>f. (f, f)),
     ne_NewDynamicSharedInformerFactory = (\<lambda>k d. k)\<rparr>"

lemma plain_client: "\<exists>c. NewK8sClient plainLib plainClientEnv = Inr c"
  by (simp add: NewK8sClient_def loadConfig_def plainClientEnv_def plainLib_def plainConfig_def Let_def
      csNewForConfig_def csNewForConfigAndClient_def withRateLimiter_def runtimeNewForConfigAndClient_def)

subsection \<open>Properties\<close>

text \<open>C37: when \<open>NewK8sClient\<close> succeeds, the REST client of the typed clientset was made from the loaded
  configuration (in-cluster if there is one, the kubeconfig otherwise) with a token bucket of 50
  queries per second and burst 100 unless the configuration brought its own limiter, for the group
  \<open>runtime.agentcube.volcano.sh/v1alpha1\<close> under \<open>/apis\<close>, never with an empty user agent; the other
  fields are the loaded ones.  The configuration kept for user clients has the same limits, and a
  user client is made from it with the user's token as the only bearer token.\<close>

theorem newk8sclient_config:
  assumes "NewK8sClient lib env = Inr c" and "rl_DefaultKubernetesUserAgent lib \<noteq> []"
  shows "\<exists>c0 h config. loadConfig env = Inr c0 \<and>
    rl_RESTClientForConfigAndClient lib config h = Inr (rv_restClient (RuntimeV1alpha1 (k8_cubeClientset c))) \<and>
    rc_RateLimiter config = Some (case rc_RateLimiter c0 of
      Some l \<Rightarrow> l | None \<Rightarrow> rl_NewTokenBucketRateLimiter lib 50 100) \<and>
    rc_GroupVersion config =
      Some \<lparr>gn_Group = ''runtime.agentcube.volcano.sh'', gn_Version = ''v1alpha1''\<rparr> \<and>
    rc_APIPath config = ''/apis'' \<and> rc_UserAgent config \<noteq> [] \<and>
    rc_BearerToken config = rc_BearerToken c0 \<and> rc_Other config = rc_Other c0 \<and>
    (\<forall>token ns u. NewUserK8sClient env c token ns = Inr u \<longrightarrow> uk_namespace u = ns \<and>
      (\<exists>uc. ne_dynamicNewForConfig env uc = Inr (uk_dynamicClient u) \<and> rc_BearerToken uc = token \<and>
        rc_BearerTokenFile uc = [] \<and> rc_QPS uc = 50 \<and> rc_Burst uc = 100 \<and> rc_Other uc = rc_Other c0))"
proof -
  obtain c0 cs where c: "loadConfig env = Inr c0" "csNewForConfig lib (limitedConfig c0) = Inr cs"
    "k8_cubeClientset c = cs" "k8_baseConfig c = limitedConfig c0"
    using assms(1) by (rule NewK8sClient_parts)
  obtain h where h: "rl_RESTClientForConfigAndClient lib (effectiveConfig lib (limitedConfig c0)) h =
      Inr (rv_restClient (RuntimeV1alpha1 cs))"
    using csNewForConfig_client [OF c(2) assms(2)] by blast
  have u: "uk_namespace u = ns \<and> (\<exists>uc. ne_dynamicNewForConfig env uc = Inr (uk_dynamicClient u) \<and>
      rc_BearerToken uc = token \<and> rc_BearerTokenFile uc = [] \<and> rc_QPS uc = 50 \<and> rc_Burst uc = 100 \<and>
      rc_Other uc = rc_Other c0)" if "NewUserK8sClient env c token ns = Inr u" for token ns u
    using that
    by (auto simp: NewUserK8sClient_def c(4) Let_def userConfig_def limitedConfig_def split: sum.splits)
  show ?thesis
  proof (rule exI [of _ c0], rule exI [of _ h], rule exI [of _ "effectiveConfig lib (limitedConfig c0)"],
      intro conjI allI impI)
    show "rl_RESTClientForConfigAndClient lib (effectiveConfig lib (limitedConfig c0)) h =
      Inr (rv_restClient (RuntimeV1alpha1 (k8_cubeClientset c)))" using h c(3) by simp
    fix token ns u assume "NewUserK8sClient env c token ns = Inr u"
    from u [OF this] show "uk_namespace u = ns" by simp
    from u [OF \<open>NewUserK8sClient env c token ns = Inr u\<close>]
    show "\<exists>uc. ne_dynamicNewForConfig env uc = Inr (uk_dynamicClient u) \<and>
      rc_BearerToken uc = token \<and> rc_BearerTokenFile uc = [] \<and> rc_QPS uc = 50 \<and> rc_Burst uc = 100 \<and>
      rc_Other uc = rc_Other c0" by simp
  qed (use c(1) in \<open>auto simp: effectiveConfig_def limitedConfig_def assms(2)
      SchemeGroupVersion_def v1alpha1_GroupVersion_def split: option.split\<close>)
qed

theorem newk8sclient_config_witness:
  "\<exists>c :: (string, rat \<times> int, string, string, string, string, string, string, string, string, unit, unit,
      unit, unit) K8sClient.
    NewK8sClient plainLib plainClientEnv = Inr c \<and>
    NewUserK8sClient plainClientEnv c ''token'' ''ns'' = Inr \<lparr>uk_dynamicClient = ''token'', uk_namespace = ''ns''\<rparr>"
proof -
  obtain c :: "(string, rat \<times> int, string, string, string, string, string, string, string, string, unit, unit,
      unit, unit) K8sClient" where c: "NewK8sClient plainLib plainClientEnv = Inr c"
    using plain_client by blast
  have a: "rl_DefaultKubernetesUserAgent plainLib \<noteq> []" by (simp add: plainLib_def)
  have dyn: "ne_dynamicNewForConfig plainClientEnv = (\<lambda>c. Inr (rc_BearerToken c))"
    by (simp add: plainClientEnv_def)
  obtain u where u: "NewUserK8sClient plainClientEnv c ''token'' ''ns'' = Inr u"
    by (simp add: NewUserK8sClient_def dyn)
  have "uk_namespace u = ''ns'' \<and> uk_dynamicClient u = ''token''"
    using newk8sclient_config [OF c a] u unfolding dyn by (metis sum.inject(2))
  then have "u = \<lparr>uk_dynamicClient = ''token'', uk_namespace = ''ns''\<rparr>" by (cases u) simp
  then show ?thesis using c u by blast
qed





end
