(* ===== verification/Mains.thy ===== *)
theory Mains
  imports WmServer RouterProps PicodProps
begin

text \<open>
  The entry points of the Router and of PicoD (\<open>cmd/router/main.go\<close>, \<open>cmd/picod/main.go\<close>) up to the server they
  start: the flags, the checks of the mutual TLS files and the construction of the server.  The \<open>select\<close> that
  follows is in theory \<open>Lifecycle\<close>; the entry point of the Workload Manager is in theory \<open>WmServer\<close>.
  \<open>klog.Fatalf\<close> ends the process: \<open>Inl\<close>.
\<close>

subsection \<open>The Router\<close>

record routerFlags =
  rf_port :: string
  rf_enableTLS :: bool
  rf_tlsCert :: string
  rf_tlsKey :: string
  rf_debug :: bool
  rf_maxConcurrentRequests :: int
  rf_mtlsCert :: string
  rf_mtlsKey :: string
  rf_mtlsCA :: string
  rf_jwtIssuerURL :: string
  rf_jwtAudience :: string
  rf_jwtRoleClaim :: string
  rf_jwtRequiredRole :: string

text \<open>The values without a command line.\<close>

definition defaultRouterFlags :: routerFlags where
  "defaultRouterFlags =
     \<lparr>rf_port = ''8080'', rf_enableTLS = False, rf_tlsCert = [], rf_tlsKey = [], rf_debug = False,
      rf_maxConcurrentRequests = 1000, rf_mtlsCert = [], rf_mtlsKey = [], rf_mtlsCA = [],
      rf_jwtIssuerURL = [], rf_jwtAudience = ''agentcube-api'', rf_jwtRoleClaim = [], rf_jwtRequiredRole = []\<rparr>"

definition routerTLSConfigOf :: "routerFlags \<Rightarrow> mtlsConfig" where
  "routerTLSConfigOf f = \<lparr>mc_CertFile = rf_mtlsCert f, mc_KeyFile = rf_mtlsKey f, mc_CAFile = rf_mtlsCA f\<rparr>"

definition routerConfigOf :: "routerFlags \<Rightarrow> routerConfig" where
  "routerConfigOf f =
     \<lparr>rc_Port = rf_port f, rc_Debug = rf_debug f, rc_EnableTLS = rf_enableTLS f, rc_TLSCert = rf_tlsCert f,
      rc_TLSKey = rf_tlsKey f, rc_MaxConcurrentRequests = rf_maxConcurrentRequests f,
      rc_InitialConnectRetryCount = 0, rc_InitialConnectRetryInterval = 0,
      rc_MTLSConfig = routerTLSConfigOf f, rc_JWTIssuerURL = rf_jwtIssuerURL f,
      rc_JWTAudience = rf_jwtAudience f, rc_JWTRoleClaim = rf_jwtRoleClaim f,
      rc_JWTRequiredRole = rf_jwtRequiredRole f\<rparr>"

definition main_router :: "('w, 'p) serverDeps \<Rightarrow> routerFlags \<Rightarrow> gerr option \<Rightarrow> 'w \<Rightarrow>
    'w routerServer res \<times> 'w" where
  "main_router d f waited w =
     (let tlsConfig = routerTLSConfigOf f in
      case validateMTLSFlags tlsConfig of
        Some e \<Rightarrow> (Inl (ErrWrap ''Invalid mTLS configuration'' e), w)
      | None \<Rightarrow>
          (case (if mc_CertFile tlsConfig \<noteq> [] \<and> mc_KeyFile tlsConfig \<noteq> [] \<and> mc_CAFile tlsConfig \<noteq> []
              then waited else None) of
             Some e \<Rightarrow> (Inl (ErrWrap ''Invalid mTLS configuration'' e), w)
           | None \<Rightarrow>
               (case NewServer_router d (Some (routerConfigOf f)) w of
                  (Inl e, w1) \<Rightarrow> (Inl (ErrWrap ''Failed to create Router API server'' e), w1)
                | (Inr server, w1) \<Rightarrow> (Inr server, w1))))"

text \<open>A Router that starts verifies the tokens of its users exactly if an issuer was given, and then for a role
  that was named; its mutual TLS files were given together and had appeared.\<close>

lemma main_router_auth:
  assumes "main_router d f waited w = (Inr s, w')"
  shows "(rs_oidcValidator s \<noteq> None \<longleftrightarrow> rf_jwtIssuerURL f \<noteq> [])"
    and "rf_jwtIssuerURL f \<noteq> [] \<Longrightarrow> rf_jwtRoleClaim f \<noteq> [] \<and> rf_jwtRequiredRole f \<noteq> []"
    and "rs_jwtManager s \<noteq> None"
    and "(rf_mtlsCert f = []) = (rf_mtlsKey f = []) \<and> (rf_mtlsKey f = []) = (rf_mtlsCA f = [])"
    and "rf_mtlsCA f \<noteq> [] \<Longrightarrow> waited = None"
proof -
  have v: "validateMTLSFlags (routerTLSConfigOf f) = None"
    using assms by (auto simp: main_router_def Let_def split: option.splits)
  then show "(rf_mtlsCert f = []) = (rf_mtlsKey f = []) \<and> (rf_mtlsKey f = []) = (rf_mtlsCA f = [])"
    by (auto simp: validateMTLSFlags_def routerTLSConfigOf_def split: if_splits)
  with assms v show "rf_mtlsCA f \<noteq> [] \<Longrightarrow> waited = None"
    by (auto simp: main_router_def Let_def routerTLSConfigOf_def split: option.splits if_splits)
  have n: "NewServer_router d (Some (routerConfigOf f)) w = (Inr s, w')"
    using assms v by (auto simp: main_router_def Let_def split: option.splits if_splits prod.splits sum.splits)
  have c: "rc_JWTIssuerURL (configDefaults (routerConfigOf f)) = rf_jwtIssuerURL f"
    "rc_JWTRoleClaim (configDefaults (routerConfigOf f)) = rf_jwtRoleClaim f"
    "rc_JWTRequiredRole (configDefaults (routerConfigOf f)) = rf_jwtRequiredRole f"
    by (simp_all add: configDefaults_def routerConfigOf_def Let_def)
  show "(rs_oidcValidator s \<noteq> None \<longleftrightarrow> rf_jwtIssuerURL f \<noteq> [])"
    "rf_jwtIssuerURL f \<noteq> [] \<Longrightarrow> rf_jwtRoleClaim f \<noteq> [] \<and> rf_jwtRequiredRole f \<noteq> []" "rs_jwtManager s \<noteq> None"
    using n by (auto simp: NewServer_router_def Let_def c split: sum.splits prod.splits option.splits if_splits)
qed

subsection \<open>PicoD\<close>

record picodFlags =
  pf_port :: int
  pf_workspace :: string

definition defaultPicodFlags :: picodFlags where
  "defaultPicodFlags = \<lparr>pf_port = 8080, pf_workspace = []\<rparr>"

definition main_picod :: "keyLib \<Rightarrow> picodEnv \<Rightarrow> picodFlags \<Rightarrow> string \<Rightarrow> fsys \<Rightarrow> (picodServer \<times> string) res \<times> fsys" where
  "main_picod kl env f keyData fs =
     (case NewServer_picod kl env (pf_workspace f) keyData fs of
        (Inl e, fs1) \<Rightarrow> (Inl e, fs1)
      | (Inr server, fs1) \<Rightarrow> (Inr (server, '':'' @ Itoa (pf_port f)), fs1))"

end
