(* ===== verification/GoHeap.thy ===== *)
theory GoHeap
  imports Prelude "HOL-Library.State_Monad" "HOL-Library.DAList"
begin

text \<open>
  Go's memory where sharing matters.  A heap maps addresses to cells; \<open>new\<close> and \<open>make\<close> take the next
  unused address.  A pointer is an address or nil, a slice a header over an array cell, a map an
  address of a map cell.  The theory states what a deep copy promises (locale \<open>deep_copy\<close>): the copy
  has the value of the original, it reaches only cells allocated during the copy, and no cell that
  existed before is changed.  The promise is proved once for each way of building Go types: scalars,
  structs (as pairs, then along an isomorphism), pointers, slices and maps.
\<close>

subsection \<open>Heap, pointers, slices\<close>

record 'c heap =
  cells :: "nat \<Rightarrow> 'c"
  lim :: nat

type_synonym ptr = "nat option"

record sliceHdr =
  sl_arr :: nat
  sl_off :: nat
  sl_len :: nat

type_synonym gslice = "sliceHdr option"
type_synonym gomap = "(string, string) alist"

text \<open>An allocation that already holds the value the code writes into it next: nothing else can
  refer to the cell in between.\<close>

definition new :: "'c \<Rightarrow> ('c heap, nat) state" where
  "new c = do {
     h \<leftarrow> State_Monad.get;
     State_Monad.set (h\<lparr>cells := (cells h)(lim h := c), lim := Suc (lim h)\<rparr>);
     State_Monad.return (lim h) }"

definition assign :: "nat \<Rightarrow> 'c \<Rightarrow> 'c heap \<Rightarrow> 'c heap" where
  "assign a c h = h\<lparr>cells := (cells h)(a := c)\<rparr>"

definition sliceElems :: "('c \<Rightarrow> 't list) \<Rightarrow> 'c heap \<Rightarrow> sliceHdr \<Rightarrow> 't list" where
  "sliceElems un h s = take (sl_len s) (drop (sl_off s) (un (cells h (sl_arr s))))"

subsection \<open>The statements of a generated copy\<close>

text \<open>\<open>*out = new(T); (*in).DeepCopyInto(*out)\<close> under \<open>if in != nil\<close>; \<open>un\<close> and \<open>mk\<close> read and make
  the cell of the pointer's type.\<close>

definition copyPtr :: "('c \<Rightarrow> 't) \<Rightarrow> ('t \<Rightarrow> 'c) \<Rightarrow> ('t \<Rightarrow> ('c heap, 't) state) \<Rightarrow> ptr \<Rightarrow>
    ('c heap, ptr) state" where
  "copyPtr un mk into p = (case p of
     None \<Rightarrow> State_Monad.return None
   | Some a \<Rightarrow> do {
       h \<leftarrow> State_Monad.get;
       v \<leftarrow> into (un (cells h a));
       b \<leftarrow> new (mk v);
       State_Monad.return (Some b) })"

text \<open>\<open>*out = make([]T, len(*in))\<close> and the loop over the elements, under \<open>if in != nil\<close>.\<close>

definition copySlice :: "('c \<Rightarrow> 't list) \<Rightarrow> ('t list \<Rightarrow> 'c) \<Rightarrow> ('t \<Rightarrow> ('c heap, 't) state) \<Rightarrow>
    gslice \<Rightarrow> ('c heap, gslice) state" where
  "copySlice un mk into s = (case s of
     None \<Rightarrow> State_Monad.return None
   | Some sh \<Rightarrow> do {
       h \<leftarrow> State_Monad.get;
       ys \<leftarrow> State_Monad.traverse_list into (sliceElems un h sh);
       b \<leftarrow> new (mk ys);
       State_Monad.return (Some \<lparr>sl_arr = b, sl_off = 0, sl_len = sl_len sh\<rparr>) })"

text \<open>\<open>for key, val := range *in { (*out)[key] = val }\<close> into an empty map; the pairs are taken in the
  order in which the map holds them, Go's order being unspecified.\<close>

definition rangeAssign :: "gomap \<Rightarrow> gomap" where
  "rangeAssign m = fold (\<lambda>(k, v) out. DAList.update k v out) (DAList.impl_of m) DAList.empty"

definition copyMap :: "('c \<Rightarrow> gomap) \<Rightarrow> (gomap \<Rightarrow> 'c) \<Rightarrow> ptr \<Rightarrow> ('c heap, ptr) state" where
  "copyMap un mk p = copyPtr un mk (\<lambda>m. State_Monad.return (rangeAssign m)) p"

subsection \<open>Values and footprints\<close>

text \<open>The value a datum has in a heap, and the addresses it reaches.\<close>

definition denPtr :: "('c \<Rightarrow> 't) \<Rightarrow> ('c heap \<Rightarrow> 't \<Rightarrow> 'v) \<Rightarrow> 'c heap \<Rightarrow> ptr \<Rightarrow> 'v option" where
  "denPtr un den h p = map_option (\<lambda>a. den h (un (cells h a))) p"

definition footPtr :: "('c \<Rightarrow> 't) \<Rightarrow> ('c heap \<Rightarrow> 't \<Rightarrow> nat set) \<Rightarrow> 'c heap \<Rightarrow> ptr \<Rightarrow> nat set" where
  "footPtr un foot h p = (case p of None \<Rightarrow> {} | Some a \<Rightarrow> insert a (foot h (un (cells h a))))"

definition denSlice :: "('c \<Rightarrow> 't list) \<Rightarrow> ('c heap \<Rightarrow> 't \<Rightarrow> 'v) \<Rightarrow> 'c heap \<Rightarrow> gslice \<Rightarrow>
    'v list option" where
  "denSlice un den h s = map_option (\<lambda>sh. map (den h) (sliceElems un h sh)) s"

definition footSlice :: "('c \<Rightarrow> 't list) \<Rightarrow> ('c heap \<Rightarrow> 't \<Rightarrow> nat set) \<Rightarrow> 'c heap \<Rightarrow> gslice \<Rightarrow>
    nat set" where
  "footSlice un foot h s = (case s of None \<Rightarrow> {}
     | Some sh \<Rightarrow> insert (sl_arr sh) (\<Union>x\<in>set (sliceElems un h sh). foot h x))"

definition agree :: "nat set \<Rightarrow> 'c heap \<Rightarrow> 'c heap \<Rightarrow> bool" where
  "agree A h h' \<longleftrightarrow> (\<forall>a\<in>A. cells h' a = cells h a)"

definition extends :: "'c heap \<Rightarrow> 'c heap \<Rightarrow> bool" where
  "extends h h' \<longleftrightarrow> lim h \<le> lim h' \<and> (\<forall>a<lim h. cells h' a = cells h a)"

lemma extends_refl [simp]: "extends h h"
  by (simp add: extends_def)

lemma extends_trans [trans]: "extends h h1 \<Longrightarrow> extends h1 h2 \<Longrightarrow> extends h h2"
  by (simp add: extends_def)

lemma extends_lim: "extends h h' \<Longrightarrow> lim h \<le> lim h'"
  by (simp add: extends_def)

lemma extends_agree: "extends h h' \<Longrightarrow> A \<subseteq> {..<lim h} \<Longrightarrow> agree A h h'"
  by (auto simp: extends_def agree_def)

lemma agree_mono: "agree A h h' \<Longrightarrow> B \<subseteq> A \<Longrightarrow> agree B h h'"
  by (auto simp: agree_def)

lemma agree_assign: "a \<notin> A \<Longrightarrow> agree A h (assign a c h)"
  by (auto simp: agree_def assign_def)

lemma agree_Un: "agree (A \<union> B) h h' \<longleftrightarrow> agree A h h' \<and> agree B h h'"
  by (auto simp: agree_def)

lemma agree_insert: "agree (insert a A) h h' \<longleftrightarrow> cells h' a = cells h a \<and> agree A h h'"
  by (auto simp: agree_def)

lemma agree_UN: "agree (\<Union>x\<in>A. f x) h h' \<longleftrightarrow> (\<forall>x\<in>A. agree (f x) h h')"
  by (auto simp: agree_def)

lemma traverse_length:
  "run_state (State_Monad.traverse_list f xs) h = (ys, h') \<Longrightarrow> length ys = length xs"
  by (induction xs arbitrary: h ys) (auto split: prod.splits)

lemma run_new [simp]:
  "run_state (new c) h = (lim h, h\<lparr>cells := (cells h)(lim h := c), lim := Suc (lim h)\<rparr>)"
  by (simp add: new_def)

lemma extends_alloc: "extends h (h\<lparr>cells := (cells h)(lim h := c), lim := Suc (lim h)\<rparr>)"
  by (simp add: extends_def)

subsection \<open>What a deep copy promises\<close>

text \<open>A datum's value and footprint depend on the cells of its footprint only.\<close>

locale heap_view =
  fixes den :: "'c heap \<Rightarrow> 't \<Rightarrow> 'v"
    and foot :: "'c heap \<Rightarrow> 't \<Rightarrow> nat set"
  assumes local_den: "agree (foot h x) h h' \<Longrightarrow> den h' x = den h x"
    and local_foot: "agree (foot h x) h h' \<Longrightarrow> foot h' x = foot h x"
begin

lemma stable:
  assumes "extends h h'" "foot h x \<subseteq> {..<lim h}"
  shows "den h' x = den h x" "foot h' x = foot h x"
  using extends_agree [OF assms] by (simp_all add: local_den local_foot)

lemma stable_new:
  assumes "extends h h'" "foot h x \<subseteq> {k..<lim h}"
  shows "den h' x = den h x" "foot h' x = foot h x"
  using assms by (auto intro!: stable)

lemma assign_apart:
  assumes "a \<notin> foot h x"
  shows "den (assign a c h) x = den h x"
  using local_den [OF agree_assign [OF assms]] .

end

text \<open>\<open>y\<close> in \<open>h'\<close> is a deep copy of \<open>x\<close> in \<open>h\<close>.\<close>

definition copied :: "('c heap \<Rightarrow> 't \<Rightarrow> 'v) \<Rightarrow> ('c heap \<Rightarrow> 't \<Rightarrow> nat set) \<Rightarrow> 'c heap \<Rightarrow> 't \<Rightarrow>
    'c heap \<Rightarrow> 't \<Rightarrow> bool" where
  "copied den foot h x h' y \<longleftrightarrow> extends h h' \<and> (foot h x \<subseteq> {..<lim h} \<longrightarrow>
     den h' y = den h x \<and> foot h' y \<subseteq> {lim h..<lim h'})"

locale deep_copy = heap_view den foot
  for den :: "'c heap \<Rightarrow> 't \<Rightarrow> 'v" and foot :: "'c heap \<Rightarrow> 't \<Rightarrow> nat set" +
  fixes cp :: "'t \<Rightarrow> ('c heap, 't) state"
  assumes copies: "run_state (cp x) h = (y, h') \<Longrightarrow> copied den foot h x h' y"
begin

lemma original_kept:
  assumes "run_state (cp x) h = (y, h')" "foot h x \<subseteq> {..<lim h}"
  shows "den h' x = den h x" "foot h' x = foot h x"
proof -
  have "extends h h'" using copies [OF assms(1)] by (simp add: copied_def)
  from stable [OF this assms(2)] show "den h' x = den h x" "foot h' x = foot h x" by simp_all
qed

lemma disjoint_copy:
  assumes "run_state (cp x) h = (y, h')" "foot h x \<subseteq> {..<lim h}"
  shows "foot h' x \<inter> foot h' y = {}"
proof -
  have "foot h' x \<subseteq> {..<lim h}" using original_kept [OF assms] assms(2) by simp
  then show ?thesis using copies [OF assms(1)] assms(2) by (fastforce simp: copied_def)
qed

lemma isolated:
  assumes "run_state (cp x) h = (y, h')" "foot h x \<subseteq> {..<lim h}"
  shows "den h' y = den h x \<and> den h' x = den h x \<and> foot h' x \<inter> foot h' y = {} \<and>
    (\<forall>a c. a \<in> foot h' y \<longrightarrow> den (assign a c h') x = den h x) \<and>
    (\<forall>a c. a \<in> foot h' x \<longrightarrow> den (assign a c h') y = den h x)"
proof -
  have eq: "den h' y = den h x" using copies [OF assms(1)] assms(2) by (simp add: copied_def)
  have kept: "den h' x = den h x" by (rule original_kept(1) [OF assms])
  have d: "foot h' x \<inter> foot h' y = {}" by (rule disjoint_copy [OF assms])
  have "den (assign a c h') x = den h x" if "a \<in> foot h' y" for a c
    using assign_apart [of a h' x] that d kept by auto
  moreover have "den (assign a c h') y = den h x" if "a \<in> foot h' x" for a c
    using assign_apart [of a h' y] that d eq by auto
  ultimately show ?thesis using eq kept d by simp
qed

end

subsection \<open>The promise, type former by type former\<close>

text \<open>Two copies in sequence: the first stays a copy while the second is made.\<close>

lemma copied_seq:
  assumes v1: "heap_view den1 foot1" and v2: "heap_view den2 foot2"
    and c1: "copied den1 foot1 h x h1 x'" and c2: "copied den2 foot2 h1 y h2 y'"
  shows "copied (\<lambda>h (x, y). (den1 h x, den2 h y)) (\<lambda>h (x, y). foot1 h x \<union> foot2 h y)
    h (x, y) h2 (x', y')"
proof -
  have e1: "extends h h1" and e2: "extends h1 h2" using c1 c2 by (simp_all add: copied_def)
  have "den1 h2 x' = den1 h x \<and> den2 h2 y' = den2 h y \<and>
      foot1 h2 x' \<union> foot2 h2 y' \<subseteq> {lim h..<lim h2}"
    if f: "foot1 h x \<subseteq> {..<lim h}" "foot2 h y \<subseteq> {..<lim h}"
  proof -
    have fx: "foot1 h1 x' \<subseteq> {lim h..<lim h1}" and dx: "den1 h1 x' = den1 h x"
      using c1 f(1) by (simp_all add: copied_def)
    note y = heap_view.stable [OF v2 e1 f(2)]
    have "foot2 h1 y \<subseteq> {..<lim h1}" using y(2) f(2) extends_lim [OF e1] by auto
    then have "den2 h2 y' = den2 h y" "foot2 h2 y' \<subseteq> {lim h1..<lim h2}"
      using c2 y(1) by (simp_all add: copied_def)
    then show ?thesis
      using heap_view.stable_new [OF v1 e2 fx] fx dx extends_lim [OF e1] extends_lim [OF e2]
      by fastforce
  qed
  then show ?thesis using extends_trans [OF e1 e2] by (simp add: copied_def)
qed

text \<open>A type without pointers: assignment is a deep copy.\<close>

lemma deep_scalar: "deep_copy (\<lambda>h x. f x) (\<lambda>h x. {}) State_Monad.return"
  by unfold_locales (auto simp: copied_def)

lemma view_pair:
  assumes "heap_view den1 foot1" "heap_view den2 foot2"
  shows "heap_view (\<lambda>h (x, y). (den1 h x, den2 h y)) (\<lambda>h (x, y). foot1 h x \<union> foot2 h y)"
  using heap_view.local_den [OF assms(1)] heap_view.local_den [OF assms(2)]
    heap_view.local_foot [OF assms(1)] heap_view.local_foot [OF assms(2)]
  by unfold_locales (auto simp: agree_Un)

definition copyPair :: "('a \<Rightarrow> ('c heap, 'a) state) \<Rightarrow> ('b \<Rightarrow> ('c heap, 'b) state) \<Rightarrow> 'a \<times> 'b \<Rightarrow>
    ('c heap, 'a \<times> 'b) state" where
  "copyPair cp1 cp2 = (\<lambda>(x, y). do { x' \<leftarrow> cp1 x; y' \<leftarrow> cp2 y; State_Monad.return (x', y') })"

lemma deep_pair:
  assumes d1: "deep_copy den1 foot1 cp1" and d2: "deep_copy den2 foot2 cp2"
  shows "deep_copy (\<lambda>h (x, y). (den1 h x, den2 h y)) (\<lambda>h (x, y). foot1 h x \<union> foot2 h y)
    (copyPair cp1 cp2)"
proof -
  note v = deep_copy.axioms(1) [OF d1] deep_copy.axioms(1) [OF d2]
  show ?thesis
    by (intro deep_copy.intro view_pair v deep_copy_axioms.intro)
      (auto simp: copyPair_def split: prod.splits
        intro: copied_seq [OF v deep_copy.copies [OF d1] deep_copy.copies [OF d2]])
qed

text \<open>A struct is copied as the tuple \<open>dest s\<close> of its fields that have pointers; its other fields
  \<open>rest s\<close> are assigned.\<close>

lemma deep_struct:
  assumes d: "deep_copy den foot cp"
    and den': "\<And>h s. den' h s = g (rest s) (den h (dest s))"
    and foot': "\<And>h s. foot' h s = foot h (dest s)"
    and cp': "\<And>s h. run_state (cp' s) h = map_prod (mk s) id (run_state (cp (dest s)) h)"
    and mk: "\<And>s t. dest (mk s t) = t" "\<And>s t. rest (mk s t) = rest s"
  shows "deep_copy den' foot' cp'"
proof -
  note v = deep_copy.axioms(1) [OF d]
  have "heap_view den' foot'"
    by unfold_locales (simp_all add: den' foot' heap_view.local_den [OF v] heap_view.local_foot [OF v])
  moreover have "copied den' foot' h x h' y"
    if run: "run_state (cp' x) h = (y, h')" for x h y h'
  proof -
    obtain t where r: "run_state (cp (dest x)) h = (t, h')" "y = mk x t"
      using run unfolding cp' by (cases "run_state (cp (dest x)) h") auto
    show ?thesis using deep_copy.copies [OF d r(1)] by (simp add: copied_def den' foot' r(2) mk)
  qed
  ultimately show ?thesis by (intro deep_copy.intro deep_copy_axioms.intro)
qed

text \<open>Pointers, slices and maps: the target is a cell allocated after everything it points to has
  been copied.\<close>

lemma copied_new:
  assumes v: "heap_view den foot" and c: "copied den foot h v h1 w"
    and h2: "h2 = h1\<lparr>cells := (cells h1)(lim h1 := cell), lim := Suc (lim h1)\<rparr>"
  shows "extends h h2"
    and "foot h v \<subseteq> {..<lim h} \<Longrightarrow> den h2 w = den h v"
    and "foot h v \<subseteq> {..<lim h} \<Longrightarrow> insert (lim h1) (foot h2 w) \<subseteq> {lim h..<lim h2}"
proof -
  have e1: "extends h h1" and e2: "extends h1 h2"
    using c extends_alloc by (simp_all add: copied_def h2)
  show "extends h h2" by (rule extends_trans [OF e1 e2])
  assume "foot h v \<subseteq> {..<lim h}"
  then have f: "foot h1 w \<subseteq> {lim h..<lim h1}" and d: "den h1 w = den h v"
    using c by (simp_all add: copied_def)
  note w = heap_view.stable_new [OF v e2 f]
  show "den h2 w = den h v" using w(1) d by simp
  show "insert (lim h1) (foot h2 w) \<subseteq> {lim h..<lim h2}"
    using w(2) f extends_lim [OF e1] by (auto simp: h2)
qed

lemma deep_ptr:
  assumes d: "deep_copy den foot into" and un: "\<And>v. un (mk v) = v"
  shows "deep_copy (denPtr un den) (footPtr un foot) (copyPtr un mk into)"
proof -
  note v = deep_copy.axioms(1) [OF d]
  have "heap_view (denPtr un den) (footPtr un foot)"
    using heap_view.local_den [OF v] heap_view.local_foot [OF v]
    by unfold_locales (auto simp: denPtr_def footPtr_def agree_insert split: option.splits)
  moreover have "copied (denPtr un den) (footPtr un foot) h p h' q"
    if "run_state (copyPtr un mk into p) h = (q, h')" for p h q h'
  proof (cases p)
    case None
    then show ?thesis using that by (auto simp: copied_def copyPtr_def denPtr_def footPtr_def)
  next
    case (Some a)
    obtain w h1 where r: "run_state (into (un (cells h a))) h = (w, h1)" by fastforce
    have h': "h' = h1\<lparr>cells := (cells h1)(lim h1 := mk w), lim := Suc (lim h1)\<rparr>" "q = Some (lim h1)"
      using that by (auto simp: copyPtr_def Some r)
    show ?thesis
      using copied_new [OF v deep_copy.copies [OF d r] h'(1)]
      by (auto simp: copied_def denPtr_def footPtr_def Some h' un)
  qed
  ultimately show ?thesis by (intro deep_copy.intro deep_copy_axioms.intro)
qed

lemma view_list:
  assumes v: "heap_view den foot"
  shows "heap_view (\<lambda>h. map (den h)) (\<lambda>h xs. \<Union>x\<in>set xs. foot h x)"
  by unfold_locales
    (auto simp: agree_UN heap_view.local_den [OF v] intro!: SUP_cong heap_view.local_foot [OF v])

lemma deep_list:
  assumes d: "deep_copy den foot into"
  shows "deep_copy (\<lambda>h. map (den h)) (\<lambda>h xs. \<Union>x\<in>set xs. foot h x) (State_Monad.traverse_list into)"
proof -
  note v = deep_copy.axioms(1) [OF d]
  have "copied (\<lambda>h. map (den h)) (\<lambda>h xs. \<Union>x\<in>set xs. foot h x) h xs h' ys"
    if "run_state (State_Monad.traverse_list into xs) h = (ys, h')" for xs h ys h'
    using that
  proof (induction xs arbitrary: h ys)
    case Nil
    then show ?case by (simp add: copied_def)
  next
    case (Cons x xs)
    obtain y h1 where r1: "run_state (into x) h = (y, h1)" by fastforce
    obtain zs where r2: "run_state (State_Monad.traverse_list into xs) h1 = (zs, h')" "ys = y # zs"
      using Cons.prems by (auto simp: r1 split: prod.splits)
    show ?case
      using copied_seq [OF v view_list [OF v] deep_copy.copies [OF d r1] Cons.IH [OF r2(1)]]
      by (auto simp: copied_def r2(2))
  qed
  then show ?thesis using view_list [OF v] by (intro deep_copy.intro deep_copy_axioms.intro)
qed

lemma deep_slice:
  assumes d: "deep_copy den foot into" and un: "\<And>v. un (mk v) = v"
  shows "deep_copy (denSlice un den) (footSlice un foot) (copySlice un mk into)"
proof -
  note v0 = deep_copy.axioms(1) [OF d]
  note v = view_list [OF v0] and dl = deep_list [OF d]
  have "heap_view (denSlice un den) (footSlice un foot)"
    by unfold_locales (auto simp: denSlice_def footSlice_def sliceElems_def agree_insert agree_UN
        heap_view.local_den [OF v0] split: option.splits
        intro!: arg_cong2 [where f = insert] SUP_cong heap_view.local_foot [OF v0])
  moreover have "copied (denSlice un den) (footSlice un foot) h s h' t"
    if "run_state (copySlice un mk into s) h = (t, h')" for s h t h'
  proof (cases s)
    case None
    then show ?thesis using that by (auto simp: copied_def copySlice_def denSlice_def footSlice_def)
  next
    case (Some sh)
    obtain ys h1 where r: "run_state (State_Monad.traverse_list into (sliceElems un h sh)) h = (ys, h1)"
      by fastforce
    have h': "h' = h1\<lparr>cells := (cells h1)(lim h1 := mk ys), lim := Suc (lim h1)\<rparr>"
      and t: "t = Some \<lparr>sl_arr = lim h1, sl_off = 0, sl_len = sl_len sh\<rparr>"
      using that by (auto simp: copySlice_def Some r)
    have "length ys = length (sliceElems un h sh)" by (rule traverse_length [OF r])
    then have "length ys \<le> sl_len sh" by (simp add: sliceElems_def)
    then have "sliceElems un h' (the t) = ys" by (simp add: sliceElems_def t h' un)
    then show ?thesis
      using copied_new [OF v deep_copy.copies [OF dl r] h']
      by (auto simp: copied_def denSlice_def footSlice_def Some t)
  qed
  ultimately show ?thesis by (intro deep_copy.intro deep_copy_axioms.intro)
qed

text \<open>The loop over a map rebuilds it.\<close>

lemma lookup_fold_update:
  "DAList.lookup (fold (\<lambda>(k, v) out. DAList.update k v out) kvs m) =
     DAList.lookup m ++ map_of (rev kvs)"
proof (induction kvs arbitrary: m)
  case Nil
  show ?case by simp
next
  case (Cons kv kvs)
  then show ?case
    by (cases kv) (auto simp: Cons.IH fun_eq_iff map_add_def lookup_update split: option.split)
qed

lemma map_of_rev_distinct:
  assumes "distinct (map fst kvs)"
  shows "map_of (rev kvs) = map_of kvs"
proof -
  have "map_of (rev kvs) k = Some v \<longleftrightarrow> map_of kvs k = Some v" for k v
    using assms by (simp add: map_of_eq_Some_iff rev_map [symmetric])
  then show ?thesis by (metis ext not_Some_eq)
qed

lemma lookup_rangeAssign: "DAList.lookup (rangeAssign m) = DAList.lookup m"
proof -
  have "distinct (map fst (DAList.impl_of m))" using DAList.impl_of by auto
  moreover have "DAList.lookup DAList.empty = (Map.empty :: string \<rightharpoonup> string)" by (simp add: fun_eq_iff)
  ultimately show ?thesis
    by (simp add: rangeAssign_def lookup_fold_update map_of_rev_distinct DAList.lookup.rep_eq [of m])
qed

lemma deep_map:
  assumes "\<And>m. un (mk m) = m"
  shows "deep_copy (denPtr un (\<lambda>h. DAList.lookup)) (footPtr un (\<lambda>h m. {})) (copyMap un mk)"
proof -
  have "deep_copy (\<lambda>h. DAList.lookup) (\<lambda>h m. {}) (\<lambda>m. State_Monad.return (rangeAssign m))"
    by unfold_locales (auto simp: copied_def lookup_rangeAssign)
  from deep_ptr [OF this, of un mk, OF assms] show ?thesis by (simp add: copyMap_def [abs_def])
qed

end
