(* ===== verification/DeepCopy.thy ===== *)
theory DeepCopy
  imports K8s GoHeap
begin

text \<open>
  The generated deep copies of the API types (\<open>zz_generated.deepcopy.go\<close>).  Objects are in their
  memory layout here: a slice field is a header over an array cell, a map or pointer field an address,
  nil being \<open>None\<close>.  \<open>DeepCopyInto_T\<close> takes the struct \<open>*in\<close> and gives the struct left in \<open>*out\<close>; its
  first statement \<open>*out = *in\<close> copies the headers and addresses, so every field it forgets would stay
  shared with the original.  The structs of \<open>k8s.io/api\<close> and \<open>k8s.io/apimachinery\<close> that occur as fields
  are values of a type variable and their \<open>DeepCopyInto\<close> methods parameters (record \<open>thirdParty\<close>),
  which promise what every deep copy promises (locale \<open>third_party\<close>).  A \<open>LocalObjectReference\<close> is the
  name it consists of.
\<close>

subsection \<open>The API types in memory\<close>

record TypeMeta =
  tm_Kind :: string
  tm_APIVersion :: string

record 'x SandboxTemplateM =
  stm_Labels :: ptr
  stm_Annotations :: ptr
  stm_Spec :: 'x

record AgentRuntimeSpecM =
  arm_Ports :: gslice
  arm_Template :: ptr
  arm_SessionTimeout :: ptr
  arm_MaxSessionDuration :: ptr

record AgentRuntimeStatusM =
  arst_Conditions :: gslice

record 'x AgentRuntimeM =
  arm_TypeMeta :: TypeMeta
  arm_ObjectMeta :: 'x
  arm_Spec :: AgentRuntimeSpecM
  arm_Status :: AgentRuntimeStatusM

record 'x AgentRuntimeListM =
  arl_TypeMeta :: TypeMeta
  arl_ListMeta :: 'x
  arl_Items :: gslice

record 'x CodeInterpreterSandboxTemplateM =
  ctm_Labels :: ptr
  ctm_Annotations :: ptr
  ctm_RuntimeClassName :: ptr
  ctm_Image :: string
  ctm_ImagePullPolicy :: string
  ctm_ImagePullSecrets :: gslice
  ctm_Environment :: gslice
  ctm_Command :: gslice
  ctm_Args :: gslice
  ctm_Resources :: 'x

record CodeInterpreterSpecM =
  cim_Ports :: gslice
  cim_Template :: ptr
  cim_SessionTimeout :: ptr
  cim_MaxSessionDuration :: ptr
  cim_WarmPoolSize :: ptr
  cim_AuthMode :: string

record CodeInterpreterStatusM =
  cist_Conditions :: gslice
  cist_Ready :: bool

record 'x CodeInterpreterM =
  cim_TypeMeta :: TypeMeta
  cim_ObjectMeta :: 'x
  cim_Spec :: CodeInterpreterSpecM
  cim_Status :: CodeInterpreterStatusM

record 'x CodeInterpreterListM =
  cil_TypeMeta :: TypeMeta
  cil_ListMeta :: 'x
  cil_Items :: gslice

text \<open>What a cell can hold: the target of a pointer, the array of a slice, a map, or a cell that only
  third-party structs point to.\<close>

datatype 'x cell =
    CStr (unStr: string)
  | CInt (unInt: int)
  | CMap (unMap: gomap)
  | CStrs (unStrs: "string list")
  | CPorts (unPorts: "TargetPort list")
  | CExts (unExts: "'x list")
  | CTargetPort (unTargetPort: TargetPort)
  | CSandboxTemplate (unSandboxTemplate: "'x SandboxTemplateM")
  | CAgentRuntime (unAgentRuntime: "'x AgentRuntimeM")
  | CAgentRuntimes (unAgentRuntimes: "'x AgentRuntimeM list")
  | CAgentRuntimeList (unAgentRuntimeList: "'x AgentRuntimeListM")
  | CAgentRuntimeSpec (unAgentRuntimeSpec: AgentRuntimeSpecM)
  | CAgentRuntimeStatus (unAgentRuntimeStatus: AgentRuntimeStatusM)
  | CCodeInterpreterSandboxTemplate
      (unCodeInterpreterSandboxTemplate: "'x CodeInterpreterSandboxTemplateM")
  | CCodeInterpreter (unCodeInterpreter: "'x CodeInterpreterM")
  | CCodeInterpreters (unCodeInterpreters: "'x CodeInterpreterM list")
  | CCodeInterpreterList (unCodeInterpreterList: "'x CodeInterpreterListM")
  | CCodeInterpreterSpec (unCodeInterpreterSpec: CodeInterpreterSpecM)
  | CCodeInterpreterStatus (unCodeInterpreterStatus: CodeInterpreterStatusM)
  | CExt (unExt: 'x)

type_synonym ('x, 'a) mem = "('x cell heap, 'a) state"

record 'x thirdParty =
  ObjectMeta_DeepCopyInto :: "'x \<Rightarrow> ('x, 'x) mem"
  ListMeta_DeepCopyInto :: "'x \<Rightarrow> ('x, 'x) mem"
  PodSpec_DeepCopyInto :: "'x \<Rightarrow> ('x, 'x) mem"
  Condition_DeepCopyInto :: "'x \<Rightarrow> ('x, 'x) mem"
  EnvVar_DeepCopyInto :: "'x \<Rightarrow> ('x, 'x) mem"
  ResourceRequirements_DeepCopyInto :: "'x \<Rightarrow> ('x, 'x) mem"

subsection \<open>The generated functions\<close>

text \<open>\<open>TargetPort\<close> and \<open>SandboxTemplate\<close>.\<close>

definition DeepCopyInto_TargetPort :: "TargetPort \<Rightarrow> ('x, TargetPort) mem" where
  "DeepCopyInto_TargetPort inp = State_Monad.return inp"

definition DeepCopy_TargetPort :: "ptr \<Rightarrow> ('x, ptr) mem" where
  "DeepCopy_TargetPort inp = copyPtr unTargetPort CTargetPort DeepCopyInto_TargetPort inp"

definition DeepCopyInto_SandboxTemplate :: "'x thirdParty \<Rightarrow> 'x SandboxTemplateM \<Rightarrow>
    ('x, 'x SandboxTemplateM) mem" where
  "DeepCopyInto_SandboxTemplate tp inp = do {
     let out = inp;
     labels \<leftarrow> copyMap unMap CMap (stm_Labels inp);
     let out = out\<lparr>stm_Labels := labels\<rparr>;
     annotations \<leftarrow> copyMap unMap CMap (stm_Annotations inp);
     let out = out\<lparr>stm_Annotations := annotations\<rparr>;
     spec \<leftarrow> PodSpec_DeepCopyInto tp (stm_Spec inp);
     State_Monad.return (out\<lparr>stm_Spec := spec\<rparr>) }"

definition DeepCopy_SandboxTemplate :: "'x thirdParty \<Rightarrow> ptr \<Rightarrow> ('x, ptr) mem" where
  "DeepCopy_SandboxTemplate tp inp =
     copyPtr unSandboxTemplate CSandboxTemplate (DeepCopyInto_SandboxTemplate tp) inp"

text \<open>\<open>AgentRuntime\<close>.\<close>

definition DeepCopyInto_AgentRuntimeSpec :: "'x thirdParty \<Rightarrow> AgentRuntimeSpecM \<Rightarrow>
    ('x, AgentRuntimeSpecM) mem" where
  "DeepCopyInto_AgentRuntimeSpec tp inp = do {
     let out = inp;
     ports \<leftarrow> copySlice unPorts CPorts State_Monad.return (arm_Ports inp);
     let out = out\<lparr>arm_Ports := ports\<rparr>;
     template \<leftarrow> copyPtr unSandboxTemplate CSandboxTemplate (DeepCopyInto_SandboxTemplate tp)
       (arm_Template inp);
     let out = out\<lparr>arm_Template := template\<rparr>;
     sessionTimeout \<leftarrow> copyPtr unInt CInt State_Monad.return (arm_SessionTimeout inp);
     let out = out\<lparr>arm_SessionTimeout := sessionTimeout\<rparr>;
     maxSessionDuration \<leftarrow> copyPtr unInt CInt State_Monad.return (arm_MaxSessionDuration inp);
     State_Monad.return (out\<lparr>arm_MaxSessionDuration := maxSessionDuration\<rparr>) }"

definition DeepCopy_AgentRuntimeSpec :: "'x thirdParty \<Rightarrow> ptr \<Rightarrow> ('x, ptr) mem" where
  "DeepCopy_AgentRuntimeSpec tp inp =
     copyPtr unAgentRuntimeSpec CAgentRuntimeSpec (DeepCopyInto_AgentRuntimeSpec tp) inp"

definition DeepCopyInto_AgentRuntimeStatus :: "'x thirdParty \<Rightarrow> AgentRuntimeStatusM \<Rightarrow>
    ('x, AgentRuntimeStatusM) mem" where
  "DeepCopyInto_AgentRuntimeStatus tp inp = do {
     let out = inp;
     conditions \<leftarrow> copySlice unExts CExts (Condition_DeepCopyInto tp) (arst_Conditions inp);
     State_Monad.return (out\<lparr>arst_Conditions := conditions\<rparr>) }"

definition DeepCopy_AgentRuntimeStatus :: "'x thirdParty \<Rightarrow> ptr \<Rightarrow> ('x, ptr) mem" where
  "DeepCopy_AgentRuntimeStatus tp inp =
     copyPtr unAgentRuntimeStatus CAgentRuntimeStatus (DeepCopyInto_AgentRuntimeStatus tp) inp"

definition DeepCopyInto_AgentRuntime :: "'x thirdParty \<Rightarrow> 'x AgentRuntimeM \<Rightarrow>
    ('x, 'x AgentRuntimeM) mem" where
  "DeepCopyInto_AgentRuntime tp inp = do {
     let out = inp;
     let out = out\<lparr>arm_TypeMeta := arm_TypeMeta inp\<rparr>;
     objectMeta \<leftarrow> ObjectMeta_DeepCopyInto tp (arm_ObjectMeta inp);
     let out = out\<lparr>arm_ObjectMeta := objectMeta\<rparr>;
     spec \<leftarrow> DeepCopyInto_AgentRuntimeSpec tp (arm_Spec inp);
     let out = out\<lparr>arm_Spec := spec\<rparr>;
     status \<leftarrow> DeepCopyInto_AgentRuntimeStatus tp (arm_Status inp);
     State_Monad.return (out\<lparr>arm_Status := status\<rparr>) }"

definition DeepCopy_AgentRuntime :: "'x thirdParty \<Rightarrow> ptr \<Rightarrow> ('x, ptr) mem" where
  "DeepCopy_AgentRuntime tp inp =
     copyPtr unAgentRuntime CAgentRuntime (DeepCopyInto_AgentRuntime tp) inp"

definition DeepCopyInto_AgentRuntimeList :: "'x thirdParty \<Rightarrow> 'x AgentRuntimeListM \<Rightarrow>
    ('x, 'x AgentRuntimeListM) mem" where
  "DeepCopyInto_AgentRuntimeList tp inp = do {
     let out = inp;
     let out = out\<lparr>arl_TypeMeta := arl_TypeMeta inp\<rparr>;
     listMeta \<leftarrow> ListMeta_DeepCopyInto tp (arl_ListMeta inp);
     let out = out\<lparr>arl_ListMeta := listMeta\<rparr>;
     items \<leftarrow> copySlice unAgentRuntimes CAgentRuntimes (DeepCopyInto_AgentRuntime tp) (arl_Items inp);
     State_Monad.return (out\<lparr>arl_Items := items\<rparr>) }"

definition DeepCopy_AgentRuntimeList :: "'x thirdParty \<Rightarrow> ptr \<Rightarrow> ('x, ptr) mem" where
  "DeepCopy_AgentRuntimeList tp inp =
     copyPtr unAgentRuntimeList CAgentRuntimeList (DeepCopyInto_AgentRuntimeList tp) inp"

text \<open>\<open>CodeInterpreter\<close>.\<close>

definition DeepCopyInto_CodeInterpreterSandboxTemplate :: "'x thirdParty \<Rightarrow>
    'x CodeInterpreterSandboxTemplateM \<Rightarrow> ('x, 'x CodeInterpreterSandboxTemplateM) mem" where
  "DeepCopyInto_CodeInterpreterSandboxTemplate tp inp = do {
     let out = inp;
     labels \<leftarrow> copyMap unMap CMap (ctm_Labels inp);
     let out = out\<lparr>ctm_Labels := labels\<rparr>;
     annotations \<leftarrow> copyMap unMap CMap (ctm_Annotations inp);
     let out = out\<lparr>ctm_Annotations := annotations\<rparr>;
     runtimeClassName \<leftarrow> copyPtr unStr CStr State_Monad.return (ctm_RuntimeClassName inp);
     let out = out\<lparr>ctm_RuntimeClassName := runtimeClassName\<rparr>;
     imagePullSecrets \<leftarrow> copySlice unStrs CStrs State_Monad.return (ctm_ImagePullSecrets inp);
     let out = out\<lparr>ctm_ImagePullSecrets := imagePullSecrets\<rparr>;
     environment \<leftarrow> copySlice unExts CExts (EnvVar_DeepCopyInto tp) (ctm_Environment inp);
     let out = out\<lparr>ctm_Environment := environment\<rparr>;
     command \<leftarrow> copySlice unStrs CStrs State_Monad.return (ctm_Command inp);
     let out = out\<lparr>ctm_Command := command\<rparr>;
     args \<leftarrow> copySlice unStrs CStrs State_Monad.return (ctm_Args inp);
     let out = out\<lparr>ctm_Args := args\<rparr>;
     resources \<leftarrow> ResourceRequirements_DeepCopyInto tp (ctm_Resources inp);
     State_Monad.return (out\<lparr>ctm_Resources := resources\<rparr>) }"

definition DeepCopy_CodeInterpreterSandboxTemplate :: "'x thirdParty \<Rightarrow> ptr \<Rightarrow> ('x, ptr) mem" where
  "DeepCopy_CodeInterpreterSandboxTemplate tp inp =
     copyPtr unCodeInterpreterSandboxTemplate CCodeInterpreterSandboxTemplate
       (DeepCopyInto_CodeInterpreterSandboxTemplate tp) inp"

definition DeepCopyInto_CodeInterpreterSpec :: "'x thirdParty \<Rightarrow> CodeInterpreterSpecM \<Rightarrow>
    ('x, CodeInterpreterSpecM) mem" where
  "DeepCopyInto_CodeInterpreterSpec tp inp = do {
     let out = inp;
     ports \<leftarrow> copySlice unPorts CPorts State_Monad.return (cim_Ports inp);
     let out = out\<lparr>cim_Ports := ports\<rparr>;
     template \<leftarrow> copyPtr unCodeInterpreterSandboxTemplate CCodeInterpreterSandboxTemplate
       (DeepCopyInto_CodeInterpreterSandboxTemplate tp) (cim_Template inp);
     let out = out\<lparr>cim_Template := template\<rparr>;
     sessionTimeout \<leftarrow> copyPtr unInt CInt State_Monad.return (cim_SessionTimeout inp);
     let out = out\<lparr>cim_SessionTimeout := sessionTimeout\<rparr>;
     maxSessionDuration \<leftarrow> copyPtr unInt CInt State_Monad.return (cim_MaxSessionDuration inp);
     let out = out\<lparr>cim_MaxSessionDuration := maxSessionDuration\<rparr>;
     warmPoolSize \<leftarrow> copyPtr unInt CInt State_Monad.return (cim_WarmPoolSize inp);
     State_Monad.return (out\<lparr>cim_WarmPoolSize := warmPoolSize\<rparr>) }"

definition DeepCopy_CodeInterpreterSpec :: "'x thirdParty \<Rightarrow> ptr \<Rightarrow> ('x, ptr) mem" where
  "DeepCopy_CodeInterpreterSpec tp inp =
     copyPtr unCodeInterpreterSpec CCodeInterpreterSpec (DeepCopyInto_CodeInterpreterSpec tp) inp"

definition DeepCopyInto_CodeInterpreterStatus :: "'x thirdParty \<Rightarrow> CodeInterpreterStatusM \<Rightarrow>
    ('x, CodeInterpreterStatusM) mem" where
  "DeepCopyInto_CodeInterpreterStatus tp inp = do {
     let out = inp;
     conditions \<leftarrow> copySlice unExts CExts (Condition_DeepCopyInto tp) (cist_Conditions inp);
     State_Monad.return (out\<lparr>cist_Conditions := conditions\<rparr>) }"

definition DeepCopy_CodeInterpreterStatus :: "'x thirdParty \<Rightarrow> ptr \<Rightarrow> ('x, ptr) mem" where
  "DeepCopy_CodeInterpreterStatus tp inp =
     copyPtr unCodeInterpreterStatus CCodeInterpreterStatus (DeepCopyInto_CodeInterpreterStatus tp) inp"

definition DeepCopyInto_CodeInterpreter :: "'x thirdParty \<Rightarrow> 'x CodeInterpreterM \<Rightarrow>
    ('x, 'x CodeInterpreterM) mem" where
  "DeepCopyInto_CodeInterpreter tp inp = do {
     let out = inp;
     let out = out\<lparr>cim_TypeMeta := cim_TypeMeta inp\<rparr>;
     objectMeta \<leftarrow> ObjectMeta_DeepCopyInto tp (cim_ObjectMeta inp);
     let out = out\<lparr>cim_ObjectMeta := objectMeta\<rparr>;
     spec \<leftarrow> DeepCopyInto_CodeInterpreterSpec tp (cim_Spec inp);
     let out = out\<lparr>cim_Spec := spec\<rparr>;
     status \<leftarrow> DeepCopyInto_CodeInterpreterStatus tp (cim_Status inp);
     State_Monad.return (out\<lparr>cim_Status := status\<rparr>) }"

definition DeepCopy_CodeInterpreter :: "'x thirdParty \<Rightarrow> ptr \<Rightarrow> ('x, ptr) mem" where
  "DeepCopy_CodeInterpreter tp inp =
     copyPtr unCodeInterpreter CCodeInterpreter (DeepCopyInto_CodeInterpreter tp) inp"

definition DeepCopyInto_CodeInterpreterList :: "'x thirdParty \<Rightarrow> 'x CodeInterpreterListM \<Rightarrow>
    ('x, 'x CodeInterpreterListM) mem" where
  "DeepCopyInto_CodeInterpreterList tp inp = do {
     let out = inp;
     let out = out\<lparr>cil_TypeMeta := cil_TypeMeta inp\<rparr>;
     listMeta \<leftarrow> ListMeta_DeepCopyInto tp (cil_ListMeta inp);
     let out = out\<lparr>cil_ListMeta := listMeta\<rparr>;
     items \<leftarrow> copySlice unCodeInterpreters CCodeInterpreters (DeepCopyInto_CodeInterpreter tp)
       (cil_Items inp);
     State_Monad.return (out\<lparr>cil_Items := items\<rparr>) }"

definition DeepCopy_CodeInterpreterList :: "'x thirdParty \<Rightarrow> ptr \<Rightarrow> ('x, ptr) mem" where
  "DeepCopy_CodeInterpreterList tp inp =
     copyPtr unCodeInterpreterList CCodeInterpreterList (DeepCopyInto_CodeInterpreterList tp) inp"

text \<open>\<open>DeepCopyObject\<close> puts the copy behind the interface \<open>runtime.Object\<close>; a nil pointer becomes the
  nil interface, not an interface that holds a nil pointer.\<close>

datatype runtimeObject =
    ObjAgentRuntime ptr
  | ObjAgentRuntimeList ptr
  | ObjCodeInterpreter ptr
  | ObjCodeInterpreterList ptr

definition asObject :: "(ptr \<Rightarrow> runtimeObject) \<Rightarrow> ptr \<Rightarrow> runtimeObject option" where
  "asObject con c = (if c \<noteq> None then Some (con c) else None)"

definition DeepCopyObject_AgentRuntime :: "'x thirdParty \<Rightarrow> ptr \<Rightarrow> ('x, runtimeObject option) mem" where
  "DeepCopyObject_AgentRuntime tp inp = do {
     c \<leftarrow> DeepCopy_AgentRuntime tp inp;
     State_Monad.return (asObject ObjAgentRuntime c) }"

definition DeepCopyObject_AgentRuntimeList :: "'x thirdParty \<Rightarrow> ptr \<Rightarrow> ('x, runtimeObject option) mem" where
  "DeepCopyObject_AgentRuntimeList tp inp = do {
     c \<leftarrow> DeepCopy_AgentRuntimeList tp inp;
     State_Monad.return (asObject ObjAgentRuntimeList c) }"

definition DeepCopyObject_CodeInterpreter :: "'x thirdParty \<Rightarrow> ptr \<Rightarrow> ('x, runtimeObject option) mem" where
  "DeepCopyObject_CodeInterpreter tp inp = do {
     c \<leftarrow> DeepCopy_CodeInterpreter tp inp;
     State_Monad.return (asObject ObjCodeInterpreter c) }"

definition DeepCopyObject_CodeInterpreterList :: "'x thirdParty \<Rightarrow> ptr \<Rightarrow>
    ('x, runtimeObject option) mem" where
  "DeepCopyObject_CodeInterpreterList tp inp = do {
     c \<leftarrow> DeepCopy_CodeInterpreterList tp inp;
     State_Monad.return (asObject ObjCodeInterpreterList c) }"

subsection \<open>Values and footprints of the API types\<close>

text \<open>\<open>td\<close> and \<open>tf\<close> give the value and the footprint of a third-party struct.\<close>

abbreviation denMap :: "'x cell heap \<Rightarrow> ptr \<Rightarrow> (string \<rightharpoonup> string) option" where
  "denMap \<equiv> denPtr unMap (\<lambda>h. DAList.lookup)"

abbreviation footMap :: "'x cell heap \<Rightarrow> ptr \<Rightarrow> nat set" where
  "footMap \<equiv> footPtr unMap (\<lambda>h m. {})"

abbreviation denInt :: "'x cell heap \<Rightarrow> ptr \<Rightarrow> int option" where
  "denInt \<equiv> denPtr unInt (\<lambda>h i. i)"

abbreviation footInt :: "'x cell heap \<Rightarrow> ptr \<Rightarrow> nat set" where
  "footInt \<equiv> footPtr unInt (\<lambda>h i. {})"

abbreviation denStrs :: "'x cell heap \<Rightarrow> gslice \<Rightarrow> string list option" where
  "denStrs \<equiv> denSlice unStrs (\<lambda>h s. s)"

abbreviation footStrs :: "'x cell heap \<Rightarrow> gslice \<Rightarrow> nat set" where
  "footStrs \<equiv> footSlice unStrs (\<lambda>h s. {})"

abbreviation denPorts :: "'x cell heap \<Rightarrow> gslice \<Rightarrow> TargetPort list option" where
  "denPorts \<equiv> denSlice unPorts (\<lambda>h p. p)"

abbreviation footPorts :: "'x cell heap \<Rightarrow> gslice \<Rightarrow> nat set" where
  "footPorts \<equiv> footSlice unPorts (\<lambda>h p. {})"

definition denSandboxTemplate where
  "denSandboxTemplate td h s =
     (denMap h (stm_Labels s), denMap h (stm_Annotations s), td h (stm_Spec s))"

definition footSandboxTemplate where
  "footSandboxTemplate tf h s =
     footMap h (stm_Labels s) \<union> (footMap h (stm_Annotations s) \<union> tf h (stm_Spec s))"

definition denAgentRuntimeSpec where
  "denAgentRuntimeSpec td h s =
     (denPorts h (arm_Ports s), denPtr unSandboxTemplate (denSandboxTemplate td) h (arm_Template s),
      denInt h (arm_SessionTimeout s), denInt h (arm_MaxSessionDuration s))"

definition footAgentRuntimeSpec where
  "footAgentRuntimeSpec tf h s =
     footPorts h (arm_Ports s) \<union>
     (footPtr unSandboxTemplate (footSandboxTemplate tf) h (arm_Template s) \<union>
      (footInt h (arm_SessionTimeout s) \<union> footInt h (arm_MaxSessionDuration s)))"

definition denAgentRuntimeStatus where
  "denAgentRuntimeStatus td h s = denSlice unExts td h (arst_Conditions s)"

definition footAgentRuntimeStatus where
  "footAgentRuntimeStatus tf h s = footSlice unExts tf h (arst_Conditions s)"

definition denAgentRuntime where
  "denAgentRuntime td h s =
     (arm_TypeMeta s, td h (arm_ObjectMeta s), denAgentRuntimeSpec td h (arm_Spec s),
      denAgentRuntimeStatus td h (arm_Status s))"

definition footAgentRuntime where
  "footAgentRuntime tf h s =
     tf h (arm_ObjectMeta s) \<union> (footAgentRuntimeSpec tf h (arm_Spec s) \<union>
     footAgentRuntimeStatus tf h (arm_Status s))"

definition denAgentRuntimeList where
  "denAgentRuntimeList td h s =
     (arl_TypeMeta s, td h (arl_ListMeta s), denSlice unAgentRuntimes (denAgentRuntime td) h (arl_Items s))"

definition footAgentRuntimeList where
  "footAgentRuntimeList tf h s =
     tf h (arl_ListMeta s) \<union> footSlice unAgentRuntimes (footAgentRuntime tf) h (arl_Items s)"

definition denCodeInterpreterSandboxTemplate where
  "denCodeInterpreterSandboxTemplate td h s =
     (ctm_Image s, ctm_ImagePullPolicy s, denMap h (ctm_Labels s), denMap h (ctm_Annotations s),
      denPtr unStr (\<lambda>h x. x) h (ctm_RuntimeClassName s), denStrs h (ctm_ImagePullSecrets s),
      denSlice unExts td h (ctm_Environment s), denStrs h (ctm_Command s), denStrs h (ctm_Args s),
      td h (ctm_Resources s))"

definition footCodeInterpreterSandboxTemplate where
  "footCodeInterpreterSandboxTemplate tf h s =
     footMap h (ctm_Labels s) \<union> (footMap h (ctm_Annotations s) \<union>
     (footPtr unStr (\<lambda>h x. {}) h (ctm_RuntimeClassName s) \<union> (footStrs h (ctm_ImagePullSecrets s) \<union>
     (footSlice unExts tf h (ctm_Environment s) \<union> (footStrs h (ctm_Command s) \<union>
     (footStrs h (ctm_Args s) \<union> tf h (ctm_Resources s)))))))"

definition denCodeInterpreterSpec where
  "denCodeInterpreterSpec td h s =
     (cim_AuthMode s, denPorts h (cim_Ports s),
      denPtr unCodeInterpreterSandboxTemplate (denCodeInterpreterSandboxTemplate td) h (cim_Template s),
      denInt h (cim_SessionTimeout s), denInt h (cim_MaxSessionDuration s), denInt h (cim_WarmPoolSize s))"

definition footCodeInterpreterSpec where
  "footCodeInterpreterSpec tf h s =
     footPorts h (cim_Ports s) \<union>
     (footPtr unCodeInterpreterSandboxTemplate (footCodeInterpreterSandboxTemplate tf) h (cim_Template s) \<union>
     (footInt h (cim_SessionTimeout s) \<union>
     (footInt h (cim_MaxSessionDuration s) \<union> footInt h (cim_WarmPoolSize s))))"

definition denCodeInterpreterStatus where
  "denCodeInterpreterStatus td h s = (cist_Ready s, denSlice unExts td h (cist_Conditions s))"

definition footCodeInterpreterStatus where
  "footCodeInterpreterStatus tf h s = footSlice unExts tf h (cist_Conditions s)"

definition denCodeInterpreter where
  "denCodeInterpreter td h s =
     (cim_TypeMeta s, td h (cim_ObjectMeta s), denCodeInterpreterSpec td h (cim_Spec s),
      denCodeInterpreterStatus td h (cim_Status s))"

definition footCodeInterpreter where
  "footCodeInterpreter tf h s =
     tf h (cim_ObjectMeta s) \<union> (footCodeInterpreterSpec tf h (cim_Spec s) \<union>
     footCodeInterpreterStatus tf h (cim_Status s))"

definition denCodeInterpreterList where
  "denCodeInterpreterList td h s =
     (cil_TypeMeta s, td h (cil_ListMeta s),
      denSlice unCodeInterpreters (denCodeInterpreter td) h (cil_Items s))"

definition footCodeInterpreterList where
  "footCodeInterpreterList tf h s =
     tf h (cil_ListMeta s) \<union> footSlice unCodeInterpreters (footCodeInterpreter tf) h (cil_Items s)"

subsection \<open>The generated copies are deep\<close>

lemmas deep_simps = copyPair_def map_prod_def Let_def
  denSandboxTemplate_def footSandboxTemplate_def denAgentRuntimeSpec_def footAgentRuntimeSpec_def
  denAgentRuntimeStatus_def footAgentRuntimeStatus_def denAgentRuntime_def footAgentRuntime_def
  denAgentRuntimeList_def footAgentRuntimeList_def
  denCodeInterpreterSandboxTemplate_def footCodeInterpreterSandboxTemplate_def
  denCodeInterpreterSpec_def footCodeInterpreterSpec_def
  denCodeInterpreterStatus_def footCodeInterpreterStatus_def
  denCodeInterpreter_def footCodeInterpreter_def denCodeInterpreterList_def footCodeInterpreterList_def

locale third_party =
  fixes tp :: "'x thirdParty"
    and td :: "'x cell heap \<Rightarrow> 'x \<Rightarrow> 'v"
    and tf :: "'x cell heap \<Rightarrow> 'x \<Rightarrow> nat set"
  assumes objectMeta_deep: "deep_copy td tf (ObjectMeta_DeepCopyInto tp)"
    and listMeta_deep: "deep_copy td tf (ListMeta_DeepCopyInto tp)"
    and podSpec_deep: "deep_copy td tf (PodSpec_DeepCopyInto tp)"
    and condition_deep: "deep_copy td tf (Condition_DeepCopyInto tp)"
    and envVar_deep: "deep_copy td tf (EnvVar_DeepCopyInto tp)"
    and resources_deep: "deep_copy td tf (ResourceRequirements_DeepCopyInto tp)"
begin

lemma ints: "deep_copy denInt footInt (copyPtr unInt CInt State_Monad.return)"
  by (rule deep_ptr [OF deep_scalar]) simp

lemma strs: "deep_copy denStrs footStrs (copySlice unStrs CStrs State_Monad.return)"
  by (rule deep_slice [OF deep_scalar]) simp

lemma maps: "deep_copy denMap footMap (copyMap unMap CMap)"
  by (rule deep_map) simp

lemma ports: "deep_copy denPorts footPorts (copySlice unPorts CPorts State_Monad.return)"
  by (rule deep_slice [OF deep_scalar]) simp

lemma exts:
  assumes "deep_copy td tf into"
  shows "deep_copy (denSlice unExts td) (footSlice unExts tf) (copySlice unExts CExts into)"
  by (rule deep_slice [OF assms]) simp

lemma sandboxTemplate_deep:
  "deep_copy (denSandboxTemplate td) (footSandboxTemplate tf) (DeepCopyInto_SandboxTemplate tp)"
  by (rule deep_struct [OF deep_pair [OF maps deep_pair [OF maps podSpec_deep]],
        where dest = "\<lambda>s. (stm_Labels s, stm_Annotations s, stm_Spec s)" and rest = "\<lambda>s. ()"
          and g = "\<lambda>_ v. v"
          and mk = "\<lambda>s (l, a, p). s\<lparr>stm_Labels := l, stm_Annotations := a, stm_Spec := p\<rparr>"])
    (simp_all add: deep_simps DeepCopyInto_SandboxTemplate_def split: prod.splits)

lemma template_ptr_deep: "deep_copy (denPtr unSandboxTemplate (denSandboxTemplate td))
    (footPtr unSandboxTemplate (footSandboxTemplate tf))
    (copyPtr unSandboxTemplate CSandboxTemplate (DeepCopyInto_SandboxTemplate tp))"
  by (rule deep_ptr [OF sandboxTemplate_deep]) simp

lemma agentRuntimeSpec_deep:
  "deep_copy (denAgentRuntimeSpec td) (footAgentRuntimeSpec tf) (DeepCopyInto_AgentRuntimeSpec tp)"
  by (rule deep_struct [OF deep_pair [OF ports deep_pair [OF template_ptr_deep deep_pair [OF ints ints]]],
        where dest = "\<lambda>s. (arm_Ports s, arm_Template s, arm_SessionTimeout s, arm_MaxSessionDuration s)"
          and rest = "\<lambda>s. ()" and g = "\<lambda>_ v. v"
          and mk = "\<lambda>s (a, b, c, d). s\<lparr>arm_Ports := a, arm_Template := b, arm_SessionTimeout := c, arm_MaxSessionDuration := d\<rparr>"])
    (simp_all add: deep_simps DeepCopyInto_AgentRuntimeSpec_def split: prod.splits)

lemma agentRuntimeStatus_deep:
  "deep_copy (denAgentRuntimeStatus td) (footAgentRuntimeStatus tf) (DeepCopyInto_AgentRuntimeStatus tp)"
  by (rule deep_struct [OF exts [OF condition_deep],
        where dest = "\<lambda>s. arst_Conditions s"
          and rest = "\<lambda>s. ()" and g = "\<lambda>_ v. v"
          and mk = "\<lambda>s a. s\<lparr>arst_Conditions := a\<rparr>"])
    (simp_all add: deep_simps DeepCopyInto_AgentRuntimeStatus_def split: prod.splits)

lemma agentRuntime_deep:
  "deep_copy (denAgentRuntime td) (footAgentRuntime tf) (DeepCopyInto_AgentRuntime tp)"
  by (rule deep_struct [OF deep_pair [OF objectMeta_deep deep_pair [OF agentRuntimeSpec_deep agentRuntimeStatus_deep]],
        where dest = "\<lambda>s. (arm_ObjectMeta s, arm_Spec s, arm_Status s)"
          and rest = "\<lambda>s. arm_TypeMeta s" and g = "\<lambda>r v. (r, v)"
          and mk = "\<lambda>s (a, b, c). s\<lparr>arm_ObjectMeta := a, arm_Spec := b, arm_Status := c\<rparr>"])
    (simp_all add: deep_simps DeepCopyInto_AgentRuntime_def split: prod.splits)

lemma agentRuntimes_deep: "deep_copy (denSlice unAgentRuntimes (denAgentRuntime td))
    (footSlice unAgentRuntimes (footAgentRuntime tf))
    (copySlice unAgentRuntimes CAgentRuntimes (DeepCopyInto_AgentRuntime tp))"
  by (rule deep_slice [OF agentRuntime_deep]) simp

lemma agentRuntimeList_deep:
  "deep_copy (denAgentRuntimeList td) (footAgentRuntimeList tf) (DeepCopyInto_AgentRuntimeList tp)"
  by (rule deep_struct [OF deep_pair [OF listMeta_deep agentRuntimes_deep],
        where dest = "\<lambda>s. (arl_ListMeta s, arl_Items s)"
          and rest = "\<lambda>s. arl_TypeMeta s" and g = "\<lambda>r v. (r, v)"
          and mk = "\<lambda>s (a, b). s\<lparr>arl_ListMeta := a, arl_Items := b\<rparr>"])
    (simp_all add: deep_simps DeepCopyInto_AgentRuntimeList_def split: prod.splits)

lemma str_deep: "deep_copy (denPtr unStr (\<lambda>h x. x)) (footPtr unStr (\<lambda>h x. {}))
    (copyPtr unStr CStr State_Monad.return)"
  by (rule deep_ptr [OF deep_scalar]) simp

lemma ciTemplate_deep:
  "deep_copy (denCodeInterpreterSandboxTemplate td) (footCodeInterpreterSandboxTemplate tf) (DeepCopyInto_CodeInterpreterSandboxTemplate tp)"
  by (rule deep_struct [OF deep_pair [OF maps deep_pair [OF maps deep_pair [OF str_deep deep_pair [OF strs deep_pair [OF exts [OF envVar_deep] deep_pair [OF strs deep_pair [OF strs resources_deep]]]]]]],
        where dest = "\<lambda>s. (ctm_Labels s, ctm_Annotations s, ctm_RuntimeClassName s, ctm_ImagePullSecrets s, ctm_Environment s, ctm_Command s, ctm_Args s, ctm_Resources s)"
          and rest = "\<lambda>s. (ctm_Image s, ctm_ImagePullPolicy s)" and g = "\<lambda>(r, t) v. (r, t, v)"
          and mk = "\<lambda>s (a, b, c, d, e, f, g, h). s\<lparr>ctm_Labels := a, ctm_Annotations := b, ctm_RuntimeClassName := c, ctm_ImagePullSecrets := d, ctm_Environment := e, ctm_Command := f, ctm_Args := g, ctm_Resources := h\<rparr>"])
    (simp_all add: deep_simps DeepCopyInto_CodeInterpreterSandboxTemplate_def split: prod.splits)

lemma ciTemplate_ptr_deep:
  "deep_copy (denPtr unCodeInterpreterSandboxTemplate (denCodeInterpreterSandboxTemplate td))
    (footPtr unCodeInterpreterSandboxTemplate (footCodeInterpreterSandboxTemplate tf))
    (copyPtr unCodeInterpreterSandboxTemplate CCodeInterpreterSandboxTemplate
      (DeepCopyInto_CodeInterpreterSandboxTemplate tp))"
  by (rule deep_ptr [OF ciTemplate_deep]) simp

lemma ciSpec_deep:
  "deep_copy (denCodeInterpreterSpec td) (footCodeInterpreterSpec tf) (DeepCopyInto_CodeInterpreterSpec tp)"
  by (rule deep_struct [OF deep_pair [OF ports deep_pair [OF ciTemplate_ptr_deep deep_pair [OF ints deep_pair [OF ints ints]]]],
        where dest = "\<lambda>s. (cim_Ports s, cim_Template s, cim_SessionTimeout s, cim_MaxSessionDuration s, cim_WarmPoolSize s)"
          and rest = "\<lambda>s. cim_AuthMode s" and g = "\<lambda>r v. (r, v)"
          and mk = "\<lambda>s (a, b, c, d, e). s\<lparr>cim_Ports := a, cim_Template := b, cim_SessionTimeout := c, cim_MaxSessionDuration := d, cim_WarmPoolSize := e\<rparr>"])
    (simp_all add: deep_simps DeepCopyInto_CodeInterpreterSpec_def split: prod.splits)

lemma ciStatus_deep:
  "deep_copy (denCodeInterpreterStatus td) (footCodeInterpreterStatus tf) (DeepCopyInto_CodeInterpreterStatus tp)"
  by (rule deep_struct [OF exts [OF condition_deep],
        where dest = "\<lambda>s. cist_Conditions s"
          and rest = "\<lambda>s. cist_Ready s" and g = "\<lambda>r v. (r, v)"
          and mk = "\<lambda>s a. s\<lparr>cist_Conditions := a\<rparr>"])
    (simp_all add: deep_simps DeepCopyInto_CodeInterpreterStatus_def split: prod.splits)

lemma codeInterpreter_deep:
  "deep_copy (denCodeInterpreter td) (footCodeInterpreter tf) (DeepCopyInto_CodeInterpreter tp)"
  by (rule deep_struct [OF deep_pair [OF objectMeta_deep deep_pair [OF ciSpec_deep ciStatus_deep]],
        where dest = "\<lambda>s. (cim_ObjectMeta s, cim_Spec s, cim_Status s)"
          and rest = "\<lambda>s. cim_TypeMeta s" and g = "\<lambda>r v. (r, v)"
          and mk = "\<lambda>s (a, b, c). s\<lparr>cim_ObjectMeta := a, cim_Spec := b, cim_Status := c\<rparr>"])
    (simp_all add: deep_simps DeepCopyInto_CodeInterpreter_def split: prod.splits)

lemma codeInterpreters_deep: "deep_copy (denSlice unCodeInterpreters (denCodeInterpreter td))
    (footSlice unCodeInterpreters (footCodeInterpreter tf))
    (copySlice unCodeInterpreters CCodeInterpreters (DeepCopyInto_CodeInterpreter tp))"
  by (rule deep_slice [OF codeInterpreter_deep]) simp

lemma codeInterpreterList_deep:
  "deep_copy (denCodeInterpreterList td) (footCodeInterpreterList tf) (DeepCopyInto_CodeInterpreterList tp)"
  by (rule deep_struct [OF deep_pair [OF listMeta_deep codeInterpreters_deep],
        where dest = "\<lambda>s. (cil_ListMeta s, cil_Items s)"
          and rest = "\<lambda>s. cil_TypeMeta s" and g = "\<lambda>r v. (r, v)"
          and mk = "\<lambda>s (a, b). s\<lparr>cil_ListMeta := a, cil_Items := b\<rparr>"])
    (simp_all add: deep_simps DeepCopyInto_CodeInterpreterList_def split: prod.splits)

end

text \<open>The exported methods on pointers, as instances of the promise.\<close>

abbreviation valAgentRuntimeList where
  "valAgentRuntimeList td \<equiv> denPtr unAgentRuntimeList (denAgentRuntimeList td)"

abbreviation reachAgentRuntimeList where
  "reachAgentRuntimeList tf \<equiv> footPtr unAgentRuntimeList (footAgentRuntimeList tf)"

abbreviation valCodeInterpreter where
  "valCodeInterpreter td \<equiv> denPtr unCodeInterpreter (denCodeInterpreter td)"

abbreviation reachCodeInterpreter where
  "reachCodeInterpreter tf \<equiv> footPtr unCodeInterpreter (footCodeInterpreter tf)"

sublocale third_party \<subseteq> arList: deep_copy "valAgentRuntimeList td" "reachAgentRuntimeList tf"
  "DeepCopy_AgentRuntimeList tp"
  unfolding DeepCopy_AgentRuntimeList_def [abs_def]
  by (rule deep_ptr [OF agentRuntimeList_deep]) simp

sublocale third_party \<subseteq> ci: deep_copy "valCodeInterpreter td" "reachCodeInterpreter tf"
  "DeepCopy_CodeInterpreter tp"
  unfolding DeepCopy_CodeInterpreter_def [abs_def]
  by (rule deep_ptr [OF codeInterpreter_deep]) simp

sublocale third_party \<subseteq> ciList: deep_copy
  "denPtr unCodeInterpreterList (denCodeInterpreterList td)"
  "footPtr unCodeInterpreterList (footCodeInterpreterList tf)" "DeepCopy_CodeInterpreterList tp"
  unfolding DeepCopy_CodeInterpreterList_def [abs_def]
  by (rule deep_ptr [OF codeInterpreterList_deep]) simp

context third_party
begin

lemmas ci_isolated = ci.isolated
lemmas arList_copies = arList.copies

end

interpretation targetPort: deep_copy "denPtr unTargetPort (\<lambda>h p. p)" "footPtr unTargetPort (\<lambda>h p. {})"
  "DeepCopy_TargetPort"
  unfolding DeepCopy_TargetPort_def [abs_def] DeepCopyInto_TargetPort_def [abs_def]
  by (rule deep_ptr [OF deep_scalar]) simp

subsection \<open>A third-party struct\<close>

text \<open>A struct with a text and a pointer to a string, copied as the generators of
  \<open>k8s.io/code-generator\<close> copy such a struct.\<close>

record extStruct =
  es_Text :: string
  es_Ptr :: ptr

definition extDeepCopyInto :: "extStruct \<Rightarrow> (extStruct, extStruct) mem" where
  "extDeepCopyInto inp = do {
     p \<leftarrow> copyPtr unStr CStr State_Monad.return (es_Ptr inp);
     State_Monad.return (inp\<lparr>es_Ptr := p\<rparr>) }"

definition extThirdParty :: "extStruct thirdParty" where
  "extThirdParty = \<lparr>ObjectMeta_DeepCopyInto = extDeepCopyInto, ListMeta_DeepCopyInto = extDeepCopyInto,
     PodSpec_DeepCopyInto = extDeepCopyInto, Condition_DeepCopyInto = extDeepCopyInto,
     EnvVar_DeepCopyInto = extDeepCopyInto, ResourceRequirements_DeepCopyInto = extDeepCopyInto\<rparr>"

definition extDen :: "extStruct cell heap \<Rightarrow> extStruct \<Rightarrow> string \<times> string option" where
  "extDen h s = (es_Text s, denPtr unStr (\<lambda>h x. x) h (es_Ptr s))"

definition extFoot :: "extStruct cell heap \<Rightarrow> extStruct \<Rightarrow> nat set" where
  "extFoot h s = footPtr unStr (\<lambda>h x. {}) h (es_Ptr s)"

lemma ext_deep: "deep_copy extDen extFoot extDeepCopyInto"
proof -
  have d: "deep_copy (denPtr unStr (\<lambda>h x. x)) (footPtr unStr (\<lambda>h x. {}))
      (copyPtr unStr CStr (State_Monad.return :: _ \<Rightarrow> (extStruct, _) mem))"
    by (rule deep_ptr [OF deep_scalar]) simp
  show ?thesis
    by (rule deep_struct [OF d, where dest = es_Ptr and rest = es_Text and g = Pair
          and mk = "\<lambda>s p. s\<lparr>es_Ptr := p\<rparr>"])
      (simp_all add: extDen_def extFoot_def extDeepCopyInto_def map_prod_def split: prod.splits)
qed

interpretation ext: third_party extThirdParty extDen extFoot
  by (rule third_party.intro) (simp_all add: extThirdParty_def ext_deep)

text \<open>A heap with a code interpreter whose ports, template, labels and metadata are in cells.\<close>

definition sampleMem :: "extStruct cell heap" where
  "sampleMem = \<lparr>cells = (\<lambda>_. CInt 0)(
     0 := CPorts [\<lparr>tp_PathPrefix = ''/'', tp_Name = [], tp_Port = 8080, tp_Protocol = ''HTTP''\<rparr>],
     1 := CMap DAList.empty,
     2 := CStr ''uid'',
     3 := CCodeInterpreterSandboxTemplate
       \<lparr>ctm_Labels = Some 1, ctm_Annotations = None, ctm_RuntimeClassName = None, ctm_Image = ''img'',
        ctm_ImagePullPolicy = [], ctm_ImagePullSecrets = None, ctm_Environment = None,
        ctm_Command = None, ctm_Args = None, ctm_Resources = \<lparr>es_Text = [], es_Ptr = None\<rparr>\<rparr>,
     4 := CCodeInterpreter
       \<lparr>cim_TypeMeta = \<lparr>tm_Kind = ''CodeInterpreter'', tm_APIVersion = ''v1alpha1''\<rparr>,
        cim_ObjectMeta = \<lparr>es_Text = ''ci'', es_Ptr = Some 2\<rparr>,
        cim_Spec = \<lparr>cim_Ports = Some \<lparr>sl_arr = 0, sl_off = 0, sl_len = 1\<rparr>, cim_Template = Some 3,
          cim_SessionTimeout = None, cim_MaxSessionDuration = None, cim_WarmPoolSize = None,
          cim_AuthMode = ''picod''\<rparr>,
        cim_Status = \<lparr>cist_Conditions = None, cist_Ready = True\<rparr>\<rparr>), lim = 5\<rparr>"

lemma sampleMem_reach: "reachCodeInterpreter extFoot sampleMem (Some 4) = {0, 1, 2, 3, 4}"
  by (auto simp: sampleMem_def deep_simps footPtr_def footSlice_def sliceElems_def extFoot_def)

text \<open>A heap with a list of one agent runtime.\<close>

definition sampleListMem :: "extStruct cell heap" where
  "sampleListMem = \<lparr>cells = (\<lambda>_. CInt 0)(
     0 := CExts [\<lparr>es_Text = ''Accepted'', es_Ptr = None\<rparr>, \<lparr>es_Text = ''Ready'', es_Ptr = None\<rparr>],
     1 := CAgentRuntimes
       [\<lparr>arm_TypeMeta = \<lparr>tm_Kind = ''AgentRuntime'', tm_APIVersion = ''v1alpha1''\<rparr>,
        arm_ObjectMeta = \<lparr>es_Text = ''ar'', es_Ptr = None\<rparr>,
        arm_Spec = \<lparr>arm_Ports = None, arm_Template = None, arm_SessionTimeout = Some 2,
          arm_MaxSessionDuration = None\<rparr>,
        arm_Status = \<lparr>arst_Conditions = Some \<lparr>sl_arr = 0, sl_off = 1, sl_len = 1\<rparr>\<rparr>\<rparr>],
     2 := CInt 900,
     3 := CAgentRuntimeList
       \<lparr>arl_TypeMeta = \<lparr>tm_Kind = ''AgentRuntimeList'', tm_APIVersion = ''v1alpha1''\<rparr>,
        arl_ListMeta = \<lparr>es_Text = ''42'', es_Ptr = None\<rparr>,
        arl_Items = Some \<lparr>sl_arr = 1, sl_off = 0, sl_len = 1\<rparr>\<rparr>), lim = 4\<rparr>"

lemma sampleListMem_reach: "reachAgentRuntimeList extFoot sampleListMem (Some 3) = {0, 1, 2, 3}"
  by (auto simp: sampleListMem_def deep_simps footPtr_def footSlice_def sliceElems_def extFoot_def)

subsection \<open>Properties\<close>

text \<open>C16: a deep copy of a CodeInterpreter is isolated from the original.  For every implementation
  of the third-party copies that are deep, \<open>DeepCopy\<close> gives an object with the same value, changes
  nothing the original reaches, and shares no cell with it: whatever is written through the copy
  later, the original (an object of an informer's cache, say) keeps its value, and the other way
  round.  The copy of nil is nil.\<close>

theorem codeinterpreter_copy_isolated:
  assumes "third_party tp td tf"
    and "run_state (DeepCopy_CodeInterpreter tp p) h = (q, h')"
    and "reachCodeInterpreter tf h p \<subseteq> {..<lim h}"
  shows "valCodeInterpreter td h' q = valCodeInterpreter td h p \<and>
    valCodeInterpreter td h' p = valCodeInterpreter td h p \<and>
    reachCodeInterpreter tf h' p \<inter> reachCodeInterpreter tf h' q = {} \<and>
    (\<forall>a c. a \<in> reachCodeInterpreter tf h' q \<longrightarrow>
      valCodeInterpreter td (assign a c h') p = valCodeInterpreter td h p) \<and>
    (\<forall>a c. a \<in> reachCodeInterpreter tf h' p \<longrightarrow>
      valCodeInterpreter td (assign a c h') q = valCodeInterpreter td h p)"
  by (rule third_party.ci_isolated [OF assms])

theorem codeinterpreter_copy_isolated_witness:
  "case run_state (DeepCopy_CodeInterpreter extThirdParty (Some 4)) sampleMem of (q, h') \<Rightarrow>
    valCodeInterpreter extDen h' q = valCodeInterpreter extDen sampleMem (Some 4) \<and>
    reachCodeInterpreter extFoot h' (Some 4) \<inter> reachCodeInterpreter extFoot h' q = {}"
proof -
  have "reachCodeInterpreter extFoot sampleMem (Some 4) \<subseteq> {..<lim sampleMem}"
    unfolding sampleMem_reach by (simp add: sampleMem_def)
  from codeinterpreter_copy_isolated [OF ext.third_party_axioms prod.collapse [symmetric] this]
  show ?thesis by (simp add: case_prod_beta)
qed

text \<open>\<open>DeepCopyObject\<close> of an AgentRuntimeList gives the nil interface exactly for a nil list;
  otherwise it gives an interface holding a non-nil pointer to a list with the same items, in the
  same order and with the same values, all of whose cells (the item array, the templates, the
  conditions) were allocated by the call, while every cell that existed before is unchanged.\<close>

theorem agentruntimelist_copyobject_fresh:
  assumes "third_party tp td tf"
    and "run_state (DeepCopyObject_AgentRuntimeList tp p) h = (obj, h')"
    and "reachAgentRuntimeList tf h p \<subseteq> {..<lim h}"
  shows "(obj = None \<longleftrightarrow> p = None) \<and>
    (\<forall>q. obj = Some (ObjAgentRuntimeList q) \<longrightarrow> q \<noteq> None \<and>
      valAgentRuntimeList td h' q = valAgentRuntimeList td h p \<and>
      reachAgentRuntimeList tf h' q \<subseteq> {lim h..<lim h'}) \<and>
    (\<forall>a < lim h. cells h' a = cells h a)"
proof -
  obtain q where r: "run_state (DeepCopy_AgentRuntimeList tp p) h = (q, h')"
    and obj: "obj = asObject ObjAgentRuntimeList q"
    using assms(2) by (auto simp: DeepCopyObject_AgentRuntimeList_def split: prod.splits)
  have c: "copied (valAgentRuntimeList td) (reachAgentRuntimeList tf) h p h' q"
    by (rule third_party.arList_copies [OF assms(1) r])
  then have v: "valAgentRuntimeList td h' q = valAgentRuntimeList td h p"
    using assms(3) by (simp add: copied_def)
  then have "q = None \<longleftrightarrow> p = None" by (cases p; cases q) (simp_all add: denPtr_def)
  then show ?thesis using c v assms(3) by (auto simp: copied_def extends_def obj asObject_def)
qed

theorem agentruntimelist_copyobject_fresh_witness:
  "\<forall>a < lim sampleListMem.
    cells (snd (run_state (DeepCopyObject_AgentRuntimeList extThirdParty (Some 3)) sampleListMem)) a
      = cells sampleListMem a"
proof -
  have "reachAgentRuntimeList extFoot sampleListMem (Some 3) \<subseteq> {..<lim sampleListMem}"
    unfolding sampleListMem_reach by (simp add: sampleListMem_def)
  from agentruntimelist_copyobject_fresh [OF ext.third_party_axioms prod.collapse [symmetric] this]
  show ?thesis by blast
qed

end
