(* ===== verification/BuilderMem.thy ===== *)
theory BuilderMem
  imports Builder DeepCopy
begin

text \<open>
  The construction of a sandbox on shared memory (\<open>pkg/workloadmanager/workload_builder.go\<close>).  Theory
  \<open>Builder\<close> works on values; here the same functions run on the heap, where the listers hand out
  pointers into the informers' caches.  The builders share slices and struct fields with the cached
  object, copy its pod spec, and write into maps.  They refine the functions of \<open>Builder\<close>, and no write goes to a
  cell that existed before, so the caches stay as they are.

  Of \<open>corev1.PodSpec\<close> the code reads and clears \<open>RuntimeClassName\<close>: \<open>po_RuntimeClassName\<close> and
  \<open>po_clearRuntimeClassName\<close>.
\<close>

subsection \<open>Writing into maps\<close>

definition mapPut :: "nat \<Rightarrow> string \<Rightarrow> string \<Rightarrow> ('x, unit) mem" where
  "mapPut a k v = do {
     h \<leftarrow> State_Monad.get;
     State_Monad.set (assign a (CMap (DAList.update k v (unMap (cells h a)))) h) }"

text \<open>\<open>maps.Copy(dst, src)\<close>; a nil \<open>src\<close> has no elements.\<close>

definition mapsCopy :: "nat \<Rightarrow> ptr \<Rightarrow> ('x, unit) mem" where
  "mapsCopy dst src = (case src of
     None \<Rightarrow> State_Monad.return ()
   | Some b \<Rightarrow> do {
       h \<leftarrow> State_Monad.get;
       State_Monad.set (assign dst (CMap (fold (\<lambda>(k, v) out. DAList.update k v out)
         (DAList.impl_of (unMap (cells h b))) (unMap (cells h dst)))) h) })"

text \<open>A map literal.\<close>

definition mapLit :: "(string \<times> string) list \<Rightarrow> ('x, nat) mem" where
  "mapLit kvs = new (CMap (fold (\<lambda>(k, v) out. DAList.update k v out) kvs DAList.empty))"

subsection \<open>\<open>buildSandboxObject\<close>\<close>

record 'x buildSandboxParamsM =
  bm_namespace :: string
  bm_workloadName :: string
  bm_sandboxName :: string
  bm_sessionID :: string
  bm_ownerID :: string
  bm_ttl :: Duration
  bm_idleTimeout :: Duration
  bm_podSpec :: 'x
  bm_podLabels :: ptr
  bm_podAnnotations :: ptr

text \<open>The new object; its maps and pointers are never nil.\<close>

record 'x SandboxM =
  sm_Name :: string
  sm_Namespace :: string
  sm_Labels :: nat
  sm_Annotations :: nat
  sm_PodSpec :: 'x
  sm_PodLabels :: nat
  sm_PodAnnotations :: nat
  sm_ShutdownTime :: nat
  sm_Replicas :: nat

definition buildSandboxObjectM :: "(string \<Rightarrow> string) \<Rightarrow> Time \<Rightarrow> 'x buildSandboxParamsM \<Rightarrow>
    ('x, 'x SandboxM) mem" where
  "buildSandboxObjectM sha256Hex now params = do {
     let ttl = (if bm_ttl params = 0 then DefaultSandboxTTL else bm_ttl params);
     let idleTimeout = (if bm_idleTimeout params = 0 then DefaultSandboxIdleTimeout
       else bm_idleTimeout params);
     shutdownTime \<leftarrow> new (CInt (now + ttl));
     podLabels \<leftarrow> mapLit [];
     mapsCopy podLabels (bm_podLabels params);
     mapPut podLabels SessionIdLabelKey (bm_sessionID params);
     mapPut podLabels SandboxNameLabelKey (bm_sandboxName params);
     podAnnotations \<leftarrow> mapLit [];
     mapsCopy podAnnotations (bm_podAnnotations params);
     labels \<leftarrow> mapLit [(SessionIdLabelKey, bm_sessionID params),
       (WorkloadNameLabelKey, bm_workloadName params), (''managed-by'', ''agentcube-workload-manager'')];
     annotations \<leftarrow> mapLit [(IdleTimeoutAnnotationKey, DurationString idleTimeout)];
     replicas \<leftarrow> new (CInt 1);
     let sandbox = \<lparr>sm_Name = bm_sandboxName params, sm_Namespace = bm_namespace params,
       sm_Labels = labels, sm_Annotations = annotations, sm_PodSpec = bm_podSpec params,
       sm_PodLabels = podLabels, sm_PodAnnotations = podAnnotations, sm_ShutdownTime = shutdownTime,
       sm_Replicas = replicas\<rparr>;
     _ \<leftarrow> (if bm_ownerID params \<noteq> [] then do {
         mapPut (sm_Annotations sandbox) ownerAnnotationKey (bm_ownerID params);
         mapPut (sm_Labels sandbox) ownerHashLabelKey (sha256Short sha256Hex (bm_ownerID params)) }
       else State_Monad.return ());
     State_Monad.return sandbox }"

subsection \<open>\<open>buildSandboxByAgentRuntime\<close>\<close>

record 'x podSpecOps =
  po_RuntimeClassName :: "'x \<Rightarrow> ptr"
  po_clearRuntimeClassName :: "'x \<Rightarrow> 'x"

record sandboxEntryM =
  em_Kind :: string
  em_SessionID :: string
  em_OwnerID :: string
  em_Ports :: gslice
  em_IdleTimeout :: Duration

text \<open>\<open>podSpec.DeepCopy()\<close> and the normalization of \<open>RuntimeClassName\<close>, which writes a field of the copy.\<close>

definition copyPodSpec :: "'x thirdParty \<Rightarrow> 'x podSpecOps \<Rightarrow> 'x \<Rightarrow> ('x, nat) mem" where
  "copyPodSpec tp ops spec = do {
     copy \<leftarrow> PodSpec_DeepCopyInto tp spec;
     podSpec \<leftarrow> new (CExt copy);
     h \<leftarrow> State_Monad.get;
     _ \<leftarrow> (case po_RuntimeClassName ops (unExt (cells h podSpec)) of
        None \<Rightarrow> State_Monad.return ()
      | Some r \<Rightarrow>
          if unStr (cells h r) = [] then
            State_Monad.set (assign podSpec (CExt (po_clearRuntimeClassName ops (unExt (cells h podSpec)))) h)
          else State_Monad.return ());
     State_Monad.return podSpec }"

definition readInt :: "'x cell heap \<Rightarrow> ptr \<Rightarrow> Duration \<Rightarrow> Duration" where
  "readInt h p d = (case p of None \<Rightarrow> d | Some a \<Rightarrow> unInt (cells h a))"

definition agentRuntimeParamsM :: "buildEnv \<Rightarrow> string \<Rightarrow> string \<Rightarrow> string \<Rightarrow> 'x cell heap \<Rightarrow> AgentRuntimeSpecM \<Rightarrow>
    'x SandboxTemplateM \<Rightarrow> nat \<Rightarrow> 'x buildSandboxParamsM" where
  "agentRuntimeParamsM env namespace name ownerID h spec template podSpec =
     \<lparr>bm_namespace = namespace, bm_workloadName = name,
      bm_sandboxName = name @ ''-'' @ RandString 8 (be_draws env), bm_sessionID = be_uuid env,
      bm_ownerID = ownerID, bm_ttl = readInt h (arm_MaxSessionDuration spec) 0,
      bm_idleTimeout = readInt h (arm_SessionTimeout spec) DefaultSandboxIdleTimeout,
      bm_podSpec = unExt (cells h podSpec), bm_podLabels = stm_Labels template,
      bm_podAnnotations = stm_Annotations template\<rparr>"

definition buildSandboxByAgentRuntimeM :: "apierrors \<Rightarrow> 'x thirdParty \<Rightarrow> 'x podSpecOps \<Rightarrow>
    (string \<Rightarrow> string \<Rightarrow> nat res) \<Rightarrow> buildEnv \<Rightarrow> string \<Rightarrow> string \<Rightarrow> string \<Rightarrow>
    ('x, ('x SandboxM \<times> sandboxEntryM) res) mem" where
  "buildSandboxByAgentRuntimeM ae tp ops lister env namespace name ownerID =
     (case lister namespace name of
        Inl e \<Rightarrow> State_Monad.return
          (if ae_IsNotFound ae e then Inl (ErrVar ErrAgentRuntimeNotFound)
           else Inl (ErrWrap (''failed to get agent runtime '' @ namespace @ ''/'' @ name) e))
      | Inr agentRuntimeObj \<Rightarrow> do {
          h \<leftarrow> State_Monad.get;
          let spec = arm_Spec (unAgentRuntime (cells h agentRuntimeObj));
          (case arm_Template spec of
             None \<Rightarrow> State_Monad.return (Inl nilPanic)
           | Some t \<Rightarrow> do {
               let template = unSandboxTemplate (cells h t);
               podSpec \<leftarrow> copyPodSpec tp ops (stm_Spec template);
               h \<leftarrow> State_Monad.get;
               let buildParams = agentRuntimeParamsM env namespace name ownerID h spec template podSpec;
               sandbox \<leftarrow> buildSandboxObjectM (be_sha256 env) (be_now env) buildParams;
               State_Monad.return (Inr (sandbox, \<lparr>em_Kind = SandboxKind,
                 em_SessionID = bm_sessionID buildParams, em_OwnerID = [], em_Ports = arm_Ports spec,
                 em_IdleTimeout = bm_idleTimeout buildParams\<rparr>)) }) })"

subsection \<open>The object a build leaves in memory\<close>

definition absParams :: "('x cell heap \<Rightarrow> 'x \<Rightarrow> PodSpec) \<Rightarrow> 'x cell heap \<Rightarrow> 'x buildSandboxParamsM \<Rightarrow>
    buildSandboxParams" where
  "absParams pv h p =
     \<lparr>bp_namespace = bm_namespace p, bp_workloadName = bm_workloadName p, bp_sandboxName = bm_sandboxName p,
      bp_sessionID = bm_sessionID p, bp_ownerID = bm_ownerID p, bp_ttl = bm_ttl p,
      bp_idleTimeout = bm_idleTimeout p, bp_podSpec = pv h (bm_podSpec p),
      bp_podLabels = denMap h (bm_podLabels p), bp_podAnnotations = denMap h (bm_podAnnotations p)\<rparr>"

abbreviation mapAt :: "'x cell heap \<Rightarrow> nat \<Rightarrow> string \<rightharpoonup> string" where
  "mapAt h a \<equiv> DAList.lookup (unMap (cells h a))"

definition absSandbox :: "('x cell heap \<Rightarrow> 'x \<Rightarrow> PodSpec) \<Rightarrow> 'x cell heap \<Rightarrow> 'x SandboxM \<Rightarrow> Sandbox" where
  "absSandbox pv h s = zeroSandbox
     \<lparr>sb_Name := sm_Name s, sb_Namespace := sm_Namespace s, sb_Labels := mapAt h (sm_Labels s),
      sb_Annotations := mapAt h (sm_Annotations s), sb_PodSpec := pv h (sm_PodSpec s),
      sb_PodLabels := mapAt h (sm_PodLabels s), sb_PodAnnotations := mapAt h (sm_PodAnnotations s),
      sb_ShutdownTime := Some (unInt (cells h (sm_ShutdownTime s))),
      sb_Replicas := Some (unInt (cells h (sm_Replicas s)))\<rparr>"

lemma cells_assign [simp]: "cells (assign a c h) = (cells h)(a := c)"
  by (simp add: assign_def)

lemma lim_assign [simp]: "lim (assign a c h) = lim h"
  by (simp add: assign_def)

lemma run_mapPut [simp]:
  "run_state (mapPut a k v) h = ((), assign a (CMap (DAList.update k v (unMap (cells h a)))) h)"
  by (simp add: mapPut_def)

lemma run_mapsCopy [simp]:
  "run_state (mapsCopy d src) h = ((), case src of None \<Rightarrow> h | Some b \<Rightarrow>
     assign d (CMap (fold (\<lambda>(k, v) out. DAList.update k v out) (DAList.impl_of (unMap (cells h b)))
       (unMap (cells h d)))) h)"
  by (simp add: mapsCopy_def split: option.split)

lemma lookup_update_fun: "DAList.lookup (DAList.update k v m) = (DAList.lookup m)(k \<mapsto> v)"
  by (simp add: fun_eq_iff lookup_update)

lemma lookup_empty_fun: "DAList.lookup DAList.empty = Map.empty"
  by (simp add: fun_eq_iff)

lemma lookup_copied:
  "DAList.lookup (fold (\<lambda>(k, v) out. DAList.update k v out) (DAList.impl_of m) DAList.empty) = DAList.lookup m"
  for m :: gomap
  using lookup_rangeAssign [of m] by (simp add: rangeAssign_def)

lemma extends_assign: "extends h h1 \<Longrightarrow> lim h \<le> a \<Longrightarrow> extends h (assign a c h1)"
  by (auto simp: extends_def)

definition alloc :: "'x cell \<Rightarrow> 'x cell heap \<Rightarrow> 'x cell heap" where
  "alloc c h = h\<lparr>cells := (cells h)(lim h := c), lim := Suc (lim h)\<rparr>"

lemma cells_alloc [simp]: "cells (alloc c h) = (cells h)(lim h := c)"
  by (simp add: alloc_def)

lemma lim_alloc [simp]: "lim (alloc c h) = Suc (lim h)"
  by (simp add: alloc_def)

lemma run_new_alloc: "run_state (new c) h = (lim h, alloc c h)"
  by (simp add: alloc_def)

lemma extends_into_alloc: "extends h h1 \<Longrightarrow> extends h (alloc c h1)"
  by (auto simp: extends_def)

declare run_new [simp del]

lemma assign_alloc:
  "a = lim h \<Longrightarrow> assign a c (alloc d h) = alloc c h"
  "a \<noteq> lim h \<Longrightarrow> assign a c (alloc d h) = alloc d (assign a c h)"
  by (simp_all add: assign_def alloc_def fun_upd_twist)

text \<open>\<open>make\<close> followed by \<open>maps.Copy\<close>.\<close>

definition copiedMap :: "'x cell heap \<Rightarrow> ptr \<Rightarrow> gomap" where
  "copiedMap h src = (case src of None \<Rightarrow> DAList.empty | Some b \<Rightarrow> rangeAssign (unMap (cells h b)))"

lemma run_copiedMap:
  assumes "\<And>b. src = Some b \<Longrightarrow> b < lim h"
  shows "run_state (mapsCopy (lim h) src) (alloc (CMap DAList.empty) h) = ((), alloc (CMap (copiedMap h src)) h)"
  using assms by (auto simp: copiedMap_def rangeAssign_def assign_alloc split: option.split)

lemma lookup_copiedMap: "DAList.lookup (copiedMap h src) = mapOrEmpty (denMap h src)"
  by (simp add: copiedMap_def mapOrEmpty_def denPtr_def lookup_rangeAssign lookup_empty_fun split: option.split)

lemma copiedMap_alloc: "(\<And>b. src = Some b \<Longrightarrow> b < lim h) \<Longrightarrow> copiedMap (alloc c h) src = copiedMap h src"
  by (auto simp: copiedMap_def split: option.split)

definition ownLabels :: "(string \<Rightarrow> string) \<Rightarrow> 'x buildSandboxParamsM \<Rightarrow> gomap" where
  "ownLabels sha p =
     (let m = DAList.update ''managed-by'' ''agentcube-workload-manager''
        (DAList.update WorkloadNameLabelKey (bm_workloadName p)
        (DAList.update SessionIdLabelKey (bm_sessionID p) DAList.empty))
      in if bm_ownerID p \<noteq> [] then DAList.update ownerHashLabelKey (sha256Short sha (bm_ownerID p)) m else m)"

definition ownAnnotations :: "'x buildSandboxParamsM \<Rightarrow> gomap" where
  "ownAnnotations p =
     (let m = DAList.update IdleTimeoutAnnotationKey (DurationString
        (if bm_idleTimeout p = 0 then DefaultSandboxIdleTimeout else bm_idleTimeout p)) DAList.empty
      in if bm_ownerID p \<noteq> [] then DAList.update ownerAnnotationKey (bm_ownerID p) m else m)"

lemma run_buildSandboxObjectM:
  assumes labels: "\<And>a. bm_podLabels p = Some a \<Longrightarrow> a < lim h"
    and annotations: "\<And>a. bm_podAnnotations p = Some a \<Longrightarrow> a < lim h"
  shows "run_state (buildSandboxObjectM sha now p) h =
    (\<lparr>sm_Name = bm_sandboxName p, sm_Namespace = bm_namespace p, sm_Labels = lim h + 3,
      sm_Annotations = lim h + 4, sm_PodSpec = bm_podSpec p, sm_PodLabels = lim h + 1,
      sm_PodAnnotations = lim h + 2, sm_ShutdownTime = lim h, sm_Replicas = lim h + 5\<rparr>,
     alloc (CInt 1) (alloc (CMap (ownAnnotations p)) (alloc (CMap (ownLabels sha p))
       (alloc (CMap (copiedMap h (bm_podAnnotations p)))
       (alloc (CMap (DAList.update SandboxNameLabelKey (bm_sandboxName p)
          (DAList.update SessionIdLabelKey (bm_sessionID p) (copiedMap h (bm_podLabels p)))))
       (alloc (CInt (now + (if bm_ttl p = 0 then DefaultSandboxTTL else bm_ttl p))) h))))))"
proof -
  have l: "run_state (mapsCopy (Suc (lim h)) (bm_podLabels p)) (alloc (CMap DAList.empty) (alloc c h)) =
      ((), alloc (CMap (copiedMap h (bm_podLabels p))) (alloc c h))" for c
    using run_copiedMap [of "bm_podLabels p" "alloc c h"] copiedMap_alloc [of "bm_podLabels p" h c] labels
    by (simp add: less_Suc_eq)
  have a: "run_state (mapsCopy (Suc (Suc (lim h))) (bm_podAnnotations p))
        (alloc (CMap DAList.empty) (alloc c (alloc d h))) =
      ((), alloc (CMap (copiedMap h (bm_podAnnotations p))) (alloc c (alloc d h)))" for c d
    using run_copiedMap [of "bm_podAnnotations p" "alloc c (alloc d h)"]
      copiedMap_alloc [of "bm_podAnnotations p" h d] copiedMap_alloc [of "bm_podAnnotations p" "alloc d h" c]
      annotations
    by (simp add: less_Suc_eq)
  show ?thesis
    by (cases "bm_ownerID p = []")
      (simp_all add: buildSandboxObjectM_def mapLit_def Let_def run_new_alloc l a assign_alloc ownLabels_def
        ownAnnotations_def del: run_mapsCopy)
qed

lemma buildSandboxObjectM_mem:
  assumes run: "run_state (buildSandboxObjectM sha now p) h = (s, h')"
    and ptrs: "\<And>a. bm_podLabels p = Some a \<Longrightarrow> a < lim h" "\<And>a. bm_podAnnotations p = Some a \<Longrightarrow> a < lim h"
    and pv: "\<And>h1. extends h h1 \<Longrightarrow> pv h1 (bm_podSpec p) = pv h (bm_podSpec p)"
  shows "extends h h'" "absSandbox pv h' s = buildSandboxObject sha now (absParams pv h p)"
proof -
  have "run_state (buildSandboxObjectM sha now p) h = (s, h') \<Longrightarrow> extends h h'"
    using ptrs by (subst (asm) run_buildSandboxObjectM) (auto intro!: extends_into_alloc)
  with run show e: "extends h h'" by simp
  from pv [OF this] run ptrs show "absSandbox pv h' s = buildSandboxObject sha now (absParams pv h p)"
    by (subst (asm) run_buildSandboxObjectM)
      (auto simp: absSandbox_def absParams_def buildSandboxObject_def Let_def lookup_update_fun lookup_empty_fun
        lookup_copiedMap ownLabels_def ownAnnotations_def)
qed

text \<open>The cached object and the entry as the values of theory \<open>Builder\<close>; \<open>nm\<close> reads namespace and name off the
  metadata.\<close>

definition listOf :: "'a list option \<Rightarrow> 'a list" where
  "listOf xs = (case xs of None \<Rightarrow> [] | Some ys \<Rightarrow> ys)"

definition absAgentRuntime :: "('x cell heap \<Rightarrow> 'x \<Rightarrow> PodSpec) \<Rightarrow> ('x \<Rightarrow> string \<times> string) \<Rightarrow> 'x cell heap \<Rightarrow>
    'x AgentRuntimeM \<Rightarrow> AgentRuntime" where
  "absAgentRuntime pv nm h r =
     \<lparr>ar_Namespace = fst (nm (arm_ObjectMeta r)), ar_Name = snd (nm (arm_ObjectMeta r)),
      ar_Ports = listOf (denPorts h (arm_Ports (arm_Spec r))),
      ar_Template = denPtr unSandboxTemplate (\<lambda>h t. \<lparr>st_Labels = denMap h (stm_Labels t),
        st_Annotations = denMap h (stm_Annotations t), st_Spec = pv h (stm_Spec t)\<rparr>) h (arm_Template (arm_Spec r)),
      ar_SessionTimeout = denInt h (arm_SessionTimeout (arm_Spec r)),
      ar_MaxSessionDuration = denInt h (arm_MaxSessionDuration (arm_Spec r))\<rparr>"

definition absEntry :: "'x cell heap \<Rightarrow> sandboxEntryM \<Rightarrow> sandboxEntry" where
  "absEntry h e =
     \<lparr>en_Kind = em_Kind e, en_SessionID = em_SessionID e, en_OwnerID = em_OwnerID e,
      en_Ports = listOf (denPorts h (em_Ports e)), en_IdleTimeout = em_IdleTimeout e\<rparr>"

lemma readInt_den: "readInt h p d = (case denInt h p of None \<Rightarrow> d | Some n \<Rightarrow> n)"
  by (simp add: readInt_def denPtr_def split: option.split)

subsection \<open>Pod specs\<close>

text \<open>\<open>pv\<close> reads a pod spec off the value of the struct; the accessors do what their names say.\<close>

locale pod_struct = third_party tp td tf
  for tp :: "'x thirdParty" and td :: "'x cell heap \<Rightarrow> 'x \<Rightarrow> 'v" and tf +
  fixes pv :: "'v \<Rightarrow> PodSpec" and ops :: "'x podSpecOps"
  assumes rc_den: "ps_RuntimeClassName (pv (td h x)) = denPtr unStr (\<lambda>h s. s) h (po_RuntimeClassName ops x)"
    and clear_den: "pv (td h (po_clearRuntimeClassName ops x)) = (pv (td h x))\<lparr>ps_RuntimeClassName := None\<rparr>"
    and clear_foot: "tf h (po_clearRuntimeClassName ops x) \<subseteq> tf h x"
begin

abbreviation podAt :: "'x cell heap \<Rightarrow> 'x \<Rightarrow> PodSpec" where
  "podAt h x \<equiv> pv (td h x)"

lemma podAt_stable: "extends h h' \<Longrightarrow> tf h x \<subseteq> {..<lim h} \<Longrightarrow> podAt h' x = podAt h x"
  using heap_view.stable(1) [OF deep_copy.axioms(1) [OF podSpec_deep]] by metis

lemma tf_stable: "extends h h' \<Longrightarrow> tf h x \<subseteq> {..<lim h} \<Longrightarrow> tf h' x = tf h x"
  using heap_view.stable(2) [OF deep_copy.axioms(1) [OF podSpec_deep]] by metis

lemma copyPodSpec_mem:
  assumes run: "run_state (copyPodSpec tp ops spec) h = (b, h')" and spec: "tf h spec \<subseteq> {..<lim h}"
  shows "extends h h'"
    "podAt h' (unExt (cells h' b)) = (podAt h spec)
       \<lparr>ps_RuntimeClassName := normalizeRuntimeClass (ps_RuntimeClassName (podAt h spec))\<rparr>"
    "tf h' (unExt (cells h' b)) \<subseteq> {..<lim h'}"
proof -
  obtain c h1 where r: "run_state (PodSpec_DeepCopyInto tp spec) h = (c, h1)" by fastforce
  let ?h2 = "alloc (CExt c) h1"
  have c: "extends h h1" "td h1 c = td h spec" "tf h1 c \<subseteq> {..<lim h1}"
    using deep_copy.copies [OF podSpec_deep r] spec by (auto simp: copied_def)
  have e2: "extends h1 ?h2" by (rule extends_into_alloc) simp
  have c2: "podAt ?h2 c = podAt h spec" "tf ?h2 c = tf h1 c"
    using podAt_stable [OF e2 c(3)] tf_stable [OF e2 c(3)] c(2) by simp_all
  let ?clear = "\<exists>r. po_RuntimeClassName ops c = Some r \<and> unStr (cells ?h2 r) = []"
  define v where "v = (if ?clear then po_clearRuntimeClassName ops c else c)"
  have b: "b = lim h1" and h': "h' = alloc (CExt v) h1"
    using run
    by (auto simp: copyPodSpec_def r run_new_alloc assign_alloc v_def split: option.splits if_splits)
  have "ps_RuntimeClassName (podAt h spec) = denPtr unStr (\<lambda>h s. s) ?h2 (po_RuntimeClassName ops c)"
    using rc_den [of ?h2 c] c2(1) by simp
  then have "?clear \<longleftrightarrow> ps_RuntimeClassName (podAt h spec) = Some []" by (auto simp: denPtr_def)
  then have v: "podAt h1 v = (podAt h spec)
       \<lparr>ps_RuntimeClassName := normalizeRuntimeClass (ps_RuntimeClassName (podAt h spec))\<rparr>"
    using c(2) clear_den [of h1 c] by (auto simp: v_def normalizeRuntimeClass_def)
  have e': "extends h1 h'" unfolding h' by (rule extends_into_alloc) simp
  show "extends h h'" using extends_trans [OF c(1) e'] .
  have tv: "tf h1 v \<subseteq> {..<lim h1}" using c(3) clear_foot [of h1 c] by (auto simp: v_def)
  have "cells h' b = CExt v" by (simp add: b h')
  then show "podAt h' (unExt (cells h' b)) = (podAt h spec)
       \<lparr>ps_RuntimeClassName := normalizeRuntimeClass (ps_RuntimeClassName (podAt h spec))\<rparr>"
    and "tf h' (unExt (cells h' b)) \<subseteq> {..<lim h'}"
    using podAt_stable [OF e' tv] tf_stable [OF e' tv] v tv extends_lim [OF e'] by auto
qed

lemma denInt_stable: "extends h h' \<Longrightarrow> footInt h q \<subseteq> {..<lim h} \<Longrightarrow> denInt h' q = denInt h q"
  using heap_view.stable(1) [OF deep_copy.axioms(1) [OF ints]] by metis

lemma denMap_stable: "extends h h' \<Longrightarrow> footMap h q \<subseteq> {..<lim h} \<Longrightarrow> denMap h' q = denMap h q"
  using heap_view.stable(1) [OF deep_copy.axioms(1) [OF maps]] by metis

lemma denPorts_stable: "extends h h' \<Longrightarrow> footPorts h q \<subseteq> {..<lim h} \<Longrightarrow> denPorts h' q = denPorts h q"
  using heap_view.stable(1) [OF deep_copy.axioms(1) [OF ports]] by metis

lemma build_template_mem:
  assumes c: "run_state (copyPodSpec tp ops (stm_Spec template)) h = (b, h1)"
    and obj: "run_state (buildSandboxObjectM (be_sha256 env) (be_now env)
      (agentRuntimeParamsM env ns name owner h1 spec template b)) h1 = (s, h2)"
    and ft: "footInt h (arm_SessionTimeout spec) \<subseteq> {..<lim h}" "footInt h (arm_MaxSessionDuration spec) \<subseteq> {..<lim h}"
    and tt: "footMap h (stm_Labels template) \<subseteq> {..<lim h}" "footMap h (stm_Annotations template) \<subseteq> {..<lim h}"
      "tf h (stm_Spec template) \<subseteq> {..<lim h}"
  shows "extends h h2"
    "absSandbox podAt h2 s = buildSandboxObject (be_sha256 env) (be_now env)
      \<lparr>bp_namespace = ns, bp_workloadName = name, bp_sandboxName = name @ ''-'' @ RandString 8 (be_draws env),
       bp_sessionID = be_uuid env, bp_ownerID = owner, bp_ttl = readInt h (arm_MaxSessionDuration spec) 0,
       bp_idleTimeout = readInt h (arm_SessionTimeout spec) DefaultSandboxIdleTimeout,
       bp_podSpec = (podAt h (stm_Spec template)) \<lparr>ps_RuntimeClassName :=
         normalizeRuntimeClass (ps_RuntimeClassName (podAt h (stm_Spec template)))\<rparr>,
       bp_podLabels = denMap h (stm_Labels template), bp_podAnnotations = denMap h (stm_Annotations template)\<rparr>"
proof -
  let ?p = "agentRuntimeParamsM env ns name owner h1 spec template b"
  note m = copyPodSpec_mem [OF c tt(3)]
  have l: "bm_podLabels ?p = Some a \<Longrightarrow> a < lim h1" and an: "bm_podAnnotations ?p = Some a \<Longrightarrow> a < lim h1" for a
    using tt(1,2) extends_lim [OF m(1)] by (auto simp: agentRuntimeParamsM_def footPtr_def)
  have sp: "bm_podSpec ?p = unExt (cells h1 b)" by (simp add: agentRuntimeParamsM_def)
  have pv: "podAt h3 (bm_podSpec ?p) = podAt h1 (bm_podSpec ?p)" if "extends h1 h3" for h3
    unfolding sp by (rule podAt_stable [OF that m(3)])
  show "extends h h2"
    by (rule extends_trans [OF m(1) buildSandboxObjectM_mem(1) [where pv = podAt, OF obj]], erule l, erule an, erule pv)
  have "absSandbox podAt h2 s = buildSandboxObject (be_sha256 env) (be_now env) (absParams podAt h1 ?p)"
    by (rule buildSandboxObjectM_mem(2) [where pv = podAt, OF obj], erule l, erule an, erule pv)
  then show "absSandbox podAt h2 s = buildSandboxObject (be_sha256 env) (be_now env)
      \<lparr>bp_namespace = ns, bp_workloadName = name, bp_sandboxName = name @ ''-'' @ RandString 8 (be_draws env),
       bp_sessionID = be_uuid env, bp_ownerID = owner, bp_ttl = readInt h (arm_MaxSessionDuration spec) 0,
       bp_idleTimeout = readInt h (arm_SessionTimeout spec) DefaultSandboxIdleTimeout,
       bp_podSpec = (podAt h (stm_Spec template)) \<lparr>ps_RuntimeClassName :=
         normalizeRuntimeClass (ps_RuntimeClassName (podAt h (stm_Spec template)))\<rparr>,
       bp_podLabels = denMap h (stm_Labels template), bp_podAnnotations = denMap h (stm_Annotations template)\<rparr>"
    by (simp add: absParams_def agentRuntimeParamsM_def m(2) readInt_den denInt_stable [OF m(1)]
        denMap_stable [OF m(1)] ft tt)
qed

lemma agentRuntime_build_mem:
  assumes run: "run_state (buildSandboxByAgentRuntimeM ae tp ops lister env ns name owner) h = (r, h')"
    and reach: "\<And>a. lister ns name = Inr a \<Longrightarrow> footPtr unAgentRuntime (footAgentRuntime tf) h (Some a) \<subseteq> {..<lim h}"
  shows "extends h h' \<and> map_sum id (map_prod (absSandbox podAt h') (absEntry h')) r =
    buildSandboxByAgentRuntime ae
      (\<lambda>ns n. map_sum id (\<lambda>a. absAgentRuntime podAt nm h (unAgentRuntime (cells h a))) (lister ns n)) env ns name owner"
proof (cases "\<exists>a t. lister ns name = Inr a \<and> arm_Template (arm_Spec (unAgentRuntime (cells h a))) = Some t")
  case False
  then show ?thesis
    using run by (auto simp: buildSandboxByAgentRuntimeM_def buildSandboxByAgentRuntime_def absAgentRuntime_def
        denPtr_def Let_def split: sum.splits option.splits)
next
  case True
  then obtain a t where a: "lister ns name = Inr a" "arm_Template (arm_Spec (unAgentRuntime (cells h a))) = Some t"
    by blast
  define spec where "spec = arm_Spec (unAgentRuntime (cells h a))"
  define template where "template = unSandboxTemplate (cells h t)"
  note def_folds = spec_def [symmetric] template_def [symmetric]
  have t: "arm_Template spec = Some t" using a(2) by (simp add: spec_def)
  have ft: "footPorts h (arm_Ports spec) \<subseteq> {..<lim h}" "footInt h (arm_SessionTimeout spec) \<subseteq> {..<lim h}"
    "footInt h (arm_MaxSessionDuration spec) \<subseteq> {..<lim h}"
    and tt: "footMap h (stm_Labels template) \<subseteq> {..<lim h}" "footMap h (stm_Annotations template) \<subseteq> {..<lim h}"
      "tf h (stm_Spec template) \<subseteq> {..<lim h}"
    using reach [OF a(1)] t by (auto simp: footPtr_def footAgentRuntime_def footAgentRuntimeSpec_def
        footSandboxTemplate_def def_folds)
  obtain b h1 where c: "run_state (copyPodSpec tp ops (stm_Spec template)) h = (b, h1)" by fastforce
  let ?p = "agentRuntimeParamsM env ns name owner h1 spec template b"
  obtain s where obj: "run_state (buildSandboxObjectM (be_sha256 env) (be_now env) ?p) h1 = (s, h')"
    and r: "r = Inr (s, \<lparr>em_Kind = SandboxKind, em_SessionID = be_uuid env, em_OwnerID = [],
      em_Ports = arm_Ports spec, em_IdleTimeout = readInt h1 (arm_SessionTimeout spec) DefaultSandboxIdleTimeout\<rparr>)"
    using run a(1) t c by (auto simp: buildSandboxByAgentRuntimeM_def Let_def def_folds agentRuntimeParamsM_def
        split: prod.splits)
  note m = build_template_mem [OF c obj ft(2,3) tt]
  have "denPorts h' (arm_Ports spec) = denPorts h (arm_Ports spec)"
    "readInt h1 (arm_SessionTimeout spec) DefaultSandboxIdleTimeout =
      readInt h (arm_SessionTimeout spec) DefaultSandboxIdleTimeout"
    using denPorts_stable [OF m(1) ft(1)] denInt_stable [OF copyPodSpec_mem(1) [OF c tt(3)] ft(2)]
    by (simp_all add: readInt_den)
  then show ?thesis
    using m a(1) t by (simp add: r buildSandboxByAgentRuntime_def absAgentRuntime_def absEntry_def def_folds denPtr_def
        readInt_den Let_def split: option.split)
qed

end

subsection \<open>A cached AgentRuntime\<close>

text \<open>The struct of theory \<open>DeepCopy\<close> as a pod spec whose pointer is the runtime class.\<close>

definition extPodSpec :: "string \<times> string option \<Rightarrow> PodSpec" where
  "extPodSpec v = zeroPodSpec\<lparr>ps_Other := fst v, ps_RuntimeClassName := snd v\<rparr>"

definition extPodOps :: "extStruct podSpecOps" where
  "extPodOps = \<lparr>po_RuntimeClassName = es_Ptr, po_clearRuntimeClassName = (\<lambda>s. s\<lparr>es_Ptr := None\<rparr>)\<rparr>"

interpretation extPod: pod_struct extThirdParty extDen extFoot extPodSpec extPodOps
  by unfold_locales (simp_all add: extPodSpec_def extPodOps_def extDen_def extFoot_def denPtr_def footPtr_def)

definition cachedRuntime :: "extStruct cell heap" where
  "cachedRuntime = \<lparr>cells = (\<lambda>_. CInt 0)(
     0 := CStr [],
     1 := CMap (DAList.update ''app'' ''agent'' DAList.empty),
     2 := CSandboxTemplate \<lparr>stm_Labels = Some 1, stm_Annotations = None,
       stm_Spec = \<lparr>es_Text = ''pod'', es_Ptr = Some 0\<rparr>\<rparr>,
     3 := CInt 900,
     4 := CAgentRuntime
       \<lparr>arm_TypeMeta = \<lparr>tm_Kind = ''AgentRuntime'', tm_APIVersion = ''v1alpha1''\<rparr>,
        arm_ObjectMeta = \<lparr>es_Text = ''ar'', es_Ptr = None\<rparr>,
        arm_Spec = \<lparr>arm_Ports = None, arm_Template = Some 2, arm_SessionTimeout = Some 3,
          arm_MaxSessionDuration = None\<rparr>,
        arm_Status = \<lparr>arst_Conditions = None\<rparr>\<rparr>), lim = 5\<rparr>"

lemma lim_cachedRuntime [simp]: "lim cachedRuntime = 5"
  by (simp add: cachedRuntime_def)

lemma cachedRuntime_reach:
  "footPtr unAgentRuntime (footAgentRuntime extFoot) cachedRuntime (Some 4) = {0, 1, 2, 3, 4}"
  by (auto simp: cachedRuntime_def deep_simps footPtr_def footSlice_def sliceElems_def extFoot_def)

lemma cachedRuntime_template:
  "ar_Template (absAgentRuntime (\<lambda>h x. extPodSpec (extDen h x)) nm cachedRuntime
       (unAgentRuntime (cells cachedRuntime 4))) =
     Some \<lparr>st_Labels = Some [''app'' \<mapsto> ''agent''], st_Annotations = None,
       st_Spec = zeroPodSpec\<lparr>ps_Other := ''pod'', ps_RuntimeClassName := Some []\<rparr>\<rparr>"
  by (simp add: absAgentRuntime_def cachedRuntime_def denPtr_def extPodSpec_def extDen_def lookup_update_fun
      lookup_empty_fun)

subsection \<open>Properties\<close>

text \<open>C15: building a sandbox from an AgentRuntime never writes into the informer's cache.  Run on
  shared memory, with the lister handing out a pointer to the cached object,
  \<open>buildSandboxByAgentRuntime\<close> leaves every cell that existed before as it was, although it normalizes
  the pod spec and adds labels; its result (the object with its labels, annotations and pod spec,
  the entry, or the error) is the one the functions of theory \<open>Builder\<close> compute from the values of the
  cached object.\<close>

theorem build_keeps_cache:
  assumes "pod_struct tp td tf pv ops"
    and "run_state (buildSandboxByAgentRuntimeM ae tp ops lister env ns name owner) h = (r, h')"
    and "\<forall>a. lister ns name = Inr a \<longrightarrow> footPtr unAgentRuntime (footAgentRuntime tf) h (Some a) \<subseteq> {..<lim h}"
  shows "(\<forall>a < lim h. cells h' a = cells h a) \<and>
    map_sum id (map_prod (absSandbox (\<lambda>h x. pv (td h x)) h') (absEntry h')) r =
      buildSandboxByAgentRuntime ae
        (\<lambda>ns n. map_sum id (\<lambda>a. absAgentRuntime (\<lambda>h x. pv (td h x)) nm h (unAgentRuntime (cells h a)))
          (lister ns n)) env ns name owner"
proof -
  have "footPtr unAgentRuntime (footAgentRuntime tf) h (Some a) \<subseteq> {..<lim h}" if "lister ns name = Inr a" for a
    using assms(3) that by blast
  from pod_struct.agentRuntime_build_mem [OF assms(1,2) this, of nm] show ?thesis by (simp add: extends_def)
qed

theorem build_keeps_cache_witness:
  "\<exists>s e h'. run_state (buildSandboxByAgentRuntimeM std_apierrors extThirdParty extPodOps
      (\<lambda>_ _. Inr 4) sampleEnv ''ns'' ''ar'' ''u'') cachedRuntime = (Inr (s, e), h') \<and>
    (\<forall>a < 5. cells h' a = cells cachedRuntime a) \<and>
    sb_PodSpec (absSandbox (\<lambda>h x. extPodSpec (extDen h x)) h' s) = zeroPodSpec\<lparr>ps_Other := ''pod''\<rparr> \<and>
    sb_PodLabels (absSandbox (\<lambda>h x. extPodSpec (extDen h x)) h' s) ''app'' = Some ''agent''"
proof -
  let ?build = "buildSandboxByAgentRuntimeM std_apierrors extThirdParty extPodOps (\<lambda>_ _. Inr 4) sampleEnv
    ''ns'' ''ar'' ''u''"
  let ?rt = "absAgentRuntime (\<lambda>h x. extPodSpec (extDen h x)) (\<lambda>_. ([], [])) cachedRuntime
    (unAgentRuntime (cells cachedRuntime 4))"
  obtain r h' where run: "run_state ?build cachedRuntime = (r, h')" by (cases "run_state ?build cachedRuntime")
  obtain sb en where built: "buildSandboxByAgentRuntime std_apierrors (\<lambda>_ _. Inr ?rt) sampleEnv ''ns'' ''ar'' ''u'' =
      Inr (sb, en)" "sb_PodSpec sb = zeroPodSpec\<lparr>ps_Other := ''pod''\<rparr>" "sb_PodLabels sb ''app'' = Some ''agent''"
    by (simp add: buildSandboxByAgentRuntime_def cachedRuntime_template Let_def buildSandboxObject_def
        normalizeRuntimeClass_def mapOrEmpty_def sampleEnv_def label_keys zeroPodSpec_def)
  show ?thesis
    using build_keeps_cache [OF extPod.pod_struct_axioms run, of "\<lambda>_. ([], [])"] built run
    by (cases r) (auto simp: cachedRuntime_reach)
qed

end
