(* ===== verification/Spec2Isabelle.thy ===== *)
theory Spec2Isabelle
  imports StoreProps Gc Caches Tokens WatchCtl HandlersWorld RouterProps Mtls PicodWorld ReconcilerWorld WmServer
    Lifecycle Ownership K8sClient Mains BuilderMem
begin

text \<open>
  A verification development of agentcube, a session service for sandboxes on Kubernetes.

  \<^bold>\<open>The program.\<close>  A client sends its requests to the \<^emph>\<open>Router\<close> (\<open>src/pkg/router\<close>), which authenticates the user
  with OIDC, finds the session of the request in the \<^emph>\<open>session store\<close> (\<open>src/pkg/store\<close>, on Redis or Valkey) or has
  the \<^emph>\<open>Workload Manager\<close> (\<open>src/pkg/workloadmanager\<close>) create one, and forwards the request to the sandbox.  The
  Workload Manager builds a \<open>Sandbox\<close> or a \<open>SandboxClaim\<close> from an \<open>AgentRuntime\<close> or a \<open>CodeInterpreter\<close>, creates it in
  the cluster, waits until its pod accepts connections and records the session; a garbage collector removes sessions that
  are idle or expired; a controller keeps the warm pools of the code interpreters.  In the pod of a code interpreter runs
  \<^emph>\<open>PicoD\<close> (\<open>src/pkg/picod\<close>), which serves files and runs commands in a workspace for requests the Router has signed.
  Router and Workload Manager talk over mutual TLS with SPIFFE identities (\<open>src/pkg/mtls\<close>).  The Workload Manager reaches the
  custom resources through generated clients, informers and listers (\<open>src/client-go\<close>) and generated deep copies
  (\<open>zz_generated.deepcopy.go\<close>).

  \<^bold>\<open>Ground.\<close>
  \<^item> \<open>Prelude\<close>: errors as values (\<open>gerr\<close>, \<open>res\<close>), time in nanoseconds, and what several parts use of \<open>strings\<close>,
    \<open>strconv\<close> and \<open>time\<close>; the collection \<open>go_simps\<close>.
  \<^item> \<open>Types\<close>: \<open>pkg/common/types\<close> and \<open>pkg/api/errors.go\<close>; the contract of \<open>apimachinery\<close>'s status errors.
  \<^item> \<open>GoTime\<close>, \<open>GoJson\<close>, \<open>JsonAny\<close>, \<open>GoText\<close>, \<open>GoNet\<close>, \<open>GoPath\<close>, \<open>GoFs\<close>: the standard library as the sources use it: RFC
    3339 times, JSON of the stored records and of unknown documents, numbers, durations and base64, URLs and headers,
    file paths, and a file system with symbolic links.  Each has the round trips or invariants its clients need; \<open>FsOps\<close>
    says what the file operations change.
  \<^item> \<open>K8s\<close>: the custom resources and the API server with its contract \<open>cluster_api\<close>; \<open>Jwt\<close>: tokens and keys with the
    contract \<open>jwt_library\<close>.
  \<^item> \<open>GoHeap\<close>: memory as a heap of typed cells with pointers, slices and maps, for the code whose point is what it shares.
    The contracts \<open>heap_view\<close> (a value depends only on the cells it reaches) and \<open>deep_copy\<close>, and the laws that copying a
    pointer, a slice, a map or a structure of deep copies is a deep copy.

  \<^bold>\<open>The session store.\<close>  \<open>KvServer\<close> has the server: its commands and what it promises (\<open>kv_server\<close>).  \<open>StoreSpec\<close> has the
  interface \<open>Store\<close>, the abstract database its clients see and the contract \<open>session_store\<close>: each operation is a step of
  the database, or fails.  \<open>StoreKeys\<close> has the layout of keys and indexes, \<open>StoreBase\<close> the ground both stores share,
  \<open>StoreRedis\<close> and \<open>StoreValkey\<close> the two stores, operation by operation with every error, each with the proof that it
  provides the contract.  \<open>StoreProps\<close>: both refine the database, they agree, what is stored is read back, and the indexes
  name exactly the sessions that exist.

  \<^bold>\<open>The Workload Manager.\<close>
  \<^item> \<open>Builder\<close> (\<open>workload_builder.go\<close>): the objects and records built from a workload, and the cache of the public key.
    \<open>BuilderMem\<close> has the build from an AgentRuntime again on the heap, where the lister hands out a pointer into the cache:
    it refines the one of \<open>Builder\<close> and writes to no cell of the cache.  The build from a CodeInterpreter is on values only.
  \<^item> \<open>Lru\<close>, \<open>Caches\<close> (\<open>client_cache.go\<close>, \<open>auth.go\<close>): the caches of clients and token reviews, and the middleware.
  \<^item> \<open>Gc\<close> (\<open>garbage_collection.go\<close>): a pass removes only what is due and all that is due, and no object is ever left without
    a record.
  \<^item> \<open>WatchCtl\<close> (\<open>sandbox_controller.go\<close>): watchers and reconciliations as interleaved steps; no notification is lost.
  \<^item> \<open>Waiting\<close>, \<open>Handlers\<close> (\<open>handlers.go\<close>, \<open>sandbox_helper.go\<close>, \<open>k8s_client.go\<close>): the waits and the handlers; \<open>HandlersProps\<close>
    and \<open>HandlersWorld\<close>: a creation that succeeds leaves an object and its record, one that fails leaves neither, a
    deletion removes the object first, every request comes to an end and errors do not leak.
  \<^item> \<open>Reconciler\<close>, \<open>ReconcilerWorld\<close> (\<open>codeinterpreter_controller.go\<close>): a reconciliation reaches what the object asks for,
    and a second one does nothing; how the pod of a warm pool compares with one that is built directly.
  \<^item> \<open>WmServer\<close> (\<open>server.go\<close>, \<open>informers.go\<close>, \<open>cmd/workload-manager\<close>): the controllers, routes behind the authentication
    and the choice of the listener; \<open>Lifecycle\<close>: how the processes end, as interleavings of their goroutines.
  \<^item> \<open>K8sClient\<close> (\<open>k8s_client.go\<close>): how the clients and informers are made from the configuration, the clients for users,
    and the wait for a ready sandbox.  With \<open>Informers\<close> it shows that the process starts exactly the informers its listers
    read.

  \<^bold>\<open>The generated code.\<close>
  \<^item> \<open>DeepCopy\<close> (\<open>zz_generated.deepcopy.go\<close>): every copy of the custom resources on the heap of \<open>GoHeap\<close>.  The copies of
    third-party structures are parameters under the contract \<open>third_party\<close>, that they are deep; then so is each generated
    copy, and original and copy share no cell.
  \<^item> \<open>Clientset\<close> (\<open>clientset.go\<close>, \<open>runtime_client.go\<close>): defaults, rate limits and construction of the typed clients.
  \<^item> \<open>Informers\<close>, \<open>InformersProps\<close> (\<open>informers/externalversions\<close>, \<open>listers\<close>, \<open>informers.go\<close>): the shared factory as a step
    relation over its operations and the returns of its goroutines: an informer runs once, and nothing starts after the
    shutdown.

  \<^bold>\<open>Router, PicoD and what connects them.\<close>
  \<^item> \<open>Tokens\<close> (\<open>router/jwt.go\<close>, \<open>workloadmanager/identity.go\<close>, \<open>picod/auth.go\<close>): one key pair for all Routers, and what each
    side accepts.
  \<^item> \<open>Oidc\<close>, \<open>Router\<close>, \<open>RouterProps\<close> (\<open>oidc.go\<close>, \<open>auth.go\<close>, \<open>server.go\<close>, \<open>session_manager.go\<close>, \<open>handlers.go\<close>): only the owner
    or an admin reaches a session, where a request goes and with which credentials, and the bounds on retries and on
    concurrent requests.
  \<^item> \<open>Picod\<close>, \<open>PicodProps\<close>, \<open>PicodWorld\<close> (\<open>picod/files.go\<close>, \<open>execute.go\<close>, \<open>server.go\<close>): what is read lies in the workspace,
    commands start in it, an upload can be downloaded, the file system stays a tree.
  \<^item> \<open>Mains\<close> (\<open>cmd/router\<close>, \<open>cmd/picod\<close>): flags, their defaults, and the start of both processes.
  \<^item> \<open>Mtls\<close>: certificates are reloaded consistently and a server is accepted exactly with the expected identity.
  \<^item> \<open>Ownership\<close> and the property below: from the user at the Router to the owner of the session.

  \<^bold>\<open>How code corresponds to definitions.\<close>  A function or method of the source is a definition of its name, with a suffix
  where two packages use one name.  State is passed explicitly: the state of a component is a record, and what lies outside
  the repository is a record of operations on a world of type \<open>'w\<close>, with a locale as its contract: the server of the
  store, the API server, the token library, the OIDC provider, \<open>crypto/x509\<close>, a process that PicoD starts.  Every contract
  has an instance in memory (\<open>MemWorld\<close>, \<open>HandlersWorld\<close>, \<open>PicodWorld\<close>, \<open>ReconcilerWorld\<close>), on which the properties are
  applied.  Every return of an error is a value of \<open>gerr\<close>, also a panic and a \<open>klog.Fatalf\<close>.  What a select or a blocking
  call met is an answer of the environment, so that a theorem holds for every interleaving of the answers.

  \<^bold>\<open>Numbers, bounds and fuel.\<close>  Times and durations are integers of nanoseconds without the bounds of
  64 bits, which the sums of the sources do not come near; \<open>time.ParseDuration\<close>, which meets arbitrary text, has its checks
  against overflow written out, and its results are shown to be in range.  Loops that wait are \<open>partial_function\<close>s; that they return is proved
  (\<open>create_returns\<close>) from a clock that moves.  The readers of JSON have fuel, twice the length of the text, which
  bounds their depth; the round trips show it to be enough for all that is written.  A path is walked with 40 links to follow for the kernel and 255 for \<open>EvalSymlinks\<close>, the limits of
  both; the walk is total by a measure on these and on the elements left.

  \<^bold>\<open>Not modelled.\<close>  The fake clientset, which supports tests only; the registration of types with a scheme, which only calls
  apimachinery; what controller-runtime, client-go, gin and \<open>net/http\<close> do inside a manager, an informer or a server, which
  are parameters; logging and the compression of responses; the Python SDK, command line and integrations, which are
  clients of the interfaces modelled here.  Aliasing is modelled for the deep copies and the build from an AgentRuntime; the
  other components hold values that they do not share.  Concurrency inside one handler is not interleaved below the level
  of calls to the store and to the cluster.
\<close>

section \<open>Properties across components\<close>

text \<open>
  C2: A session belongs to the user it was created for.  When the Router passes on the identity of an authenticated
  user and the Workload Manager, with the Router's public key, answers the creation with a session, the record of the
  session in the store names that user; from then on the Router lets the user and admins use the session, and nobody
  else.
\<close>

theorem created_session_owned:
  assumes "jwt_library jl kl signed" "keyPair kl jm" "GetPublicKeyPEM kl jm = Inr (be_publicKey (hd_build d))"
    and "GenerateToken jl jm t (identityClaims claims) = Inr tok" "cl_Subject claims \<noteq> []"
    and "rq_now env (hs_world hs) < Unix (t + jwtExpiration) * 1000000000"
    and "ht_header c = hdr_Get (setIdentityHeader jl (Some jm) t (Some claims) h0)" "ht_body c = Inr body"
    and "hd_jl d = jl" "hd_kl d = kl" "hd_ae d = ae" "sv_store s = st" "sv_pods s = pods"
    and "create_env st db clock ok ae cl objs env pods"
    and "\<forall>t' c' cache. chooseClient d s t' (ht_user c) (hs_clients hs) = (Inr c', cache) \<longrightarrow> c' = cl"
    and "ok (hs_world hs)" "safe_sid (be_uuid (hd_build d))"
    and "db_sessions (db (hs_world hs)) (be_uuid (hd_build d)) = None"
    and "watches env (req_Namespace body) (req_Name body @ ''-'' @ RandString 8 (be_draws (hd_build d)))"
    and "handleSandboxCreate d s env others c kind hs = Some (CreatedJSON resp, hs')"
  shows "\<exists>info. db_sessions (db (hs_world hs')) (resp_SessionID resp) = Some info \<and>
     si_OwnerID info = cl_Subject claims \<and>
     (\<forall>v user. checkSandboxOwnership (Some v) (Some user) info = None \<longleftrightarrow>
        ''admin'' \<in> set (cl_Roles user) \<or> cl_Subject user = cl_Subject claims)"
proof -
  have "resolveSandboxOwnerID (hd_jl d) (hd_kl d) (rq_now env (hs_world hs)) (be_publicKey (hd_build d)) (ht_header c) =
      (cl_Subject claims, 0, [])"
    using identity_resolves [OF assms(1-7)] assms(9,10) by simp
  then obtain sandbox claim entry cache where b: "buildForKind d (body\<lparr>req_Kind := kind\<rparr>) (cl_Subject claims) =
        Inr (sandbox, claim, entry)"
      and r: "createSandbox_srv ae (hd_rt d) s env cl sandbox claim (entry\<lparr>en_OwnerID := cl_Subject claims\<rparr>) (claim = None)
        (hs_world hs) = Some (Inr resp, hs_world hs')"
    using handleSandboxCreate_created [OF assms(20) _ assms(5,8)] assms(11,15) by blast
  note facts = buildForKind_facts [OF b]
  have e: "entryFits claim (entry\<lparr>en_OwnerID := cl_Subject claims\<rparr>)"
      "safe_sid (en_SessionID (entry\<lparr>en_OwnerID := cl_Subject claims\<rparr>))"
      "db_sessions (db (hs_world hs)) (en_SessionID (entry\<lparr>en_OwnerID := cl_Subject claims\<rparr>)) = None"
    using facts assms(17,18) by (simp_all add: entryFits_def)
  have "watches env (sb_Namespace sandbox) (sb_Name sandbox)"
    using assms(19) facts by simp
  from created_record [OF assms(14,16) e(2,3,1) assms(12,13) this r]
  obtain info where "db_sessions (db (hs_world hs')) (resp_SessionID resp) = Some info"
      "si_OwnerID info = cl_Subject claims"
    by auto
  then show ?thesis
    using owner_check [of info "cl_Subject claims"] assms(5) by blast
qed

theorem created_session_owned_witness:
  "\<exists>resp hs' info. handleSandboxCreate aliceDeps memServer (memEnv ''default'' aliceSandbox) (\<lambda>r. r) aliceRequest
       CodeInterpreterKind (memState (startWorld (Some newPod))) = Some (CreatedJSON resp, hs') \<and>
     db_sessions (abs_db ns_codec (w_ks (hs_world hs'))) (resp_SessionID resp) = Some info \<and> si_OwnerID info = ''alice''"
proof -
  obtain resp hs' where h: "handleSandboxCreate aliceDeps memServer (memEnv ''default'' aliceSandbox) (\<lambda>r. r) aliceRequest
       CodeInterpreterKind (memState (startWorld (Some newPod))) = Some (CreatedJSON resp, hs')"
    using alice_creates by blast
  obtain tok where tok: "GenerateToken boxJwt sampleManager (1000 * Second) (identityClaims aliceClaims) = Inr tok"
    using alice_token by blast
  have "\<exists>info. db_sessions (abs_db ns_codec (w_ks (hs_world hs'))) (resp_SessionID resp) = Some info \<and>
      si_OwnerID info = cl_Subject aliceClaims \<and>
      (\<forall>v user. checkSandboxOwnership (Some v) (Some user) info = None \<longleftrightarrow>
         ''admin'' \<in> set (cl_Roles user) \<or> cl_Subject user = cl_Subject aliceClaims)"
    by (rule created_session_owned [OF box.jwt_library_axioms sample_tokens(1) _ tok _ _ _ _ _ _ _ _ _
          memCreate.create_env_axioms [of "''default''" aliceSandbox] _ _ _ _ _ h])
      (use memServer_client memEnv_context(2) in \<open>auto simp: aliceDeps_def memDeps_def aliceRequest_def createRequest_def
         aliceClaims_def aliceHeader_def sampleEnv_def memServer_def sample_tokens(2) memState_def startWorld_facts
         memEnv_def [THEN arg_cong [where f = rq_now]] abs_db_def jwtExpiration_def Unix_def go_simps\<close>)
  then show ?thesis
    using h by (auto simp: aliceClaims_def)
qed

end
